(* ===== verification/Ordered_Map.thy ===== *)
theory Ordered_Map
  imports Runtime_Prelude "HOL-Library.Char_ord" "HOL-Library.List_Lexorder"
begin

text \<open>
  \<open>BTreeMap\<close> and \<open>BTreeSet\<close> of the Rust standard library. A map is the association list of its entries
  in key order, which is the order its iterators deliver; a set is the list of its elements in order.
  The locale \<open>ordered_map\<close> is the interface the components rely on; it is interpreted on the
  association-list operations, and the clients use the facts of that interpretation. The hash maps of the
  modelled code are only looked up, updated and counted, so they share the representation.
\<close>

type_synonym ('k, 'v) btree = "('k \<times> 'v) list"

section \<open>The interface\<close>

locale ordered_map =
  fixes empty :: 'm
    and insert :: "'k \<Rightarrow> 'v \<Rightarrow> 'm \<Rightarrow> 'm"
    and remove :: "'k \<Rightarrow> 'm \<Rightarrow> 'm"
    and get :: "'k \<Rightarrow> 'm \<Rightarrow> 'v option"
    and invar :: "'m \<Rightarrow> bool"
  assumes get_empty: "get k empty = None"
    and get_insert: "invar m \<Longrightarrow> get k' (insert k v m) = (if k' = k then Some v else get k' m)"
    and get_remove: "invar m \<Longrightarrow> get k' (remove k m) = (if k' = k then None else get k' m)"
    and invar_empty: "invar empty"
    and invar_insert: "invar m \<Longrightarrow> invar (insert k v m)"
    and invar_remove: "invar m \<Longrightarrow> invar (remove k m)"
begin

lemma get_insert_same: "invar m \<Longrightarrow> get k (insert k v m) = Some v"
  by (simp add: get_insert)

lemma get_insert_other: "invar m \<Longrightarrow> k' \<noteq> k \<Longrightarrow> get k' (insert k v m) = get k' m"
  by (simp add: get_insert)

lemma insert_keeps_key: "invar m \<Longrightarrow> get k' m \<noteq> None \<Longrightarrow> get k' (insert k v m) \<noteq> None"
  by (simp add: get_insert)

lemma invar_fold_insert: "invar m \<Longrightarrow> invar (fold (\<lambda>(k, v). insert k v) kvs m)"
  by (induction kvs arbitrary: m) (auto simp: invar_insert)

lemma get_fold_insert:
  "invar m \<Longrightarrow> get k (fold (\<lambda>(k, v). insert k v) kvs m) =
     (case map_of (rev kvs) k of None \<Rightarrow> get k m | Some v \<Rightarrow> Some v)"
proof (induction kvs arbitrary: m)
  case Nil
  then show ?case by simp
next
  case (Cons kv kvs)
  obtain a b where kv: "kv = (a, b)" by force
  from Cons.prems have "invar (insert a b m)" by (rule invar_insert)
  with Cons.IH Cons.prems show ?case
    by (auto simp: kv get_insert map_add_def split: option.splits)
qed

end

section \<open>Association lists in key order\<close>

fun bt_insert :: "'k::linorder \<Rightarrow> 'v \<Rightarrow> ('k, 'v) btree \<Rightarrow> ('k, 'v) btree" where
  "bt_insert k v [] = [(k, v)]"
| "bt_insert k v ((a, b) # m) =
     (if k < a then (k, v) # (a, b) # m
      else if k = a then (k, v) # m
      else (a, b) # bt_insert k v m)"

fun bt_remove :: "'k \<Rightarrow> ('k, 'v) btree \<Rightarrow> ('k, 'v) btree" where
  "bt_remove k [] = []"
| "bt_remove k ((a, b) # m) = (if k = a then m else (a, b) # bt_remove k m)"

definition bt_get :: "'k \<Rightarrow> ('k, 'v) btree \<Rightarrow> 'v option" where
  "bt_get k m = map_of m k"

definition bt_contains_key :: "'k \<Rightarrow> ('k, 'v) btree \<Rightarrow> bool" where
  "bt_contains_key k m \<longleftrightarrow> bt_get k m \<noteq> None"

definition bt_keys :: "('k, 'v) btree \<Rightarrow> 'k list" where
  "bt_keys m = map fst m"

definition bt_wf :: "('k::linorder, 'v) btree \<Rightarrow> bool" where
  "bt_wf m \<longleftrightarrow> sorted_wrt (<) (map fst m)"

definition bt_from_list :: "('k::linorder \<times> 'v) list \<Rightarrow> ('k, 'v) btree" where
  "bt_from_list kvs = fold (\<lambda>(k, v). bt_insert k v) kvs []"

lemma bt_get_simps [simp]:
  "bt_get k [] = None"
  "bt_get k ((a, b) # m) = (if k = a then Some b else bt_get k m)"
  by (simp_all add: bt_get_def)

lemma set_bt_insert_keys: "fst ` set (bt_insert k v m) = Set.insert k (fst ` set m)"
  by (induction k v m rule: bt_insert.induct) auto

lemma bt_wf_Cons: "bt_wf ((a, b) # m) \<longleftrightarrow> bt_wf m \<and> (\<forall>x \<in> fst ` set m. a < x)"
  by (auto simp: bt_wf_def)

lemma bt_wf_Nil [simp]: "bt_wf []"
  by (simp add: bt_wf_def)

lemma bt_get_None_iff: "bt_get k m = None \<longleftrightarrow> k \<notin> fst ` set m"
  by (simp add: bt_get_def map_of_eq_None_iff)

lemma bt_wf_distinct: "bt_wf m \<Longrightarrow> distinct (map fst m)"
  by (induction m) (force simp: bt_wf_def)+

lemma bt_get_Some_iff: "bt_wf m \<Longrightarrow> bt_get k m = Some v \<longleftrightarrow> (k, v) \<in> set m"
  by (simp add: bt_get_def bt_wf_distinct)

lemma bt_wf_insert: "bt_wf m \<Longrightarrow> bt_wf (bt_insert k v m)"
proof (induction k v m rule: bt_insert.induct)
  case (1 k v)
  then show ?case by (simp add: bt_wf_def)
next
  case (2 k v a b m)
  then have wf: "bt_wf m" and lo: "\<forall>x \<in> fst ` set m. a < x"
    by (auto simp: bt_wf_Cons)
  consider "k < a" | "k = a" | "a < k" by (rule linorder_cases)
  then show ?case
  proof cases
    case 3
    then have "bt_wf (bt_insert k v m)" using "2.IH" wf by simp
    with 3 lo show ?thesis by (auto simp: bt_wf_Cons set_bt_insert_keys)
  qed (use wf lo in \<open>auto simp: bt_wf_Cons\<close>)
qed

lemma set_bt_remove_subset: "set (bt_remove k m) \<subseteq> set m"
  by (induction k m rule: bt_remove.induct) auto

lemma bt_wf_remove: "bt_wf m \<Longrightarrow> bt_wf (bt_remove k m)"
  by (induction k m rule: bt_remove.induct)
     (auto simp: bt_wf_Cons dest: set_bt_remove_subset [THEN subsetD])

lemma bt_get_insert: "bt_get k' (bt_insert k v m) = (if k' = k then Some v else bt_get k' m)"
  by (induction k v m rule: bt_insert.induct) auto

lemma bt_get_remove: "bt_wf m \<Longrightarrow> bt_get k' (bt_remove k m) = (if k' = k then None else bt_get k' m)"
proof (induction k m rule: bt_remove.induct)
  case (2 k a b m)
  then have "a \<notin> fst ` set m" by (auto simp: bt_wf_Cons)
  then have "bt_get a m = None" by (simp add: bt_get_None_iff)
  with 2 show ?case by (auto simp: bt_wf_Cons)
qed simp

interpretation btree: ordered_map "[]" bt_insert bt_remove bt_get bt_wf
  by unfold_locales
     (simp_all add: bt_get_insert bt_get_remove bt_wf_insert bt_wf_remove)

lemma bt_wf_from_list [simp]: "bt_wf (bt_from_list kvs)"
  unfolding bt_from_list_def by (rule btree.invar_fold_insert) simp

lemma bt_get_from_list: "bt_get k (bt_from_list kvs) = map_of (rev kvs) k"
  unfolding bt_from_list_def by (subst btree.get_fold_insert) (auto split: option.splits)

lemma set_bt_from_list:
  assumes "distinct (map fst kvs)"
  shows "set (bt_from_list kvs) = set kvs"
proof -
  have "distinct (map fst (rev kvs))"
    using assms by (simp add: rev_map [symmetric])
  then have "(k, v) \<in> set (bt_from_list kvs) \<longleftrightarrow> (k, v) \<in> set kvs" for k v
    by (simp add: bt_get_Some_iff [symmetric] bt_get_from_list map_of_eq_Some_iff)
  then show ?thesis by auto
qed

text \<open>Two ordered maps with the same lookups are the same map.\<close>

lemma bt_ext:
  assumes "bt_wf m" "bt_wf m'" and eq: "\<And>k. bt_get k m = bt_get k m'"
  shows "m = m'"
proof -
  have s: "set m = set m'"
    using assms by (auto simp flip: bt_get_Some_iff)
  have "map fst m = map fst m'"
    using assms(1,2) s
    by (intro strict_sorted_equal) (auto simp: bt_wf_def)
  moreover have "inj_on fst (set m \<union> set m')"
    using s bt_wf_distinct [OF assms(1)] by (simp add: distinct_map)
  ultimately show ?thesis by (metis inj_on_map_eq_map)
qed

lemma option_eqI: "(\<And>v. x = Some v \<longleftrightarrow> y = Some v) \<Longrightarrow> x = y"
  by (cases x) (auto, metis option.exhaust)

lemma set_bt_insert_subset: "set (bt_insert k v m) \<subseteq> Set.insert (k, v) (set m)"
  by (induction k v m rule: bt_insert.induct) auto

lemma set_bt_from_list_subset: "set (bt_from_list kvs) \<subseteq> set kvs"
proof -
  have "set (fold (\<lambda>(k, v). bt_insert k v) kvs m) \<subseteq> set kvs \<union> set m" for m
  proof (induction kvs arbitrary: m)
    case (Cons kv kvs)
    obtain k v where kv: "kv = (k, v)" by force
    from Cons.IH [of "bt_insert k v m"] set_bt_insert_subset [of k v m]
    show ?case by (auto simp: kv)
  qed simp
  from this [of "[]"] show ?thesis by (simp add: bt_from_list_def)
qed

lemma bt_from_list_wf:
  assumes "bt_wf m"
  shows "bt_from_list m = m"
proof (rule bt_ext)
  fix k
  have "distinct (map fst (rev m))"
    using bt_wf_distinct [OF assms] by (simp add: rev_map [symmetric])
  then have "map_of (rev m) k = Some v \<longleftrightarrow> map_of m k = Some v" for v
    using bt_wf_distinct [OF assms] by (simp add: map_of_eq_Some_iff)
  then have "map_of (rev m) k = map_of m k"
    by (rule option_eqI)
  then show "bt_get k (bt_from_list m) = bt_get k m"
    by (simp only: bt_get_from_list) (simp only: bt_get_def)
qed (use assms in simp_all)

end
