(* ===== verification/Json_Value.thy ===== *)
theory Json_Value
  imports Ordered_Map
begin

text \<open>
  JSON values as \<open>serde_json::Value\<close> has them, the accessors the code calls on them, and the third-party
  functions of the runtime as one record of parameters.

  The same type holds the serialised form of a Rust value: a struct is an object whose entries are in
  declaration order, a tuple is an array. \<open>serde_json::to_vec\<close> of a struct sees that order, while
  \<open>to_value\<close> and \<open>json!({...})\<close> build a \<open>Value\<close>, whose objects are ordered maps (\<open>serde_json\<close> is built
  without \<open>preserve_order\<close>): \<open>to_value\<close> sorts the entries of every object. A number keeps the three representations of
  \<open>serde_json::Number\<close>; a float is its 64-bit pattern, and a float that is not finite serialises as null.
\<close>

section \<open>Values\<close>

type_synonym f64 = "64 word"

datatype json_number = PosInt u64 | NegInt i64 | Float f64

datatype json =
    JNull
  | JBool bool
  | JNumber json_number
  | JString string
  | JArray "json list"
  | JObject "(string \<times> json) list"

unbundle bit_operations_syntax

definition f64_is_finite :: "f64 \<Rightarrow> bool" where
  "f64_is_finite w \<longleftrightarrow> drop_bit 52 w AND 0x7FF \<noteq> 0x7FF"

primrec to_value :: "json \<Rightarrow> json" where
  "to_value JNull = JNull"
| "to_value (JBool b) = JBool b"
| "to_value (JNumber n) = JNumber n"
| "to_value (JString s) = JString s"
| "to_value (JArray xs) = JArray (map to_value xs)"
| "to_value (JObject m) = JObject (bt_from_list (map (map_prod id to_value) m))"

definition jobj :: "(string \<times> json) list \<Rightarrow> json" where
  "jobj kvs = to_value (JObject kvs)"

definition ju64 :: "u64 \<Rightarrow> json" where
  "ju64 n = JNumber (PosInt n)"

definition ju32 :: "u32 \<Rightarrow> json" where
  "ju32 n = ju64 (ucast n)"

definition ju16 :: "u16 \<Rightarrow> json" where
  "ju16 n = ju64 (ucast n)"

definition ju8 :: "u8 \<Rightarrow> json" where
  "ju8 n = ju64 (ucast n)"

definition jf64 :: "f64 \<Rightarrow> json" where
  "jf64 w = (if f64_is_finite w then JNumber (Float w) else JNull)"

definition jopt :: "('a \<Rightarrow> json) \<Rightarrow> 'a option \<Rightarrow> json" where
  "jopt f x = (case x of None \<Rightarrow> JNull | Some a \<Rightarrow> f a)"

definition jarr :: "('a \<Rightarrow> json) \<Rightarrow> 'a list \<Rightarrow> json" where
  "jarr f xs = JArray (map f xs)"

definition jmap :: "('a \<Rightarrow> json) \<Rightarrow> (string \<times> 'a) list \<Rightarrow> json" where
  "jmap f m = JObject (map (\<lambda>(k, v). (k, f v)) m)"

text \<open>A field with \<open>skip_serializing_if = "Option::is_none"\<close>.\<close>

definition skip_none :: "string \<Rightarrow> ('a \<Rightarrow> json) \<Rightarrow> 'a option \<Rightarrow> (string \<times> json) list" where
  "skip_none k f x = (case x of None \<Rightarrow> [] | Some a \<Rightarrow> [(k, f a)])"

section \<open>Accessors\<close>

fun as_object :: "json \<Rightarrow> (string \<times> json) list option" where
  "as_object (JObject m) = Some m"
| "as_object _ = None"

fun as_array :: "json \<Rightarrow> json list option" where
  "as_array (JArray xs) = Some xs"
| "as_array _ = None"

fun as_str :: "json \<Rightarrow> string option" where
  "as_str (JString s) = Some s"
| "as_str _ = None"

fun as_u64 :: "json \<Rightarrow> u64 option" where
  "as_u64 (JNumber (PosInt n)) = Some n"
| "as_u64 _ = None"

fun as_i64 :: "json \<Rightarrow> i64 option" where
  "as_i64 (JNumber (PosInt n)) = (if unat n < 2 ^ 63 then Some n else None)"
| "as_i64 (JNumber (NegInt n)) = Some n"
| "as_i64 _ = None"

fun is_string :: "json \<Rightarrow> bool" where
  "is_string (JString _) = True"
| "is_string _ = False"

fun is_boolean :: "json \<Rightarrow> bool" where
  "is_boolean (JBool _) = True"
| "is_boolean _ = False"

fun is_number :: "json \<Rightarrow> bool" where
  "is_number (JNumber _) = True"
| "is_number _ = False"

fun is_array :: "json \<Rightarrow> bool" where
  "is_array (JArray _) = True"
| "is_array _ = False"

fun is_object :: "json \<Rightarrow> bool" where
  "is_object (JObject _) = True"
| "is_object _ = False"

fun is_null :: "json \<Rightarrow> bool" where
  "is_null JNull = True"
| "is_null _ = False"

definition jget :: "string \<Rightarrow> json \<Rightarrow> json option" where
  "jget k v = Option.bind (as_object v) (bt_get k)"

text \<open>\<open>value[key] = x\<close> on an object; the code only indexes objects this way.\<close>

fun jset :: "string \<Rightarrow> json \<Rightarrow> json \<Rightarrow> json" where
  "jset k x (JObject m) = JObject (bt_insert k x m)"
| "jset k x v = v"

lemma map_of_map_snd: "map_of (rev (map (map_prod id f) kvs)) k = map_option f (map_of (rev kvs) k)"
proof -
  have "map_of (map (map_prod id f) xs) k = map_option f (map_of xs k)" for xs
    by (induction xs) auto
  then show ?thesis by (simp only: rev_map)
qed

lemma jget_jobj: "jget k (jobj kvs) = map_option to_value (map_of (rev kvs) k)"
  by (simp add: jget_def jobj_def bt_get_from_list map_of_map_snd)

lemma jget_jset: "jget k (jset k' x (jobj kvs)) = (if k = k' then Some x else jget k (jobj kvs))"
  by (simp add: jget_def jobj_def bt_get_insert)

lemma ju64_inject [simp]: "ju64 a = ju64 b \<longleftrightarrow> a = b"
  by (simp add: ju64_def)

lemma jarr_inject: "inj f \<Longrightarrow> jarr f xs = jarr f ys \<longleftrightarrow> xs = ys"
  by (simp add: jarr_def)

lemma to_value_scalar [simp]:
  "to_value (ju64 a) = ju64 a" "to_value (ju32 b) = ju32 b" "to_value (ju16 c) = ju16 c"
  "to_value (ju8 d) = ju8 d" "to_value (jf64 w) = jf64 w"
  by (simp_all add: ju64_def ju32_def ju16_def ju8_def jf64_def)

lemma to_value_jopt [simp]: "to_value (jopt f x) = jopt (\<lambda>a. to_value (f a)) x"
  by (simp add: jopt_def split: option.split)

lemma to_value_jarr [simp]: "to_value (jarr f xs) = jarr (\<lambda>a. to_value (f a)) xs"
  by (simp add: jarr_def)

text \<open>Two values built from the same distinct keys in the same order are equal only if the entries are.\<close>

lemma jobj_inject:
  assumes "map fst kvs = map fst kvs'" and "distinct (map fst kvs)"
  shows "jobj kvs = jobj kvs' \<longleftrightarrow> map (to_value \<circ> snd) kvs = map (to_value \<circ> snd) kvs'"
proof
  let ?l = "map (map_prod id to_value) kvs" and ?r = "map (map_prod id to_value) kvs'"
  have keys: "map fst ?l = map fst kvs" "map fst ?r = map fst kvs'" by simp_all
  assume eq: "jobj kvs = jobj kvs'"
  have "set ?l = set ?r"
    using eq assms keys set_bt_from_list [of ?l] set_bt_from_list [of ?r] by (simp add: jobj_def)
  then have "inj_on fst (set ?l \<union> set ?r)"
    using assms(2) keys by (metis distinct_map sup.idem)
  then have "?l = ?r" using assms(1) keys by (metis inj_on_map_eq_map)
  then have "map snd ?l = map snd ?r" by simp
  then show "map (to_value \<circ> snd) kvs = map (to_value \<circ> snd) kvs'" by (simp add: comp_def)
next
  assume r: "map (to_value \<circ> snd) kvs = map (to_value \<circ> snd) kvs'"
  have "map (map_prod id to_value) kvs = zip (map fst kvs) (map (to_value \<circ> snd) kvs)" for kvs
    by (induction kvs) auto
  with r assms(1) have "map (map_prod id to_value) kvs = map (map_prod id to_value) kvs'" by metis
  then show "jobj kvs = jobj kvs'" by (simp only: jobj_def to_value.simps)
qed

section \<open>Well-formed values\<close>

text \<open>Every object reachable in a value has its keys in order and without duplicates.\<close>

fun json_wf :: "json \<Rightarrow> bool" where
  "json_wf (JArray xs) = (\<forall>x \<in> set xs. json_wf x)"
| "json_wf (JObject m) = (bt_wf m \<and> (\<forall>kv \<in> set m. json_wf (snd kv)))"
| "json_wf _ = True"

lemma json_wf_to_value: "json_wf (to_value v)"
proof (induction v)
  case (JObject m)
  have "json_wf (snd kv)" if kv: "kv \<in> set (map (map_prod id to_value) m)" for kv
  proof -
    from kv obtain k w where "(k, w) \<in> set m" and "kv = (k, to_value w)" by auto
    with JObject show ?thesis by (auto simp: snds.simps)
  qed
  with set_bt_from_list_subset [of "map (map_prod id to_value) m"] show ?case by auto
qed auto

lemma to_value_wf: "json_wf v \<Longrightarrow> to_value v = v"
proof (induction v)
  case (JArray xs)
  then show ?case by (simp add: map_idI)
next
  case (JObject m)
  have "map (map_prod id to_value) m = m"
  proof (rule map_idI)
    fix kv assume kv: "kv \<in> set m"
    then have "json_wf (snd kv)" using JObject.prems by simp
    with JObject.IH [OF kv, of "snd kv"] show "map_prod id to_value kv = kv"
      by (cases kv) (simp add: snds.simps)
  qed
  with JObject.prems show ?case by (simp add: bt_from_list_wf)
qed auto

lemma to_value_idem [simp]: "to_value (to_value v) = to_value v"
  by (rule to_value_wf) (rule json_wf_to_value)

section \<open>Third-party functions\<close>

text \<open>
  \<open>serde_json::to_vec\<close>, \<open>hex::encode(Sha256::digest(_))\<close>, the text of a \<open>Uuid\<close>, \<open>serde_json::from_slice\<close>,
  the two base64 engines and \<open>zstd::bulk\<close>. Serialising fails only for a map whose keys are not strings and
  for a failing \<open>Serialize\<close> instance; the serialised types have neither, so \<open>to_vec\<close> is total here.
\<close>

record externals =
  ext_to_vec :: "json \<Rightarrow> u8 list"
  ext_sha256_hex :: "u8 list \<Rightarrow> string"
  ext_uuid_text :: "uuid \<Rightarrow> string"
  ext_from_slice :: "u8 list \<Rightarrow> json option"
  ext_base64_encode :: "u8 list \<Rightarrow> string"
  ext_base64_decode :: "string \<Rightarrow> u8 list option"
  ext_base64_url_decode :: "string \<Rightarrow> u8 list option"
  ext_zstd_compress :: "u8 list \<Rightarrow> u8 list option"
  ext_zstd_decompress :: "nat \<Rightarrow> u8 list \<Rightarrow> u8 list option"

definition json_digest :: "externals \<Rightarrow> json \<Rightarrow> string" where
  "json_digest ext v = ext_sha256_hex ext (ext_to_vec ext v)"

definition encoded_len :: "externals \<Rightarrow> json \<Rightarrow> nat" where
  "encoded_len ext v = length (ext_to_vec ext v)"

definition juuid :: "externals \<Rightarrow> uuid \<Rightarrow> json" where
  "juuid ext u = JString (ext_uuid_text ext u)"

lemma juuid_inject: "inj (ext_uuid_text ext) \<Longrightarrow> juuid ext a = juuid ext b \<longleftrightarrow> a = b"
  by (auto simp: juuid_def dest: injD)

text \<open>Two serialised values are told apart by their digest: no collision between the two.\<close>

definition collision_free :: "externals \<Rightarrow> json \<Rightarrow> json \<Rightarrow> bool" where
  "collision_free ext a b \<longleftrightarrow> (json_digest ext a = json_digest ext b \<longrightarrow> a = b)"

text \<open>One concrete choice of the functions, for evaluating definitions on closed inputs.\<close>

definition sample_externals :: externals where
  "sample_externals =
     \<lparr>ext_to_vec = (\<lambda>v. case v of JString s \<Rightarrow> as_bytes s | _ \<Rightarrow> [0]),
      ext_sha256_hex = (\<lambda>_. replicate 64 (CHR ''0'')),
      ext_uuid_text = (\<lambda>_. ''00000000-0000-0000-0000-000000000000''),
      ext_from_slice = (\<lambda>_. Some (JObject
        [(''candidates'', JArray [JNull]), (''routing'', JString ''ordered''), (''schema_version'', ju64 1)])),
      ext_base64_encode = map (\<lambda>b. char_of (unat b)),
      ext_base64_decode = (\<lambda>s. Some (as_bytes s)),
      ext_base64_url_decode = (\<lambda>s. Some (as_bytes s)),
      ext_zstd_compress = Some,
      ext_zstd_decompress = (\<lambda>_ bs. Some bs)\<rparr>"

definition injective_externals :: externals where
  "injective_externals = sample_externals\<lparr>ext_uuid_text := \<lambda>u. replicate (unat u) (CHR ''a'')\<rparr>"

lemma inj_injective_externals: "inj (ext_uuid_text injective_externals)"
  by (auto simp: injective_externals_def word_unat_eq_iff intro!: injI dest: arg_cong [where f = length])

end
