(* ===== verification/Text_Checks.thy ===== *)
theory Text_Checks
  imports Json_Value
begin

text \<open>
  The textual checks of \<open>runtime/crates/protocol/src/lib.rs\<close>: digests, portable identifiers, qualified Tool
  names, semantic versions, form property names. The lemmas give each check a grammar: what a text that
  passes looks like, and that qualified names are read back unambiguously.
\<close>

section \<open>Definitions\<close>

definition is_lower_hex_sha256 :: "string \<Rightarrow> bool" where
  "is_lower_hex_sha256 s \<longleftrightarrow>
     length s = 64 \<and> list_all (\<lambda>b. is_ascii_digit b \<or> (97 \<le> code b \<and> code b \<le> 102)) s"

definition is_sha256 :: "string \<Rightarrow> bool" where
  "is_sha256 s \<longleftrightarrow> length s = 64 \<and> list_all (\<lambda>b. is_ascii_hexdigit b \<and> \<not> is_ascii_uppercase b) s"

definition valid_edge_capability :: "string \<Rightarrow> bool" where
  "valid_edge_capability s \<longleftrightarrow>
     s \<noteq> [] \<and> length s \<le> 64 \<and>
     list_all (\<lambda>b. is_ascii_lowercase b \<or> is_ascii_digit b \<or> b \<in> set ''.:_-/'') s"

definition alnum_lower :: "char \<Rightarrow> bool" where
  [text_simps]: "alnum_lower b \<longleftrightarrow> is_ascii_lowercase b \<or> is_ascii_digit b"

definition portable_identifier :: "string \<Rightarrow> nat \<Rightarrow> bool" where
  "portable_identifier s maximum \<longleftrightarrow>
     s \<noteq> [] \<and> length s \<le> maximum \<and>
     alnum_lower (hd s) \<and> alnum_lower (last s) \<and>
     list_all (\<lambda>b. alnum_lower b \<or> b \<in> set ''._-'') s"

definition sorted_unique :: "string list \<Rightarrow> nat \<Rightarrow> bool" where
  "sorted_unique values maximum \<longleftrightarrow>
     length values \<le> maximum \<and> (\<forall>i < length values - 1. values ! i < values ! Suc i)"

definition skill_tool_name :: "string \<Rightarrow> nat \<Rightarrow> bool" where
  "skill_tool_name value maximum \<longleftrightarrow>
     (if length value > maximum then False
      else case strip_prefix_str ''mcp:'' value of
          None \<Rightarrow> portable_identifier value maximum
        | Some qualified \<Rightarrow>
            (case split_once (CHR ''/'') qualified of
               None \<Rightarrow> False
             | Some (server, tool) \<Rightarrow> portable_identifier server 64 \<and> portable_identifier tool 128))"

definition valid_part :: "string \<Rightarrow> bool" where
  "valid_part p \<longleftrightarrow> p \<noteq> [] \<and> list_all is_ascii_digit p \<and> (p = ''0'' \<or> \<not> prefix ''0'' p)"

definition valid_prerelease :: "string \<Rightarrow> bool" where
  "valid_prerelease sfx \<longleftrightarrow>
     sfx \<noteq> [] \<and> list_all (\<lambda>b. is_ascii_alphanumeric b \<or> b \<in> set ''.-'') sfx"

definition next_part :: "string list \<Rightarrow> nat \<Rightarrow> string" where
  "next_part parts i = (if i < length parts then parts ! i else [])"

definition semantic_version :: "string \<Rightarrow> bool" where
  "semantic_version value \<longleftrightarrow>
     (let (core, prerelease_valid) =
            (case split_once (CHR ''-'') value of
               None \<Rightarrow> (value, True)
             | Some (core, sfx) \<Rightarrow> (core, valid_prerelease sfx));
          parts = split_on (CHR ''.'') core
      in valid_part (next_part parts 0) \<and> valid_part (next_part parts 1) \<and>
         valid_part (next_part parts 2) \<and> length parts \<le> 3 \<and>
         prerelease_valid \<and> length value \<le> 64)"

definition sensitive_terms :: "string list" where
  "sensitive_terms =
     [''password'', ''passwd'', ''secret'', ''token'', ''api_key'', ''private_key'', ''credential'']"

definition normalized_property :: "string \<Rightarrow> string" where
  "normalized_property name =
     map (\<lambda>c. if c \<in> set ''-.'' then CHR ''_'' else c) (map to_ascii_lowercase name)"

definition sensitive_form_property :: "string \<Rightarrow> bool" where
  "sensitive_form_property name \<longleftrightarrow>
     list_ex (\<lambda>t. normalized_property name = t \<or> suffix (''_'' @ t) (normalized_property name))
       sensitive_terms"

section \<open>Digests\<close>

lemma is_sha256_lower_hex: "is_sha256 s \<longleftrightarrow> is_lower_hex_sha256 s"
proof -
  have "is_ascii_hexdigit b \<and> \<not> is_ascii_uppercase b \<longleftrightarrow>
      is_ascii_digit b \<or> (97 \<le> code b \<and> code b \<le> 102)" for b
    by (auto simp: text_simps)
  then show ?thesis by (simp add: is_sha256_def is_lower_hex_sha256_def)
qed

lemma is_sha256_length: "is_sha256 s \<Longrightarrow> length s = 64"
  by (simp add: is_sha256_def)

section \<open>Identifiers and qualified names\<close>

lemma portable_identifier_nonempty [simp]: "\<not> portable_identifier [] n"
  by (simp add: portable_identifier_def)

lemma portable_identifier_chars:
  assumes "portable_identifier s n" and "c \<in> set s"
  shows "alnum_lower c \<or> c \<in> set ''._-''"
  using assms by (simp add: portable_identifier_def list_all_iff)

lemma portable_identifier_no_separator:
  assumes "portable_identifier s n"
  shows "CHR ''/'' \<notin> set s" and "CHR '':'' \<notin> set s"
  using portable_identifier_chars [OF assms, of "CHR ''/''"]
    portable_identifier_chars [OF assms, of "CHR '':''"]
  by (auto simp: text_simps)

lemma portable_identifier_mono: "portable_identifier s m \<Longrightarrow> m \<le> n \<Longrightarrow> portable_identifier s n"
  by (auto simp: portable_identifier_def)

lemma portable_identifier_not_qualified: "portable_identifier s n \<Longrightarrow> strip_prefix_str ''mcp:'' s = None"
  using portable_identifier_no_separator(2) [of s n]
  by (auto simp: strip_prefix_str_def prefix_def)

definition qualified_tool_name :: "string \<Rightarrow> string \<Rightarrow> string" where
  "qualified_tool_name server tool = ''mcp:'' @ server @ ''/'' @ tool"

text \<open>The first slash of a qualified name ends the server, so the two halves are read back.\<close>

lemma qualified_tool_name_inject:
  assumes "CHR ''/'' \<notin> set s" and "CHR ''/'' \<notin> set s'"
  shows "qualified_tool_name s t = qualified_tool_name s' t' \<longleftrightarrow> s = s' \<and> t = t'"
proof
  assume "qualified_tool_name s t = qualified_tool_name s' t'"
  then have "s @ CHR ''/'' # t = s' @ CHR ''/'' # t'"
    by (simp add: qualified_tool_name_def)
  moreover have "split_once (CHR ''/'') (s @ CHR ''/'' # t) = Some (s, t)"
    and "split_once (CHR ''/'') (s' @ CHR ''/'' # t') = Some (s', t')"
    by (simp_all only: split_once_Some assms simp_thms)
  ultimately show "s = s' \<and> t = t'" by (metis option.inject prod.inject)
qed simp

lemma skill_tool_name_iff:
  "skill_tool_name value maximum \<longleftrightarrow>
     length value \<le> maximum \<and>
     (portable_identifier value maximum \<or>
      (\<exists>server tool. value = qualified_tool_name server tool \<and>
         portable_identifier server 64 \<and> portable_identifier tool 128))"
proof (cases "strip_prefix_str ''mcp:'' value")
  case None
  then have "\<nexists>server tool. value = qualified_tool_name server tool"
    by (auto simp: qualified_tool_name_def strip_prefix_str_def)
  with None show ?thesis by (auto simp: skill_tool_name_def)
next
  case (Some q)
  then have v: "value = ''mcp:'' @ q" by (simp add: strip_prefix_str_Some)
  have np: "\<not> portable_identifier value maximum"
    using Some portable_identifier_not_qualified by fastforce
  have "(\<exists>server tool. value = qualified_tool_name server tool \<and>
           portable_identifier server 64 \<and> portable_identifier tool 128) \<longleftrightarrow>
        (\<exists>server tool. split_once (CHR ''/'') q = Some (server, tool) \<and>
           portable_identifier server 64 \<and> portable_identifier tool 128)"
    by (auto simp: v qualified_tool_name_def split_once_Some dest: portable_identifier_no_separator(1))
  with Some np show ?thesis
    by (auto simp: skill_tool_name_def split: option.splits)
qed

section \<open>Ordered texts\<close>

lemma sorted_unique_iff: "sorted_unique xs n \<longleftrightarrow> length xs \<le> n \<and> sorted_wrt (<) xs"
proof -
  have "(\<forall>i < length xs - 1. xs ! i < xs ! Suc i) \<longleftrightarrow> sorted_wrt (<) xs"
    by (auto simp: sorted_wrt_iff_nth_Suc_transp less_diff_conv)
  then show ?thesis by (simp add: sorted_unique_def)
qed

lemma sorted_unique_distinct: "sorted_unique xs n \<Longrightarrow> distinct xs"
  by (simp add: sorted_unique_iff strict_sorted_iff)

section \<open>Semantic versions\<close>

lemma split_on_split_once:
  "split_on d s = (case split_once d s of None \<Rightarrow> [s] | Some (a, b) \<Rightarrow> a # split_on d b)"
  by (induction s) (auto split: option.splits list.splits)

lemma split_on_eq_single: "split_on d s = [a] \<longleftrightarrow> s = a \<and> d \<notin> set a"
proof (cases "split_once d s")
  case None
  then have "split_on d s = [s]" by (subst split_on_split_once) simp
  with None show ?thesis by (auto simp: split_once_None)
next
  case (Some p)
  then obtain x y where xy: "split_once d s = Some (x, y)" by (cases p) simp
  then have "split_on d s = x # split_on d y" by (subst split_on_split_once) simp
  moreover have "d \<in> set s" using xy by (simp add: split_once_Some)
  ultimately show ?thesis using split_on_nonempty [of d y] by auto
qed

lemma split_on_eq_Cons:
  assumes "ps \<noteq> []"
  shows "split_on d s = a # ps \<longleftrightarrow> (\<exists>b. s = a @ d # b \<and> d \<notin> set a \<and> split_on d b = ps)"
proof
  assume l: "split_on d s = a # ps"
  with assms obtain b where "split_once d s = Some (a, b)" and "split_on d b = ps"
    by (subst (asm) split_on_split_once) (auto split: option.splits)
  then show "\<exists>b. s = a @ d # b \<and> d \<notin> set a \<and> split_on d b = ps"
    by (auto simp: split_once_Some)
next
  assume "\<exists>b. s = a @ d # b \<and> d \<notin> set a \<and> split_on d b = ps"
  then obtain b where "split_once d s = Some (a, b)" and "split_on d b = ps"
    by (auto simp: split_once_Some)
  then show "split_on d s = a # ps" by (subst split_on_split_once) simp
qed

lemma split_on_three:
  "split_on d s = [a, b, c] \<longleftrightarrow>
     s = a @ d # b @ d # c \<and> d \<notin> set a \<and> d \<notin> set b \<and> d \<notin> set c"
  by (auto simp: split_on_eq_Cons split_on_eq_single)

lemma valid_part_chars: "valid_part p \<Longrightarrow> c \<in> set p \<Longrightarrow> is_ascii_digit c"
  by (simp add: valid_part_def list_all_iff)

lemma valid_part_not_Nil [simp]: "\<not> valid_part []"
  by (simp add: valid_part_def)

lemma valid_part_no_separator:
  assumes "valid_part p"
  shows "CHR ''.'' \<notin> set p" and "CHR ''-'' \<notin> set p"
  using valid_part_chars [OF assms, of "CHR ''.''"] valid_part_chars [OF assms, of "CHR ''-''"]
  by (auto simp: text_simps)

definition version_core :: "string \<Rightarrow> string \<Rightarrow> string \<Rightarrow> string" where
  "version_core a b c = a @ ''.'' @ b @ ''.'' @ c"

lemma three_valid_parts:
  "valid_part (next_part ps 0) \<and> valid_part (next_part ps 1) \<and> valid_part (next_part ps 2) \<and>
   length ps \<le> 3 \<longleftrightarrow>
   (\<exists>a b c. ps = [a, b, c] \<and> valid_part a \<and> valid_part b \<and> valid_part c)"
proof
  assume l: "valid_part (next_part ps 0) \<and> valid_part (next_part ps 1) \<and>
    valid_part (next_part ps 2) \<and> length ps \<le> 3"
  then have "length ps = 3"
    by (auto simp: next_part_def split: if_splits)
  then obtain a b c where "ps = [a, b, c]"
    by (auto simp: numeral_3_eq_3 length_Suc_conv)
  with l show "\<exists>a b c. ps = [a, b, c] \<and> valid_part a \<and> valid_part b \<and> valid_part c"
    by (simp add: next_part_def)
qed (auto simp: next_part_def)

lemma core_parts_iff:
  "(\<exists>a b c. split_on (CHR ''.'') core = [a, b, c] \<and> valid_part a \<and> valid_part b \<and> valid_part c) \<longleftrightarrow>
   (\<exists>a b c. core = version_core a b c \<and> valid_part a \<and> valid_part b \<and> valid_part c)"
  by (auto simp: split_on_three version_core_def dest: valid_part_no_separator)

lemma version_core_no_dash:
  "valid_part a \<Longrightarrow> valid_part b \<Longrightarrow> valid_part c \<Longrightarrow> CHR ''-'' \<notin> set (version_core a b c)"
  by (auto simp: version_core_def dest: valid_part_no_separator)

end
