(* ===== verification/Protocol_Types.thy ===== *)
theory Protocol_Types
  imports Text_Checks
begin

text \<open>
  The data of \<open>runtime/crates/protocol/src/lib.rs\<close> that the kernel and the commands exchange: run
  status, Tool descriptors and requests, model events, messages, subagent requests and results, and the
  event envelope. Each type comes with its serialised form (\<open>ser_\<dots>\<close>), which follows the \<open>serde\<close> attributes
  of the source: snake-case variant names, internal tags, skipped empty fields.
\<close>

section \<open>Enumerations\<close>

datatype run_status =
  Queued | Running | WaitingApproval | Suspended | Succeeded | Failed | Cancelled | TimedOut | Indeterminate

fun is_terminal :: "run_status \<Rightarrow> bool" where
  "is_terminal Succeeded = True"
| "is_terminal Failed = True"
| "is_terminal Cancelled = True"
| "is_terminal TimedOut = True"
| "is_terminal Indeterminate = True"
| "is_terminal _ = False"

fun run_status_str :: "run_status \<Rightarrow> string" where
  "run_status_str Queued = ''queued''"
| "run_status_str Running = ''running''"
| "run_status_str WaitingApproval = ''waiting_approval''"
| "run_status_str Suspended = ''suspended''"
| "run_status_str Succeeded = ''succeeded''"
| "run_status_str Failed = ''failed''"
| "run_status_str Cancelled = ''cancelled''"
| "run_status_str TimedOut = ''timed_out''"
| "run_status_str Indeterminate = ''indeterminate''"

definition ser_run_status :: "run_status \<Rightarrow> json" where
  [wire_simps]: "ser_run_status s = JString (run_status_str s)"

datatype tool_effect = Pure | Idempotent | NonIdempotent | Unknown

fun ser_tool_effect :: "tool_effect \<Rightarrow> json" where
  "ser_tool_effect Pure = JString ''pure''"
| "ser_tool_effect Idempotent = JString ''idempotent''"
| "ser_tool_effect NonIdempotent = JString ''non_idempotent''"
| "ser_tool_effect Unknown = JString ''unknown''"

datatype approval_mode = Allow | Deny | Ask

fun ser_approval_mode :: "approval_mode \<Rightarrow> json" where
  "ser_approval_mode Allow = JString ''allow''"
| "ser_approval_mode Deny = JString ''deny''"
| "ser_approval_mode Ask = JString ''ask''"

datatype sandbox_class = RestrictedContainer | Kata | TrustedNative | Federated

fun ser_sandbox_class :: "sandbox_class \<Rightarrow> json" where
  "ser_sandbox_class RestrictedContainer = JString ''restricted_container''"
| "ser_sandbox_class Kata = JString ''kata''"
| "ser_sandbox_class TrustedNative = JString ''trusted_native''"
| "ser_sandbox_class Federated = JString ''federated''"

datatype auto_approval = Never | ProvablyReadOnlyShellCommand

fun ser_auto_approval :: "auto_approval \<Rightarrow> json" where
  "ser_auto_approval Never = JString ''never''"
| "ser_auto_approval ProvablyReadOnlyShellCommand = JString ''provably_read_only_shell_command''"

datatype budget_dimension = Tokens | Cost | Duration

fun ser_budget_dimension :: "budget_dimension \<Rightarrow> json" where
  "ser_budget_dimension Tokens = JString ''tokens''"
| "ser_budget_dimension Cost = JString ''cost''"
| "ser_budget_dimension Duration = JString ''duration''"

datatype model_error_kind =
    Authentication | Billing | RateLimited | Timeout | Protocol | ContextOverflow | CapabilityMismatch
  | Unavailable | KindContentFilter

fun ser_model_error_kind :: "model_error_kind \<Rightarrow> json" where
  "ser_model_error_kind Authentication = JString ''authentication''"
| "ser_model_error_kind Billing = JString ''billing''"
| "ser_model_error_kind RateLimited = JString ''rate_limited''"
| "ser_model_error_kind Timeout = JString ''timeout''"
| "ser_model_error_kind Protocol = JString ''protocol''"
| "ser_model_error_kind ContextOverflow = JString ''context_overflow''"
| "ser_model_error_kind CapabilityMismatch = JString ''capability_mismatch''"
| "ser_model_error_kind Unavailable = JString ''unavailable''"
| "ser_model_error_kind KindContentFilter = JString ''content_filter''"

datatype model_finish_reason = Stop | ToolCalls | Length | ReasonContentFilter

fun ser_model_finish_reason :: "model_finish_reason \<Rightarrow> json" where
  "ser_model_finish_reason Stop = JString ''stop''"
| "ser_model_finish_reason ToolCalls = JString ''tool_calls''"
| "ser_model_finish_reason Length = JString ''length''"
| "ser_model_finish_reason ReasonContentFilter = JString ''content_filter''"

datatype role = SystemRole | UserRole | AssistantRole | ToolRole

fun ser_role :: "role \<Rightarrow> json" where
  "ser_role SystemRole = JString ''system''"
| "ser_role UserRole = JString ''user''"
| "ser_role AssistantRole = JString ''assistant''"
| "ser_role ToolRole = JString ''tool''"

datatype subagent_spawn_mode = Inline | Async

fun ser_spawn_mode :: "subagent_spawn_mode \<Rightarrow> json" where
  "ser_spawn_mode Inline = JString ''inline''"
| "ser_spawn_mode Async = JString ''async''"

section \<open>Tools\<close>

record tool_descriptor =
  td_name :: string
  td_effect :: tool_effect
  td_approval :: approval_mode
  td_sandbox :: sandbox_class
  td_implementation_digest :: string
  td_required_scopes :: "string list"

record tool_call =
  tc_id :: string
  tc_name :: string
  tc_arguments :: json

definition ser_tool_call :: "tool_call \<Rightarrow> json" where
  [wire_simps]: "ser_tool_call c = JObject
     [(''id'', JString (tc_id c)), (''name'', JString (tc_name c)), (''arguments'', tc_arguments c)]"

record tool_execution_request =
  ter_call :: tool_call
  ter_effect :: tool_effect
  ter_sandbox :: sandbox_class
  ter_binding_digest :: string

definition ser_tool_execution_request :: "tool_execution_request \<Rightarrow> json" where
  [wire_simps]: "ser_tool_execution_request e = JObject
     [(''call'', ser_tool_call (ter_call e)), (''effect'', ser_tool_effect (ter_effect e)),
      (''sandbox'', ser_sandbox_class (ter_sandbox e)), (''binding_digest'', JString (ter_binding_digest e))]"

record tool_approval_policy_snapshot =
  ps_tool_name :: string
  ps_effect :: tool_effect
  ps_approval :: approval_mode
  ps_sandbox :: sandbox_class
  ps_implementation_digest :: string
  ps_required_scopes :: "string list"
  ps_auto_approval :: auto_approval

definition ser_policy_snapshot :: "tool_approval_policy_snapshot \<Rightarrow> json" where
  [wire_simps]: "ser_policy_snapshot p = JObject
     [(''tool_name'', JString (ps_tool_name p)), (''effect'', ser_tool_effect (ps_effect p)),
      (''approval'', ser_approval_mode (ps_approval p)), (''sandbox'', ser_sandbox_class (ps_sandbox p)),
      (''implementation_digest'', JString (ps_implementation_digest p)),
      (''required_scopes'', jarr JString (ps_required_scopes p)),
      (''auto_approval'', ser_auto_approval (ps_auto_approval p))]"

record tool_approval_request =
  tar_approval_id :: uuid
  tar_execution :: tool_execution_request
  tar_policy_snapshot :: "tool_approval_policy_snapshot option"
  tar_policy_digest :: string
  tar_session_scope_digest :: string

definition ser_tool_approval_request :: "externals \<Rightarrow> tool_approval_request \<Rightarrow> json" where
  [wire_simps]: "ser_tool_approval_request ext a = JObject
     ([(''approval_id'', juuid ext (tar_approval_id a)),
       (''execution'', ser_tool_execution_request (tar_execution a))]
      @ skip_none ''policy_snapshot'' ser_policy_snapshot (tar_policy_snapshot a)
      @ [(''policy_digest'', JString (tar_policy_digest a)),
         (''session_scope_digest'', JString (tar_session_scope_digest a))])"

section \<open>Messages\<close>

record provider_private_state =
  pps_provider_id :: string
  pps_protocol :: string
  pps_model :: string
  pps_format :: string
  pps_data :: string

definition private_state_is_well_formed :: "provider_private_state \<Rightarrow> bool" where
  "private_state_is_well_formed p \<longleftrightarrow>
     \<not> is_blank (pps_provider_id p) \<and> length (pps_provider_id p) \<le> 128 \<and>
     \<not> is_blank (pps_protocol p) \<and> length (pps_protocol p) \<le> 64 \<and>
     \<not> is_blank (pps_model p) \<and> length (pps_model p) \<le> 256 \<and>
     \<not> is_blank (pps_format p) \<and> length (pps_format p) \<le> 128 \<and>
     pps_data p \<noteq> [] \<and> length (pps_data p) \<le> 1048576"

definition ser_private_state :: "provider_private_state \<Rightarrow> json" where
  [wire_simps]: "ser_private_state p = JObject
     [(''provider_id'', JString (pps_provider_id p)), (''protocol'', JString (pps_protocol p)),
      (''model'', JString (pps_model p)), (''format'', JString (pps_format p)),
      (''data'', JString (pps_data p))]"

datatype content_part =
    PartText string
  | PartImage string string
  | PartAudio string string
  | PartToolResult string json
  | PartToolCall string string json
  | PartReasoning "string list" "provider_private_state option"
  | PartRefusal string

fun ser_content_part :: "content_part \<Rightarrow> json" where
  "ser_content_part (PartText t) = JObject [(''type'', JString ''text''), (''text'', JString t)]"
| "ser_content_part (PartImage m s) =
     JObject [(''type'', JString ''image''), (''media_type'', JString m), (''source'', JString s)]"
| "ser_content_part (PartAudio m s) =
     JObject [(''type'', JString ''audio''), (''media_type'', JString m), (''source'', JString s)]"
| "ser_content_part (PartToolResult i c) =
     JObject [(''type'', JString ''tool_result''), (''tool_call_id'', JString i), (''content'', c)]"
| "ser_content_part (PartToolCall i n a) =
     JObject [(''type'', JString ''tool_call''), (''tool_call_id'', JString i), (''name'', JString n),
              (''arguments'', a)]"
| "ser_content_part (PartReasoning s p) =
     JObject [(''type'', JString ''reasoning''), (''summary'', jarr JString s),
              (''private_state'', jopt ser_private_state p)]"
| "ser_content_part (PartRefusal t) = JObject [(''type'', JString ''refusal''), (''text'', JString t)]"

record message =
  msg_role :: role
  msg_content :: "content_part list"

definition ser_message :: "message \<Rightarrow> json" where
  [wire_simps]: "ser_message m = JObject
     [(''role'', ser_role (msg_role m)), (''content'', jarr ser_content_part (msg_content m))]"

section \<open>Model events\<close>

datatype model_stream_event =
    TextDelta string "u32 option"
  | ModelToolCall string string json
  | ReasoningDelta string "u32 option"
  | Reasoning "string list" "provider_private_state option"
  | Refusal string
  | PrivateStateOmitted string string string
  | Usage u64 u64 u64
  | Completed model_finish_reason
  | ModelFailed model_error_kind bool string

fun commits_provider_output :: "model_stream_event \<Rightarrow> bool" where
  "commits_provider_output (PrivateStateOmitted _ _ _) = False"
| "commits_provider_output _ = True"

section \<open>Budgets and subagents\<close>

record run_budget =
  max_tokens :: u64
  max_cost_cents :: u64
  max_duration_seconds :: u64

definition is_positive_and_finite :: "run_budget \<Rightarrow> bool" where
  "is_positive_and_finite b \<longleftrightarrow>
     max_tokens b > 0 \<and> max_cost_cents b > 0 \<and> max_duration_seconds b > 0 \<and>
     max_duration_seconds b \<le> 86400"

definition ser_run_budget :: "run_budget \<Rightarrow> json" where
  [wire_simps]: "ser_run_budget b = JObject
     [(''max_tokens'', ju64 (max_tokens b)), (''max_cost_cents'', ju64 (max_cost_cents b)),
      (''max_duration_seconds'', ju64 (max_duration_seconds b))]"

record subagent_budget_usage =
  usage_tokens :: u64
  usage_cost_micros :: u64

definition default_usage :: subagent_budget_usage where
  "default_usage = \<lparr>usage_tokens = 0, usage_cost_micros = 0\<rparr>"

definition ser_usage :: "subagent_budget_usage \<Rightarrow> json" where
  [wire_simps]: "ser_usage u = JObject
     [(''tokens'', ju64 (usage_tokens u)), (''cost_micros'', ju64 (usage_cost_micros u))]"

record subagent_result_delivery =
  srd_tool_call_id :: string
  srd_delegation_id :: uuid
  srd_binding_digest :: string
  srd_child_run_id :: uuid
  srd_child_terminal_event_id :: uuid
  srd_terminal_status :: run_status
  srd_content :: json
  srd_is_error :: bool
  srd_usage :: subagent_budget_usage
  srd_transcript :: "message list"
  srd_digest :: string

definition ser_result_delivery :: "externals \<Rightarrow> subagent_result_delivery \<Rightarrow> json" where
  [wire_simps]: "ser_result_delivery ext r = JObject
     ([(''tool_call_id'', JString (srd_tool_call_id r)),
       (''delegation_id'', juuid ext (srd_delegation_id r)),
       (''binding_digest'', JString (srd_binding_digest r)),
       (''child_run_id'', juuid ext (srd_child_run_id r)),
       (''child_terminal_event_id'', juuid ext (srd_child_terminal_event_id r)),
       (''terminal_status'', ser_run_status (srd_terminal_status r)),
       (''content'', srd_content r),
       (''is_error'', JBool (srd_is_error r)),
       (''usage'', ser_usage (srd_usage r))]
      @ (if srd_transcript r = [] then [] else [(''transcript'', jarr ser_message (srd_transcript r))])
      @ [(''digest'', JString (srd_digest r))])"

record subagent_conversation_turn =
  sct_activation_ordinal :: u64
  sct_message_sequence :: u64
  sct_child_run_id :: uuid
  sct_input :: string
  sct_result :: subagent_result_delivery

definition ser_conversation_turn :: "externals \<Rightarrow> subagent_conversation_turn \<Rightarrow> json" where
  [wire_simps]: "ser_conversation_turn ext t = JObject
     [(''activation_ordinal'', ju64 (sct_activation_ordinal t)),
      (''message_sequence'', ju64 (sct_message_sequence t)),
      (''child_run_id'', juuid ext (sct_child_run_id t)),
      (''input'', JString (sct_input t)),
      (''result'', ser_result_delivery ext (sct_result t))]"

record subagent_spawn_request =
  ssr_tool_call_id :: string
  ssr_delegation_id :: uuid
  ssr_role :: string
  ssr_input :: string
  ssr_budget :: run_budget
  ssr_binding_digest :: string
  ssr_mode :: subagent_spawn_mode
  ssr_conversation_history :: "subagent_conversation_turn list"

definition ser_spawn_request :: "externals \<Rightarrow> subagent_spawn_request \<Rightarrow> json" where
  [wire_simps]: "ser_spawn_request ext r = JObject
     [(''tool_call_id'', JString (ssr_tool_call_id r)),
      (''delegation_id'', juuid ext (ssr_delegation_id r)),
      (''role'', JString (ssr_role r)),
      (''input'', JString (ssr_input r)),
      (''budget'', ser_run_budget (ssr_budget r)),
      (''binding_digest'', JString (ssr_binding_digest r)),
      (''mode'', ser_spawn_mode (ssr_mode r)),
      (''conversation_history'', jarr (ser_conversation_turn ext) (ssr_conversation_history r))]"

record subagent_fork_receipt =
  sfr_tool_call_id :: string
  sfr_tool_binding_digest :: string
  sfr_source_agent_id :: uuid
  sfr_source_generation :: u64
  sfr_through_activation_ordinal :: u64
  sfr_source_history_digest :: string
  sfr_agent_id :: uuid
  sfr_generation :: u64
  sfr_role :: string
  sfr_budget :: run_budget

definition fork_receipt_is_well_formed :: "subagent_fork_receipt \<Rightarrow> bool" where
  "fork_receipt_is_well_formed r \<longleftrightarrow>
     \<not> is_blank (sfr_tool_call_id r) \<and> length (sfr_tool_call_id r) \<le> 256 \<and>
     is_sha256 (sfr_tool_binding_digest r) \<and> \<not> is_nil (sfr_source_agent_id r) \<and>
     sfr_source_generation r > 0 \<and> is_sha256 (sfr_source_history_digest r) \<and>
     \<not> is_nil (sfr_agent_id r) \<and> sfr_agent_id r \<noteq> sfr_source_agent_id r \<and>
     sfr_generation r > 0 \<and> sfr_role r \<noteq> ''primary'' \<and> portable_identifier (sfr_role r) 80 \<and>
     is_positive_and_finite (sfr_budget r)"

record subagent_rollback_receipt =
  srr_tool_call_id :: string
  srr_tool_binding_digest :: string
  srr_agent_id :: uuid
  srr_from_generation :: u64
  srr_generation :: u64
  srr_through_activation_ordinal :: u64
  srr_previous_history_digest :: string
  srr_restored_history_digest :: string

definition rollback_receipt_is_well_formed :: "subagent_rollback_receipt \<Rightarrow> bool" where
  "rollback_receipt_is_well_formed r \<longleftrightarrow>
     \<not> is_blank (srr_tool_call_id r) \<and> length (srr_tool_call_id r) \<le> 256 \<and>
     is_sha256 (srr_tool_binding_digest r) \<and> \<not> is_nil (srr_agent_id r) \<and>
     srr_from_generation r > 0 \<and>
     (case checked_add (srr_from_generation r) 1 of
        None \<Rightarrow> False
      | Some generation \<Rightarrow> generation = srr_generation r) \<and>
     is_sha256 (srr_previous_history_digest r) \<and> is_sha256 (srr_restored_history_digest r) \<and>
     srr_previous_history_digest r \<noteq> srr_restored_history_digest r"

section \<open>MCP data carried by events\<close>

datatype mcp_server_capability = McpTools | McpResources | McpPrompts

fun mcp_server_capability_str :: "mcp_server_capability \<Rightarrow> string" where
  "mcp_server_capability_str McpTools = ''tools''"
| "mcp_server_capability_str McpResources = ''resources''"
| "mcp_server_capability_str McpPrompts = ''prompts''"

datatype mcp_server_health = Ready | ServerUnavailable

fun ser_mcp_server_health :: "mcp_server_health \<Rightarrow> json" where
  "ser_mcp_server_health Ready = JString ''ready''"
| "ser_mcp_server_health ServerUnavailable = JString ''unavailable''"

record mcp_server_discovery_status =
  sds_server_name :: string
  sds_required :: bool
  sds_health :: mcp_server_health
  sds_attempts :: u8
  sds_capabilities :: "mcp_server_capability list"
  sds_error :: "string option"

definition ser_discovery_status :: "mcp_server_discovery_status \<Rightarrow> json" where
  [wire_simps]: "ser_discovery_status s = JObject
     ([(''server_name'', JString (sds_server_name s)),
       (''required'', JBool (sds_required s)),
       (''health'', ser_mcp_server_health (sds_health s)),
       (''attempts'', ju8 (sds_attempts s)),
       (''capabilities'', jarr (\<lambda>c. JString (mcp_server_capability_str c)) (sds_capabilities s))]
      @ skip_none ''error'' JString (sds_error s))"

datatype mcp_elicitation_request =
    ElicitForm string json "json option"
  | ElicitUrl string string string "json option"

fun ser_elicitation_request :: "mcp_elicitation_request \<Rightarrow> json" where
  "ser_elicitation_request (ElicitForm msg schema meta) = JObject
     ([(''mode'', JString ''form''), (''message'', JString msg), (''requested_schema'', schema)]
      @ skip_none ''meta'' id meta)"
| "ser_elicitation_request (ElicitUrl msg url eid meta) = JObject
     ([(''mode'', JString ''url''), (''message'', JString msg), (''url'', JString url),
       (''elicitation_id'', JString eid)]
      @ skip_none ''meta'' id meta)"

datatype mcp_input_action = Accept | Decline | CancelInput

fun ser_mcp_input_action :: "mcp_input_action \<Rightarrow> json" where
  "ser_mcp_input_action Accept = JString ''accept''"
| "ser_mcp_input_action Decline = JString ''decline''"
| "ser_mcp_input_action CancelInput = JString ''cancel''"

record mcp_input_response =
  mir_action :: mcp_input_action
  mir_content :: "json option"
  mir_meta :: "json option"

definition ser_input_response :: "mcp_input_response \<Rightarrow> json" where
  [wire_simps]: "ser_input_response r = JObject
     ([(''action'', ser_mcp_input_action (mir_action r))]
      @ skip_none ''content'' id (mir_content r) @ skip_none ''meta'' id (mir_meta r))"

record mcp_input_continuation =
  mic_round :: u8
  mic_request_state :: string
  mic_responses :: "(string, mcp_input_response) btree"

record mcp_input_required =
  mreq_schema_version :: u32
  mreq_input_id :: uuid
  mreq_server_id :: uuid
  mreq_server_name :: string
  mreq_tool_call_id :: string
  mreq_binding_digest :: string
  mreq_round :: u8
  mreq_request_state :: string
  mreq_requests :: "(string, mcp_elicitation_request) btree"

definition ser_input_required :: "externals \<Rightarrow> mcp_input_required \<Rightarrow> json" where
  [wire_simps]: "ser_input_required ext p = JObject
     [(''schema_version'', ju32 (mreq_schema_version p)),
      (''input_id'', juuid ext (mreq_input_id p)),
      (''server_id'', juuid ext (mreq_server_id p)),
      (''server_name'', JString (mreq_server_name p)),
      (''tool_call_id'', JString (mreq_tool_call_id p)),
      (''binding_digest'', JString (mreq_binding_digest p)),
      (''round'', ju8 (mreq_round p)),
      (''request_state'', JString (mreq_request_state p)),
      (''requests'', jmap ser_elicitation_request (mreq_requests p))]"

definition MCP_INPUT_VERSION :: u32 where
  "MCP_INPUT_VERSION = 1"

section \<open>Event envelopes\<close>

text \<open>What the clock and the identifier generator answer while one event is built.\<close>

record ambient =
  amb_event_id :: uuid
  amb_trace_id :: uuid
  amb_now :: datetime

record event_envelope =
  ee_event_id :: uuid
  ee_schema_version :: u32
  ee_tenant_id :: uuid
  ee_session_id :: uuid
  ee_run_id :: uuid
  ee_sequence :: u64
  ee_attempt_id :: uuid
  ee_timestamp :: datetime
  ee_trace_id :: uuid
  ee_event_type :: string
  ee_payload :: json
  ee_digest :: string

definition event_envelope_new ::
  "externals \<Rightarrow> ambient \<Rightarrow> uuid \<Rightarrow> uuid \<Rightarrow> uuid \<Rightarrow> u64 \<Rightarrow> uuid \<Rightarrow> string \<Rightarrow> json \<Rightarrow> event_envelope" where
  "event_envelope_new ext amb tenant_id session_id run_id sequence attempt_id event_type payload =
     \<lparr>ee_event_id = amb_event_id amb, ee_schema_version = 1, ee_tenant_id = tenant_id,
      ee_session_id = session_id, ee_run_id = run_id, ee_sequence = sequence,
      ee_attempt_id = attempt_id, ee_timestamp = amb_now amb, ee_trace_id = amb_trace_id amb,
      ee_event_type = event_type, ee_payload = payload, ee_digest = json_digest ext payload\<rparr>"

section \<open>Serialised enumerations are read back\<close>

lemma run_status_str_inject [simp]: "run_status_str a = run_status_str b \<longleftrightarrow> a = b"
  by (cases a; cases b) simp_all

lemma ser_enum_inject [simp]:
  "ser_run_status a = ser_run_status b \<longleftrightarrow> a = b"
  "ser_tool_effect e = ser_tool_effect e' \<longleftrightarrow> e = e'"
  "ser_approval_mode m = ser_approval_mode m' \<longleftrightarrow> m = m'"
  "ser_sandbox_class s = ser_sandbox_class s' \<longleftrightarrow> s = s'"
  "ser_auto_approval p = ser_auto_approval p' \<longleftrightarrow> p = p'"
  subgoal by (simp add: ser_run_status_def)
  subgoal by (cases e; cases e') simp_all
  subgoal by (cases m; cases m') simp_all
  subgoal by (cases s; cases s') simp_all
  subgoal by (cases p; cases p') simp_all
  done

lemma to_value_enum [simp]:
  "to_value (ser_run_status a) = ser_run_status a"
  "to_value (ser_tool_effect e) = ser_tool_effect e"
  "to_value (ser_approval_mode m) = ser_approval_mode m"
  "to_value (ser_sandbox_class s) = ser_sandbox_class s"
  "to_value (ser_auto_approval p) = ser_auto_approval p"
  subgoal by (simp add: ser_run_status_def)
  subgoal by (cases e) simp_all
  subgoal by (cases m) simp_all
  subgoal by (cases s) simp_all
  subgoal by (cases p) simp_all
  done

lemma to_value_juuid [simp]: "to_value (juuid ext u) = juuid ext u"
  by (simp add: juuid_def)

end
