(* ===== verification/Shell_Policy.thy ===== *)
theory Shell_Policy
  imports Protocol_Types
begin

text \<open>
  The read-only shell classifier of \<open>runtime/crates/kernel/src/read_only_shell.rs\<close>. A command is the list
  of its code points; \<open>segments_loop\<close> and \<open>words_loop\<close> are the two character loops, with the peeked
  character as the head of the remaining input. The lemmas relate the classifier to an independent reading
  of the text: \<open>unquoted\<close> lists the characters that stand outside single quotes, and \<open>weave\<close> puts
  segments and separators back together.
\<close>

section \<open>The classifier\<close>

datatype shell_command_class = ProvablyReadOnly | RequiresApproval

definition READ_ONLY_COMMANDS :: "string list" where
  "READ_ONLY_COMMANDS =
     [''basename'', ''cat'', ''cksum'', ''dirname'', ''du'', ''echo'', ''grep'', ''head'', ''hostname'',
      ''ls'', ''nl'', ''pwd'', ''rg'', ''stat'', ''tail'', ''wc'', ''whoami'', ''which'']"

definition READ_ONLY_GIT_SUBCOMMANDS :: "string list" where
  "READ_ONLY_GIT_SUBCOMMANDS = []"

definition REJECTED_CHARACTERS :: "rchar list" where
  "REJECTED_CHARACTERS =
     [''>'', ''<'', ''&'', ''$'', [CHR 0x60], ''('', '')'', ''{'', ''}'', [CHR 0x5C], [CHR 0x22], ''~'',
      ''*'', ''?'', ''['', '']'', ''!'', ''#'', [CHR 0x0A], [CHR 0x0D], [CHR 0x00]]"

abbreviation quote :: rchar where
  "quote \<equiv> [CHR 0x27]"

function segments_loop ::
  "rchar list \<Rightarrow> bool \<Rightarrow> rchar list \<Rightarrow> rchar list list \<Rightarrow> rchar list list option" where
  "segments_loop [] quoted current segs = (if quoted then None else Some (segs @ [current]))"
| "segments_loop (c # cs) quoted current segs =
     (if c = quote then segments_loop cs (\<not> quoted) (current @ [c]) segs
      else if quoted then segments_loop cs quoted (current @ [c]) segs
      else if c = '';'' then segments_loop cs quoted [] (segs @ [current])
      else if c = ''|'' \<or> c = ''&'' then
        (if cs \<noteq> [] \<and> hd cs = c then segments_loop (tl cs) quoted [] (segs @ [current])
         else if c = ''|'' then segments_loop cs quoted [] (segs @ [current])
         else segments_loop cs quoted (current @ [c]) segs)
      else segments_loop cs quoted (current @ [c]) segs)"
  by pat_completeness auto
termination
  by (relation "measure (\<lambda>(cs, _, _, _). length cs)") auto

definition segments :: "string \<Rightarrow> rchar list list option" where
  "segments command =
     map_option (\<lambda>segs. filter (\<lambda>s. s \<noteq> []) (map trim_chars segs))
       (segments_loop (chars command) False [] [])"

fun words_loop ::
  "rchar list \<Rightarrow> bool \<Rightarrow> bool \<Rightarrow> rchar list \<Rightarrow> rchar list list \<Rightarrow> rchar list list option" where
  "words_loop [] started quoted current ws =
     (if quoted then None else if started then Some (ws @ [current]) else Some ws)"
| "words_loop (c # cs) started quoted current ws =
     (if c = quote then words_loop cs True (\<not> quoted) current ws
      else if quoted then words_loop cs started quoted (current @ [c]) ws
      else if is_whitespace c then
        (if started then words_loop cs False quoted [] (ws @ [current])
         else words_loop cs started quoted current ws)
      else if c \<in> set REJECTED_CHARACTERS then None
      else words_loop cs True quoted (current @ [c]) ws)"

definition words :: "rchar list \<Rightarrow> rchar list list option" where
  "words segment = words_loop segment False False [] []"

definition is_read_only_segment :: "rchar list \<Rightarrow> bool" where
  "is_read_only_segment segment =
     (case words segment of
        None \<Rightarrow> False
      | Some [] \<Rightarrow> False
      | Some (executable # arguments) \<Rightarrow>
          (if ''/'' \<in> set executable then False
           else if ''='' \<in> set executable then False
           else if concat executable = ''git'' then
             (case arguments of
                [] \<Rightarrow> False
              | subcommand # _ \<Rightarrow> concat subcommand \<in> set READ_ONLY_GIT_SUBCOMMANDS)
           else concat executable \<in> set READ_ONLY_COMMANDS))"

definition classify_shell_command :: "string \<Rightarrow> shell_command_class" where
  "classify_shell_command command =
     (case segments command of
        Some segs \<Rightarrow>
          (if segs \<noteq> [] then
             (if list_all is_read_only_segment segs then ProvablyReadOnly else RequiresApproval)
           else RequiresApproval)
      | None \<Rightarrow> RequiresApproval)"

section \<open>Quoting, independently of the classifier\<close>

fun unquoted :: "bool \<Rightarrow> rchar list \<Rightarrow> rchar list" where
  "unquoted q [] = []"
| "unquoted q (c # cs) =
     (if c = quote then unquoted (\<not> q) cs else if q then unquoted q cs else c # unquoted q cs)"

fun quote_state :: "bool \<Rightarrow> rchar list \<Rightarrow> bool" where
  "quote_state q [] = q"
| "quote_state q (c # cs) = quote_state (if c = quote then \<not> q else q) cs"

fun weave :: "rchar list list \<Rightarrow> rchar list list \<Rightarrow> rchar list" where
  "weave (s # ss) (p # ps) = s @ p @ weave ss ps"
| "weave (s # ss) [] = s"
| "weave [] ps = []"

definition separators :: "rchar list list" where
  "separators = [['';''], [''|''], [''|'', ''|''], [''&'', ''&'']]"

lemma unquoted_append: "unquoted q (xs @ ys) = unquoted q xs @ unquoted (quote_state q xs) ys"
  by (induction xs arbitrary: q) auto

lemma quote_state_append: "quote_state q (xs @ ys) = quote_state (quote_state q xs) ys"
  by (induction xs arbitrary: q) auto

lemma set_unquoted_subset: "set (unquoted q xs) \<subseteq> set xs"
  by (induction q xs rule: unquoted.induct) auto

text \<open>
  What the segment loop leaves: the text read so far and still to read is the new segments with a separator
  between each two, and no segment ends inside quotes.
\<close>

definition partitioned :: "rchar list \<Rightarrow> rchar list list \<Rightarrow> bool" where
  "partitioned text rest \<longleftrightarrow>
     (\<exists>seps. length rest = Suc (length seps) \<and> set seps \<subseteq> set separators \<and> text = weave rest seps) \<and>
     (\<forall>s \<in> set rest. \<not> quote_state False s)"

lemma partitioned_last: "\<not> quote_state False cur \<Longrightarrow> partitioned cur [cur]"
  by (simp add: partitioned_def)

lemma partitioned_push:
  assumes "partitioned cs rest" and "\<not> quote_state False cur" and "sep \<in> set separators"
  shows "partitioned (cur @ sep @ cs) (cur # rest)"
proof -
  from assms(1) obtain seps where "length rest = Suc (length seps)" "set seps \<subseteq> set separators"
    "cs = weave rest seps"
    by (auto simp: partitioned_def)
  with assms have "length (cur # rest) = Suc (length (sep # seps)) \<and> set (sep # seps) \<subseteq> set separators \<and>
      cur @ sep @ cs = weave (cur # rest) (sep # seps)"
    by simp
  then have "\<exists>seps. length (cur # rest) = Suc (length seps) \<and> set seps \<subseteq> set separators \<and>
      cur @ sep @ cs = weave (cur # rest) seps"
    by blast
  moreover have "\<forall>s \<in> set (cur # rest). \<not> quote_state False s"
    using assms(1,2) by (simp add: partitioned_def)
  ultimately show ?thesis by (simp only: partitioned_def simp_thms)
qed

lemma segments_loop_partitioned:
  assumes "segments_loop cs q cur segs = Some ss" and "quote_state False cur = q"
  shows "\<exists>rest. ss = segs @ rest \<and> partitioned (cur @ cs) rest"
  using assms
proof (induction cs q cur segs rule: segments_loop.induct)
  case (1 q cur segs)
  then show ?case by (auto intro: partitioned_last split: if_splits)
next
  case (2 c cs q cur segs)
  have grow: "\<exists>rest. ss = segs @ rest \<and> partitioned (cur @ c # cs) rest"
    if "\<exists>rest. ss = segs @ rest \<and> partitioned ((cur @ [c]) @ cs) rest"
    using that by simp
  have push: "\<exists>rest. ss = segs @ rest \<and> partitioned (cur @ sep @ xs) rest"
    if "\<exists>rest. ss = (segs @ [cur]) @ rest \<and> partitioned ([] @ xs) rest" "\<not> q" "sep \<in> set separators"
    for sep xs
    using that "2.prems"(2) partitioned_push [of xs _ cur sep] by auto
  have state: "quote_state False (cur @ [c]) = (if c = quote then \<not> q else q)"
    using "2.prems"(2) by (simp add: quote_state_append)
  show ?case
  proof (cases "c = quote \<or> q \<or> (c \<noteq> '';'' \<and> c \<noteq> ''|'' \<and> c \<noteq> ''&'')")
    case True
    then show ?thesis
      using "2.prems" "2.IH" state by (intro grow) (auto split: if_splits)
  next
    case False
    then have nq: "\<not> q" and cq: "c \<noteq> quote" by auto
    show ?thesis
    proof (cases "cs \<noteq> [] \<and> hd cs = c \<and> c \<noteq> '';''")
      case True
      with False obtain ds where cs: "cs = c # ds" and c: "c = ''|'' \<or> c = ''&''"
        by (cases cs) auto
      then have "[c, c] \<in> set separators" by (auto simp: separators_def)
      moreover have "\<exists>rest. ss = (segs @ [cur]) @ rest \<and> partitioned ([] @ ds) rest"
        using 2 c cs nq cq by auto
      ultimately show ?thesis using push [of ds "[c, c]"] nq cs by simp
    next
      case single: False
      show ?thesis
      proof (cases "c = ''&''")
        case True
        with single show ?thesis
          using "2.prems" "2.IH" nq state by (intro grow) auto
      next
        case False
        with \<open>\<not> (c = quote \<or> _ \<or> _)\<close> have c: "c = '';'' \<or> c = ''|''" by auto
        then have "[c] \<in> set separators" by (auto simp: separators_def)
        moreover have "\<exists>rest. ss = (segs @ [cur]) @ rest \<and> partitioned ([] @ cs) rest"
          using 2 c single nq by auto
        ultimately show ?thesis using push [of cs "[c]"] nq by simp
      qed
    qed
  qed
qed

section \<open>Words\<close>

text \<open>Outside quotes, the word loop lets a rejected character pass only if it is white space.\<close>

lemma words_loop_unquoted:
  "words_loop cs started quoted cur ws = Some r \<Longrightarrow> c \<in> set (unquoted quoted cs) \<Longrightarrow>
   c \<in> set REJECTED_CHARACTERS \<Longrightarrow> is_whitespace c"
  by (induction cs started quoted cur ws rule: words_loop.induct) (auto split: if_splits)

lemma words_unquoted:
  "words s = Some r \<Longrightarrow> c \<in> set (unquoted False s) \<Longrightarrow> c \<in> set REJECTED_CHARACTERS \<Longrightarrow> is_whitespace c"
  unfolding words_def by (rule words_loop_unquoted)

lemma trim_chars_decomp:
  obtains l r where "cs = l @ trim_chars cs @ r"
    and "\<forall>c \<in> set l. is_whitespace c" and "\<forall>c \<in> set r. is_whitespace c"
proof
  let ?d = "dropWhile is_whitespace cs"
  have "?d = trim_chars cs @ rev (takeWhile is_whitespace (rev ?d))"
    unfolding trim_chars_def by (metis rev_append rev_rev_ident takeWhile_dropWhile_id)
  then show "cs = takeWhile is_whitespace cs @ trim_chars cs @ rev (takeWhile is_whitespace (rev ?d))"
    by (metis takeWhile_dropWhile_id)
qed (auto dest: set_takeWhileD)

lemma unquoted_trim_chars:
  assumes "c \<in> set (unquoted False s)" and "\<not> is_whitespace c"
  shows "c \<in> set (unquoted False (trim_chars s))"
proof -
  obtain l r where s: "s = l @ trim_chars s @ r"
    and l: "\<forall>c \<in> set l. is_whitespace c" and r: "\<forall>c \<in> set r. is_whitespace c"
    by (rule trim_chars_decomp)
  have "\<not> is_whitespace quote" by (simp add: is_whitespace_def whitespace_chars_def)
  then have state: "quote_state False l = False"
    using l by (induction l) auto
  have "c \<in> set (unquoted False l @ unquoted False (trim_chars s) @ unquoted (quote_state False (trim_chars s)) r)"
    using assms(1) by (subst (asm) s) (simp add: unquoted_append state)
  with assms(2) l r show ?thesis
    using set_unquoted_subset [of False l] set_unquoted_subset [of "quote_state False (trim_chars s)" r]
    by auto
qed

section \<open>Soundness\<close>

text \<open>A segment the classifier lets pass without a person.\<close>

definition harmless_segment :: "rchar list \<Rightarrow> bool" where
  "harmless_segment s \<longleftrightarrow>
     (\<exists>executable arguments. words (trim_chars s) = Some (executable # arguments) \<and>
        concat executable \<in> set READ_ONLY_COMMANDS \<and> ''/'' \<notin> set executable \<and> ''='' \<notin> set executable) \<and>
     (\<forall>c \<in> set (unquoted False s). c \<in> set REJECTED_CHARACTERS \<longrightarrow> c \<in> {[CHR 0x0A], [CHR 0x0D]})"

lemma rejected_white_space:
  assumes "c \<in> set REJECTED_CHARACTERS" and "is_whitespace c"
  shows "c \<in> {[CHR 0x0A], [CHR 0x0D]}"
proof -
  have "list_all (\<lambda>c. is_whitespace c \<longrightarrow> c = [CHR 0x0A] \<or> c = [CHR 0x0D]) REJECTED_CHARACTERS" by code_simp
  with assms show ?thesis by (auto simp: list_all_iff)
qed

lemma harmless_if_read_only:
  assumes "is_read_only_segment (trim_chars s)"
  shows "harmless_segment s"
proof -
  from assms obtain e a where w: "words (trim_chars s) = Some (e # a)"
    and e: "concat e \<in> set READ_ONLY_COMMANDS" "''/'' \<notin> set e" "''='' \<notin> set e"
    by (auto simp: is_read_only_segment_def READ_ONLY_GIT_SUBCOMMANDS_def
        split: option.splits list.splits if_splits)
  have "is_whitespace c" if "c \<in> set (unquoted False s)" "c \<in> set REJECTED_CHARACTERS" for c
    using that unquoted_trim_chars words_unquoted [OF w] by blast
  with w e rejected_white_space show ?thesis unfolding harmless_segment_def by blast
qed

text \<open>
  C10. Soundness of the classifier, stated on the text of the command. A command answered
  \<open>ProvablyReadOnly\<close> is a sequence of segments joined by the separators \<open>;\<close>, \<open>|\<close>, \<open>||\<close> and \<open>&&\<close>, each
  with balanced single quotes; at least one segment is not blank, and every segment that is not blank
  starts with a bare name of the list and holds, outside quotes, no rejected character other than a line feed or a
  carriage return. These two do pass, although they are on the list of rejected characters: the splitting into words takes
  them for white space first.
\<close>

theorem classify_shell_command_sound:
  assumes "classify_shell_command command = ProvablyReadOnly"
  shows "\<exists>segs seps. chars command = weave segs seps \<and> length segs = Suc (length seps) \<and>
           set seps \<subseteq> set separators \<and> (\<forall>s \<in> set segs. \<not> quote_state False s) \<and>
           (\<exists>s \<in> set segs. trim_chars s \<noteq> []) \<and>
           (\<forall>s \<in> set segs. trim_chars s \<noteq> [] \<longrightarrow> harmless_segment s)"
proof -
  from assms obtain raw where raw: "segments_loop (chars command) False [] [] = Some raw"
    and some: "filter (\<lambda>s. s \<noteq> []) (map trim_chars raw) \<noteq> []"
    and all: "list_all is_read_only_segment (filter (\<lambda>s. s \<noteq> []) (map trim_chars raw))"
    by (auto simp: classify_shell_command_def segments_def split: option.splits if_splits)
  from segments_loop_partitioned [OF raw] obtain seps where
    "length raw = Suc (length seps)" "set seps \<subseteq> set separators" "chars command = weave raw seps"
    "\<forall>s \<in> set raw. \<not> quote_state False s"
    by (auto simp: partitioned_def)
  moreover have "\<exists>s \<in> set raw. trim_chars s \<noteq> []"
    using some by (auto simp: filter_empty_conv)
  moreover have "\<forall>s \<in> set raw. trim_chars s \<noteq> [] \<longrightarrow> harmless_segment s"
    using all harmless_if_read_only by (auto simp: list_all_iff)
  ultimately show ?thesis by blast
qed

theorem classify_shell_command_sound_witness:
  "classify_shell_command ''ls -l | wc'' = ProvablyReadOnly \<and>
   (\<exists>segs seps. chars ''ls -l | wc'' = weave segs seps \<and> length segs = Suc (length seps) \<and>
      set seps \<subseteq> set separators \<and> (\<forall>s \<in> set segs. \<not> quote_state False s) \<and>
      (\<exists>s \<in> set segs. trim_chars s \<noteq> []) \<and>
      (\<forall>s \<in> set segs. trim_chars s \<noteq> [] \<longrightarrow> harmless_segment s))"
proof -
  have "classify_shell_command ''ls -l | wc'' = ProvablyReadOnly" by code_simp
  then show ?thesis using classify_shell_command_sound by blast
qed

section \<open>Line breaks\<close>

text \<open>A character outside the special ones: neither quote nor separator nor rejected.\<close>

definition bare_char :: "rchar \<Rightarrow> bool" where
  "bare_char c \<longleftrightarrow> c \<noteq> quote \<and> c \<noteq> '';'' \<and> c \<noteq> ''|'' \<and> c \<notin> set REJECTED_CHARACTERS"

lemma segments_loop_bare:
  "list_all bare_char cs \<Longrightarrow> segments_loop cs False cur segs = Some (segs @ [cur @ cs])"
  by (induction cs arbitrary: cur) (auto simp: bare_char_def REJECTED_CHARACTERS_def)

lemma words_loop_bare:
  "list_all bare_char cs \<Longrightarrow> \<exists>more. words_loop cs started False cur ws = Some (ws @ more)"
proof (induction cs arbitrary: started cur ws)
  case (Cons c cs)
  then have "bare_char c" and cs: "list_all bare_char cs" by simp_all
  then have c: "c \<noteq> quote" "c \<notin> set REJECTED_CHARACTERS" by (simp_all add: bare_char_def)
  obtain m1 where "words_loop cs False False [] (ws @ [cur]) = Some ((ws @ [cur]) @ m1)"
    using Cons.IH [OF cs] by blast
  moreover obtain m2 where "words_loop cs False False cur ws = Some (ws @ m2)"
    using Cons.IH [OF cs] by blast
  moreover obtain m3 where "words_loop cs True False (cur @ [c]) ws = Some (ws @ m3)"
    using Cons.IH [OF cs] by blast
  ultimately show ?case using c by simp
qed auto

lemma trim_end_take: "\<exists>k. rev (dropWhile P (rev xs)) = take k xs"
  by (metis append_eq_conv_conj rev_append rev_rev_ident takeWhile_dropWhile_id)

text \<open>
  C11. A line break outside quotes does not make the classifier ask: \<open>ls\<close>, a line break and any second
  line without special characters is answered \<open>ProvablyReadOnly\<close>, because the word loop tests for white
  space before it tests for rejected characters. A shell runs the second line as a command of its own.
\<close>

theorem classify_shell_command_line_break:
  assumes "list_all bare_char (chars rest)"
  shows "classify_shell_command (''ls'' @ [CHR 0x0A] @ rest) = ProvablyReadOnly"
proof -
  let ?nl = "[CHR 0x0A]"
  have cs: "chars (''ls'' @ ?nl @ rest) = ''l'' # ''s'' # ?nl # chars rest"
    by (simp add: utf8_width_def)
  have "segments_loop (''l'' # ''s'' # ?nl # chars rest) False [] [] = Some [''l'' # ''s'' # ?nl # chars rest]"
    using segments_loop_bare [OF assms] by simp
  moreover obtain k where k: "trim_chars (''l'' # ''s'' # ?nl # chars rest) = ''l'' # ''s'' # take k (?nl # chars rest)"
  proof -
    have ws: "\<not> is_whitespace ''l''" "\<not> is_whitespace ''s''"
      by (simp_all add: is_whitespace_def whitespace_chars_def)
    have "trim_chars (''l'' # ''s'' # xs) = ''l'' # ''s'' # rev (dropWhile is_whitespace (rev xs))" for xs
      using ws by (simp add: trim_chars_def dropWhile_append)
    with trim_end_take [of is_whitespace "?nl # chars rest"] that show ?thesis by metis
  qed
  moreover have "is_read_only_segment (''l'' # ''s'' # take k (?nl # chars rest))"
  proof -
    have ws: "\<not> is_whitespace ''l''" "\<not> is_whitespace ''s''" "is_whitespace ?nl"
      by (simp_all add: is_whitespace_def whitespace_chars_def)
    have "list_all bare_char (take (k - 1) (chars rest))"
      using assms by (auto simp: list_all_iff dest: in_set_takeD)
    then obtain more where "words_loop (take (k - 1) (chars rest)) False False [] [[''l'', ''s'']] =
        Some ([[''l'', ''s'']] @ more)"
      using words_loop_bare by blast
    then have "\<exists>more. words (''l'' # ''s'' # take k (?nl # chars rest)) = Some ([''l'', ''s''] # more)"
      using ws by (cases k) (simp_all add: words_def REJECTED_CHARACTERS_def)
    then show ?thesis
      by (auto simp: is_read_only_segment_def READ_ONLY_COMMANDS_def)
  qed
  ultimately show ?thesis
    unfolding classify_shell_command_def segments_def cs by simp
qed

theorem classify_shell_command_line_break_witness:
  "list_all bare_char (chars ''rm -rf src'') \<and>
   classify_shell_command (''ls'' @ [CHR 0x0A] @ ''rm -rf src'') = ProvablyReadOnly"
proof -
  have "list_all bare_char (chars ''rm -rf src'')" by code_simp
  then show ?thesis using classify_shell_command_line_break by blast
qed

end
