(* ===== verification/Tool_Registry.thy ===== *)
theory Tool_Registry
  imports Shell_Policy
begin

text \<open>
  \<open>ToolRegistry\<close> of \<open>runtime/crates/kernel/src/lib.rs\<close>: registration, authorisation against the delegated
  scopes, and planning of one Tool call. An operation that can fail returns its \<open>Result\<close>; \<open>register\<close>, the one
  that writes, also returns the registry.
\<close>

section \<open>Registry\<close>

datatype registry_error =
    DuplicateTool string
  | UnknownTool string
  | InvalidImplementationDigest
  | MissingScopes "string list"

record tool_registry =
  tools :: "(string, tool_descriptor) btree"

datatype tool_plan =
    Execute tool_execution_request
  | AutoApproved tool_execution_request tool_approval_policy_snapshot string string
  | ApprovalRequired tool_approval_request
  | Denied tool_execution_request
  | SubagentSpawn subagent_spawn_request

definition empty_registry :: tool_registry where
  "empty_registry = \<lparr>tools = []\<rparr>"

definition register :: "tool_descriptor \<Rightarrow> tool_registry \<Rightarrow> (registry_error, unit) result \<times> tool_registry" where
  "register tool reg =
     (if length (td_implementation_digest tool) \<noteq> 64 \<or>
         \<not> list_all (\<lambda>b. is_ascii_digit b \<or> (97 \<le> code b \<and> code b \<le> 102)) (td_implementation_digest tool)
      then (Inl InvalidImplementationDigest, reg)
      else if bt_contains_key (td_name tool) (tools reg) then (Inl (DuplicateTool (td_name tool)), reg)
      else (Inr (), reg\<lparr>tools := bt_insert (td_name tool) tool (tools reg)\<rparr>))"

definition scope_difference :: "string list \<Rightarrow> string list \<Rightarrow> string list" where
  "scope_difference a b = filter (\<lambda>s. s \<notin> set b) a"

definition authorize :: "tool_registry \<Rightarrow> string \<Rightarrow> string list \<Rightarrow> (registry_error, tool_descriptor) result" where
  "authorize reg name delegated_scopes =
     (case bt_get name (tools reg) of
        None \<Rightarrow> Inl (UnknownTool name)
      | Some tool \<Rightarrow>
          (let missing = scope_difference (td_required_scopes tool) delegated_scopes
           in if missing = [] then Inr tool else Inl (MissingScopes missing)))"

primrec canonicalize :: "json \<Rightarrow> json" where
  "canonicalize (JObject m) = JObject (bt_from_list (map (map_prod id canonicalize) m))"
| "canonicalize (JArray xs) = JArray (map canonicalize xs)"
| "canonicalize JNull = JNull"
| "canonicalize (JBool b) = JBool b"
| "canonicalize (JNumber n) = JNumber n"
| "canonicalize (JString s) = JString s"

definition digest :: "externals \<Rightarrow> json \<Rightarrow> string" where
  "digest ext v = json_digest ext (canonicalize (to_value v))"

definition snapshot_of :: "tool_descriptor \<Rightarrow> auto_approval \<Rightarrow> tool_approval_policy_snapshot" where
  "snapshot_of d a =
     \<lparr>ps_tool_name = td_name d, ps_effect = td_effect d, ps_approval = td_approval d,
      ps_sandbox = td_sandbox d, ps_implementation_digest = td_implementation_digest d,
      ps_required_scopes = td_required_scopes d, ps_auto_approval = a\<rparr>"

text \<open>The tuple whose serialisation the binding digest covers.\<close>

definition binding_material :: "tool_call \<Rightarrow> tool_descriptor \<Rightarrow> auto_approval \<Rightarrow> json" where
  "binding_material call d a =
     JArray [ser_tool_call call, ser_tool_effect (td_effect d), ser_sandbox_class (td_sandbox d),
             JString (td_implementation_digest d), jarr JString (td_required_scopes d),
             ser_approval_mode (td_approval d), ser_auto_approval a]"

definition session_scope :: "tool_call \<Rightarrow> tool_approval_policy_snapshot \<Rightarrow> json" where
  "session_scope call p =
     jobj [(''arguments'', tc_arguments call), (''policy_snapshot'', ser_policy_snapshot p),
           (''tool_name'', JString (tc_name call))]"

definition exempt :: "tool_descriptor \<Rightarrow> auto_approval \<Rightarrow> tool_call \<Rightarrow> bool" where
  "exempt d a call \<longleftrightarrow>
     td_approval d = Ask \<and> td_sandbox d \<noteq> Federated \<and> a = ProvablyReadOnlyShellCommand \<and>
     map_option classify_shell_command (Option.bind (jget ''command'' (tc_arguments call)) as_str)
       = Some ProvablyReadOnly"

definition plan ::
  "externals \<Rightarrow> uuid \<Rightarrow> tool_registry \<Rightarrow> tool_call \<Rightarrow> string list \<Rightarrow> (string, auto_approval) btree \<Rightarrow>
   (registry_error, tool_plan) result" where
  "plan ext now_v7 reg call delegated_scopes tool_approval_policies =
     (case authorize reg (tc_name call) delegated_scopes of
        Inl e \<Rightarrow> Inl e
      | Inr descriptor \<Rightarrow>
          (let auto_approval =
                 (case bt_get (td_name descriptor) tool_approval_policies of None \<Rightarrow> Never | Some a \<Rightarrow> a);
               policy_snapshot = snapshot_of descriptor auto_approval;
               policy_digest = digest ext (ser_policy_snapshot policy_snapshot);
               session_scope_digest = digest ext (session_scope call policy_snapshot);
               binding_digest = json_digest ext (binding_material call descriptor auto_approval);
               execution = \<lparr>ter_call = call, ter_effect = td_effect descriptor,
                            ter_sandbox = td_sandbox descriptor, ter_binding_digest = binding_digest\<rparr>
           in if exempt descriptor auto_approval call
              then Inr (AutoApproved execution policy_snapshot policy_digest
                          ''shell command classified provably read-only'')
              else Inr (case td_approval descriptor of
                     Allow \<Rightarrow> Execute execution
                   | Ask \<Rightarrow> ApprovalRequired
                       \<lparr>tar_approval_id = now_v7, tar_execution = execution,
                        tar_policy_snapshot = Some policy_snapshot, tar_policy_digest = policy_digest,
                        tar_session_scope_digest = session_scope_digest\<rparr>
                   | Deny \<Rightarrow> Denied execution)))"

section \<open>Invariant\<close>

definition registry_inv :: "tool_registry \<Rightarrow> bool" where
  "registry_inv reg \<longleftrightarrow>
     bt_wf (tools reg) \<and>
     (\<forall>name tool. bt_get name (tools reg) = Some tool \<longrightarrow>
        td_name tool = name \<and> is_lower_hex_sha256 (td_implementation_digest tool))"

lemma registry_inv_empty: "registry_inv empty_registry"
  by (simp add: registry_inv_def empty_registry_def)

lemma register_cases:
  obtains "register tool reg = (Inl InvalidImplementationDigest, reg)" "\<not> is_lower_hex_sha256 (td_implementation_digest tool)"
    | "register tool reg = (Inl (DuplicateTool (td_name tool)), reg)" "bt_get (td_name tool) (tools reg) \<noteq> None"
        "is_lower_hex_sha256 (td_implementation_digest tool)"
    | "register tool reg = (Inr (), reg\<lparr>tools := bt_insert (td_name tool) tool (tools reg)\<rparr>)"
        "bt_get (td_name tool) (tools reg) = None" "is_lower_hex_sha256 (td_implementation_digest tool)"
  by (auto simp: register_def is_lower_hex_sha256_def bt_contains_key_def split: if_splits)

lemma register_inv: "registry_inv reg \<Longrightarrow> registry_inv (snd (register tool reg))"
  by (rule register_cases [of tool reg])
     (auto simp: registry_inv_def btree.get_insert btree.invar_insert split: if_splits)

fun register_all :: "tool_descriptor list \<Rightarrow> tool_registry \<Rightarrow> tool_registry" where
  "register_all [] reg = reg"
| "register_all (t # ts) reg = register_all ts (snd (register t reg))"

lemma register_all_inv: "registry_inv reg \<Longrightarrow> registry_inv (register_all ts reg)"
  by (induction ts arbitrary: reg) (simp_all add: register_inv)

text \<open>A registered Tool is never replaced: later registrations keep what a name resolves to.\<close>

lemma register_keeps:
  assumes "registry_inv reg" and "bt_get n (tools reg) = Some d"
  shows "bt_get n (tools (snd (register t reg))) = Some d"
  using assms
  by (cases rule: register_cases [of t reg]) (auto simp: registry_inv_def btree.get_insert)

lemma register_all_keeps:
  "registry_inv reg \<Longrightarrow> bt_get n (tools reg) = Some d \<Longrightarrow> bt_get n (tools (register_all ts reg)) = Some d"
  by (induction ts arbitrary: reg) (simp_all add: register_inv register_keeps)

definition admissible_as :: "string \<Rightarrow> tool_descriptor \<Rightarrow> bool" where
  "admissible_as n t \<longleftrightarrow> td_name t = n \<and> is_lower_hex_sha256 (td_implementation_digest t)"

lemma register_all_get:
  "registry_inv reg \<Longrightarrow> bt_get n (tools reg) = None \<Longrightarrow>
   bt_get n (tools (register_all ts reg)) = find (admissible_as n) ts"
proof (induction ts arbitrary: reg)
  case (Cons t ts)
  show ?case
  proof (cases "admissible_as n t")
    case True
    then have "bt_get n (tools (snd (register t reg))) = Some t"
      using Cons.prems
      by (cases rule: register_cases [of t reg]) (auto simp: admissible_as_def btree.get_insert registry_inv_def)
    then show ?thesis
      using True Cons.prems by (simp add: register_inv register_all_keeps)
  next
    case False
    then have "bt_get n (tools (snd (register t reg))) = None"
      using Cons.prems
      by (cases rule: register_cases [of t reg]) (auto simp: admissible_as_def btree.get_insert registry_inv_def)
    then show ?thesis
      using False Cons by (simp add: register_inv)
  qed
qed simp

section \<open>Authorisation\<close>

lemma scope_difference_empty: "scope_difference a b = [] \<longleftrightarrow> set a \<subseteq> set b"
  by (auto simp: scope_difference_def filter_empty_conv)

lemma set_scope_difference: "set (scope_difference a b) = set a - set b"
  by (auto simp: scope_difference_def)

lemma authorize_Ok_iff:
  "authorize reg name scopes = Inr d \<longleftrightarrow>
     bt_get name (tools reg) = Some d \<and> set (td_required_scopes d) \<subseteq> set scopes"
  by (auto simp: authorize_def Let_def scope_difference_empty split: option.splits)

lemma authorize_mono:
  "authorize reg name scopes = Inr d \<Longrightarrow> set scopes \<subseteq> set scopes' \<Longrightarrow> authorize reg name scopes' = Inr d"
  by (auto simp: authorize_Ok_iff)

section \<open>Digests\<close>

text \<open>The objects of a value are already in key order, so canonicalising one changes nothing.\<close>

lemma canonicalize_is_to_value: "canonicalize v = to_value v"
proof (induction v)
  case (JObject m)
  then have "map (map_prod id canonicalize) m = map (map_prod id to_value) m"
    by (auto simp: snds.simps)
  then show ?case by (simp only: canonicalize.simps to_value.simps)
qed auto

lemma digest_eq: "digest ext v = json_digest ext (to_value v)"
  by (simp add: digest_def canonicalize_is_to_value)

lemma ser_tool_call_inject: "ser_tool_call c = ser_tool_call c' \<longleftrightarrow> c = c'"
  by (auto simp: ser_tool_call_def)

lemma binding_material_inject:
  "binding_material c d a = binding_material c' d' a' \<longleftrightarrow>
     c = c' \<and> td_effect d = td_effect d' \<and> td_sandbox d = td_sandbox d' \<and>
     td_implementation_digest d = td_implementation_digest d' \<and>
     td_required_scopes d = td_required_scopes d' \<and> td_approval d = td_approval d' \<and> a = a'"
  by (auto simp: binding_material_def ser_tool_call_inject jarr_inject inj_def)

section \<open>Properties\<close>

text \<open>
  After any sequence of registrations on an empty registry, a name resolves to the first descriptor of
  the sequence that carries that name and a well-formed implementation digest, and to nothing if there is
  none: an invalid digest never enters, and no later registration replaces an earlier one.
\<close>

theorem register_first_wins:
  "bt_get n (tools (register_all ts empty_registry)) =
     find (\<lambda>t. td_name t = n \<and> is_lower_hex_sha256 (td_implementation_digest t)) ts"
  using register_all_get [OF registry_inv_empty, of n ts]
  by (simp add: empty_registry_def admissible_as_def [abs_def])

text \<open>
  \<open>authorize\<close> accepts exactly the registered Tools whose required scopes were all delegated; otherwise the
  error is \<open>UnknownTool\<close> for an unregistered name, and \<open>MissingScopes\<close> with exactly the undelegated scopes.
\<close>

theorem authorize_spec:
  "authorize reg name delegated =
     (case bt_get name (tools reg) of
        None \<Rightarrow> Inl (UnknownTool name)
      | Some d \<Rightarrow>
          if set (td_required_scopes d) \<subseteq> set delegated then Inr d
          else Inl (MissingScopes (filter (\<lambda>s. s \<notin> set delegated) (td_required_scopes d))))"
  by (auto simp: authorize_def Let_def scope_difference_empty[symmetric] scope_difference_def split: option.splits)

lemma exempt_command:
  "exempt d a call \<Longrightarrow> \<exists>c. jget ''command'' (tc_arguments call) = Some (JString c) \<and>
     classify_shell_command c = ProvablyReadOnly"
  by (auto simp: exempt_def bind_eq_Some_conv elim!: as_str.elims)

lemma plan_Ok_obtain:
  assumes "plan ext u reg call scopes policies = Inr p"
  obtains d where "authorize reg (tc_name call) scopes = Inr d"
  using assms by (auto simp: plan_def split: sum.splits)

fun plan_execution :: "tool_plan \<Rightarrow> tool_execution_request option" where
  "plan_execution (Execute e) = Some e"
| "plan_execution (AutoApproved e _ _ _) = Some e"
| "plan_execution (ApprovalRequired r) = Some (tar_execution r)"
| "plan_execution (Denied e) = Some e"
| "plan_execution (SubagentSpawn _) = None"

definition policy_for :: "(string, auto_approval) btree \<Rightarrow> tool_descriptor \<Rightarrow> auto_approval" where
  "policy_for policies d = (case bt_get (td_name d) policies of None \<Rightarrow> Never | Some a \<Rightarrow> a)"

lemma plan_authorized:
  assumes "authorize reg (tc_name call) scopes = Inr d"
  shows "plan ext u reg call scopes policies =
    (let a = policy_for policies d;
         e = \<lparr>ter_call = call, ter_effect = td_effect d, ter_sandbox = td_sandbox d,
              ter_binding_digest = json_digest ext (binding_material call d a)\<rparr>;
         p = snapshot_of d a
     in Inr (if exempt d a call
             then AutoApproved e p (digest ext (ser_policy_snapshot p))
                    ''shell command classified provably read-only''
             else case td_approval d of
                    Allow \<Rightarrow> Execute e
                  | Ask \<Rightarrow> ApprovalRequired \<lparr>tar_approval_id = u, tar_execution = e, tar_policy_snapshot = Some p,
                              tar_policy_digest = digest ext (ser_policy_snapshot p),
                              tar_session_scope_digest = digest ext (session_scope call p)\<rparr>
                  | Deny \<Rightarrow> Denied e))"
  using assms by (simp add: plan_def policy_for_def Let_def)

text \<open>
  C9. What a plan says about its Tool. The call is planned only for a registered Tool whose scopes were
  delegated, and the execution carries that call with the effect and sandbox of the descriptor. \<open>Execute\<close> means the
  Tool is allowed outright and \<open>Denied\<close> that it is denied; a Tool that must ask yields a request that records
  its policy, or \<open>AutoApproved\<close>, and this only outside the federated sandbox, under a policy of the Run that names
  the read-only exemption for this Tool, for a string argument \<open>command\<close> classified read-only.
\<close>

theorem plan_decision:
  assumes "plan ext u reg call scopes policies = Inr p"
  shows "\<exists>d e. bt_get (tc_name call) (tools reg) = Some d \<and> set (td_required_scopes d) \<subseteq> set scopes \<and>
     plan_execution p = Some e \<and> ter_call e = call \<and> ter_effect e = td_effect d \<and> ter_sandbox e = td_sandbox d \<and>
     (case p of
        Execute _ \<Rightarrow> td_approval d = Allow
      | Denied _ \<Rightarrow> td_approval d = Deny
      | ApprovalRequired r \<Rightarrow>
          td_approval d = Ask \<and> tar_policy_snapshot r = Some (snapshot_of d (policy_for policies d)) \<and>
          tar_policy_digest r = digest ext (ser_policy_snapshot (snapshot_of d (policy_for policies d)))
      | AutoApproved _ s dig _ \<Rightarrow>
          td_approval d = Ask \<and> td_sandbox d \<noteq> Federated \<and>
          bt_get (td_name d) policies = Some ProvablyReadOnlyShellCommand \<and>
          s = snapshot_of d ProvablyReadOnlyShellCommand \<and> dig = digest ext (ser_policy_snapshot s) \<and>
          (\<exists>c. jget ''command'' (tc_arguments call) = Some (JString c) \<and>
               classify_shell_command c = ProvablyReadOnly)
      | SubagentSpawn _ \<Rightarrow> False)"
proof -
  from assms obtain d where d: "authorize reg (tc_name call) scopes = Inr d" by (rule plan_Ok_obtain)
  let ?a = "policy_for policies d"
  show ?thesis
  proof (cases "exempt d ?a call")
    case True
    then have a: "?a = ProvablyReadOnlyShellCommand" and "td_approval d = Ask" "td_sandbox d \<noteq> Federated"
      by (simp_all add: exempt_def)
    moreover from a have "bt_get (td_name d) policies = Some ProvablyReadOnlyShellCommand"
      by (auto simp: policy_for_def split: option.splits)
    ultimately show ?thesis
      using assms d True exempt_command [OF True]
      by (auto simp: plan_authorized [OF d] Let_def authorize_Ok_iff)
  next
    case False
    then show ?thesis
      using assms d by (cases "td_approval d") (auto simp: plan_authorized [OF d] Let_def authorize_Ok_iff)
  qed
qed


section \<open>What the digests bind\<close>

lemma to_value_policy_snapshot_inject:
  "to_value (ser_policy_snapshot p) = to_value (ser_policy_snapshot q) \<longleftrightarrow> p = q"
proof -
  have obj: "to_value (ser_policy_snapshot x) = jobj
     [(''tool_name'', JString (ps_tool_name x)), (''effect'', ser_tool_effect (ps_effect x)),
      (''approval'', ser_approval_mode (ps_approval x)), (''sandbox'', ser_sandbox_class (ps_sandbox x)),
      (''implementation_digest'', JString (ps_implementation_digest x)),
      (''required_scopes'', jarr JString (ps_required_scopes x)),
      (''auto_approval'', ser_auto_approval (ps_auto_approval x))]" for x
    by (simp only: ser_policy_snapshot_def jobj_def)
  show ?thesis
    unfolding obj by (subst jobj_inject) (auto simp: jarr_inject inj_def)
qed

lemma session_scope_inject:
  "session_scope c p = session_scope c' q \<longleftrightarrow>
     tc_name c = tc_name c' \<and> to_value (tc_arguments c) = to_value (tc_arguments c') \<and> p = q"
  unfolding session_scope_def
  by (subst jobj_inject) (auto simp: to_value_policy_snapshot_inject)

fun same_decision :: "tool_plan \<Rightarrow> tool_plan \<Rightarrow> bool" where
  "same_decision (Execute _) (Execute _) = True"
| "same_decision (AutoApproved _ _ _ _) (AutoApproved _ _ _ _) = True"
| "same_decision (ApprovalRequired _) (ApprovalRequired _) = True"
| "same_decision (Denied _) (Denied _) = True"
| "same_decision _ _ = False"

lemma exempt_bound:
  "binding_material c d a = binding_material c' d' a' \<Longrightarrow> exempt d a c = exempt d' a' c'"
  by (auto simp: binding_material_inject exempt_def)

lemma plan_same_decision:
  assumes "authorize reg (tc_name c) scopes = Inr d" "authorize reg' (tc_name c') scopes' = Inr d'"
    and "binding_material c d (policy_for policies d) = binding_material c' d' (policy_for policies' d')"
    and "plan ext u reg c scopes policies = Inr p" "plan ext u' reg' c' scopes' policies' = Inr p'"
  shows "same_decision p p'"
proof -
  have "td_approval d = td_approval d'" using assms(3) by (simp add: binding_material_inject)
  with exempt_bound [OF assms(3)] show ?thesis
    using assms(4,5) unfolding plan_authorized [OF assms(1)] plan_authorized [OF assms(2)] Let_def
    by (cases "td_approval d'"; cases "exempt d' (policy_for policies' d') c'") auto
qed

lemma plan_binding_digest:
  assumes "authorize reg (tc_name c) scopes = Inr d" and "plan ext u reg c scopes policies = Inr p"
    and "plan_execution p = Some e"
  shows "ter_binding_digest e = json_digest ext (binding_material c d (policy_for policies d))"
  using assms(2,3) unfolding plan_authorized [OF assms(1)] Let_def
  by (cases "td_approval d"; cases "exempt d (policy_for policies d) c") auto

text \<open>
  The binding digest ties a decision to its policy. Take two planned calls, possibly in different registries,
  under different scopes and policies. If their executions carry the same binding digest, and the digest has no
  collision between the two bound tuples, then it is the same call with the same effect, sandbox,
  implementation, scopes, approval mode and exemption policy, and both plans took the same decision: an
  approved or exempted execution never binds to one that had to ask.
\<close>

theorem plan_binding_ties_decision:
  assumes "plan ext u reg c scopes policies = Inr p" "plan ext u' reg' c' scopes' policies' = Inr p'"
    and "authorize reg (tc_name c) scopes = Inr d" "authorize reg' (tc_name c') scopes' = Inr d'"
    and "plan_execution p = Some e" "plan_execution p' = Some e'"
    and "ter_binding_digest e = ter_binding_digest e'"
    and "collision_free ext (binding_material c d (policy_for policies d))
           (binding_material c' d' (policy_for policies' d'))"
  shows "c = c' \<and> td_effect d = td_effect d' \<and> td_sandbox d = td_sandbox d' \<and>
     td_implementation_digest d = td_implementation_digest d' \<and>
     td_required_scopes d = td_required_scopes d' \<and> td_approval d = td_approval d' \<and>
     policy_for policies d = policy_for policies' d' \<and> same_decision p p'"
proof -
  have "binding_material c d (policy_for policies d) = binding_material c' d' (policy_for policies' d')"
    using assms(5-8) plan_binding_digest [OF assms(3,1,5)] plan_binding_digest [OF assms(4,2,6)]
    by (simp add: collision_free_def)
  with plan_same_decision [OF assms(3,4) _ assms(1,2)] show ?thesis
    by (simp add: binding_material_inject)
qed

text \<open>
  Session approvals do not leak. Two approval requests with the same session scope digest, without a
  collision between the two scopes, are for the same Tool name, the same arguments and the same policy.
\<close>

theorem plan_session_scope:
  assumes "plan ext u reg c scopes policies = Inr (ApprovalRequired r)"
    and "plan ext u' reg' c' scopes' policies' = Inr (ApprovalRequired r')"
    and "tar_policy_snapshot r = Some s" "tar_policy_snapshot r' = Some s'"
    and "tar_session_scope_digest r = tar_session_scope_digest r'"
    and "collision_free ext (session_scope c s) (session_scope c' s')"
    and "json_wf (tc_arguments c)" "json_wf (tc_arguments c')"
  shows "tc_name c = tc_name c' \<and> tc_arguments c = tc_arguments c' \<and> s = s'"
proof -
  have scope: "tar_session_scope_digest q = json_digest ext (session_scope b t)"
    if "plan ext v rg b sc po = Inr (ApprovalRequired q)" "tar_policy_snapshot q = Some t" for v rg b sc po q t
  proof -
    from that(1) obtain d where d: "authorize rg (tc_name b) sc = Inr d" by (rule plan_Ok_obtain)
    have "to_value (session_scope b t) = session_scope b t" by (simp only: session_scope_def jobj_def to_value_idem)
    with that show ?thesis
      unfolding plan_authorized [OF d] Let_def
      by (auto simp: digest_eq split: if_splits approval_mode.splits)
  qed
  have "session_scope c s = session_scope c' s'"
    using assms(5,6) scope [OF assms(1,3)] scope [OF assms(2,4)] by (simp add: collision_free_def)
  with assms(7,8) show ?thesis by (simp add: session_scope_inject to_value_wf)
qed

section \<open>Witnesses\<close>

definition sample_tool :: tool_descriptor where
  "sample_tool = \<lparr>td_name = ''shell'', td_effect = Unknown, td_approval = Ask, td_sandbox = RestrictedContainer,
     td_implementation_digest = replicate 64 (CHR ''a''), td_required_scopes = [''shell'']\<rparr>"

definition sample_registry :: tool_registry where
  "sample_registry = register_all [sample_tool] empty_registry"

definition sample_call :: "string \<Rightarrow> tool_call" where
  "sample_call c = \<lparr>tc_id = ''1'', tc_name = ''shell'', tc_arguments = JObject [(''command'', JString c)]\<rparr>"

definition sample_policies :: "(string, auto_approval) btree" where
  "sample_policies = [(''shell'', ProvablyReadOnlyShellCommand)]"

lemma sample_tool_wf: "is_lower_hex_sha256 (td_implementation_digest sample_tool)"
  by code_simp

lemma sample_registry_get: "bt_get n (tools sample_registry) = (if n = ''shell'' then Some sample_tool else None)"
  using register_all_get [OF registry_inv_empty, of n "[sample_tool]"] sample_tool_wf
  by (auto simp: sample_registry_def empty_registry_def admissible_as_def sample_tool_def)

lemma sample_authorize: "authorize sample_registry (tc_name (sample_call c)) [''shell''] = Inr sample_tool"
  by (simp add: authorize_Ok_iff sample_registry_get sample_call_def) (simp add: sample_tool_def)

lemma sample_policy_for: "policy_for sample_policies sample_tool = ProvablyReadOnlyShellCommand"
  "policy_for [] sample_tool = Never"
  by (simp_all add: policy_for_def sample_policies_def sample_tool_def)

lemma sample_exempt:
  "exempt sample_tool ProvablyReadOnlyShellCommand (sample_call ''ls'')"
  "\<not> exempt sample_tool ProvablyReadOnlyShellCommand (sample_call ''rm'')"
  by code_simp+

lemma sample_plan_exempt:
  "\<exists>e s d r. plan ext u sample_registry (sample_call ''ls'') [''shell''] sample_policies = Inr (AutoApproved e s d r)"
  by (simp add: plan_authorized [OF sample_authorize] Let_def sample_policy_for sample_exempt)

lemma sample_plan_asks:
  "\<exists>r. plan ext u sample_registry (sample_call ''rm'') [''shell''] sample_policies = Inr (ApprovalRequired r) \<and>
       tar_policy_snapshot r = Some (snapshot_of sample_tool ProvablyReadOnlyShellCommand) \<and>
       tar_session_scope_digest r =
         digest ext (session_scope (sample_call ''rm'') (snapshot_of sample_tool ProvablyReadOnlyShellCommand))"
proof -
  have "td_approval sample_tool = Ask" by (simp add: sample_tool_def)
  then show ?thesis
    by (simp add: plan_authorized [OF sample_authorize] Let_def sample_policy_for sample_exempt)
qed

theorem plan_decision_witness:
  "\<exists>e s d r. plan sample_externals 1 sample_registry (sample_call ''ls'') [''shell''] sample_policies =
       Inr (AutoApproved e s d r) \<and>
     (\<exists>t. bt_get ''shell'' (tools sample_registry) = Some t \<and> td_sandbox t \<noteq> Federated \<and> ter_effect e = td_effect t)"
proof -
  obtain e s d r where p: "plan sample_externals 1 sample_registry (sample_call ''ls'') [''shell''] sample_policies =
      Inr (AutoApproved e s d r)"
    using sample_plan_exempt by blast
  have "tc_name (sample_call ''ls'') = ''shell''" by (simp add: sample_call_def)
  with plan_decision [OF p] p show ?thesis by auto
qed

theorem plan_binding_ties_decision_witness:
  "\<exists>p p'. plan sample_externals 1 sample_registry (sample_call ''ls'') [''shell''] sample_policies = Inr p \<and>
          plan sample_externals 2 sample_registry (sample_call ''ls'') [''shell'', ''web''] sample_policies = Inr p' \<and>
          same_decision p p'"
proof -
  let ?c = "sample_call ''ls''"
  have a: "authorize sample_registry (tc_name ?c) [''shell''] = Inr sample_tool" by (rule sample_authorize)
  have a': "authorize sample_registry (tc_name ?c) [''shell'', ''web''] = Inr sample_tool"
    using sample_authorize by (rule authorize_mono) simp
  obtain e s d r where p: "plan sample_externals 1 sample_registry ?c [''shell''] sample_policies =
      Inr (AutoApproved e s d r)"
    using sample_plan_exempt by blast
  have p': "plan sample_externals 2 sample_registry ?c [''shell'', ''web''] sample_policies =
      Inr (AutoApproved e s d r)"
    using p by (auto simp: plan_authorized [OF a] plan_authorized [OF a'] Let_def sample_policy_for sample_exempt)
  show ?thesis
    using plan_binding_ties_decision [OF p p' a a', of e e] p p' by (auto simp: collision_free_def)
qed

theorem plan_session_scope_witness:
  "\<exists>r r'. plan sample_externals 1 sample_registry (sample_call ''rm'') [''shell''] sample_policies =
            Inr (ApprovalRequired r) \<and>
          plan sample_externals 2 sample_registry (sample_call ''rm'') [''shell''] sample_policies =
            Inr (ApprovalRequired r') \<and>
          tar_policy_snapshot r = tar_policy_snapshot r'"
proof -
  obtain r where r: "plan sample_externals 1 sample_registry (sample_call ''rm'') [''shell''] sample_policies =
      Inr (ApprovalRequired r)" "tar_policy_snapshot r = Some (snapshot_of sample_tool ProvablyReadOnlyShellCommand)"
      "tar_session_scope_digest r = digest sample_externals
         (session_scope (sample_call ''rm'') (snapshot_of sample_tool ProvablyReadOnlyShellCommand))"
    using sample_plan_asks by blast
  obtain r' where r': "plan sample_externals 2 sample_registry (sample_call ''rm'') [''shell''] sample_policies =
      Inr (ApprovalRequired r')" "tar_policy_snapshot r' = Some (snapshot_of sample_tool ProvablyReadOnlyShellCommand)"
      "tar_session_scope_digest r' = digest sample_externals
         (session_scope (sample_call ''rm'') (snapshot_of sample_tool ProvablyReadOnlyShellCommand))"
    using sample_plan_asks by blast
  have "json_wf (tc_arguments (sample_call ''rm''))" by (simp add: sample_call_def bt_wf_def)
  with plan_session_scope [OF r(1) r'(1) r(2) r'(2)] r r' show ?thesis
    by (auto simp: collision_free_def)
qed

end
