(* ===== verification/Checkpoint_Snapshot.thy ===== *)
theory Checkpoint_Snapshot
  imports Protocol_Types
begin

text \<open>
  \<open>CheckpointSnapshot\<close> of \<open>runtime/crates/protocol/src/lib.rs\<close>: the digest over the tuple of its fields, its
  construction and its verification.
\<close>

record checkpoint_snapshot =
  cs_run_id :: uuid
  cs_tenant_id :: uuid
  cs_session_id :: uuid
  cs_attempt_id :: uuid
  cs_status :: run_status
  cs_sequence :: u64
  cs_state :: "u8 list"
  cs_digest :: string

definition checkpoint_material ::
  "externals \<Rightarrow> uuid \<Rightarrow> uuid \<Rightarrow> uuid \<Rightarrow> uuid \<Rightarrow> run_status \<Rightarrow> u64 \<Rightarrow> u8 list \<Rightarrow> json" where
  "checkpoint_material ext run_id tenant_id session_id attempt_id status sequence state =
     JArray [juuid ext run_id, juuid ext tenant_id, juuid ext session_id, juuid ext attempt_id,
             ser_run_status status, ju64 sequence, jarr ju8 state]"

definition calculate_digest ::
  "externals \<Rightarrow> uuid \<Rightarrow> uuid \<Rightarrow> uuid \<Rightarrow> uuid \<Rightarrow> run_status \<Rightarrow> u64 \<Rightarrow> u8 list \<Rightarrow> string" where
  "calculate_digest ext run_id tenant_id session_id attempt_id status sequence state =
     json_digest ext (checkpoint_material ext run_id tenant_id session_id attempt_id status sequence state)"

definition checkpoint_snapshot_new ::
  "externals \<Rightarrow> uuid \<Rightarrow> uuid \<Rightarrow> uuid \<Rightarrow> uuid \<Rightarrow> run_status \<Rightarrow> u64 \<Rightarrow> u8 list \<Rightarrow> checkpoint_snapshot" where
  "checkpoint_snapshot_new ext run_id tenant_id session_id attempt_id status sequence state =
     \<lparr>cs_run_id = run_id, cs_tenant_id = tenant_id, cs_session_id = session_id, cs_attempt_id = attempt_id,
      cs_status = status, cs_sequence = sequence, cs_state = state,
      cs_digest = calculate_digest ext run_id tenant_id session_id attempt_id status sequence state\<rparr>"

definition snapshot_material :: "externals \<Rightarrow> checkpoint_snapshot \<Rightarrow> json" where
  "snapshot_material ext c =
     checkpoint_material ext (cs_run_id c) (cs_tenant_id c) (cs_session_id c) (cs_attempt_id c)
       (cs_status c) (cs_sequence c) (cs_state c)"

definition verify_digest :: "externals \<Rightarrow> checkpoint_snapshot \<Rightarrow> bool" where
  "verify_digest ext c \<longleftrightarrow>
     cs_digest c = calculate_digest ext (cs_run_id c) (cs_tenant_id c) (cs_session_id c) (cs_attempt_id c)
                     (cs_status c) (cs_sequence c) (cs_state c)"

definition ser_checkpoint_snapshot :: "externals \<Rightarrow> checkpoint_snapshot \<Rightarrow> json" where
  "ser_checkpoint_snapshot ext c = JObject
     [(''run_id'', juuid ext (cs_run_id c)), (''tenant_id'', juuid ext (cs_tenant_id c)),
      (''session_id'', juuid ext (cs_session_id c)), (''attempt_id'', juuid ext (cs_attempt_id c)),
      (''status'', ser_run_status (cs_status c)), (''sequence'', ju64 (cs_sequence c)),
      (''state'', JString (ext_base64_encode ext (cs_state c))), (''digest'', JString (cs_digest c))]"

lemma verify_digest_new: "verify_digest ext (checkpoint_snapshot_new ext r t s a st sq bytes)"
  by (simp add: verify_digest_def checkpoint_snapshot_new_def)

lemma verify_digest_material:
  "verify_digest ext c \<longleftrightarrow> cs_digest c = json_digest ext (snapshot_material ext c)"
  by (simp add: verify_digest_def calculate_digest_def snapshot_material_def)

lemma ju8_inject: "ju8 a = ju8 b \<longleftrightarrow> a = b"
proof -
  have "a = b" if "(ucast a :: u64) = ucast b"
    using that by transfer (simp add: take_bit_take_bit)
  then show ?thesis by (auto simp: ju8_def ju64_def)
qed

lemma snapshot_material_inject:
  assumes "inj (ext_uuid_text ext)" and "snapshot_material ext c = snapshot_material ext c'"
    and "cs_digest c = cs_digest c'"
  shows "c = c'"
proof -
  have "inj ju8" by (auto simp: inj_def ju8_inject)
  with assms show ?thesis
    by (cases c; cases c')
       (auto simp: snapshot_material_def checkpoint_material_def juuid_inject ju64_def jarr_inject)
qed

end
