(* ===== verification/Run_Machine.thy ===== *)
theory Run_Machine
  imports Tool_Registry Checkpoint_Snapshot
begin

text \<open>
  \<open>RunMachine\<close> of \<open>runtime/crates/kernel/src/lib.rs\<close>, the state machine behind every Run. An operation takes
  the machine and returns its \<open>Result\<close> together with the machine afterwards, so that a failing operation's effect
  on the machine is visible. The parameter \<open>ext\<close> stands for the third-party functions and \<open>amb\<close> for the clock and
  the identifier generator. The sequence number is a 64-bit word and \<open>+ 1\<close> wraps, as in a release build.
\<close>

section \<open>State\<close>

datatype run_command =
    Start | RequireApproval | Approve | Complete | Cancel | RequestInput | ResumeInput
  | ToolOutcomeUnknown tool_effect

datatype transition_error =
    TerminalState run_status
  | InvalidTransition run_status run_command
  | ModelEventOutsideRunning run_status

record run_machine =
  rm_run_id :: uuid
  rm_tenant_id :: uuid
  rm_session_id :: uuid
  rm_attempt_id :: uuid
  rm_status :: run_status
  rm_sequence :: u64

type_synonym outcome = "(transition_error, event_envelope) result \<times> run_machine"

definition run_machine_new :: "uuid \<Rightarrow> uuid \<Rightarrow> uuid \<Rightarrow> uuid \<Rightarrow> run_machine" where
  "run_machine_new run_id tenant_id session_id attempt_id =
     \<lparr>rm_run_id = run_id, rm_tenant_id = tenant_id, rm_session_id = session_id, rm_attempt_id = attempt_id,
      rm_status = Queued, rm_sequence = 0\<rparr>"

definition checkpoint :: "externals \<Rightarrow> run_machine \<Rightarrow> u8 list \<Rightarrow> checkpoint_snapshot" where
  "checkpoint ext m state =
     checkpoint_snapshot_new ext (rm_run_id m) (rm_tenant_id m) (rm_session_id m) (rm_attempt_id m)
       (rm_status m) (rm_sequence m) state"

datatype invalid_checkpoint = InvalidCheckpoint

definition from_checkpoint :: "externals \<Rightarrow> checkpoint_snapshot \<Rightarrow> (invalid_checkpoint, run_machine) result" where
  "from_checkpoint ext c =
     (if \<not> verify_digest ext c then Inl InvalidCheckpoint
      else Inr \<lparr>rm_run_id = cs_run_id c, rm_tenant_id = cs_tenant_id c, rm_session_id = cs_session_id c,
                rm_attempt_id = cs_attempt_id c, rm_status = cs_status c, rm_sequence = cs_sequence c\<rparr>)"

definition from_checkpoint_for_attempt ::
  "externals \<Rightarrow> checkpoint_snapshot \<Rightarrow> uuid \<Rightarrow> (invalid_checkpoint, run_machine) result" where
  "from_checkpoint_for_attempt ext c attempt_id =
     (if is_nil attempt_id \<or> \<not> verify_digest ext c then Inl InvalidCheckpoint
      else Inr \<lparr>rm_run_id = cs_run_id c, rm_tenant_id = cs_tenant_id c, rm_session_id = cs_session_id c,
                rm_attempt_id = attempt_id, rm_status = cs_status c, rm_sequence = cs_sequence c\<rparr>)"

section \<open>Emitting\<close>

definition emit ::
  "externals \<Rightarrow> ambient \<Rightarrow> run_status \<Rightarrow> string \<Rightarrow> json \<Rightarrow> run_machine \<Rightarrow> event_envelope \<times> run_machine" where
  "emit ext amb next_status event_type payload m =
     (let m' = m\<lparr>rm_status := next_status, rm_sequence := rm_sequence m + 1\<rparr>
      in (event_envelope_new ext amb (rm_tenant_id m') (rm_session_id m') (rm_run_id m') (rm_sequence m')
            (rm_attempt_id m') event_type payload, m'))"

definition ok_emit :: "externals \<Rightarrow> ambient \<Rightarrow> run_status \<Rightarrow> string \<Rightarrow> json \<Rightarrow> run_machine \<Rightarrow> outcome" where
  "ok_emit ext amb next_status event_type payload m =
     map_prod Inr id (emit ext amb next_status event_type payload m)"

definition fail :: "transition_error \<Rightarrow> run_machine \<Rightarrow> outcome" where
  "fail e m = (Inl e, m)"

section \<open>Lifecycle operations\<close>

definition record_restored :: "externals \<Rightarrow> ambient \<Rightarrow> string \<Rightarrow> run_machine \<Rightarrow> outcome" where
  "record_restored ext amb checkpoint_digest m =
     (if is_terminal (rm_status m) then fail (TerminalState (rm_status m)) m
      else ok_emit ext amb (rm_status m) ''run.restored''
             (jobj [(''status'', ser_run_status (rm_status m)), (''checkpoint_digest'', JString checkpoint_digest)]) m)"

definition record_steering_applied :: "externals \<Rightarrow> ambient \<Rightarrow> uuid \<Rightarrow> string \<Rightarrow> run_machine \<Rightarrow> outcome" where
  "record_steering_applied ext amb steering_id input_digest m =
     (if is_terminal (rm_status m) then fail (TerminalState (rm_status m)) m
      else if rm_status m \<noteq> Running then fail (InvalidTransition (rm_status m) Start) m
      else ok_emit ext amb Running ''run.steer.applied''
             (jobj [(''status'', ser_run_status Running), (''steering_id'', juuid ext steering_id),
                    (''input_digest'', JString input_digest)]) m)"

definition record_context_compacted ::
  "externals \<Rightarrow> ambient \<Rightarrow> string \<Rightarrow> string \<Rightarrow> string \<Rightarrow> string \<Rightarrow> u32 \<Rightarrow> u32 \<Rightarrow> run_machine \<Rightarrow> outcome" where
  "record_context_compacted ext amb binding_digest source_transcript_digest summary_digest
      retained_tail_digest source_message_count retained_message_count m =
     (if is_terminal (rm_status m) then fail (TerminalState (rm_status m)) m
      else if rm_status m \<noteq> Running then fail (InvalidTransition (rm_status m) Start) m
      else ok_emit ext amb Running ''context.compacted''
             (jobj [(''status'', ser_run_status Running), (''binding_digest'', JString binding_digest),
                    (''source_transcript_digest'', JString source_transcript_digest),
                    (''summary_digest'', JString summary_digest),
                    (''retained_tail_digest'', JString retained_tail_digest),
                    (''source_message_count'', ju32 source_message_count),
                    (''retained_message_count'', ju32 retained_message_count)]) m)"

fun unknown_tool_effect :: "run_command \<Rightarrow> tool_effect option" where
  "unknown_tool_effect (ToolOutcomeUnknown e) = Some e"
| "unknown_tool_effect _ = None"

fun next_transition :: "run_status \<Rightarrow> run_command \<Rightarrow> (run_status \<times> string) option" where
  "next_transition status Start =
     (case status of Queued \<Rightarrow> Some (Running, ''run.started'') | _ \<Rightarrow> None)"
| "next_transition status RequireApproval =
     (case status of Running \<Rightarrow> Some (WaitingApproval, ''approval.required'') | _ \<Rightarrow> None)"
| "next_transition status Approve =
     (case status of WaitingApproval \<Rightarrow> Some (Running, ''run.resumed'') | _ \<Rightarrow> None)"
| "next_transition status Complete =
     (case status of Running \<Rightarrow> Some (Succeeded, ''run.succeeded'') | _ \<Rightarrow> None)"
| "next_transition status (ToolOutcomeUnknown effect) =
     (case status of
        Running \<Rightarrow>
          (case effect of
             NonIdempotent \<Rightarrow> Some (Indeterminate, ''run.indeterminate'')
           | Unknown \<Rightarrow> Some (Indeterminate, ''run.indeterminate'')
           | Pure \<Rightarrow> Some (Running, ''tool.retry_requested'')
           | Idempotent \<Rightarrow> Some (Running, ''tool.retry_requested''))
      | _ \<Rightarrow> None)"
| "next_transition status Cancel =
     (case status of
        Queued \<Rightarrow> Some (Cancelled, ''run.cancelled'')
      | Running \<Rightarrow> Some (Cancelled, ''run.cancelled'')
      | WaitingApproval \<Rightarrow> Some (Cancelled, ''run.cancelled'')
      | Suspended \<Rightarrow> Some (Cancelled, ''run.cancelled'')
      | _ \<Rightarrow> None)"
| "next_transition status RequestInput = None"
| "next_transition status ResumeInput = None"

definition apply_command :: "externals \<Rightarrow> ambient \<Rightarrow> run_command \<Rightarrow> run_machine \<Rightarrow> outcome" where
  "apply_command ext amb command m =
     (if is_terminal (rm_status m) then fail (TerminalState (rm_status m)) m
      else case next_transition (rm_status m) command of
             None \<Rightarrow> fail (InvalidTransition (rm_status m) command) m
           | Some (next_status, event_type) \<Rightarrow>
               (let payload = jobj [(''status'', ser_run_status next_status)];
                    payload =
                      (if event_type = ''run.indeterminate''
                       then jset ''replay_safe'' (JBool False)
                              (jset ''effect'' (jopt ser_tool_effect (unknown_tool_effect command)) payload)
                       else payload)
                in ok_emit ext amb next_status event_type payload m))"

section \<open>Model events\<close>

definition delta_payload :: "string \<Rightarrow> u32 option \<Rightarrow> json" where
  "delta_payload text block =
     (case block of
        Some b \<Rightarrow> jobj [(''text'', JString text), (''block'', ju32 b)]
      | None \<Rightarrow> jobj [(''text'', JString text)])"

fun model_event_effect :: "model_stream_event \<Rightarrow> run_status \<times> string \<times> json" where
  "model_event_effect (TextDelta text block) = (Running, ''model.output.delta'', delta_payload text block)"
| "model_event_effect (ReasoningDelta text block) = (Running, ''model.reasoning.delta'', delta_payload text block)"
| "model_event_effect (ModelToolCall cid name arguments) =
     (Running, ''model.tool_call'',
      jobj [(''id'', JString cid), (''name'', JString name), (''arguments'', arguments)])"
| "model_event_effect (Reasoning summary private_state) =
     (Running, ''model.reasoning'',
      jobj [(''summary'', jarr JString summary), (''has_private_state'', JBool (private_state \<noteq> None))])"
| "model_event_effect (Refusal text) = (Running, ''model.refusal'', jobj [(''text'', JString text)])"
| "model_event_effect (PrivateStateOmitted origin_provider_id target_provider_id format) =
     (Running, ''model.private_state.omitted'',
      jobj [(''origin_provider_id'', JString origin_provider_id),
            (''target_provider_id'', JString target_provider_id), (''format'', JString format)])"
| "model_event_effect (Usage input_tokens output_tokens cost_micros) =
     (Running, ''model.usage'',
      jobj [(''input_tokens'', ju64 input_tokens), (''output_tokens'', ju64 output_tokens),
            (''cost_micros'', ju64 cost_micros)])"
| "model_event_effect (Completed Stop) =
     (Succeeded, ''run.succeeded'',
      jobj [(''status'', ser_run_status Succeeded), (''reason'', ser_model_finish_reason Stop)])"
| "model_event_effect (Completed ToolCalls) =
     (Running, ''model.turn.completed'', jobj [(''reason'', ser_model_finish_reason ToolCalls)])"
| "model_event_effect (Completed Length) =
     (Succeeded, ''run.succeeded'',
      jobj [(''status'', ser_run_status Succeeded), (''reason'', ser_model_finish_reason Length)])"
| "model_event_effect (Completed ReasonContentFilter) =
     (Failed, ''run.failed'',
      jobj [(''status'', ser_run_status Failed), (''kind'', ser_model_error_kind KindContentFilter),
            (''retryable'', JBool False), (''reason'', ser_model_finish_reason ReasonContentFilter)])"
| "model_event_effect (ModelFailed kind retryable message) =
     (let (status, event_type) =
            (if kind = Timeout then (TimedOut, ''run.timed_out'') else (Failed, ''run.failed''))
      in (status, event_type,
          jobj [(''status'', ser_run_status status), (''kind'', ser_model_error_kind kind),
                (''retryable'', JBool retryable), (''message'', JString message)]))"

definition apply_model_event :: "externals \<Rightarrow> ambient \<Rightarrow> model_stream_event \<Rightarrow> run_machine \<Rightarrow> outcome" where
  "apply_model_event ext amb event m =
     (if is_terminal (rm_status m) then fail (TerminalState (rm_status m)) m
      else if rm_status m \<noteq> Running then fail (ModelEventOutsideRunning (rm_status m)) m
      else (case model_event_effect event of
              (next_status, event_type, payload) \<Rightarrow> ok_emit ext amb next_status event_type payload m))"

definition record_model_provider_failure ::
  "externals \<Rightarrow> ambient \<Rightarrow> string \<Rightarrow> model_error_kind \<Rightarrow> bool \<Rightarrow> u16 option \<Rightarrow> run_machine \<Rightarrow> outcome" where
  "record_model_provider_failure ext amb provider_id kind retryable status m =
     (if rm_status m \<noteq> Running then fail (ModelEventOutsideRunning (rm_status m)) m
      else ok_emit ext amb Running ''model.provider.failed''
             (jobj [(''provider_id'', JString provider_id), (''kind'', ser_model_error_kind kind),
                    (''retryable'', JBool retryable), (''status'', jopt ju16 status)]) m)"

definition record_model_provider_retry_scheduled ::
  "externals \<Rightarrow> ambient \<Rightarrow> string \<Rightarrow> u8 \<Rightarrow> u64 \<Rightarrow> model_error_kind \<Rightarrow> u16 option \<Rightarrow> run_machine \<Rightarrow> outcome" where
  "record_model_provider_retry_scheduled ext amb provider_id provider_attempt delay_ms kind status m =
     (if rm_status m \<noteq> Running then fail (ModelEventOutsideRunning (rm_status m)) m
      else ok_emit ext amb Running ''model.provider.retry_scheduled''
             (jobj [(''provider_id'', JString provider_id), (''provider_attempt'', ju8 provider_attempt),
                    (''delay_ms'', ju64 delay_ms), (''kind'', ser_model_error_kind kind),
                    (''status'', jopt ju16 status)]) m)"

definition record_model_provider_selection ::
  "externals \<Rightarrow> ambient \<Rightarrow> string \<Rightarrow> string list \<Rightarrow> run_machine \<Rightarrow> outcome" where
  "record_model_provider_selection ext amb provider_id failed_provider_ids m =
     (if rm_status m \<noteq> Running then fail (ModelEventOutsideRunning (rm_status m)) m
      else ok_emit ext amb Running ''model.provider.selected''
             (jobj [(''provider_id'', JString provider_id),
                    (''failed_provider_ids'', jarr JString failed_provider_ids)]) m)"

definition record_budget_exhausted :: "externals \<Rightarrow> ambient \<Rightarrow> budget_dimension \<Rightarrow> run_machine \<Rightarrow> outcome" where
  "record_budget_exhausted ext amb dimension m =
     (if is_terminal (rm_status m) then fail (TerminalState (rm_status m)) m
      else if rm_status m \<noteq> Running then fail (ModelEventOutsideRunning (rm_status m)) m
      else ok_emit ext amb Failed ''run.failed''
             (jobj [(''status'', ser_run_status Failed), (''kind'', JString ''budget_exhausted''),
                    (''dimension'', ser_budget_dimension dimension), (''retryable'', JBool False)]) m)"

definition record_required_mcp_unavailable ::
  "externals \<Rightarrow> ambient \<Rightarrow> string list \<Rightarrow> run_machine \<Rightarrow> outcome" where
  "record_required_mcp_unavailable ext amb server_names m =
     (if is_terminal (rm_status m) then fail (TerminalState (rm_status m)) m
      else if \<not> (rm_status m = Queued \<or> rm_status m = Running) then fail (InvalidTransition (rm_status m) Start) m
      else ok_emit ext amb Failed ''run.failed''
             (jobj [(''status'', ser_run_status Failed), (''kind'', JString ''required_mcp_unavailable''),
                    (''servers'', jarr JString server_names), (''retryable'', JBool False)]) m)"

definition record_duration_timed_out :: "externals \<Rightarrow> ambient \<Rightarrow> run_machine \<Rightarrow> outcome" where
  "record_duration_timed_out ext amb m =
     (if is_terminal (rm_status m) then fail (TerminalState (rm_status m)) m
      else ok_emit ext amb TimedOut ''run.timed_out''
             (jobj [(''status'', ser_run_status TimedOut), (''kind'', JString ''duration_budget_exhausted''),
                    (''retryable'', JBool False)]) m)"

section \<open>Subagents\<close>

record subagent_input_acceptance =
  sia_agent_id :: uuid
  sia_message_sequence :: u64
  sia_idempotency_key :: string
  sia_submission_id :: string
  sia_status :: string
  sia_interrupt :: bool
  sia_request :: subagent_spawn_request

definition record_subagent_spawn_requested ::
  "externals \<Rightarrow> ambient \<Rightarrow> subagent_spawn_request \<Rightarrow> run_machine \<Rightarrow> outcome" where
  "record_subagent_spawn_requested ext amb request m =
     (if is_terminal (rm_status m) then fail (TerminalState (rm_status m)) m
      else if \<not> (rm_status m = Running \<or> rm_status m = Suspended)
      then fail (InvalidTransition (rm_status m) RequireApproval) m
      else (let status = (case ssr_mode request of Inline \<Rightarrow> Suspended | Async \<Rightarrow> Running)
            in ok_emit ext amb status ''subagent.spawn.requested''
                 (jobj [(''status'', ser_run_status status), (''request'', ser_spawn_request ext request)]) m))"

definition record_subagent_spawned ::
  "externals \<Rightarrow> ambient \<Rightarrow> subagent_spawn_request \<Rightarrow> run_machine \<Rightarrow> outcome" where
  "record_subagent_spawned ext amb request m =
     (if is_terminal (rm_status m) then fail (TerminalState (rm_status m)) m
      else if rm_status m \<noteq> Running \<or> ssr_mode request \<noteq> Async
      then fail (InvalidTransition (rm_status m) Complete) m
      else ok_emit ext amb Running ''subagent.spawned''
             (jobj [(''agent_id'', juuid ext (ssr_delegation_id request)), (''role'', JString (ssr_role request)),
                    (''status'', JString ''running'')]) m)"

definition record_subagent_forked ::
  "externals \<Rightarrow> ambient \<Rightarrow> subagent_fork_receipt \<Rightarrow> run_machine \<Rightarrow> outcome" where
  "record_subagent_forked ext amb receipt m =
     (if is_terminal (rm_status m) then fail (TerminalState (rm_status m)) m
      else if rm_status m \<noteq> Running \<or> \<not> fork_receipt_is_well_formed receipt
      then fail (InvalidTransition (rm_status m) Complete) m
      else ok_emit ext amb Running ''subagent.forked''
             (jobj [(''source_agent_id'', juuid ext (sfr_source_agent_id receipt)),
                    (''source_generation'', ju64 (sfr_source_generation receipt)),
                    (''through_activation_ordinal'', ju64 (sfr_through_activation_ordinal receipt)),
                    (''source_history_digest'', JString (sfr_source_history_digest receipt)),
                    (''agent_id'', juuid ext (sfr_agent_id receipt)),
                    (''generation'', ju64 (sfr_generation receipt)),
                    (''role'', JString (sfr_role receipt)),
                    (''budget'', ser_run_budget (sfr_budget receipt))]) m)"

definition record_subagent_rolled_back ::
  "externals \<Rightarrow> ambient \<Rightarrow> subagent_rollback_receipt \<Rightarrow> run_machine \<Rightarrow> outcome" where
  "record_subagent_rolled_back ext amb receipt m =
     (if is_terminal (rm_status m) then fail (TerminalState (rm_status m)) m
      else if rm_status m \<noteq> Running \<or> \<not> rollback_receipt_is_well_formed receipt
      then fail (InvalidTransition (rm_status m) Complete) m
      else ok_emit ext amb Running ''subagent.rolled_back''
             (jobj [(''agent_id'', juuid ext (srr_agent_id receipt)),
                    (''from_generation'', ju64 (srr_from_generation receipt)),
                    (''generation'', ju64 (srr_generation receipt)),
                    (''through_activation_ordinal'', ju64 (srr_through_activation_ordinal receipt)),
                    (''previous_history_digest'', JString (srr_previous_history_digest receipt)),
                    (''restored_history_digest'', JString (srr_restored_history_digest receipt))]) m)"

definition record_subagent_terminal_observed ::
  "externals \<Rightarrow> ambient \<Rightarrow> subagent_result_delivery \<Rightarrow> run_machine \<Rightarrow> outcome" where
  "record_subagent_terminal_observed ext amb r m =
     (if is_terminal (rm_status m) then fail (TerminalState (rm_status m)) m
      else if rm_status m \<noteq> Running then fail (InvalidTransition (rm_status m) Complete) m
      else ok_emit ext amb Running ''subagent.terminal.observed''
             (jobj [(''agent_id'', juuid ext (srd_delegation_id r)),
                    (''child_run_id'', juuid ext (srd_child_run_id r)),
                    (''child_terminal_event_id'', juuid ext (srd_child_terminal_event_id r)),
                    (''terminal_status'', ser_run_status (srd_terminal_status r)),
                    (''is_error'', JBool (srd_is_error r)),
                    (''usage'', ser_usage (srd_usage r)),
                    (''result_digest'', JString (srd_digest r))]) m)"

definition record_subagent_input_accepted ::
  "externals \<Rightarrow> ambient \<Rightarrow> subagent_input_acceptance \<Rightarrow> run_machine \<Rightarrow> outcome" where
  "record_subagent_input_accepted ext amb acceptance m =
     (if is_terminal (rm_status m) then fail (TerminalState (rm_status m)) m
      else if rm_status m \<noteq> Running \<or> ssr_mode (sia_request acceptance) \<noteq> Async
      then fail (InvalidTransition (rm_status m) Complete) m
      else ok_emit ext amb Running ''subagent.input.accepted''
             (jobj [(''agent_id'', juuid ext (sia_agent_id acceptance)),
                    (''message_sequence'', ju64 (sia_message_sequence acceptance)),
                    (''idempotency_key'', JString (sia_idempotency_key acceptance)),
                    (''submission_id'', JString (sia_submission_id acceptance)),
                    (''child_run_id'', juuid ext (ssr_delegation_id (sia_request acceptance))),
                    (''status'', JString (sia_status acceptance)),
                    (''interrupt'', JBool (sia_interrupt acceptance))]) m)"

definition record_subagent_input_activated ::
  "externals \<Rightarrow> ambient \<Rightarrow> uuid \<Rightarrow> u64 \<Rightarrow> subagent_spawn_request \<Rightarrow> run_machine \<Rightarrow> outcome" where
  "record_subagent_input_activated ext amb agent_id message_sequence request m =
     (if is_terminal (rm_status m) then fail (TerminalState (rm_status m)) m
      else if rm_status m \<noteq> Running \<or> ssr_mode request \<noteq> Async
      then fail (InvalidTransition (rm_status m) Complete) m
      else ok_emit ext amb Running ''subagent.input.activated''
             (jobj [(''agent_id'', juuid ext agent_id), (''message_sequence'', ju64 message_sequence),
                    (''child_run_id'', juuid ext (ssr_delegation_id request)),
                    (''status'', JString ''running'')]) m)"

definition record_subagent_closed :: "externals \<Rightarrow> ambient \<Rightarrow> uuid \<Rightarrow> run_machine \<Rightarrow> outcome" where
  "record_subagent_closed ext amb agent_id m =
     (if is_terminal (rm_status m) then fail (TerminalState (rm_status m)) m
      else if rm_status m \<noteq> Running then fail (InvalidTransition (rm_status m) Complete) m
      else ok_emit ext amb Running ''subagent.closed''
             (jobj [(''agent_id'', juuid ext agent_id), (''status'', JString ''closed'')]) m)"

definition record_subagent_result_received_with_remaining ::
  "externals \<Rightarrow> ambient \<Rightarrow> subagent_result_delivery \<Rightarrow> u64 \<Rightarrow> run_machine \<Rightarrow> outcome" where
  "record_subagent_result_received_with_remaining ext amb r remaining_subagents m =
     (if is_terminal (rm_status m) then fail (TerminalState (rm_status m)) m
      else if rm_status m \<noteq> Suspended then fail (InvalidTransition (rm_status m) Approve) m
      else (let next_status = (if remaining_subagents = 0 then Running else Suspended)
            in ok_emit ext amb next_status ''subagent.result.received''
                 (jobj [(''status'', ser_run_status next_status),
                        (''remaining_subagents'', ju64 remaining_subagents),
                        (''tool_call_id'', JString (srd_tool_call_id r)),
                        (''delegation_id'', juuid ext (srd_delegation_id r)),
                        (''binding_digest'', JString (srd_binding_digest r)),
                        (''child_run_id'', juuid ext (srd_child_run_id r)),
                        (''child_terminal_event_id'', juuid ext (srd_child_terminal_event_id r)),
                        (''terminal_status'', ser_run_status (srd_terminal_status r)),
                        (''is_error'', JBool (srd_is_error r)),
                        (''usage'', ser_usage (srd_usage r)),
                        (''result_digest'', JString (srd_digest r))]) m))"

definition record_subagent_result_received ::
  "externals \<Rightarrow> ambient \<Rightarrow> subagent_result_delivery \<Rightarrow> run_machine \<Rightarrow> outcome" where
  "record_subagent_result_received ext amb r m = record_subagent_result_received_with_remaining ext amb r 0 m"

section \<open>Tools and MCP input\<close>

definition apply_tool_plan :: "externals \<Rightarrow> ambient \<Rightarrow> tool_plan \<Rightarrow> run_machine \<Rightarrow> outcome" where
  "apply_tool_plan ext amb p m =
     (if is_terminal (rm_status m) then fail (TerminalState (rm_status m)) m
      else if rm_status m \<noteq> Running then fail (InvalidTransition (rm_status m) RequireApproval) m
      else case p of
             Execute execution \<Rightarrow>
               ok_emit ext amb Running ''tool.execution.requested''
                 (jobj [(''execution'', ser_tool_execution_request execution)]) m
           | AutoApproved execution policy_snapshot policy_digest reason \<Rightarrow>
               ok_emit ext amb Running ''tool.execution.auto_approved''
                 (jobj [(''execution'', ser_tool_execution_request execution),
                        (''policy_snapshot'', ser_policy_snapshot policy_snapshot),
                        (''policy_digest'', JString policy_digest), (''reason'', JString reason)]) m
           | ApprovalRequired approval \<Rightarrow>
               ok_emit ext amb WaitingApproval ''approval.required''
                 (jobj [(''approval'', ser_tool_approval_request ext approval),
                        (''status'', ser_run_status WaitingApproval)]) m
           | Denied execution \<Rightarrow>
               ok_emit ext amb Running ''tool.denied''
                 (jobj [(''execution'', ser_tool_execution_request execution),
                        (''reason'', JString ''policy_denied'')]) m
           | SubagentSpawn request \<Rightarrow> record_subagent_spawn_requested ext amb request m)"

definition record_tool_result ::
  "externals \<Rightarrow> ambient \<Rightarrow> string \<Rightarrow> string \<Rightarrow> json \<Rightarrow> bool \<Rightarrow> run_machine \<Rightarrow> outcome" where
  "record_tool_result ext amb tool_call_id binding_digest content is_error m =
     (if is_terminal (rm_status m) then fail (TerminalState (rm_status m)) m
      else if rm_status m \<noteq> Running then fail (InvalidTransition (rm_status m) Complete) m
      else ok_emit ext amb Running ''tool.result''
             (jobj [(''tool_call_id'', JString tool_call_id), (''binding_digest'', JString binding_digest),
                    (''content'', content), (''is_error'', JBool is_error)]) m)"

definition record_tool_execution_started ::
  "externals \<Rightarrow> ambient \<Rightarrow> tool_execution_request \<Rightarrow> run_machine \<Rightarrow> outcome" where
  "record_tool_execution_started ext amb execution m =
     (if is_terminal (rm_status m) then fail (TerminalState (rm_status m)) m
      else if rm_status m \<noteq> Running then fail (InvalidTransition (rm_status m) Complete) m
      else ok_emit ext amb Running ''tool.execution.started''
             (jobj [(''execution'', ser_tool_execution_request execution)]) m)"

definition record_tool_execution_progress ::
  "externals \<Rightarrow> ambient \<Rightarrow> string \<Rightarrow> string \<Rightarrow> f64 \<Rightarrow> f64 option \<Rightarrow> string option \<Rightarrow> run_machine \<Rightarrow> outcome" where
  "record_tool_execution_progress ext amb tool_call_id binding_digest progress total_units message m =
     (if is_terminal (rm_status m) then fail (TerminalState (rm_status m)) m
      else if rm_status m \<noteq> Running then fail (InvalidTransition (rm_status m) Complete) m
      else ok_emit ext amb Running ''tool.execution.progress''
             (jobj [(''tool_call_id'', JString tool_call_id), (''binding_digest'', JString binding_digest),
                    (''progress'', jf64 progress), (''total'', jopt jf64 total_units),
                    (''message'', jopt JString message)]) m)"

definition record_mcp_input_required ::
  "externals \<Rightarrow> ambient \<Rightarrow> mcp_input_required \<Rightarrow> run_machine \<Rightarrow> outcome" where
  "record_mcp_input_required ext amb pending m =
     (if is_terminal (rm_status m) then fail (TerminalState (rm_status m)) m
      else if rm_status m \<noteq> Running then fail (InvalidTransition (rm_status m) RequestInput) m
      else ok_emit ext amb Suspended ''mcp.input.required''
             (jobj [(''input'', ser_input_required ext pending), (''input_version'', ju32 MCP_INPUT_VERSION),
                    (''status'', ser_run_status Suspended)]) m)"

definition record_mcp_input_resolved ::
  "externals \<Rightarrow> ambient \<Rightarrow> mcp_input_required \<Rightarrow> mcp_input_continuation \<Rightarrow> run_machine \<Rightarrow> outcome" where
  "record_mcp_input_resolved ext amb pending continuation m =
     (if is_terminal (rm_status m) then fail (TerminalState (rm_status m)) m
      else if rm_status m \<noteq> Suspended then fail (InvalidTransition (rm_status m) ResumeInput) m
      else ok_emit ext amb Running ''mcp.input.resolved''
             (jobj [(''input_id'', juuid ext (mreq_input_id pending)),
                    (''tool_call_id'', JString (mreq_tool_call_id pending)),
                    (''binding_digest'', JString (mreq_binding_digest pending)),
                    (''round'', ju8 (mic_round continuation)),
                    (''actions'',
                     jmap ser_mcp_input_action
                       (bt_from_list (map (\<lambda>(key, response). (key, mir_action response)) (mic_responses continuation)))),
                    (''status'', ser_run_status Running)]) m)"

definition record_mcp_continuation_started ::
  "externals \<Rightarrow> ambient \<Rightarrow> mcp_input_required \<Rightarrow> mcp_input_continuation \<Rightarrow> run_machine \<Rightarrow> outcome" where
  "record_mcp_continuation_started ext amb pending continuation m =
     (if is_terminal (rm_status m) then fail (TerminalState (rm_status m)) m
      else if rm_status m \<noteq> Running then fail (InvalidTransition (rm_status m) ResumeInput) m
      else ok_emit ext amb Running ''mcp.input.continuation.started''
             (jobj [(''input_id'', juuid ext (mreq_input_id pending)),
                    (''tool_call_id'', JString (mreq_tool_call_id pending)),
                    (''binding_digest'', JString (mreq_binding_digest pending)),
                    (''round'', ju8 (mic_round continuation))]) m)"

definition record_mcp_discovery_completed ::
  "externals \<Rightarrow> ambient \<Rightarrow> mcp_server_discovery_status list \<Rightarrow> run_machine \<Rightarrow> outcome" where
  "record_mcp_discovery_completed ext amb servers m =
     (if is_terminal (rm_status m) then fail (TerminalState (rm_status m)) m
      else (let status = rm_status m
            in ok_emit ext amb status ''mcp.discovery.completed''
                 (jobj [(''servers'', jarr ser_discovery_status servers), (''status'', ser_run_status status)]) m))"

definition record_approval_rebound ::
  "externals \<Rightarrow> ambient \<Rightarrow> tool_approval_request \<Rightarrow> run_machine \<Rightarrow> outcome" where
  "record_approval_rebound ext amb approval m =
     (if is_terminal (rm_status m) then fail (TerminalState (rm_status m)) m
      else if rm_status m \<noteq> WaitingApproval then fail (InvalidTransition (rm_status m) RequireApproval) m
      else ok_emit ext amb WaitingApproval ''approval.rebound''
             (jobj [(''approval'', ser_tool_approval_request ext approval),
                    (''status'', ser_run_status WaitingApproval)]) m)"

end
