(* ===== verification/Run_Contract.thy ===== *)
theory Run_Contract
  imports Run_Machine
begin

text \<open>
  What one operation of the Run state machine does. \<open>machine_op\<close> names every operation of \<open>RunMachine\<close> with its
  arguments and \<open>exec_op\<close> dispatches to them. \<open>status_step\<close> is the abstract life cycle, a labelled graph on the
  statuses; \<open>exec_op_settles\<close> shows that every operation either fails and leaves the machine alone, or emits one event
  along an edge of that graph.
\<close>

section \<open>Operations as data\<close>

datatype machine_op =
    OpRestored string
  | OpSteeringApplied uuid string
  | OpContextCompacted string string string string u32 u32
  | OpCommand run_command
  | OpModelEvent model_stream_event
  | OpProviderFailure string model_error_kind bool "u16 option"
  | OpProviderRetry string u8 u64 model_error_kind "u16 option"
  | OpProviderSelection string "string list"
  | OpBudgetExhausted budget_dimension
  | OpRequiredMcpUnavailable "string list"
  | OpDurationTimedOut
  | OpSpawnRequested subagent_spawn_request
  | OpSpawned subagent_spawn_request
  | OpForked subagent_fork_receipt
  | OpRolledBack subagent_rollback_receipt
  | OpTerminalObserved subagent_result_delivery
  | OpInputAccepted subagent_input_acceptance
  | OpInputActivated uuid u64 subagent_spawn_request
  | OpSubagentClosed uuid
  | OpResultReceived subagent_result_delivery
  | OpResultReceivedRemaining subagent_result_delivery u64
  | OpToolPlan tool_plan
  | OpToolResult string string json bool
  | OpToolStarted tool_execution_request
  | OpToolProgress string string f64 "f64 option" "string option"
  | OpMcpInputRequired mcp_input_required
  | OpMcpInputResolved mcp_input_required mcp_input_continuation
  | OpMcpContinuationStarted mcp_input_required mcp_input_continuation
  | OpMcpDiscoveryCompleted "mcp_server_discovery_status list"
  | OpApprovalRebound tool_approval_request

primrec exec_op :: "externals \<Rightarrow> ambient \<Rightarrow> machine_op \<Rightarrow> run_machine \<Rightarrow> outcome" where
  "exec_op ext amb (OpRestored d) = record_restored ext amb d"
| "exec_op ext amb (OpSteeringApplied i d) = record_steering_applied ext amb i d"
| "exec_op ext amb (OpContextCompacted a b c d e f) = record_context_compacted ext amb a b c d e f"
| "exec_op ext amb (OpCommand c) = apply_command ext amb c"
| "exec_op ext amb (OpModelEvent e) = apply_model_event ext amb e"
| "exec_op ext amb (OpProviderFailure p k r s) = record_model_provider_failure ext amb p k r s"
| "exec_op ext amb (OpProviderRetry p a d k s) = record_model_provider_retry_scheduled ext amb p a d k s"
| "exec_op ext amb (OpProviderSelection p fs) = record_model_provider_selection ext amb p fs"
| "exec_op ext amb (OpBudgetExhausted d) = record_budget_exhausted ext amb d"
| "exec_op ext amb (OpRequiredMcpUnavailable ns) = record_required_mcp_unavailable ext amb ns"
| "exec_op ext amb OpDurationTimedOut = record_duration_timed_out ext amb"
| "exec_op ext amb (OpSpawnRequested r) = record_subagent_spawn_requested ext amb r"
| "exec_op ext amb (OpSpawned r) = record_subagent_spawned ext amb r"
| "exec_op ext amb (OpForked r) = record_subagent_forked ext amb r"
| "exec_op ext amb (OpRolledBack r) = record_subagent_rolled_back ext amb r"
| "exec_op ext amb (OpTerminalObserved r) = record_subagent_terminal_observed ext amb r"
| "exec_op ext amb (OpInputAccepted a) = record_subagent_input_accepted ext amb a"
| "exec_op ext amb (OpInputActivated i n r) = record_subagent_input_activated ext amb i n r"
| "exec_op ext amb (OpSubagentClosed i) = record_subagent_closed ext amb i"
| "exec_op ext amb (OpResultReceived r) = record_subagent_result_received ext amb r"
| "exec_op ext amb (OpResultReceivedRemaining r n) = record_subagent_result_received_with_remaining ext amb r n"
| "exec_op ext amb (OpToolPlan p) = apply_tool_plan ext amb p"
| "exec_op ext amb (OpToolResult i b c e) = record_tool_result ext amb i b c e"
| "exec_op ext amb (OpToolStarted e) = record_tool_execution_started ext amb e"
| "exec_op ext amb (OpToolProgress i b p t msg) = record_tool_execution_progress ext amb i b p t msg"
| "exec_op ext amb (OpMcpInputRequired p) = record_mcp_input_required ext amb p"
| "exec_op ext amb (OpMcpInputResolved p c) = record_mcp_input_resolved ext amb p c"
| "exec_op ext amb (OpMcpContinuationStarted p c) = record_mcp_continuation_started ext amb p c"
| "exec_op ext amb (OpMcpDiscoveryCompleted s) = record_mcp_discovery_completed ext amb s"
| "exec_op ext amb (OpApprovalRebound a) = record_approval_rebound ext amb a"

section \<open>The abstract life cycle\<close>

definition passive_events :: "string list" where
  "passive_events = [''run.restored'', ''mcp.discovery.completed'']"

definition running_events :: "string list" where
  "running_events =
     [''run.steer.applied'', ''context.compacted'', ''tool.retry_requested'', ''model.output.delta'',
      ''model.reasoning.delta'', ''model.tool_call'', ''model.reasoning'', ''model.refusal'',
      ''model.private_state.omitted'', ''model.usage'', ''model.turn.completed'', ''model.provider.failed'',
      ''model.provider.retry_scheduled'', ''model.provider.selected'', ''subagent.spawned'', ''subagent.forked'',
      ''subagent.rolled_back'', ''subagent.terminal.observed'', ''subagent.input.accepted'',
      ''subagent.input.activated'', ''subagent.closed'', ''tool.execution.requested'',
      ''tool.execution.auto_approved'', ''tool.denied'', ''tool.result'', ''tool.execution.started'',
      ''tool.execution.progress'', ''mcp.input.continuation.started'']"

text \<open>The five event types that end a Run.\<close>

definition terminal_events :: "string list" where
  "terminal_events = [''run.succeeded'', ''run.failed'', ''run.cancelled'', ''run.timed_out'', ''run.indeterminate'']"

text \<open>The event types whose payload states the status of the Run.\<close>

definition status_events :: "string list" where
  "status_events =
     [''run.started'', ''approval.required'', ''run.resumed'', ''mcp.input.required'', ''mcp.input.resolved'',
      ''subagent.spawn.requested'', ''subagent.result.received''] @ terminal_events"

inductive status_step :: "run_status \<Rightarrow> string \<Rightarrow> run_status \<Rightarrow> bool" where
  observed: "\<not> is_terminal s \<Longrightarrow> e \<in> set passive_events \<Longrightarrow> status_step s e s"
| running: "e \<in> set running_events \<Longrightarrow> status_step Running e Running"
| started: "status_step Queued ''run.started'' Running"
| asked: "status_step Running ''approval.required'' WaitingApproval"
| approved: "status_step WaitingApproval ''run.resumed'' Running"
| rebound: "status_step WaitingApproval ''approval.rebound'' WaitingApproval"
| input_required: "status_step Running ''mcp.input.required'' Suspended"
| input_resolved: "status_step Suspended ''mcp.input.resolved'' Running"
| spawn: "s \<in> {Running, Suspended} \<Longrightarrow> s' \<in> {Running, Suspended} \<Longrightarrow>
    status_step s ''subagent.spawn.requested'' s'"
| child_result: "s' \<in> {Running, Suspended} \<Longrightarrow> status_step Suspended ''subagent.result.received'' s'"
| succeeded: "status_step Running ''run.succeeded'' Succeeded"
| failed: "s \<in> {Queued, Running} \<Longrightarrow> status_step s ''run.failed'' Failed"
| cancelled: "\<not> is_terminal s \<Longrightarrow> status_step s ''run.cancelled'' Cancelled"
| timed_out: "\<not> is_terminal s \<Longrightarrow> status_step s ''run.timed_out'' TimedOut"
| indeterminate: "status_step Running ''run.indeterminate'' Indeterminate"

inductive_simps status_step_simps: "status_step s e s'"
inductive_cases status_stepE: "status_step s e s'"

lemma status_step_not_terminal: "status_step s e s' \<Longrightarrow> \<not> is_terminal s"
  by (induction rule: status_step.induct) auto

lemma status_step_terminal_iff: "status_step s e s' \<Longrightarrow> is_terminal s' \<longleftrightarrow> e \<in> set terminal_events"
  by (induction rule: status_step.induct)
     (auto simp: passive_events_def running_events_def terminal_events_def)

lemma status_step_changes: "status_step s e s' \<Longrightarrow> s' \<noteq> s \<Longrightarrow> e \<in> set status_events"
  by (induction rule: status_step.induct) (auto simp: status_events_def terminal_events_def)

section \<open>What one operation does\<close>

text \<open>
  An emitted event follows the life cycle, states the new status if it is of a type that can change it, and says
  whether the Run can be retried if it reports a failure.
\<close>

definition has_flag :: "string \<Rightarrow> json \<Rightarrow> bool" where
  "has_flag k v \<longleftrightarrow> (case jget k v of None \<Rightarrow> False | Some x \<Rightarrow> is_boolean x)"

definition emission :: "run_status \<Rightarrow> run_status \<Rightarrow> string \<Rightarrow> json \<Rightarrow> bool" where
  "emission s s' e payload \<longleftrightarrow>
     status_step s e s' \<and>
     (e \<in> set status_events \<longrightarrow> jget ''status'' payload = Some (ser_run_status s')) \<and>
     (e \<in> {''run.failed'', ''run.timed_out''} \<longrightarrow> has_flag ''retryable'' payload)"

fun error_status :: "transition_error \<Rightarrow> run_status" where
  "error_status (TerminalState s) = s"
| "error_status (InvalidTransition s _) = s"
| "error_status (ModelEventOutsideRunning s) = s"

definition settles :: "externals \<Rightarrow> ambient \<Rightarrow> run_machine \<Rightarrow> outcome \<Rightarrow> bool" where
  "settles ext amb m r \<longleftrightarrow>
     (\<exists>err. r = fail err m \<and> error_status err = rm_status m) \<or>
     (\<exists>s' e payload. r = ok_emit ext amb s' e payload m \<and> emission (rm_status m) s' e payload)"

named_theorems settle_intros

lemma settles_fail [simp]: "error_status err = rm_status m \<Longrightarrow> settles ext amb m (fail err m)"
  by (auto simp: settles_def)

lemma settles_emit: "emission (rm_status m) s' e payload \<Longrightarrow> settles ext amb m (ok_emit ext amb s' e payload m)"
  by (auto simp: settles_def)

lemma settles_if [settle_intros]:
  "(b \<Longrightarrow> settles ext amb m r) \<Longrightarrow> (\<not> b \<Longrightarrow> settles ext amb m r') \<Longrightarrow> settles ext amb m (if b then r else r')"
  by simp

lemma running_events_keep: "list_all (\<lambda>e. e \<notin> set status_events) running_events"
  by code_simp

lemma failures_report: "''run.failed'' \<in> set status_events" "''run.timed_out'' \<in> set status_events"
  by (simp_all add: status_events_def terminal_events_def)

lemma emission_running: "e \<in> set running_events \<Longrightarrow> emission Running Running e payload"
  using running_events_keep failures_report by (auto simp: emission_def list_all_iff intro: status_step.running)

lemma emission_observed: "\<not> is_terminal s \<Longrightarrow> e \<in> set passive_events \<Longrightarrow> emission s s e payload"
  by (auto simp: emission_def passive_events_def status_events_def terminal_events_def intro: status_step.observed)

lemma emission_change:
  assumes "status_step s e s'" and "jget ''status'' payload = Some (ser_run_status s')"
    and "e \<in> {''run.failed'', ''run.timed_out''} \<Longrightarrow> has_flag ''retryable'' payload"
  shows "emission s s' e payload"
  using assms by (auto simp: emission_def)

lemma settles_running:
  "rm_status m = Running \<Longrightarrow> e \<in> set running_events \<Longrightarrow> settles ext amb m (ok_emit ext amb Running e payload m)"
  by (rule settles_emit) (simp add: emission_running)

lemma settles_change:
  "status_step (rm_status m) e s' \<Longrightarrow> jget ''status'' payload = Some (ser_run_status s') \<Longrightarrow>
   (e \<in> {''run.failed'', ''run.timed_out''} \<Longrightarrow> has_flag ''retryable'' payload) \<Longrightarrow>
   settles ext amb m (ok_emit ext amb s' e payload m)"
  by (intro settles_emit emission_change)

lemmas running_op = settles_running running_events_def

lemma settles_running_ops [settle_intros]:
  "settles ext amb m (record_steering_applied ext amb i d m)"
  "settles ext amb m (record_context_compacted ext amb a b c d' n k m)"
  "settles ext amb m (record_model_provider_failure ext amb p kind r st m)"
  "settles ext amb m (record_model_provider_retry_scheduled ext amb p at delay kind st m)"
  "settles ext amb m (record_model_provider_selection ext amb p fs m)"
  "settles ext amb m (record_subagent_spawned ext amb rq m)"
  "settles ext amb m (record_subagent_forked ext amb fr m)"
  "settles ext amb m (record_subagent_rolled_back ext amb rr m)"
  "settles ext amb m (record_subagent_terminal_observed ext amb rd m)"
  "settles ext amb m (record_subagent_input_accepted ext amb ac m)"
  "settles ext amb m (record_subagent_input_activated ext amb i n' rq m)"
  "settles ext amb m (record_subagent_closed ext amb i m)"
  "settles ext amb m (record_tool_result ext amb tid bd ct er m)"
  "settles ext amb m (record_tool_execution_started ext amb ex m)"
  "settles ext amb m (record_tool_execution_progress ext amb tid bd pr tot msg m)"
  "settles ext amb m (record_mcp_continuation_started ext amb pend cont m)"
  subgoal by (simp add: record_steering_applied_def running_op)
  subgoal by (simp add: record_context_compacted_def running_op)
  subgoal by (simp add: record_model_provider_failure_def running_op)
  subgoal by (simp add: record_model_provider_retry_scheduled_def running_op)
  subgoal by (simp add: record_model_provider_selection_def running_op)
  subgoal by (simp add: record_subagent_spawned_def running_op)
  subgoal by (simp add: record_subagent_forked_def running_op)
  subgoal by (simp add: record_subagent_rolled_back_def running_op)
  subgoal by (simp add: record_subagent_terminal_observed_def running_op)
  subgoal by (simp add: record_subagent_input_accepted_def running_op)
  subgoal by (simp add: record_subagent_input_activated_def running_op)
  subgoal by (simp add: record_subagent_closed_def running_op)
  subgoal by (simp add: record_tool_result_def running_op)
  subgoal by (simp add: record_tool_execution_started_def running_op)
  subgoal by (simp add: record_tool_execution_progress_def running_op)
  subgoal by (simp add: record_mcp_continuation_started_def running_op)
  done

lemma settles_observers [settle_intros]:
  "settles ext amb m (record_restored ext amb d m)"
  "settles ext amb m (record_mcp_discovery_completed ext amb ss m)"
  by (simp_all add: record_restored_def record_mcp_discovery_completed_def Let_def settles_emit
        emission_observed passive_events_def)

lemmas change_op = jget_jobj has_flag_def status_step.failed status_step.timed_out status_step.spawn
  status_step.child_result status_step.input_required status_step.input_resolved status_step.rebound

lemma settles_changes [settle_intros]:
  "settles ext amb m (record_budget_exhausted ext amb dim m)"
  "settles ext amb m (record_required_mcp_unavailable ext amb ns m)"
  "settles ext amb m (record_duration_timed_out ext amb m)"
  "settles ext amb m (record_subagent_spawn_requested ext amb rq m)"
  "settles ext amb m (record_subagent_result_received_with_remaining ext amb rd n m)"
  "settles ext amb m (record_subagent_result_received ext amb rd m)"
  "settles ext amb m (record_mcp_input_required ext amb pend m)"
  "settles ext amb m (record_mcp_input_resolved ext amb pend cont m)"
  "settles ext amb m (record_approval_rebound ext amb apr m)"
  subgoal by (auto simp: record_budget_exhausted_def change_op intro!: settles_change)
  subgoal by (auto simp: record_required_mcp_unavailable_def change_op intro!: settles_change)
  subgoal by (auto simp: record_duration_timed_out_def change_op intro!: settles_change)
  subgoal by (cases "ssr_mode rq")
    (auto simp: record_subagent_spawn_requested_def change_op intro!: settles_change)
  subgoal by (auto simp: record_subagent_result_received_with_remaining_def Let_def change_op intro!: settles_change)
  subgoal by (auto simp: record_subagent_result_received_def record_subagent_result_received_with_remaining_def
      Let_def change_op intro!: settles_change)
  subgoal by (auto simp: record_mcp_input_required_def change_op intro!: settles_change)
  subgoal by (auto simp: record_mcp_input_resolved_def change_op intro!: settles_change)
  subgoal by (auto simp: record_approval_rebound_def change_op intro!: settles_change)
  done

lemma settles_tool_plan [settle_intros]: "settles ext amb m (apply_tool_plan ext amb p m)"
  by (cases p)
     (auto simp: apply_tool_plan_def settle_intros running_op jget_jobj status_step.asked intro!: settles_change)

lemma next_transition_step:
  assumes "next_transition s c = Some (s', e)"
  shows "status_step s e s' \<and> e \<noteq> ''run.failed'' \<and> e \<noteq> ''run.timed_out''"
proof -
  have retry: "status_step Running ''tool.retry_requested'' Running"
    by (rule status_step.running) (simp add: running_events_def)
  have cancel: "\<not> is_terminal s \<Longrightarrow> status_step s ''run.cancelled'' Cancelled" for s
    by (rule status_step.cancelled)
  from assms show ?thesis
    by (cases c; cases s)
       (auto split: tool_effect.splits
         intro: status_step.started status_step.asked status_step.approved status_step.succeeded
           status_step.indeterminate retry cancel)
qed

lemma jget_jset2:
  "jget k (jset k1 x (jset k2 y (jobj kvs))) = (if k = k1 then Some x else if k = k2 then Some y else jget k (jobj kvs))"
  by (simp add: jget_def jobj_def bt_get_insert)

lemma settles_command [settle_intros]: "settles ext amb m (apply_command ext amb c m)"
proof (cases "next_transition (rm_status m) c")
  case None
  then show ?thesis by (simp add: apply_command_def)
next
  case (Some t)
  then obtain s' e where t: "next_transition (rm_status m) c = Some (s', e)" by (metis prod.exhaust)
  from next_transition_step [OF t] have "settles ext amb m (ok_emit ext amb s' e payload m)"
    if "jget ''status'' payload = Some (ser_run_status s')" for payload
    using that by (intro settles_change) auto
  then show ?thesis
    by (auto simp: apply_command_def t Let_def jget_jset2 jget_jobj)
qed

lemma model_event_emission:
  "model_event_effect ev = (s', e, payload) \<Longrightarrow> emission Running s' e payload"
  by (induction ev rule: model_event_effect.induct)
     (auto simp: emission_running running_events_def jget_jobj has_flag_def intro!: emission_change
        intro: status_step.succeeded status_step.failed status_step.timed_out split: if_splits)

lemma settles_model_event [settle_intros]: "settles ext amb m (apply_model_event ext amb ev m)"
  by (auto simp: apply_model_event_def split: prod.split intro!: settles_emit dest: model_event_emission)

lemma exec_op_settles: "settles ext amb m (exec_op ext amb op m)"
  by (cases op) (simp_all add: settle_intros)

end
