(* ===== verification/Run_Lifecycle.thy ===== *)
theory Run_Lifecycle
  imports Run_Contract
begin

text \<open>
  What the Run state machine promises over sequences of operations. The locale \<open>run_kernel\<close> states the contract
  of one operation and derives what it means for whole sequences; it is interpreted on \<open>exec_op\<close>. The
  properties of the machine and of its checkpoints follow.
\<close>

section \<open>The contract and its consequences for sequences\<close>

fun run_with :: "('op \<Rightarrow> run_machine \<Rightarrow> outcome) \<Rightarrow> 'op list \<Rightarrow> run_machine \<Rightarrow> event_envelope list \<times> run_machine" where
  "run_with f [] m = ([], m)"
| "run_with f (op # ops) m =
     (case f op m of
        (Inl _, m') \<Rightarrow> run_with f ops m'
      | (Inr ev, m') \<Rightarrow> (case run_with f ops m' of (evs, m'') \<Rightarrow> (ev # evs, m'')))"

definition logged :: "externals \<Rightarrow> run_machine \<Rightarrow> event_envelope \<Rightarrow> run_machine \<Rightarrow> bool" where
  "logged ext m ev m' \<longleftrightarrow>
     emission (rm_status m) (rm_status m') (ee_event_type ev) (ee_payload ev) \<and>
     m' = m\<lparr>rm_status := rm_status m', rm_sequence := rm_sequence m + 1\<rparr> \<and>
     ee_sequence ev = rm_sequence m' \<and> ee_run_id ev = rm_run_id m \<and> ee_tenant_id ev = rm_tenant_id m \<and>
     ee_session_id ev = rm_session_id m \<and> ee_attempt_id ev = rm_attempt_id m \<and>
     ee_digest ev = json_digest ext (ee_payload ev)"

lemma logged_frame:
  assumes "logged ext m ev m'"
  shows "rm_run_id m' = rm_run_id m" "rm_tenant_id m' = rm_tenant_id m" "rm_session_id m' = rm_session_id m"
    "rm_attempt_id m' = rm_attempt_id m" "rm_sequence m' = rm_sequence m + 1" "ee_sequence ev = rm_sequence m + 1"
  using assms by (cases m; cases m'; simp add: logged_def)+

text \<open>Paths of the life cycle, and reading the status back from a log.\<close>

fun status_path :: "run_status \<Rightarrow> string list \<Rightarrow> run_status \<Rightarrow> bool" where
  "status_path s [] s' \<longleftrightarrow> s = s'"
| "status_path s (e # es) s' \<longleftrightarrow> (\<exists>t. status_step s e t \<and> status_path t es s')"

lemma status_path_terminal:
  "status_path s es s' \<Longrightarrow> is_terminal s \<Longrightarrow> es = []"
  using status_step_not_terminal by (cases es) auto

lemma status_path_ending:
  "status_path s es s' \<Longrightarrow> \<not> is_terminal s \<Longrightarrow>
   set (butlast es) \<inter> set terminal_events = {} \<and>
   (is_terminal s' \<longleftrightarrow> es \<noteq> [] \<and> last es \<in> set terminal_events)"
proof (induction es arbitrary: s)
  case (Cons e es)
  then obtain t where t: "status_step s e t" "status_path t es s'" by auto
  show ?case
  proof (cases "is_terminal t")
    case True
    then have "es = []" using t status_path_terminal by blast
    with t True status_step_terminal_iff [OF t(1)] show ?thesis by auto
  next
    case False
    then have "e \<notin> set terminal_events" using status_step_terminal_iff [OF t(1)] by simp
    moreover have "t = s'" if "es = []" using t that by simp
    ultimately show ?thesis using Cons.IH [OF t(2) False] False by auto
  qed
qed auto

definition read_status :: "json \<Rightarrow> run_status option" where
  "read_status payload =
     find (\<lambda>s. jget ''status'' payload = Some (ser_run_status s))
       [Queued, Running, WaitingApproval, Suspended, Succeeded, Failed, Cancelled, TimedOut, Indeterminate]"

fun replay_status :: "run_status \<Rightarrow> event_envelope list \<Rightarrow> run_status" where
  "replay_status s [] = s"
| "replay_status s (ev # evs) =
     replay_status
       (if ee_event_type ev \<in> set status_events
        then (case read_status (ee_payload ev) of Some t \<Rightarrow> t | None \<Rightarrow> s)
        else s) evs"

lemma read_status_Some: "jget ''status'' payload = Some (ser_run_status s) \<Longrightarrow> read_status payload = Some s"
  by (cases s) (simp_all add: read_status_def)

locale run_kernel =
  fixes ext :: externals
    and step :: "'op \<Rightarrow> run_machine \<Rightarrow> outcome"
  assumes error_frame: "step op m = (Inl e, m') \<Longrightarrow> m' = m"
    and event_logged: "step op m = (Inr ev, m') \<Longrightarrow> logged ext m ev m'"
begin

lemma terminal_refused: "is_terminal (rm_status m) \<Longrightarrow> \<exists>e. step op m = (Inl e, m)"
  using error_frame [of op m] event_logged [of op m] status_step_not_terminal
  by (cases "step op m"; cases "fst (step op m)") (auto simp: logged_def emission_def)

lemma terminal_absorbing: "is_terminal (rm_status m) \<Longrightarrow> run_with step ops m = ([], m)"
proof (induction ops)
  case (Cons op ops)
  with terminal_refused [of m op] show ?case by auto
qed simp

lemma run_with_induct [consumes 1, case_names Nil Emit]:
  assumes "run_with step ops m = (evs, m')"
    and "\<And>m. P m [] m"
    and "\<And>m ev m1 evs m'. logged ext m ev m1 \<Longrightarrow> P m1 evs m' \<Longrightarrow> P m (ev # evs) m'"
  shows "P m evs m'"
  using assms(1)
proof (induction ops arbitrary: m evs)
  case (Cons op ops)
  obtain r m1 where s: "step op m = (r, m1)" by (metis prod.exhaust)
  show ?case
  proof (cases r)
    case (Inl e)
    with s error_frame [of op m e m1] have "m1 = m" by simp
    with Cons s Inl show ?thesis by simp
  next
    case (Inr ev)
    obtain evs1 where "evs = ev # evs1" "run_with step ops m1 = (evs1, m')"
      using Cons.prems s Inr by (auto split: prod.splits)
    then show ?thesis
      using Cons.IH assms(3) [OF event_logged] s Inr by blast
  qed
qed (simp add: assms(2))

lemma log_numbered:
  assumes "run_with step ops m = (evs, m')"
  shows "m' = m\<lparr>rm_status := rm_status m', rm_sequence := rm_sequence m + of_nat (length evs)\<rparr> \<and>
    (\<forall>i < length evs. ee_sequence (evs ! i) = rm_sequence m + of_nat (Suc i))"
  using assms
proof (induction rule: run_with_induct)
  case (Emit m ev m1 evs m')
  note seq = logged_frame(5,6) [OF Emit.hyps]
  show ?case
  proof (intro conjI allI impI)
    have "m1 = m\<lparr>rm_status := rm_status m1, rm_sequence := rm_sequence m + 1\<rparr>"
      using Emit.hyps by (simp add: logged_def)
    moreover have "m' = m1\<lparr>rm_status := rm_status m', rm_sequence := rm_sequence m1 + of_nat (length evs)\<rparr>"
      using Emit.IH by simp
    ultimately show "m' = m\<lparr>rm_status := rm_status m', rm_sequence := rm_sequence m + of_nat (length (ev # evs))\<rparr>"
      using seq by (cases m; cases m1; cases m') (simp add: algebra_simps)
  next
    fix i assume "i < length (ev # evs)"
    then show "ee_sequence ((ev # evs) ! i) = rm_sequence m + of_nat (Suc i)"
      using seq Emit.IH by (cases i) (auto simp: algebra_simps)
  qed
qed simp

lemma log_identity:
  assumes "run_with step ops m = (evs, m')" and "ev \<in> set evs"
  shows "ee_run_id ev = rm_run_id m \<and> ee_tenant_id ev = rm_tenant_id m \<and> ee_session_id ev = rm_session_id m \<and>
    ee_attempt_id ev = rm_attempt_id m \<and> ee_digest ev = json_digest ext (ee_payload ev)"
  using assms
proof (induction rule: run_with_induct)
  case (Emit m ev' m1 evs m')
  note frame = logged_frame(1-4) [OF Emit.hyps]
  from Emit frame show ?case by (auto simp: logged_def)
qed simp

lemma log_path:
  "run_with step ops m = (evs, m') \<Longrightarrow> status_path (rm_status m) (map ee_event_type evs) (rm_status m')"
  by (induction rule: run_with_induct) (auto simp: logged_def emission_def)

lemma log_replay: "run_with step ops m = (evs, m') \<Longrightarrow> replay_status (rm_status m) evs = rm_status m'"
proof (induction rule: run_with_induct)
  case (Emit m ev m1 evs m')
  then have em: "emission (rm_status m) (rm_status m1) (ee_event_type ev) (ee_payload ev)"
    by (simp add: logged_def)
  show ?case
  proof (cases "ee_event_type ev \<in> set status_events")
    case True
    with em have "read_status (ee_payload ev) = Some (rm_status m1)"
      by (simp add: emission_def read_status_Some)
    with True Emit.IH show ?thesis by simp
  next
    case False
    with em have "rm_status m1 = rm_status m" using status_step_changes by (auto simp: emission_def)
    with False Emit.IH show ?thesis by simp
  qed
qed simp

lemma log_failures_flagged:
  "run_with step ops m = (evs, m') \<Longrightarrow> ev \<in> set evs \<Longrightarrow> ee_event_type ev \<in> {''run.failed'', ''run.timed_out''} \<Longrightarrow>
   has_flag ''retryable'' (ee_payload ev)"
  by (induction rule: run_with_induct) (auto simp: logged_def emission_def)

lemma run_with_append:
  "run_with step (ops @ ops') m =
     (case run_with step ops m of (evs, m1) \<Rightarrow>
        (case run_with step ops' m1 of (evs', m2) \<Rightarrow> (evs @ evs', m2)))"
  by (induction ops arbitrary: m) (auto split: prod.splits sum.splits)

end

section \<open>The machine satisfies the contract\<close>

type_synonym op_call = "ambient \<times> machine_op"

definition exec_call :: "externals \<Rightarrow> op_call \<Rightarrow> run_machine \<Rightarrow> outcome" where
  "exec_call ext c m = exec_op ext (fst c) (snd c) m"

definition run_ops :: "externals \<Rightarrow> op_call list \<Rightarrow> run_machine \<Rightarrow> event_envelope list \<times> run_machine" where
  "run_ops ext = run_with (exec_call ext)"

lemma ok_emit_logged:
  "ok_emit ext amb s' e payload m = (Inr ev, m') \<Longrightarrow> emission (rm_status m) s' e payload \<Longrightarrow> logged ext m ev m'"
  by (auto simp: ok_emit_def emit_def Let_def event_envelope_new_def logged_def)

lemma exec_call_error:
  "exec_call ext c m = (Inl e, m') \<Longrightarrow> m' = m \<and> error_status e = rm_status m"
  using exec_op_settles [of ext "fst c" m "snd c"]
  by (auto simp: exec_call_def settles_def fail_def ok_emit_def emit_def Let_def)

lemma exec_call_event: "exec_call ext c m = (Inr ev, m') \<Longrightarrow> logged ext m ev m'"
  using exec_op_settles [of ext "fst c" m "snd c"] ok_emit_logged
  by (auto simp: exec_call_def settles_def fail_def)

interpretation kernel: run_kernel ext "exec_call ext" for ext
  by unfold_locales (auto dest: exec_call_error exec_call_event)

lemmas kernel_log = kernel.log_numbered kernel.log_identity kernel.log_path kernel.log_replay

section \<open>Every edge of the life cycle is taken by some operation\<close>

definition sample_budget :: run_budget where
  "sample_budget = \<lparr>max_tokens = 1, max_cost_cents = 1, max_duration_seconds = 1\<rparr>"

definition sample_request :: "subagent_spawn_mode \<Rightarrow> subagent_spawn_request" where
  "sample_request mode = \<lparr>ssr_tool_call_id = ''1'', ssr_delegation_id = 1, ssr_role = ''reviewer'', ssr_input = ''x'',
     ssr_budget = sample_budget, ssr_binding_digest = replicate 64 (CHR ''0''), ssr_mode = mode,
     ssr_conversation_history = []\<rparr>"

definition sample_fork :: subagent_fork_receipt where
  "sample_fork = \<lparr>sfr_tool_call_id = ''1'', sfr_tool_binding_digest = replicate 64 (CHR ''0''),
     sfr_source_agent_id = 1, sfr_source_generation = 1, sfr_through_activation_ordinal = 0,
     sfr_source_history_digest = replicate 64 (CHR ''0''), sfr_agent_id = 2, sfr_generation = 1,
     sfr_role = ''reviewer'', sfr_budget = sample_budget\<rparr>"

definition sample_rollback :: subagent_rollback_receipt where
  "sample_rollback = \<lparr>srr_tool_call_id = ''1'', srr_tool_binding_digest = replicate 64 (CHR ''0''),
     srr_agent_id = 1, srr_from_generation = 1, srr_generation = 2, srr_through_activation_ordinal = 0,
     srr_previous_history_digest = replicate 64 (CHR ''0''), srr_restored_history_digest = replicate 64 (CHR ''1'')\<rparr>"

definition sample_delivery :: subagent_result_delivery where
  "sample_delivery = \<lparr>srd_tool_call_id = ''1'', srd_delegation_id = 1, srd_binding_digest = replicate 64 (CHR ''0''),
     srd_child_run_id = 2, srd_child_terminal_event_id = 3, srd_terminal_status = Succeeded, srd_content = JNull,
     srd_is_error = False, srd_usage = default_usage, srd_transcript = [], srd_digest = replicate 64 (CHR ''0'')\<rparr>"

definition sample_acceptance :: subagent_input_acceptance where
  "sample_acceptance = \<lparr>sia_agent_id = 1, sia_message_sequence = 1, sia_idempotency_key = ''k'',
     sia_submission_id = ''s'', sia_status = ''queued'', sia_interrupt = False, sia_request = sample_request Async\<rparr>"

definition sample_execution :: tool_execution_request where
  "sample_execution = \<lparr>ter_call = sample_call ''ls'', ter_effect = Pure, ter_sandbox = RestrictedContainer,
     ter_binding_digest = replicate 64 (CHR ''0'')\<rparr>"

definition sample_approval :: tool_approval_request where
  "sample_approval = \<lparr>tar_approval_id = 1, tar_execution = sample_execution, tar_policy_snapshot = None,
     tar_policy_digest = [], tar_session_scope_digest = []\<rparr>"

definition sample_pending :: mcp_input_required where
  "sample_pending = \<lparr>mreq_schema_version = 1, mreq_input_id = 1, mreq_server_id = 1, mreq_server_name = ''s'',
     mreq_tool_call_id = ''1'', mreq_binding_digest = replicate 64 (CHR ''0''), mreq_round = 1,
     mreq_request_state = [], mreq_requests = []\<rparr>"

definition sample_continuation :: mcp_input_continuation where
  "sample_continuation = \<lparr>mic_round = 1, mic_request_state = [], mic_responses = []\<rparr>"

lemma sample_digests: "is_sha256 (replicate 64 (CHR ''0''))" "is_sha256 (replicate 64 (CHR ''1''))"
  by code_simp+

lemma sample_names: "\<not> is_blank ''1''" "portable_identifier ''reviewer'' 80"
  by code_simp+

lemma sample_receipts: "fork_receipt_is_well_formed sample_fork" "rollback_receipt_is_well_formed sample_rollback"
proof -
  have "is_positive_and_finite sample_budget" by (simp add: is_positive_and_finite_def sample_budget_def)
  then show "fork_receipt_is_well_formed sample_fork"
    unfolding fork_receipt_is_well_formed_def sample_fork_def using sample_digests sample_names
    by (simp add: is_nil_def nil_uuid_def)
  have "(1 :: u64) + 1 = 2" "replicate 64 (CHR ''0'') \<noteq> replicate 64 (CHR ''1'')" by simp_all
  then show "rollback_receipt_is_well_formed sample_rollback"
    unfolding rollback_receipt_is_well_formed_def sample_rollback_def using sample_digests sample_names
    by (simp add: is_nil_def nil_uuid_def checked_add_def)
qed

definition running_ops :: "(string \<times> machine_op) list" where
  "running_ops =
     [(''run.steer.applied'', OpSteeringApplied 1 []),
      (''context.compacted'', OpContextCompacted [] [] [] [] 0 0),
      (''tool.retry_requested'', OpCommand (ToolOutcomeUnknown Pure)),
      (''model.output.delta'', OpModelEvent (TextDelta [] None)),
      (''model.reasoning.delta'', OpModelEvent (ReasoningDelta [] None)),
      (''model.tool_call'', OpModelEvent (ModelToolCall [] [] JNull)),
      (''model.reasoning'', OpModelEvent (Reasoning [] None)),
      (''model.refusal'', OpModelEvent (Refusal [])),
      (''model.private_state.omitted'', OpModelEvent (PrivateStateOmitted [] [] [])),
      (''model.usage'', OpModelEvent (Usage 0 0 0)),
      (''model.turn.completed'', OpModelEvent (Completed ToolCalls)),
      (''model.provider.failed'', OpProviderFailure [] Timeout True None),
      (''model.provider.retry_scheduled'', OpProviderRetry [] 0 0 Timeout None),
      (''model.provider.selected'', OpProviderSelection [] []),
      (''subagent.spawned'', OpSpawned (sample_request Async)),
      (''subagent.forked'', OpForked sample_fork),
      (''subagent.rolled_back'', OpRolledBack sample_rollback),
      (''subagent.terminal.observed'', OpTerminalObserved sample_delivery),
      (''subagent.input.accepted'', OpInputAccepted sample_acceptance),
      (''subagent.input.activated'', OpInputActivated 1 1 (sample_request Async)),
      (''subagent.closed'', OpSubagentClosed 1),
      (''tool.execution.requested'', OpToolPlan (Execute sample_execution)),
      (''tool.execution.auto_approved'', OpToolPlan (AutoApproved sample_execution (snapshot_of sample_tool Never) [] [])),
      (''tool.denied'', OpToolPlan (Denied sample_execution)),
      (''tool.result'', OpToolResult [] [] JNull False),
      (''tool.execution.started'', OpToolStarted sample_execution),
      (''tool.execution.progress'', OpToolProgress [] [] 0 None None),
      (''mcp.input.continuation.started'', OpMcpContinuationStarted sample_pending sample_continuation)]"

lemma running_ops_events: "map fst running_ops = running_events"
  by (simp only: running_ops_def running_events_def list.map fst_conv)

definition takes :: "externals \<Rightarrow> ambient \<Rightarrow> machine_op \<Rightarrow> run_machine \<Rightarrow> string \<Rightarrow> run_status \<Rightarrow> bool" where
  "takes ext amb op m e s' \<longleftrightarrow> (\<exists>payload. exec_op ext amb op m = ok_emit ext amb s' e payload m)"

lemmas running_defs = record_steering_applied_def record_context_compacted_def apply_command_def
  apply_model_event_def record_model_provider_failure_def record_model_provider_retry_scheduled_def
  record_model_provider_selection_def record_subagent_spawned_def record_subagent_forked_def
  record_subagent_rolled_back_def record_subagent_terminal_observed_def record_subagent_input_accepted_def
  record_subagent_input_activated_def record_subagent_closed_def apply_tool_plan_def record_tool_result_def
  record_tool_execution_started_def record_tool_execution_progress_def record_mcp_continuation_started_def

lemma takesI: "exec_op ext amb op m = ok_emit ext amb s' e payload m \<Longrightarrow> takes ext amb op m e s'"
  by (auto simp: takes_def)

lemma running_ops_take:
  assumes m: "rm_status m = Running"
  shows "list_all (\<lambda>(e, op). takes ext amb op m e Running) running_ops"
proof -
  have async: "ssr_mode (sample_request Async) = Async" "ssr_mode (sia_request sample_acceptance) = Async"
    by (simp_all add: sample_request_def sample_acceptance_def)
  show ?thesis
    unfolding running_ops_def list.pred_inject split_conv
    by (intro conjI TrueI takesI; simp add: m async sample_receipts running_defs Let_def; fail)
qed

lemma running_event_taken: "rm_status m = Running \<Longrightarrow> e \<in> set running_events \<Longrightarrow> \<exists>op. takes ext amb op m e Running"
  using running_ops_take [of m ext amb] by (fastforce simp: running_ops_events [symmetric] list_all_iff)

lemmas edge_defs = record_restored_def record_mcp_discovery_completed_def apply_command_def
  record_approval_rebound_def record_mcp_input_required_def record_mcp_input_resolved_def
  record_subagent_spawn_requested_def record_subagent_result_received_with_remaining_def
  record_required_mcp_unavailable_def record_duration_timed_out_def sample_request_def

lemma status_step_taken:
  assumes "status_step s e s'" and "rm_status m = s"
  shows "\<exists>op. takes ext amb op m e s'"
  using assms
proof (cases rule: status_step.cases)
  case observed
  then have "takes ext amb (OpRestored []) m e s' \<or> takes ext amb (OpMcpDiscoveryCompleted []) m e s'"
    using assms(2) by (auto simp: takes_def edge_defs passive_events_def)
  then show ?thesis by blast
next
  case running
  with assms(2) running_event_taken show ?thesis by simp
next
  case started
  with assms(2) have "takes ext amb (OpCommand Start) m e s'" by (auto simp: takes_def edge_defs)
  then show ?thesis ..
next
  case asked
  with assms(2) have "takes ext amb (OpCommand RequireApproval) m e s'" by (auto simp: takes_def edge_defs)
  then show ?thesis ..
next
  case approved
  with assms(2) have "takes ext amb (OpCommand Approve) m e s'" by (auto simp: takes_def edge_defs)
  then show ?thesis ..
next
  case rebound
  with assms(2) have "takes ext amb (OpApprovalRebound sample_approval) m e s'" by (auto simp: takes_def edge_defs)
  then show ?thesis ..
next
  case input_required
  with assms(2) have "takes ext amb (OpMcpInputRequired sample_pending) m e s'" by (auto simp: takes_def edge_defs)
  then show ?thesis ..
next
  case input_resolved
  with assms(2) have "takes ext amb (OpMcpInputResolved sample_pending sample_continuation) m e s'"
    by (auto simp: takes_def edge_defs)
  then show ?thesis ..
next
  case spawn
  with assms(2) have "takes ext amb (OpSpawnRequested (sample_request (if s' = Running then Async else Inline))) m e s'"
    by (auto simp: takes_def edge_defs)
  then show ?thesis ..
next
  case child_result
  with assms(2) have "takes ext amb (OpResultReceivedRemaining sample_delivery (if s' = Running then 0 else 1)) m e s'"
    by (auto simp: takes_def edge_defs)
  then show ?thesis ..
next
  case succeeded
  with assms(2) have "takes ext amb (OpCommand Complete) m e s'" by (auto simp: takes_def edge_defs)
  then show ?thesis ..
next
  case failed
  with assms(2) have "takes ext amb (OpRequiredMcpUnavailable []) m e s'" by (auto simp: takes_def edge_defs)
  then show ?thesis ..
next
  case cancelled
  with assms(2) have "takes ext amb (OpCommand Cancel) m e s'" by (cases s) (auto simp: takes_def edge_defs)
  then show ?thesis ..
next
  case timed_out
  with assms(2) have "takes ext amb OpDurationTimedOut m e s'" by (auto simp: takes_def edge_defs)
  then show ?thesis ..
next
  case indeterminate
  with assms(2) have "takes ext amb (OpCommand (ToolOutcomeUnknown Unknown)) m e s'" by (auto simp: takes_def edge_defs)
  then show ?thesis ..
qed

section \<open>Properties\<close>

text \<open>
  C1. Terminal statuses absorb. Once a Run is terminal, no sequence of operations emits an event or changes the
  machine in any way.
\<close>

theorem terminal_absorbs:
  "is_terminal (rm_status m) \<Longrightarrow> run_ops ext ops m = ([], m)"
  unfolding run_ops_def by (rule kernel.terminal_absorbing)

text \<open>
  C2. The log is gapless and belongs to the Run. Over any sequence of operations the \<open>i\<close>-th event carries the
  sequence number of the machine plus \<open>i + 1\<close> (in 64-bit arithmetic), every event carries the identifiers of the machine
  and the digest of its own payload, and the machine changes in status and sequence number only.
\<close>

theorem log_gapless:
  assumes "run_ops ext ops m = (evs, m')"
  shows "m' = m\<lparr>rm_status := rm_status m', rm_sequence := rm_sequence m + of_nat (length evs)\<rparr> \<and>
    map ee_sequence evs = map (\<lambda>i. rm_sequence m + of_nat (Suc i)) [0..<length evs] \<and>
    (\<forall>ev \<in> set evs. ee_run_id ev = rm_run_id m \<and> ee_tenant_id ev = rm_tenant_id m \<and>
       ee_session_id ev = rm_session_id m \<and> ee_attempt_id ev = rm_attempt_id m \<and>
       ee_digest ev = json_digest ext (ee_payload ev))"
proof -
  have run: "run_with (exec_call ext) ops m = (evs, m')" using assms by (simp add: run_ops_def)
  note gapless = kernel.log_numbered [OF run]
  have "map ee_sequence evs = map (\<lambda>i. rm_sequence m + of_nat (Suc i)) [0..<length evs]"
    using gapless by (intro nth_equalityI) auto
  with gapless kernel.log_identity [OF run] show ?thesis by blast
qed

text \<open>
  C4. A refused operation does nothing: the machine is unchanged, and the error names the status the machine is in.
\<close>

theorem refused_operation_unchanged:
  "exec_op ext amb op m = (Inl e, m') \<Longrightarrow> m' = m \<and> error_status e = rm_status m"
  using exec_call_error [of ext "(amb, op)" m e m'] by (simp add: exec_call_def)

text \<open>
  The terminal vocabulary is exact. In the log of a Run that was not terminal before, no event but the last
  is one of the five terminal types, and the machine is terminal afterwards exactly if the last one is. A reader
  that scans the log backwards for a terminal type therefore finds the outcome at the first event it looks at.
\<close>

theorem terminal_vocabulary:
  assumes "run_ops ext ops m = (evs, m')" and "\<not> is_terminal (rm_status m)"
  shows "(\<forall>ev \<in> set (butlast evs). ee_event_type ev \<notin> set terminal_events) \<and>
    (is_terminal (rm_status m') \<longleftrightarrow> evs \<noteq> [] \<and> ee_event_type (last evs) \<in> set terminal_events)"
proof -
  have "status_path (rm_status m) (map ee_event_type evs) (rm_status m')"
    using kernel.log_path assms(1) by (simp add: run_ops_def)
  from status_path_ending [OF this assms(2)] show ?thesis
    by (auto simp: map_butlast [symmetric] last_map)
qed

text \<open>
  The status can be read back from the log: starting from the status before, replaying the \<open>status\<close> field of
  the events of the reporting types ends in the status of the machine.
\<close>

theorem log_determines_status:
  "run_ops ext ops m = (evs, m') \<Longrightarrow> replay_status (rm_status m) evs = rm_status m'"
  unfolding run_ops_def by (rule kernel.log_replay)

text \<open>
  C3. The life cycle is exact. For every machine, the events its operations can emit and the statuses they lead
  to are precisely the edges of the abstract life cycle that leave its status: no operation leaves the graph, and
  every edge of the graph is taken by some operation.
\<close>

theorem life_cycle_exact:
  "(\<exists>op ev m'. exec_op ext amb op m = (Inr ev, m') \<and> ee_event_type ev = e \<and> rm_status m' = s') \<longleftrightarrow>
   status_step (rm_status m) e s'"
proof
  assume "\<exists>op ev m'. exec_op ext amb op m = (Inr ev, m') \<and> ee_event_type ev = e \<and> rm_status m' = s'"
  then obtain op ev m' where "exec_call ext (amb, op) m = (Inr ev, m')" "ee_event_type ev = e" "rm_status m' = s'"
    by (auto simp: exec_call_def)
  with exec_call_event show "status_step (rm_status m) e s'" by (fastforce simp: logged_def emission_def)
next
  assume "status_step (rm_status m) e s'"
  then obtain op payload where "exec_op ext amb op m = ok_emit ext amb s' e payload m"
    using status_step_taken [OF _ refl, of m e s' ext amb] by (auto simp: takes_def)
  then show "\<exists>op ev m'. exec_op ext amb op m = (Inr ev, m') \<and> ee_event_type ev = e \<and> rm_status m' = s'"
    by (intro exI [of _ op]) (simp add: ok_emit_def emit_def Let_def event_envelope_new_def)
qed

text \<open>
  C5. An unknown Tool outcome is never replayed unless that is safe. If the effect is non-idempotent or unknown, the Run
  ends as indeterminate, with the effect and \<open>replay_safe = false\<close> on record, and nothing follows; if the effect is pure
  or idempotent the Run stays running and a retry is requested.
\<close>

theorem unknown_outcome_replay:
  assumes "rm_status m = Running"
  shows "\<exists>ev m'. exec_op ext amb (OpCommand (ToolOutcomeUnknown effect)) m = (Inr ev, m') \<and>
     (if effect \<in> {NonIdempotent, Unknown}
      then rm_status m' = Indeterminate \<and> ee_event_type ev = ''run.indeterminate'' \<and>
           jget ''effect'' (ee_payload ev) = Some (ser_tool_effect effect) \<and>
           jget ''replay_safe'' (ee_payload ev) = Some (JBool False) \<and>
           (\<forall>ops. run_ops ext ops m' = ([], m'))
      else rm_status m' = Running \<and> ee_event_type ev = ''tool.retry_requested'')"
  using assms kernel.terminal_absorbing
  by (cases effect)
     (auto simp: apply_command_def Let_def ok_emit_def emit_def event_envelope_new_def jget_jset2 jopt_def run_ops_def)

text \<open>
  C6. Checkpoints round-trip. Restoring the checkpoint of a machine gives the machine back, whatever the state bytes;
  restoring it for another attempt replaces the attempt identifier and nothing else, and is refused exactly for the nil
  identifier.
\<close>

theorem checkpoint_round_trip:
  "from_checkpoint ext (checkpoint ext m state) = Inr m \<and>
   from_checkpoint_for_attempt ext (checkpoint ext m state) a =
     (if is_nil a then Inl InvalidCheckpoint else Inr (m\<lparr>rm_attempt_id := a\<rparr>))"
proof -
  have "verify_digest ext (checkpoint ext m state)" by (simp add: checkpoint_def verify_digest_new)
  then show ?thesis
    by (simp add: from_checkpoint_def from_checkpoint_for_attempt_def)
       (simp add: checkpoint_def checkpoint_snapshot_new_def)
qed

text \<open>
  C7. Checkpoints are tamper-evident. If a snapshot is accepted and carries the digest that was issued for the checkpoint
  of a machine, and the digest has no collision between the two, then the restored machine is that machine and the state bytes
  are those that were saved. The text of an identifier is assumed to determine the identifier.
\<close>

theorem checkpoint_tamper_evident:
  assumes "from_checkpoint ext c = Inr m" and "cs_digest c = cs_digest (checkpoint ext m' state)"
    and "inj (ext_uuid_text ext)"
    and "collision_free ext (snapshot_material ext c) (snapshot_material ext (checkpoint ext m' state))"
  shows "m = m' \<and> cs_state c = state"
proof -
  have "verify_digest ext c" using assms(1) by (auto simp: from_checkpoint_def split: if_splits)
  moreover have "verify_digest ext (checkpoint ext m' state)" by (simp add: checkpoint_def verify_digest_new)
  ultimately have "snapshot_material ext c = snapshot_material ext (checkpoint ext m' state)"
    using assms(2,4) by (simp add: verify_digest_material collision_free_def)
  with assms(2,3) have "c = checkpoint ext m' state" by (simp add: snapshot_material_inject)
  with assms(1) show ?thesis
    by (auto simp: from_checkpoint_def split: if_splits) (simp_all add: checkpoint_def checkpoint_snapshot_new_def)
qed

inductive_cases waiting_stepE: "status_step WaitingApproval e s'"

definition waiting_events :: "string list" where
  "waiting_events = [''run.restored'', ''mcp.discovery.completed'', ''approval.rebound'', ''run.cancelled'', ''run.timed_out'']"

lemma waiting_step:
  "status_step WaitingApproval e s' \<Longrightarrow>
   e = ''run.resumed'' \<or> (e \<in> set waiting_events \<and> (s' = WaitingApproval \<or> is_terminal s'))"
  by (erule waiting_stepE) (auto simp: waiting_events_def passive_events_def)

lemma waiting_path:
  "status_path WaitingApproval es s' \<Longrightarrow> i < length es \<Longrightarrow> es ! i \<notin> set waiting_events \<Longrightarrow>
   \<exists>j \<le> i. es ! j = ''run.resumed''"
proof (induction es arbitrary: i)
  case (Cons e es)
  then obtain t where t: "status_step WaitingApproval e t" "status_path t es s'" by auto
  show ?case
  proof (cases "e = ''run.resumed''")
    case False
    with waiting_step [OF t(1)] have e: "e \<in> set waiting_events" and "t = WaitingApproval \<or> is_terminal t" by auto
    then have "t = WaitingApproval \<or> es = []" using t(2) status_path_terminal by blast
    moreover obtain k where "i = Suc k" using Cons.prems(3) e by (cases i) auto
    ultimately show ?thesis using Cons t(2) by fastforce
  qed auto
qed simp

text \<open>
  C8. The approval gate holds. While a Run waits for an approval, its log gains only restorations, discovery reports and
  rebound approvals, or ends by cancellation or timeout; any other event, in particular any model or Tool event, comes after
  a \<open>run.resumed\<close>, which only the command \<open>Approve\<close> emits.
\<close>

theorem approval_gate:
  assumes "run_ops ext ops m = (evs, m')" and "rm_status m = WaitingApproval"
    and "i < length evs" and "ee_event_type (evs ! i) \<notin> set waiting_events"
  shows "\<exists>j \<le> i. ee_event_type (evs ! j) = ''run.resumed''"
proof -
  have "status_path WaitingApproval (map ee_event_type evs) (rm_status m')"
    using kernel.log_path assms(1,2) by (fastforce simp: run_ops_def)
  from waiting_path [OF this] assms(3,4) show ?thesis by fastforce
qed

text \<open>
  Every failure says whether it can be retried: each \<open>run.failed\<close> and each \<open>run.timed_out\<close> event, from whichever
  operation, carries a boolean \<open>retryable\<close>.
\<close>

theorem failures_say_retryable:
  "run_ops ext ops m = (evs, m') \<Longrightarrow> ev \<in> set evs \<Longrightarrow> ee_event_type ev \<in> {''run.failed'', ''run.timed_out''} \<Longrightarrow>
   has_flag ''retryable'' (ee_payload ev)"
  unfolding run_ops_def by (rule kernel.log_failures_flagged)

section \<open>Witnesses\<close>

definition sample_ambient :: ambient where
  "sample_ambient = \<lparr>amb_event_id = 7, amb_trace_id = 8, amb_now = 0\<rparr>"

definition sample_machine :: "run_status \<Rightarrow> run_machine" where
  "sample_machine s = (run_machine_new 1 2 3 4)\<lparr>rm_status := s\<rparr>"

definition sample_ops :: "op_call list" where
  "sample_ops = map (Pair sample_ambient)
     [OpCommand Start, OpCommand Approve, OpModelEvent (TextDelta ''hi'' None), OpDurationTimedOut, OpCommand Cancel]"

lemmas sample_eval = sample_ops_def sample_machine_def run_machine_new_def run_ops_def exec_call_def
  apply_command_def apply_model_event_def record_duration_timed_out_def fail_def ok_emit_def emit_def Let_def
  event_envelope_new_def

lemma sample_run:
  "\<exists>evs m'. run_ops sample_externals sample_ops (sample_machine Queued) = (evs, m') \<and>
     length evs = 3 \<and> ee_event_type (evs ! 2) = ''run.timed_out'' \<and> rm_status m' = TimedOut"
  by (simp add: sample_eval)

lemma sample_waiting_run:
  "\<exists>evs m'. run_ops sample_externals (map (Pair sample_ambient) [OpCommand Approve, OpModelEvent (TextDelta ''hi'' None)])
       (sample_machine WaitingApproval) = (evs, m') \<and>
     length evs = 2 \<and> ee_event_type (evs ! 1) = ''model.output.delta''"
  by (simp add: sample_eval)

theorem terminal_absorbs_witness:
  "is_terminal (rm_status (sample_machine Cancelled)) \<and>
   run_ops sample_externals sample_ops (sample_machine Cancelled) = ([], sample_machine Cancelled)"
proof -
  have "is_terminal (rm_status (sample_machine Cancelled))" by (simp add: sample_machine_def)
  then show ?thesis using terminal_absorbs by blast
qed

theorem log_gapless_witness:
  "\<exists>evs m'. run_ops sample_externals sample_ops (sample_machine Queued) = (evs, m') \<and>
     map ee_sequence evs = [1, 2, 3] \<and> rm_sequence m' = 3"
proof -
  obtain evs m' where run: "run_ops sample_externals sample_ops (sample_machine Queued) = (evs, m')"
    and len: "length evs = 3"
    using sample_run by (elim exE conjE) (rule that)
  have seq: "rm_sequence (sample_machine Queued) = 0" by (simp add: sample_machine_def run_machine_new_def)
  from log_gapless [OF run] len have m': "m' = (sample_machine Queued)\<lparr>rm_status := rm_status m',
      rm_sequence := rm_sequence (sample_machine Queued) + of_nat 3\<rparr>"
    and "map ee_sequence evs = map (\<lambda>i. rm_sequence (sample_machine Queued) + of_nat (Suc i)) [0..<3]"
    by simp_all
  then have "map ee_sequence evs = [1, 2, 3]" using seq by (simp add: upt_rec)
  moreover have "rm_sequence m' = 3" using seq by (subst m') simp
  ultimately show ?thesis using run by (intro exI conjI)
qed

theorem refused_operation_unchanged_witness:
  "\<exists>e. exec_op sample_externals sample_ambient (OpCommand Approve) (sample_machine Queued) =
         (Inl e, sample_machine Queued) \<and> error_status e = Queued"
proof -
  obtain e m' where r: "exec_op sample_externals sample_ambient (OpCommand Approve) (sample_machine Queued) = (Inl e, m')"
    by (simp add: sample_eval)
  from refused_operation_unchanged [OF r] r show ?thesis by (simp add: sample_machine_def)
qed

theorem terminal_vocabulary_witness:
  "\<exists>evs m'. run_ops sample_externals sample_ops (sample_machine Queued) = (evs, m') \<and>
     is_terminal (rm_status m') \<and> ee_event_type (last evs) \<in> set terminal_events"
proof -
  obtain evs m' where run: "run_ops sample_externals sample_ops (sample_machine Queued) = (evs, m')"
    and "rm_status m' = TimedOut"
    using sample_run by (elim exE conjE) (rule that)
  moreover have "\<not> is_terminal (rm_status (sample_machine Queued))" by (simp add: sample_machine_def)
  ultimately show ?thesis using terminal_vocabulary [OF run] by simp
qed

theorem log_determines_status_witness:
  "\<exists>evs m'. run_ops sample_externals sample_ops (sample_machine Queued) = (evs, m') \<and>
     replay_status (rm_status (sample_machine Queued)) evs = TimedOut"
proof -
  obtain evs m' where run: "run_ops sample_externals sample_ops (sample_machine Queued) = (evs, m')"
    and "rm_status m' = TimedOut"
    using sample_run by (elim exE conjE) (rule that)
  with log_determines_status [OF run] show ?thesis by simp
qed

theorem unknown_outcome_replay_witness:
  "\<exists>ev m'. exec_op sample_externals sample_ambient (OpCommand (ToolOutcomeUnknown Unknown)) (sample_machine Running) =
      (Inr ev, m') \<and> jget ''replay_safe'' (ee_payload ev) = Some (JBool False)"
proof -
  have "rm_status (sample_machine Running) = Running" by (simp add: sample_machine_def)
  from unknown_outcome_replay [OF this, of sample_externals sample_ambient Unknown] show ?thesis by auto
qed

theorem checkpoint_tamper_evident_witness:
  "\<exists>ext c m. from_checkpoint ext c = Inr m \<and> inj (ext_uuid_text ext) \<and> m = sample_machine Running \<and> cs_state c = [1, 2]"
proof -
  let ?ext = "sample_externals\<lparr>ext_uuid_text := \<lambda>u. replicate (unat u) (CHR ''a'')\<rparr>"
  let ?c = "checkpoint ?ext (sample_machine Running) [1, 2]"
  have "verify_digest ?ext ?c" by (simp add: checkpoint_def verify_digest_new)
  then obtain m where m: "from_checkpoint ?ext ?c = Inr m" by (simp add: from_checkpoint_def)
  have inj: "inj (ext_uuid_text ?ext)"
    by (auto intro!: injI dest: arg_cong [where f = length] simp: word_unat_eq_iff)
  have "collision_free ?ext (snapshot_material ?ext ?c) (snapshot_material ?ext ?c)" by (simp add: collision_free_def)
  with checkpoint_tamper_evident [OF m refl inj] m inj show ?thesis by blast
qed

theorem approval_gate_witness:
  "\<exists>evs m'. run_ops sample_externals (map (Pair sample_ambient) [OpCommand Approve, OpModelEvent (TextDelta ''hi'' None)])
       (sample_machine WaitingApproval) = (evs, m') \<and> (\<exists>j \<le> 1. ee_event_type (evs ! j) = ''run.resumed'')"
proof -
  obtain evs m' where run: "run_ops sample_externals
      (map (Pair sample_ambient) [OpCommand Approve, OpModelEvent (TextDelta ''hi'' None)])
      (sample_machine WaitingApproval) = (evs, m')"
    and evs: "length evs = 2" "ee_event_type (evs ! 1) = ''model.output.delta''"
    using sample_waiting_run by (elim exE conjE) (rule that)
  from evs(1) have "1 < length evs" by simp
  with evs(2) approval_gate [OF run, of 1] run show ?thesis by (auto simp: waiting_events_def sample_machine_def)
qed

theorem failures_say_retryable_witness:
  "\<exists>evs m' ev. run_ops sample_externals sample_ops (sample_machine Queued) = (evs, m') \<and> ev \<in> set evs \<and>
     ee_event_type ev = ''run.timed_out'' \<and> has_flag ''retryable'' (ee_payload ev)"
proof -
  obtain evs m' where run: "run_ops sample_externals sample_ops (sample_machine Queued) = (evs, m')"
    and evs: "length evs = 3" "ee_event_type (evs ! 2) = ''run.timed_out''"
    using sample_run by (elim exE conjE) (rule that)
  from evs(1) have "evs ! 2 \<in> set evs" by simp
  with evs(2) failures_say_retryable [OF run, of "evs ! 2"] run show ?thesis by auto
qed

end
