(* ===== verification/Control_Commands.thy ===== *)
theory Control_Commands
  imports Protocol_Types
begin

text \<open>
  The commands and notices of \<open>runtime/crates/protocol/src/lib.rs\<close> that a control plane and a worker exchange about a
  running attempt: invocation context, edge tasks, identity renewal, cancellation, steering, approval decisions,
  reconciliation, heartbeats and acceptance. Each has its fields as a record, its errors as a datatype, and \<open>validate\<close>
  with the checks in the order of the source.
\<close>

section \<open>Invocation context and edge tasks\<close>

definition RUNTIME_INVOCATION_SCHEMA_VERSION :: u32 where "RUNTIME_INVOCATION_SCHEMA_VERSION = 1"
definition EDGE_TASK_SCHEMA_VERSION :: u32 where "EDGE_TASK_SCHEMA_VERSION = 2"

record runtime_invocation_context =
  ric_schema_version :: u32
  ric_tenant_id :: uuid
  ric_application_id :: uuid
  ric_workload_identity_id :: uuid
  ric_workspace_id :: uuid
  ric_agent_version_id :: uuid
  ric_model_policy_id :: uuid

datatype runtime_invocation_validation_error = InvocationUnsupportedSchemaVersion u32 | InvocationIncompleteIdentity

definition invocation_validate ::
  "runtime_invocation_context \<Rightarrow> (runtime_invocation_validation_error, unit) result" where
  "invocation_validate c =
     (if ric_schema_version c \<noteq> RUNTIME_INVOCATION_SCHEMA_VERSION
      then Inl (InvocationUnsupportedSchemaVersion (ric_schema_version c))
      else if list_ex is_nil [ric_tenant_id c, ric_application_id c, ric_workload_identity_id c,
                              ric_workspace_id c, ric_agent_version_id c, ric_model_policy_id c]
      then Inl InvocationIncompleteIdentity
      else Inr ())"

record edge_task_claims =
  etc_schema_version :: u32
  etc_task_id :: uuid
  etc_enrollment_id :: uuid
  etc_node_id :: uuid
  etc_node_generation :: u64
  etc_capability_manifest_digest :: string
  etc_required_capabilities :: "string list"
  etc_issued_at_unix_ms :: i64
  etc_expires_at_unix_ms :: i64
  etc_invocation :: runtime_invocation_context
  etc_run_id :: uuid
  etc_session_id :: uuid
  etc_workspace_owner_epoch :: u64
  etc_input :: string

datatype edge_task_validation_error =
    EdgeUnsupportedSchemaVersion u32
  | EdgeIncompleteIdentity
  | InvalidNodeGeneration
  | InvalidEnrollmentBinding
  | InvalidCapabilities
  | InvalidOwnerEpoch
  | UnsupportedSessionIdentity
  | InvalidLifetime
  | EdgeInvalidInput

definition MAX_LIFETIME_MS :: int where
  "MAX_LIFETIME_MS = 24 * 60 * 60 * 1000"

definition validate_at :: "edge_task_claims \<Rightarrow> i64 \<Rightarrow> (edge_task_validation_error, unit) result" where
  "validate_at c now_unix_ms =
     (if etc_schema_version c \<noteq> EDGE_TASK_SCHEMA_VERSION
      then Inl (EdgeUnsupportedSchemaVersion (etc_schema_version c))
      else if is_nil (etc_task_id c) \<or> is_nil (etc_enrollment_id c) \<or> is_nil (etc_node_id c) \<or>
              is_nil (etc_run_id c) \<or> is_nil (etc_session_id c) \<or> is_err (invocation_validate (etc_invocation c))
      then Inl EdgeIncompleteIdentity
      else if etc_node_generation c = 0 then Inl InvalidNodeGeneration
      else if \<not> is_lower_hex_sha256 (etc_capability_manifest_digest c) then Inl InvalidEnrollmentBinding
      else if etc_required_capabilities c = [] \<or> length (etc_required_capabilities c) > 64 \<or>
              list_ex (\<lambda>capability. \<not> valid_edge_capability capability) (etc_required_capabilities c)
      then Inl InvalidCapabilities
      else if etc_workspace_owner_epoch c = 0 then Inl InvalidOwnerEpoch
      else if etc_session_id c \<noteq> etc_run_id c then Inl UnsupportedSessionIdentity
      else (let lifetime_ms = checked_sub_i64 (etc_expires_at_unix_ms c) (etc_issued_at_unix_ms c)
            in if sint (etc_issued_at_unix_ms c) > sint now_unix_ms \<or>
                  sint (etc_expires_at_unix_ms c) \<le> sint now_unix_ms \<or>
                  sint (etc_expires_at_unix_ms c) \<le> sint (etc_issued_at_unix_ms c) \<or>
                  (case lifetime_ms of None \<Rightarrow> True | Some lifetime \<Rightarrow> sint lifetime > MAX_LIFETIME_MS)
               then Inl InvalidLifetime
               else if is_blank (etc_input c) \<or> length (etc_input c) > 32000 then Inl EdgeInvalidInput
               else Inr ()))"

section \<open>Workload identity renewal\<close>

definition WORKLOAD_IDENTITY_RENEWAL_SCHEMA_VERSION :: u32 where "WORKLOAD_IDENTITY_RENEWAL_SCHEMA_VERSION = 1"

definition token_is_well_formed :: "string \<Rightarrow> bool" where
  "token_is_well_formed token \<longleftrightarrow>
     \<not> is_blank token \<and> length token \<le> 8192 \<and> length (split_on (CHR ''.'') token) = 3"

record workload_identity_renewal_command =
  wir_schema_version :: u32
  wir_message_id :: uuid
  wir_tenant_id :: uuid
  wir_run_id :: uuid
  wir_attempt_id :: uuid
  wir_worker_id :: uuid
  wir_worker_incarnation_id :: uuid
  wir_owner_epoch :: u64
  wir_fencing_token :: uuid
  wir_generation :: u64
  wir_issued_at :: datetime
  wir_lease_expires_at :: datetime
  wir_workload_token :: string

datatype workload_identity_renewal_validation_error =
  RenewalUnsupportedSchemaVersion u32 | RenewalInvalidBinding | RenewalInvalidWindow | RenewalInvalidToken

definition renewal_validate ::
  "workload_identity_renewal_command \<Rightarrow> (workload_identity_renewal_validation_error, unit) result" where
  "renewal_validate c =
     (if wir_schema_version c \<noteq> WORKLOAD_IDENTITY_RENEWAL_SCHEMA_VERSION
      then Inl (RenewalUnsupportedSchemaVersion (wir_schema_version c))
      else if is_nil (wir_message_id c) \<or> is_nil (wir_tenant_id c) \<or> is_nil (wir_run_id c) \<or>
              is_nil (wir_attempt_id c) \<or> is_nil (wir_worker_id c) \<or> is_nil (wir_worker_incarnation_id c) \<or>
              wir_owner_epoch c = 0 \<or> is_nil (wir_fencing_token c) \<or> wir_generation c = 0
      then Inl RenewalInvalidBinding
      else (let lifetime = wir_lease_expires_at c - wir_issued_at c
            in if lifetime \<le> 0 \<or> lifetime > minutes 5 then Inl RenewalInvalidWindow
               else if \<not> token_is_well_formed (wir_workload_token c) then Inl RenewalInvalidToken
               else Inr ()))"

section \<open>Cancellation\<close>

definition RUN_CANCELLATION_SCHEMA_VERSION :: u32 where "RUN_CANCELLATION_SCHEMA_VERSION = 2"

record run_cancellation_command =
  rcc_schema_version :: u32
  rcc_message_id :: uuid
  rcc_tenant_id :: uuid
  rcc_run_id :: uuid
  rcc_attempt_id :: uuid
  rcc_worker_id :: uuid
  rcc_worker_incarnation_id :: uuid
  rcc_issued_at :: datetime
  rcc_expires_at :: datetime
  rcc_reason :: string

datatype run_cancellation_validation_error =
    CancellationUnsupportedSchemaVersion u32 | CancellationInvalidValidityWindow | BlankReason
  | CancellationMissingWorkerIncarnation

definition cancellation_validate ::
  "run_cancellation_command \<Rightarrow> (run_cancellation_validation_error, unit) result" where
  "cancellation_validate c =
     (if \<not> (rcc_schema_version c = 1 \<or> rcc_schema_version c = RUN_CANCELLATION_SCHEMA_VERSION)
      then Inl (CancellationUnsupportedSchemaVersion (rcc_schema_version c))
      else if rcc_schema_version c = RUN_CANCELLATION_SCHEMA_VERSION \<and> is_nil (rcc_worker_incarnation_id c)
      then Inl CancellationMissingWorkerIncarnation
      else if rcc_expires_at c \<le> rcc_issued_at c \<or> rcc_expires_at c - rcc_issued_at c > minutes 5
      then Inl CancellationInvalidValidityWindow
      else if is_blank (rcc_reason c) then Inl BlankReason
      else Inr ())"

section \<open>Steering\<close>

definition RUN_STEERING_SCHEMA_VERSION :: u32 where "RUN_STEERING_SCHEMA_VERSION = 1"
definition RUN_STEERING_OUTCOME_SCHEMA_VERSION :: u32 where "RUN_STEERING_OUTCOME_SCHEMA_VERSION = 1"

record run_steering_command =
  rsc_schema_version :: u32
  rsc_message_id :: uuid
  rsc_steering_id :: uuid
  rsc_tenant_id :: uuid
  rsc_run_id :: uuid
  rsc_attempt_id :: uuid
  rsc_worker_id :: uuid
  rsc_worker_incarnation_id :: uuid
  rsc_input :: string
  rsc_input_digest :: string
  rsc_issued_at :: datetime
  rsc_expires_at :: datetime

record run_steering_target =
  rst_tenant_id :: uuid
  rst_run_id :: uuid
  rst_attempt_id :: uuid
  rst_worker_id :: uuid
  rst_worker_incarnation_id :: uuid

record run_steering_request =
  rsr_input :: string
  rsr_issued_at :: datetime
  rsr_expires_at :: datetime

datatype run_steering_validation_error =
    SteeringUnsupportedSchemaVersion u32 | SteeringInvalidIdentity | SteeringInvalidInput
  | InvalidInputDigest | SteeringInvalidValidityWindow

definition input_digest_of :: "externals \<Rightarrow> string \<Rightarrow> string" where
  "input_digest_of ext input = ext_sha256_hex ext (as_bytes input)"

definition run_steering_command_new ::
  "externals \<Rightarrow> uuid \<Rightarrow> uuid \<Rightarrow> run_steering_target \<Rightarrow> run_steering_request \<Rightarrow> run_steering_command" where
  "run_steering_command_new ext message_id steering_id target request =
     \<lparr>rsc_schema_version = RUN_STEERING_SCHEMA_VERSION, rsc_message_id = message_id, rsc_steering_id = steering_id,
      rsc_tenant_id = rst_tenant_id target, rsc_run_id = rst_run_id target, rsc_attempt_id = rst_attempt_id target,
      rsc_worker_id = rst_worker_id target, rsc_worker_incarnation_id = rst_worker_incarnation_id target,
      rsc_input = rsr_input request, rsc_input_digest = input_digest_of ext (rsr_input request),
      rsc_issued_at = rsr_issued_at request, rsc_expires_at = rsr_expires_at request\<rparr>"

definition steering_validate :: "externals \<Rightarrow> run_steering_command \<Rightarrow> (run_steering_validation_error, unit) result" where
  "steering_validate ext c =
     (if rsc_schema_version c \<noteq> RUN_STEERING_SCHEMA_VERSION
      then Inl (SteeringUnsupportedSchemaVersion (rsc_schema_version c))
      else if is_nil (rsc_message_id c) \<or> is_nil (rsc_steering_id c) \<or> is_nil (rsc_tenant_id c) \<or>
              is_nil (rsc_run_id c) \<or> is_nil (rsc_attempt_id c) \<or> is_nil (rsc_worker_id c) \<or>
              is_nil (rsc_worker_incarnation_id c)
      then Inl SteeringInvalidIdentity
      else if is_blank (rsc_input c) \<or> length (rsc_input c) > 32 * 1024 then Inl SteeringInvalidInput
      else if \<not> is_sha256 (rsc_input_digest c) \<or> rsc_input_digest c \<noteq> input_digest_of ext (rsc_input c)
      then Inl InvalidInputDigest
      else if rsc_expires_at c \<le> rsc_issued_at c \<or> rsc_expires_at c - rsc_issued_at c > minutes 5
      then Inl SteeringInvalidValidityWindow
      else Inr ())"

record run_steering_outcome =
  rso_schema_version :: u32
  rso_message_id :: uuid
  rso_steering_id :: uuid
  rso_tenant_id :: uuid
  rso_run_id :: uuid
  rso_attempt_id :: uuid
  rso_worker_id :: uuid
  rso_worker_incarnation_id :: uuid
  rso_input_digest :: string
  rso_outcome :: string
  rso_reason :: string
  rso_occurred_at :: datetime

definition steering_rejected ::
  "run_steering_command \<Rightarrow> uuid \<Rightarrow> uuid \<Rightarrow> string \<Rightarrow> datetime \<Rightarrow> run_steering_outcome" where
  "steering_rejected command worker_id worker_incarnation_id reason occurred_at =
     \<lparr>rso_schema_version = RUN_STEERING_OUTCOME_SCHEMA_VERSION, rso_message_id = rsc_steering_id command,
      rso_steering_id = rsc_steering_id command, rso_tenant_id = rsc_tenant_id command,
      rso_run_id = rsc_run_id command, rso_attempt_id = rsc_attempt_id command, rso_worker_id = worker_id,
      rso_worker_incarnation_id = worker_incarnation_id, rso_input_digest = rsc_input_digest command,
      rso_outcome = ''rejected'', rso_reason = reason, rso_occurred_at = occurred_at\<rparr>"

section \<open>Approval decisions\<close>

definition TOOL_APPROVAL_DECISION_SCHEMA_VERSION :: u32 where "TOOL_APPROVAL_DECISION_SCHEMA_VERSION = 2"
definition TOOL_APPROVAL_DECISION_REASON_MAX_CHARS :: nat where "TOOL_APPROVAL_DECISION_REASON_MAX_CHARS = 512"

datatype tool_approval_decision = AllowOnce | DecisionDeny

record tool_approval_decision_command =
  tad_schema_version :: u32
  tad_message_id :: uuid
  tad_tenant_id :: uuid
  tad_run_id :: uuid
  tad_attempt_id :: uuid
  tad_worker_id :: uuid
  tad_worker_incarnation_id :: uuid
  tad_approval_id :: uuid
  tad_approval_version :: u32
  tad_binding_digest :: string
  tad_decision :: tool_approval_decision
  tad_decision_reason :: "string option"
  tad_issued_at :: datetime
  tad_expires_at :: datetime

datatype tool_approval_decision_validation_error =
    DecisionUnsupportedSchemaVersion u32 | DecisionMissingIdentity | InvalidApprovalVersion
  | DecisionInvalidBindingDigest | DecisionInvalidValidityWindow | DecisionMissingWorkerIncarnation
  | ReasonWithoutRefusal | DecisionInvalidReason

definition decision_validate ::
  "tool_approval_decision_command \<Rightarrow> (tool_approval_decision_validation_error, unit) result" where
  "decision_validate c =
     (if \<not> (tad_schema_version c = 1 \<or> tad_schema_version c = TOOL_APPROVAL_DECISION_SCHEMA_VERSION)
      then Inl (DecisionUnsupportedSchemaVersion (tad_schema_version c))
      else if tad_schema_version c = TOOL_APPROVAL_DECISION_SCHEMA_VERSION \<and> is_nil (tad_worker_incarnation_id c)
      then Inl DecisionMissingWorkerIncarnation
      else if is_nil (tad_message_id c) \<or> is_nil (tad_tenant_id c) \<or> is_nil (tad_run_id c) \<or>
              is_nil (tad_attempt_id c) \<or> is_nil (tad_worker_id c) \<or> is_nil (tad_approval_id c)
      then Inl DecisionMissingIdentity
      else if tad_approval_version c < 2 then Inl InvalidApprovalVersion
      else if length (tad_binding_digest c) \<noteq> 64 \<or>
              \<not> list_all (\<lambda>byte. is_ascii_digit byte \<or> (CHR ''a'' \<le> byte \<and> byte \<le> CHR ''f'')) (tad_binding_digest c)
      then Inl DecisionInvalidBindingDigest
      else if tad_expires_at c \<le> tad_issued_at c \<or> tad_expires_at c - tad_issued_at c > minutes 5
      then Inl DecisionInvalidValidityWindow
      else (case tad_decision_reason c of
              None \<Rightarrow> Inr ()
            | Some reason \<Rightarrow>
                if tad_decision c \<noteq> DecisionDeny then Inl ReasonWithoutRefusal
                else if is_blank reason \<or> length (chars reason) > TOOL_APPROVAL_DECISION_REASON_MAX_CHARS
                then Inl DecisionInvalidReason
                else Inr ()))"

section \<open>Reconciliation of Tool outcomes\<close>

definition TOOL_RECONCILIATION_SCHEMA_VERSION :: u32 where "TOOL_RECONCILIATION_SCHEMA_VERSION = 1"
definition TOOL_RECONCILIATION_MAX_CONTENT_BYTES :: nat where "TOOL_RECONCILIATION_MAX_CONTENT_BYTES = 256 * 1024"

datatype tool_reconciliation_decision = Applied json bool | NotApplied | Unresolved

record tool_reconciliation_command =
  trc_schema_version :: u32
  trc_reconciliation_id :: uuid
  trc_version :: u32
  trc_tenant_id :: uuid
  trc_source_run_id :: uuid
  trc_source_terminal_event_id :: uuid
  trc_tool_call_id :: string
  trc_binding_digest :: string
  trc_operator_id :: string
  trc_decision :: tool_reconciliation_decision
  trc_continuation_input :: "string option"
  trc_issued_at :: datetime

datatype tool_reconciliation_validation_error =
    ReconciliationUnsupportedSchemaVersion u32 | ReconciliationMissingIdentity | InvalidVersion
  | ReconciliationInvalidBindingDigest | InvalidText | InvalidContent | InvalidContinuationInput

definition valid_continuation :: "tool_reconciliation_decision \<Rightarrow> string option \<Rightarrow> bool" where
  "valid_continuation decision input =
     (case (decision, input) of
        (Unresolved, None) \<Rightarrow> True
      | (Applied _ _, Some input) \<Rightarrow> \<not> is_blank input \<and> length input \<le> 32000
      | (NotApplied, Some input) \<Rightarrow> \<not> is_blank input \<and> length input \<le> 32000
      | _ \<Rightarrow> False)"

definition content_too_large :: "externals \<Rightarrow> tool_reconciliation_decision \<Rightarrow> bool" where
  "content_too_large ext decision =
     (case decision of
        Applied content _ \<Rightarrow> encoded_len ext content > TOOL_RECONCILIATION_MAX_CONTENT_BYTES
      | _ \<Rightarrow> False)"

definition reconciliation_validate ::
  "externals \<Rightarrow> tool_reconciliation_command \<Rightarrow> (tool_reconciliation_validation_error, unit) result" where
  "reconciliation_validate ext c =
     (if trc_schema_version c \<noteq> TOOL_RECONCILIATION_SCHEMA_VERSION
      then Inl (ReconciliationUnsupportedSchemaVersion (trc_schema_version c))
      else if is_nil (trc_reconciliation_id c) \<or> is_nil (trc_tenant_id c) \<or> is_nil (trc_source_run_id c) \<or>
              is_nil (trc_source_terminal_event_id c)
      then Inl ReconciliationMissingIdentity
      else if trc_version c = 0 then Inl InvalidVersion
      else if \<not> is_sha256 (trc_binding_digest c) then Inl ReconciliationInvalidBindingDigest
      else if is_blank (trc_tool_call_id c) \<or> length (trc_tool_call_id c) > 256 \<or>
              is_blank (trc_operator_id c) \<or> length (trc_operator_id c) > 256
      then Inl InvalidText
      else if content_too_large ext (trc_decision c) then Inl InvalidContent
      else if \<not> valid_continuation (trc_decision c) (trc_continuation_input c) then Inl InvalidContinuationInput
      else Inr ())"

section \<open>Heartbeats and acceptance\<close>

definition WORKER_HEARTBEAT_SCHEMA_VERSION :: u32 where "WORKER_HEARTBEAT_SCHEMA_VERSION = 2"
definition RUN_EXECUTION_ACCEPTED_SCHEMA_VERSION :: u32 where "RUN_EXECUTION_ACCEPTED_SCHEMA_VERSION = 2"

datatype placement = Auto | Cloud | Edge

record active_run_assignment =
  ara_tenant_id :: uuid
  ara_run_id :: uuid
  ara_attempt_id :: uuid
  ara_workspace_id :: uuid
  ara_owner_epoch :: u64
  ara_fencing_token :: uuid

record worker_heartbeat =
  whb_schema_version :: u32
  whb_message_id :: uuid
  whb_worker_id :: uuid
  whb_incarnation_id :: uuid
  whb_occurred_at :: datetime
  whb_placements :: "placement list"
  whb_capacity :: u32
  whb_active_runs :: u32
  whb_active_assignments :: "active_run_assignment list"
  whb_runtime_version :: string
  whb_accepting_work :: bool
  whb_draining_since :: "datetime option"
  whb_drain_deadline :: "datetime option"

datatype worker_heartbeat_validation_error =
    HeartbeatUnsupportedSchemaVersion u32 | NonPositiveCapacity | CapacityOvercommitted | AssignmentCountMismatch
  | MissingPlacement | BlankRuntimeVersion | MissingIncarnation | InconsistentDrainState | InvalidDrainWindow

definition heartbeat_validate :: "worker_heartbeat \<Rightarrow> (worker_heartbeat_validation_error, unit) result" where
  "heartbeat_validate h =
     (if \<not> (whb_schema_version h = 1 \<or> whb_schema_version h = WORKER_HEARTBEAT_SCHEMA_VERSION)
      then Inl (HeartbeatUnsupportedSchemaVersion (whb_schema_version h))
      else if whb_schema_version h = WORKER_HEARTBEAT_SCHEMA_VERSION \<and> is_nil (whb_incarnation_id h)
      then Inl MissingIncarnation
      else if whb_capacity h = 0 then Inl NonPositiveCapacity
      else if whb_active_runs h > whb_capacity h then Inl CapacityOvercommitted
      else if length (whb_active_assignments h) > unat (whb_active_runs h) then Inl AssignmentCountMismatch
      else if whb_placements h = [] then Inl MissingPlacement
      else if is_blank (whb_runtime_version h) then Inl BlankRuntimeVersion
      else (case (whb_accepting_work h, whb_draining_since h, whb_drain_deadline h) of
              (True, None, None) \<Rightarrow> Inr ()
            | (False, Some draining_since, Some drain_deadline) \<Rightarrow>
                if draining_since > whb_occurred_at h \<or> drain_deadline \<le> draining_since
                then Inl InvalidDrainWindow
                else Inr ()
            | _ \<Rightarrow> Inl InconsistentDrainState))"

record run_execution_accepted =
  rea_schema_version :: u32
  rea_message_id :: uuid
  rea_tenant_id :: uuid
  rea_run_id :: uuid
  rea_attempt_id :: uuid
  rea_worker_id :: uuid
  rea_worker_incarnation_id :: uuid
  rea_accepted_at :: datetime

datatype run_execution_accepted_validation_error =
  AcceptedUnsupportedSchemaVersion u32 | NilAttemptId | AcceptedMissingWorkerIncarnation

definition accepted_validate ::
  "run_execution_accepted \<Rightarrow> (run_execution_accepted_validation_error, unit) result" where
  "accepted_validate a =
     (if \<not> (rea_schema_version a = 1 \<or> rea_schema_version a = RUN_EXECUTION_ACCEPTED_SCHEMA_VERSION)
      then Inl (AcceptedUnsupportedSchemaVersion (rea_schema_version a))
      else if is_nil (rea_attempt_id a) then Inl NilAttemptId
      else if rea_schema_version a = RUN_EXECUTION_ACCEPTED_SCHEMA_VERSION \<and> is_nil (rea_worker_incarnation_id a)
      then Inl AcceptedMissingWorkerIncarnation
      else Inr ())"

section \<open>Commands with a validity window\<close>

text \<open>
  What the four commands that carry a window promise: a command that validates was issued before it expires, and
  expires within five minutes. Everything a receiver concludes about the time it can still act on a command follows.
\<close>

locale windowed_command =
  fixes valid :: "'c \<Rightarrow> bool" and issued expires :: "'c \<Rightarrow> datetime"
  assumes window: "valid c \<Longrightarrow> issued c < expires c \<and> expires c \<le> issued c + minutes 5"
begin

lemma in_force_at_issue: "valid c \<Longrightarrow> issued c \<in> {issued c ..< expires c}"
  using window by simp

lemma in_force_spread:
  assumes "valid c" "a \<in> {issued c ..< expires c}" "b \<in> {issued c ..< expires c}"
  shows "\<bar>a - b\<bar> < minutes 5"
  using assms window [of c] by (simp add: minutes_def abs_less_iff)

lemmas in_force = in_force_at_issue in_force_spread

end

interpretation renewal: windowed_command "\<lambda>c. renewal_validate c = Inr ()" wir_issued_at wir_lease_expires_at
  by unfold_locales (simp add: renewal_validate_def Let_def split: if_splits)

interpretation cancellation: windowed_command "\<lambda>c. cancellation_validate c = Inr ()" rcc_issued_at rcc_expires_at
  by unfold_locales (simp add: cancellation_validate_def split: if_splits)

interpretation steering: windowed_command "\<lambda>c. steering_validate ext c = Inr ()" rsc_issued_at rsc_expires_at for ext
  by unfold_locales (simp add: steering_validate_def split: if_splits)

interpretation decision: windowed_command "\<lambda>c. decision_validate c = Inr ()" tad_issued_at tad_expires_at
  by unfold_locales (simp add: decision_validate_def split: if_splits)

section \<open>What a valid command says\<close>

lemma validate_at_Ok_window:
  assumes "validate_at c now = Inr ()"
  shows "sint (etc_issued_at_unix_ms c) \<le> sint now" "sint now < sint (etc_expires_at_unix_ms c)"
    "sint (etc_expires_at_unix_ms c) - sint (etc_issued_at_unix_ms c) \<le> 86400000"
proof -
  from assms obtain lifetime where l: "checked_sub_i64 (etc_expires_at_unix_ms c) (etc_issued_at_unix_ms c) = Some lifetime"
    "sint lifetime \<le> MAX_LIFETIME_MS"
    and "sint (etc_issued_at_unix_ms c) \<le> sint now" "sint now < sint (etc_expires_at_unix_ms c)"
    by (auto simp: validate_at_def Let_def split: if_splits option.splits)
  then show "sint (etc_issued_at_unix_ms c) \<le> sint now" "sint now < sint (etc_expires_at_unix_ms c)" by simp_all
  from l show "sint (etc_expires_at_unix_ms c) - sint (etc_issued_at_unix_ms c) \<le> 86400000"
    using checked_sub_i64_Some [OF l(1)] by (simp add: MAX_LIFETIME_MS_def)
qed

lemma validate_at_other:
  assumes "validate_at c now = Inr ()"
  shows "validate_at c t =
      (if sint (etc_issued_at_unix_ms c) \<le> sint t \<and> sint t < sint (etc_expires_at_unix_ms c)
       then Inr () else Inl InvalidLifetime)"
  using assms by (simp add: validate_at_def Let_def split: if_splits option.splits)

definition steering_target_of :: "run_steering_command \<Rightarrow> run_steering_target" where
  "steering_target_of c =
     \<lparr>rst_tenant_id = rsc_tenant_id c, rst_run_id = rsc_run_id c, rst_attempt_id = rsc_attempt_id c,
      rst_worker_id = rsc_worker_id c, rst_worker_incarnation_id = rsc_worker_incarnation_id c\<rparr>"

definition steering_request_of :: "run_steering_command \<Rightarrow> run_steering_request" where
  "steering_request_of c =
     \<lparr>rsr_input = rsc_input c, rsr_issued_at = rsc_issued_at c, rsr_expires_at = rsc_expires_at c\<rparr>"

definition steering_identified :: "run_steering_command \<Rightarrow> bool" where
  "steering_identified c \<longleftrightarrow>
     list_all (\<lambda>u. u \<noteq> nil_uuid)
       [rsc_message_id c, rsc_steering_id c, rsc_tenant_id c, rsc_run_id c, rsc_attempt_id c, rsc_worker_id c,
        rsc_worker_incarnation_id c]"

lemma steering_built_iff:
  "c = run_steering_command_new ext (rsc_message_id c) (rsc_steering_id c) (steering_target_of c) (steering_request_of c)
     \<longleftrightarrow> rsc_schema_version c = RUN_STEERING_SCHEMA_VERSION \<and> rsc_input_digest c = input_digest_of ext (rsc_input c)"
  by (cases c) (simp add: run_steering_command_new_def steering_target_of_def steering_request_of_def)

section \<open>Properties\<close>

text \<open>
  No command outlives five minutes. An identity renewal, a cancellation, a steering command or an approval decision
  that validates is in force when it is issued, and any two instants at which it is in force are less than five minutes
  apart.
\<close>

theorem control_commands_expire:
  shows "(renewal_validate r = Inr () \<longrightarrow>
      wir_issued_at r \<in> {wir_issued_at r ..< wir_lease_expires_at r} \<and>
      (\<forall>a b. a \<in> {wir_issued_at r ..< wir_lease_expires_at r} \<longrightarrow> b \<in> {wir_issued_at r ..< wir_lease_expires_at r} \<longrightarrow>
         \<bar>a - b\<bar> < minutes 5)) \<and>
    (cancellation_validate c = Inr () \<longrightarrow>
      rcc_issued_at c \<in> {rcc_issued_at c ..< rcc_expires_at c} \<and>
      (\<forall>a b. a \<in> {rcc_issued_at c ..< rcc_expires_at c} \<longrightarrow> b \<in> {rcc_issued_at c ..< rcc_expires_at c} \<longrightarrow>
         \<bar>a - b\<bar> < minutes 5)) \<and>
    (steering_validate ext s = Inr () \<longrightarrow>
      rsc_issued_at s \<in> {rsc_issued_at s ..< rsc_expires_at s} \<and>
      (\<forall>a b. a \<in> {rsc_issued_at s ..< rsc_expires_at s} \<longrightarrow> b \<in> {rsc_issued_at s ..< rsc_expires_at s} \<longrightarrow>
         \<bar>a - b\<bar> < minutes 5)) \<and>
    (decision_validate d = Inr () \<longrightarrow>
      tad_issued_at d \<in> {tad_issued_at d ..< tad_expires_at d} \<and>
      (\<forall>a b. a \<in> {tad_issued_at d ..< tad_expires_at d} \<longrightarrow> b \<in> {tad_issued_at d ..< tad_expires_at d} \<longrightarrow>
         \<bar>a - b\<bar> < minutes 5))"
  by (intro conjI impI allI renewal.in_force cancellation.in_force steering.in_force decision.in_force)

text \<open>
  C16. The instants at which an edge task is accepted form one interval. If the claims are accepted at some instant, they
  are accepted exactly from the instant they were issued up to their expiry, and everywhere else the error is the one
  for the lifetime; issue and expiry are at most a day apart as integers, so the 64-bit subtraction of the check did
  not wrap around.
\<close>

theorem edge_task_accepted_interval:
  assumes "validate_at c now = Inr ()"
  shows "(\<forall>t. validate_at c t =
        (if sint (etc_issued_at_unix_ms c) \<le> sint t \<and> sint t < sint (etc_expires_at_unix_ms c)
         then Inr () else Inl InvalidLifetime)) \<and>
     sint (etc_issued_at_unix_ms c) \<le> sint now \<and> sint now < sint (etc_expires_at_unix_ms c) \<and>
     sint (etc_expires_at_unix_ms c) - sint (etc_issued_at_unix_ms c) \<le> 86400000"
  using validate_at_other [OF assms] validate_at_Ok_window [OF assms] by blast

text \<open>
  A steering command validates exactly if it is what \<^const>\<open>run_steering_command_new\<close> builds from its own target and
  request, its identifiers are set, its input is neither blank nor longer than 32 KiB, and its window is positive and
  at most five minutes; the only assumption is that a SHA-256 digest is written as 64 lower-case hexadecimal digits.
\<close>

theorem steering_valid_iff_built:
  assumes "\<And>bs. is_sha256 (ext_sha256_hex ext bs)"
  shows "steering_validate ext c = Inr () \<longleftrightarrow>
     c = run_steering_command_new ext (rsc_message_id c) (rsc_steering_id c) (steering_target_of c)
           (steering_request_of c) \<and>
     steering_identified c \<and> \<not> is_blank (rsc_input c) \<and> length (rsc_input c) \<le> 32768 \<and>
     0 < rsc_expires_at c - rsc_issued_at c \<and> rsc_expires_at c - rsc_issued_at c \<le> minutes 5"
  unfolding steering_built_iff
  using assms by (auto simp: steering_validate_def steering_identified_def is_nil_def nil_uuid_def input_digest_of_def
      split: if_splits)

text \<open>
  A heartbeat that validates is a consistent account of the worker: the listed assignments are no more than the
  active Runs, these no more than a positive capacity, and the worker either accepts work and says nothing about
  draining, or accepts none, has started to drain no later than the heartbeat, and has a later deadline.
\<close>

theorem heartbeat_consistent:
  assumes "heartbeat_validate h = Inr ()"
  shows "length (whb_active_assignments h) \<le> unat (whb_active_runs h) \<and>
     unat (whb_active_runs h) \<le> unat (whb_capacity h) \<and> 0 < unat (whb_capacity h) \<and>
     (whb_accepting_work h \<longleftrightarrow> whb_draining_since h = None) \<and>
     (whb_draining_since h = None \<longleftrightarrow> whb_drain_deadline h = None) \<and>
     (\<forall>since deadline. whb_draining_since h = Some since \<longrightarrow> whb_drain_deadline h = Some deadline \<longrightarrow>
        since \<le> whb_occurred_at h \<and> since < deadline)"
proof -
  have "0 < unat (whb_capacity h)" "unat (whb_active_runs h) \<le> unat (whb_capacity h)"
    "length (whb_active_assignments h) \<le> unat (whb_active_runs h)"
    using assms by (simp_all add: heartbeat_validate_def not_less word_le_nat_alt unat_gt_0 split: if_splits)
  with assms show ?thesis
    by (cases "whb_accepting_work h"; cases "whb_draining_since h"; cases "whb_drain_deadline h")
      (simp_all add: heartbeat_validate_def split: if_splits)
qed

section \<open>Witnesses\<close>

definition sample_invocation :: runtime_invocation_context where
  "sample_invocation = \<lparr>ric_schema_version = 1, ric_tenant_id = 1, ric_application_id = 2, ric_workload_identity_id = 3,
     ric_workspace_id = 4, ric_agent_version_id = 5, ric_model_policy_id = 6\<rparr>"

definition sample_edge_task :: edge_task_claims where
  "sample_edge_task = \<lparr>etc_schema_version = 2, etc_task_id = 1, etc_enrollment_id = 2, etc_node_id = 3,
     etc_node_generation = 1, etc_capability_manifest_digest = replicate 64 (CHR ''0''),
     etc_required_capabilities = [''shell''], etc_issued_at_unix_ms = 10, etc_expires_at_unix_ms = 20,
     etc_invocation = sample_invocation, etc_run_id = 7, etc_session_id = 7, etc_workspace_owner_epoch = 1,
     etc_input = ''hi''\<rparr>"

lemma control_sample_texts:
  "is_lower_hex_sha256 (replicate 64 (CHR ''0''))" "is_sha256 (replicate 64 (CHR ''0''))"
  "valid_edge_capability ''shell''" "\<not> is_blank ''hi''"
  by code_simp+

lemma sample_edge_task_accepted: "validate_at sample_edge_task 15 = Inr ()"
  by (simp add: validate_at_def sample_edge_task_def sample_invocation_def invocation_validate_def control_sample_texts
      EDGE_TASK_SCHEMA_VERSION_def RUNTIME_INVOCATION_SCHEMA_VERSION_def is_nil_def nil_uuid_def checked_sub_i64_def
      MAX_LIFETIME_MS_def is_ok_def)

theorem edge_task_accepted_interval_witness:
  "validate_at sample_edge_task 15 = Inr () \<and> validate_at sample_edge_task 10 = Inr () \<and>
   validate_at sample_edge_task 20 = Inl InvalidLifetime"
  using edge_task_accepted_interval [OF sample_edge_task_accepted] sample_edge_task_accepted
  by (simp add: sample_edge_task_def)

definition sample_steering :: run_steering_command where
  "sample_steering = run_steering_command_new injective_externals 1 2
     \<lparr>rst_tenant_id = 3, rst_run_id = 4, rst_attempt_id = 5, rst_worker_id = 6, rst_worker_incarnation_id = 7\<rparr>
     \<lparr>rsr_input = ''hi'', rsr_issued_at = 0, rsr_expires_at = minutes 5\<rparr>"

lemma steering_sample_digests: "is_sha256 (ext_sha256_hex injective_externals bs)"
  by (simp add: injective_externals_def sample_externals_def control_sample_texts)

theorem steering_valid_iff_built_witness:
  "steering_validate injective_externals sample_steering = Inr ()"
  using steering_valid_iff_built [OF steering_sample_digests, of sample_steering]
  by (simp add: sample_steering_def run_steering_command_new_def steering_target_of_def steering_request_of_def
      steering_identified_def nil_uuid_def control_sample_texts minutes_def)

definition sample_heartbeat :: worker_heartbeat where
  "sample_heartbeat = \<lparr>whb_schema_version = 2, whb_message_id = 1, whb_worker_id = 2, whb_incarnation_id = 3,
     whb_occurred_at = 100, whb_placements = [Cloud], whb_capacity = 4, whb_active_runs = 1,
     whb_active_assignments = [], whb_runtime_version = ''hi'', whb_accepting_work = False,
     whb_draining_since = Some 90, whb_drain_deadline = Some 120\<rparr>"

lemma sample_heartbeat_valid: "heartbeat_validate sample_heartbeat = Inr ()"
  by (simp add: heartbeat_validate_def sample_heartbeat_def WORKER_HEARTBEAT_SCHEMA_VERSION_def is_nil_def nil_uuid_def
      control_sample_texts)

theorem heartbeat_consistent_witness:
  "heartbeat_validate sample_heartbeat = Inr () \<and> unat (whb_active_runs sample_heartbeat) \<le> unat (whb_capacity sample_heartbeat)"
  using heartbeat_consistent [OF sample_heartbeat_valid] sample_heartbeat_valid by simp

definition sample_cancellation :: run_cancellation_command where
  "sample_cancellation = \<lparr>rcc_schema_version = 2, rcc_message_id = 1, rcc_tenant_id = 2, rcc_run_id = 3, rcc_attempt_id = 4,
     rcc_worker_id = 5, rcc_worker_incarnation_id = 6, rcc_issued_at = 0, rcc_expires_at = minutes 5, rcc_reason = ''hi''\<rparr>"

theorem control_commands_expire_witness:
  "cancellation_validate sample_cancellation = Inr () \<and>
   \<bar>0 - (minutes 5 - 1)\<bar> < minutes 5 \<and> rcc_issued_at sample_cancellation < rcc_expires_at sample_cancellation"
proof -
  have "cancellation_validate sample_cancellation = Inr ()"
    by (simp add: cancellation_validate_def sample_cancellation_def RUN_CANCELLATION_SCHEMA_VERSION_def is_nil_def
        nil_uuid_def control_sample_texts minutes_def)
  moreover have "0 \<in> {rcc_issued_at sample_cancellation ..< rcc_expires_at sample_cancellation}"
    "minutes 5 - 1 \<in> {rcc_issued_at sample_cancellation ..< rcc_expires_at sample_cancellation}"
    by (simp_all add: sample_cancellation_def minutes_def)
  ultimately show ?thesis using control_commands_expire [where c = sample_cancellation] by fastforce
qed

end
