(* ===== verification/Transcripts.thy ===== *)
theory Transcripts
  imports Protocol_Types
begin

text \<open>
  Model-visible transcripts of \<open>runtime/crates/protocol/src/lib.rs\<close>: \<open>valid_subagent_transcript\<close>, the Session turns
  and branches, and the results and conversation histories of subagents that are built on it. The loop of the validity check
  is shown equivalent to a declarative description of a transcript.
\<close>

section \<open>The validity check\<close>

definition is_tool_part :: "content_part \<Rightarrow> bool" where
  "is_tool_part p \<longleftrightarrow> (case p of PartToolCall _ _ _ \<Rightarrow> True | PartToolResult _ _ \<Rightarrow> True | _ \<Rightarrow> False)"

definition valid_id :: "string \<Rightarrow> bool" where
  "valid_id s \<longleftrightarrow> \<not> (is_blank s \<or> length s > 256)"

fun assistant_parts :: "content_part list \<Rightarrow> string set \<Rightarrow> string set option" where
  "assistant_parts [] calls = Some calls"
| "assistant_parts (part # parts) calls =
     (case part of
        PartToolResult _ _ \<Rightarrow> None
      | PartToolCall tool_call_id name _ \<Rightarrow>
          if is_blank tool_call_id \<or> length tool_call_id > 256 \<or> is_blank name \<or> length name > 256
             \<or> tool_call_id \<in> calls
          then None else assistant_parts parts (insert tool_call_id calls)
      | _ \<Rightarrow> assistant_parts parts calls)"

fun transcript_messages :: "message list \<Rightarrow> string set \<Rightarrow> string set \<Rightarrow> (string set \<times> string set) option" where
  "transcript_messages [] calls results = Some (calls, results)"
| "transcript_messages (message # transcript) calls results =
     (if msg_content message = [] \<or> msg_role message = SystemRole then None
      else case msg_role message of
             SystemRole \<Rightarrow> None
           | UserRole \<Rightarrow>
               if list_ex is_tool_part (msg_content message) then None
               else transcript_messages transcript calls results
           | AssistantRole \<Rightarrow>
               (case assistant_parts (msg_content message) calls of
                  None \<Rightarrow> None
                | Some calls' \<Rightarrow> transcript_messages transcript calls' results)
           | ToolRole \<Rightarrow>
               (case msg_content message of
                  [PartToolResult tool_call_id _] \<Rightarrow>
                    if is_blank tool_call_id \<or> length tool_call_id > 256 \<or> tool_call_id \<notin> calls
                       \<or> tool_call_id \<in> results
                    then None else transcript_messages transcript calls (insert tool_call_id results)
                | _ \<Rightarrow> None))"

definition valid_subagent_transcript :: "message list \<Rightarrow> bool" where
  "valid_subagent_transcript transcript \<longleftrightarrow>
     (if transcript = [] \<or> msg_role (hd transcript) \<noteq> UserRole then False
      else case transcript_messages transcript {} {} of
             None \<Rightarrow> False
           | Some (calls, results) \<Rightarrow> calls = results)"

section \<open>A declarative description\<close>

fun part_calls :: "content_part list \<Rightarrow> string list" where
  "part_calls [] = []"
| "part_calls (p # ps) = (case p of PartToolCall i _ _ \<Rightarrow> i # part_calls ps | _ \<Rightarrow> part_calls ps)"

definition message_calls :: "message \<Rightarrow> string list" where
  "message_calls m = (if msg_role m = AssistantRole then part_calls (msg_content m) else [])"

definition message_results :: "message \<Rightarrow> string list" where
  "message_results m =
     (if msg_role m = ToolRole then (case msg_content m of [PartToolResult i _] \<Rightarrow> [i] | _ \<Rightarrow> []) else [])"

definition call_ids :: "message list \<Rightarrow> string list" where
  "call_ids t = concat (map message_calls t)"

definition result_ids :: "message list \<Rightarrow> string list" where
  "result_ids t = concat (map message_results t)"

definition assistant_part_ok :: "content_part \<Rightarrow> bool" where
  "assistant_part_ok p \<longleftrightarrow>
     (case p of
        PartToolResult _ _ \<Rightarrow> False
      | PartToolCall i n _ \<Rightarrow> valid_id i \<and> valid_id n
      | _ \<Rightarrow> True)"

definition message_ok :: "message \<Rightarrow> bool" where
  "message_ok m \<longleftrightarrow>
     msg_content m \<noteq> [] \<and>
     (case msg_role m of
        SystemRole \<Rightarrow> False
      | UserRole \<Rightarrow> \<not> list_ex is_tool_part (msg_content m)
      | AssistantRole \<Rightarrow> list_all assistant_part_ok (msg_content m)
      | ToolRole \<Rightarrow> (case msg_content m of [PartToolResult i _] \<Rightarrow> valid_id i | _ \<Rightarrow> False))"

text \<open>Every result answers a call of an earlier message.\<close>

fun answered_in_order :: "string set \<Rightarrow> message list \<Rightarrow> bool" where
  "answered_in_order calls [] \<longleftrightarrow> True"
| "answered_in_order calls (m # t) \<longleftrightarrow>
     set (message_results m) \<subseteq> calls \<and> answered_in_order (calls \<union> set (message_calls m)) t"

lemma call_ids_simps [simp]: "call_ids [] = []" "call_ids (m # t) = message_calls m @ call_ids t"
  "call_ids (s @ t) = call_ids s @ call_ids t"
  by (simp_all add: call_ids_def)

lemma result_ids_simps [simp]: "result_ids [] = []" "result_ids (m # t) = message_results m @ result_ids t"
  "result_ids (s @ t) = result_ids s @ result_ids t"
  by (simp_all add: result_ids_def)

lemma assistant_parts_iff:
  "assistant_parts ps calls = Some calls' \<longleftrightarrow>
     list_all assistant_part_ok ps \<and> distinct (part_calls ps) \<and> set (part_calls ps) \<inter> calls = {} \<and>
     calls' = calls \<union> set (part_calls ps)"
proof (induction ps arbitrary: calls)
  case (Cons p ps)
  show ?case
    by (cases p) (auto simp: assistant_part_ok_def valid_id_def Cons.IH)
qed auto

lemma assistant_parts_eq:
  "assistant_parts ps calls =
     (if list_all assistant_part_ok ps \<and> distinct (part_calls ps) \<and> set (part_calls ps) \<inter> calls = {}
      then Some (calls \<union> set (part_calls ps)) else None)"
  using assistant_parts_iff [of ps calls] by (cases "assistant_parts ps calls") auto

lemma transcript_messages_iff:
  "transcript_messages t calls results = Some (calls', results') \<longleftrightarrow>
     list_all message_ok t \<and>
     distinct (call_ids t) \<and> set (call_ids t) \<inter> calls = {} \<and>
     distinct (result_ids t) \<and> set (result_ids t) \<inter> results = {} \<and>
     answered_in_order calls t \<and>
     calls' = calls \<union> set (call_ids t) \<and> results' = results \<union> set (result_ids t)"
proof (induction t arbitrary: calls results)
  case (Cons m t)
  show ?case
  proof (cases "msg_role m")
    case SystemRole
    then have "\<not> message_ok m" by (simp add: message_ok_def)
    with SystemRole show ?thesis by simp
  next
    case UserRole
    then have "message_ok m \<longleftrightarrow> msg_content m \<noteq> [] \<and> \<not> list_ex is_tool_part (msg_content m)"
      and "message_calls m = []" "message_results m = []"
      by (simp_all add: message_ok_def message_calls_def message_results_def)
    with UserRole show ?thesis by (auto simp: Cons.IH)
  next
    case AssistantRole
    then have "message_ok m \<longleftrightarrow> msg_content m \<noteq> [] \<and> list_all assistant_part_ok (msg_content m)"
      and "message_calls m = part_calls (msg_content m)" "message_results m = []"
      by (simp_all add: message_ok_def message_calls_def message_results_def)
    with AssistantRole show ?thesis by (auto simp: Cons.IH assistant_parts_eq)
  next
    case ToolRole
    then have calls: "message_calls m = []" by (simp add: message_calls_def)
    show ?thesis
    proof (cases "\<exists>i c. msg_content m = [PartToolResult i c]")
      case True
      then obtain i c where "msg_content m = [PartToolResult i c]" by blast
      with ToolRole have "message_ok m \<longleftrightarrow> valid_id i" "message_results m = [i]" "msg_content m = [PartToolResult i c]"
        by (simp_all add: message_ok_def message_results_def)
      with ToolRole calls show ?thesis by (auto simp: Cons.IH valid_id_def)
    next
      case False
      with ToolRole have "\<not> message_ok m" "transcript_messages (m # t) calls results = None"
        by (auto simp: message_ok_def split: list.splits content_part.splits)
      then show ?thesis by simp
    qed
  qed
qed auto

lemma valid_transcript_iff:
  "valid_subagent_transcript t \<longleftrightarrow>
     t \<noteq> [] \<and> msg_role (hd t) = UserRole \<and> list_all message_ok t \<and>
     distinct (call_ids t) \<and> distinct (result_ids t) \<and> set (call_ids t) = set (result_ids t) \<and>
     answered_in_order {} t"
proof -
  have "(case transcript_messages t {} {} of None \<Rightarrow> False | Some (c, r) \<Rightarrow> c = r) \<longleftrightarrow>
      (\<exists>c. transcript_messages t {} {} = Some (c, c))"
    by (auto split: option.splits)
  then show ?thesis by (auto simp: valid_subagent_transcript_def transcript_messages_iff)
qed

lemma answered_in_order_iff:
  "answered_in_order calls t \<longleftrightarrow>
     (\<forall>i < length t. set (message_results (t ! i)) \<subseteq> calls \<union> set (call_ids (take i t)))"
proof (induction t arbitrary: calls)
  case (Cons m t)
  show ?case
    unfolding answered_in_order.simps Cons.IH
    by (auto simp: nth_Cons All_less_Suc2 Un_assoc split: nat.splits)
qed simp

section \<open>Subagent results\<close>

definition SUBAGENT_RESULT_MAX_BYTES :: nat where
  "SUBAGENT_RESULT_MAX_BYTES = 256 * 1024"

definition SUBAGENT_TRANSCRIPT_MAX_BYTES :: nat where
  "SUBAGENT_TRANSCRIPT_MAX_BYTES = 1024 * 1024"

record subagent_result_source =
  srs_tool_call_id :: string
  srs_delegation_id :: uuid
  srs_binding_digest :: string
  srs_child_run_id :: uuid
  srs_child_terminal_event_id :: uuid

record subagent_result_outcome =
  sro_terminal_status :: run_status
  sro_content :: json
  sro_is_error :: bool

definition result_material :: "externals \<Rightarrow> subagent_result_delivery \<Rightarrow> json" where
  "result_material ext r =
     (let fields = [JString (srd_tool_call_id r), juuid ext (srd_delegation_id r), JString (srd_binding_digest r),
                    juuid ext (srd_child_run_id r), juuid ext (srd_child_terminal_event_id r),
                    ser_run_status (srd_terminal_status r), srd_content r, JBool (srd_is_error r)]
      in if srd_transcript r \<noteq> []
         then JArray ([JString ''agent-runtime-subagent-result-v3''] @ fields
                      @ [ser_usage (srd_usage r), jarr ser_message (srd_transcript r)])
         else if srd_usage r = default_usage then JArray fields
         else JArray ([JString ''agent-runtime-subagent-result-v2''] @ fields @ [ser_usage (srd_usage r)]))"

definition result_calculate_digest :: "externals \<Rightarrow> subagent_result_delivery \<Rightarrow> string" where
  "result_calculate_digest ext r = json_digest ext (result_material ext r)"

definition subagent_result_delivery_new ::
  "externals \<Rightarrow> subagent_result_source \<Rightarrow> subagent_result_outcome \<Rightarrow> subagent_result_delivery" where
  "subagent_result_delivery_new ext source outcome =
     (let r = \<lparr>srd_tool_call_id = srs_tool_call_id source, srd_delegation_id = srs_delegation_id source,
               srd_binding_digest = srs_binding_digest source, srd_child_run_id = srs_child_run_id source,
               srd_child_terminal_event_id = srs_child_terminal_event_id source,
               srd_terminal_status = sro_terminal_status outcome, srd_content = sro_content outcome,
               srd_is_error = sro_is_error outcome, srd_usage = default_usage, srd_transcript = [], srd_digest = []\<rparr>
      in r\<lparr>srd_digest := result_calculate_digest ext r\<rparr>)"

definition new_with_usage ::
  "externals \<Rightarrow> subagent_result_source \<Rightarrow> subagent_result_outcome \<Rightarrow> subagent_budget_usage \<Rightarrow> subagent_result_delivery" where
  "new_with_usage ext source outcome usage =
     (let r = (subagent_result_delivery_new ext source outcome)\<lparr>srd_usage := usage\<rparr>
      in r\<lparr>srd_digest := result_calculate_digest ext r\<rparr>)"

definition new_with_usage_and_transcript ::
  "externals \<Rightarrow> subagent_result_source \<Rightarrow> subagent_result_outcome \<Rightarrow> subagent_budget_usage \<Rightarrow> message list \<Rightarrow>
   subagent_result_delivery" where
  "new_with_usage_and_transcript ext source outcome usage transcript =
     (let r = (new_with_usage ext source outcome usage)\<lparr>srd_transcript := transcript\<rparr>
      in r\<lparr>srd_digest := result_calculate_digest ext r\<rparr>)"

definition result_verify_digest :: "externals \<Rightarrow> subagent_result_delivery \<Rightarrow> bool" where
  "result_verify_digest ext r \<longleftrightarrow> srd_digest r = result_calculate_digest ext r"

definition result_validate :: "externals \<Rightarrow> subagent_result_delivery \<Rightarrow> bool" where
  "result_validate ext r \<longleftrightarrow>
     \<not> is_blank (srd_tool_call_id r) \<and> length (srd_tool_call_id r) \<le> 256 \<and>
     \<not> is_nil (srd_delegation_id r) \<and> is_sha256 (srd_binding_digest r) \<and>
     \<not> is_nil (srd_child_run_id r) \<and> \<not> is_nil (srd_child_terminal_event_id r) \<and>
     is_terminal (srd_terminal_status r) \<and>
     srd_is_error r = (srd_terminal_status r \<noteq> Succeeded) \<and>
     encoded_len ext (srd_content r) \<le> SUBAGENT_RESULT_MAX_BYTES \<and>
     (srd_transcript r = [] \<or>
      (valid_subagent_transcript (srd_transcript r) \<and>
       encoded_len ext (jarr ser_message (srd_transcript r)) \<le> SUBAGENT_TRANSCRIPT_MAX_BYTES \<and>
       (srd_terminal_status r \<noteq> Succeeded \<or>
        (srd_transcript r \<noteq> [] \<and> msg_role (last (srd_transcript r)) = AssistantRole)))) \<and>
     result_verify_digest ext r"

section \<open>Subagent conversation histories\<close>

definition SUBAGENT_HISTORY_MAX_TURNS :: nat where
  "SUBAGENT_HISTORY_MAX_TURNS = 128"

definition SUBAGENT_HISTORY_MAX_BYTES :: nat where
  "SUBAGENT_HISTORY_MAX_BYTES = 2 * 1024 * 1024"

definition subagent_conversation_history_digest :: "externals \<Rightarrow> subagent_conversation_turn list \<Rightarrow> string" where
  "subagent_conversation_history_digest ext history =
     json_digest ext (JArray [JString ''agent-runtime-subagent-history-v1'', jarr (ser_conversation_turn ext) history])"

fun history_turns_ok ::
  "externals \<Rightarrow> subagent_conversation_turn list \<Rightarrow> u64 option \<Rightarrow> u64 set \<Rightarrow> bool" where
  "history_turns_ok ext [] previous_activation message_sequences \<longleftrightarrow> True"
| "history_turns_ok ext (turn # history) previous_activation message_sequences \<longleftrightarrow>
     (case previous_activation of None \<Rightarrow> True | Some previous \<Rightarrow> sct_activation_ordinal turn > previous) \<and>
     sct_message_sequence turn \<notin> message_sequences \<and>
     \<not> is_nil (sct_child_run_id turn) \<and> \<not> is_blank (sct_input turn) \<and> length (sct_input turn) \<le> 32000 \<and>
     srd_child_run_id (sct_result turn) = sct_child_run_id turn \<and>
     srd_delegation_id (sct_result turn) = sct_child_run_id turn \<and>
     result_validate ext (sct_result turn) \<and>
     history_turns_ok ext history (Some (sct_activation_ordinal turn))
       (insert (sct_message_sequence turn) message_sequences)"

definition valid_subagent_conversation_history :: "externals \<Rightarrow> subagent_conversation_turn list \<Rightarrow> bool" where
  "valid_subagent_conversation_history ext history \<longleftrightarrow>
     (if length history > SUBAGENT_HISTORY_MAX_TURNS \<or>
         encoded_len ext (jarr (ser_conversation_turn ext) history) > SUBAGENT_HISTORY_MAX_BYTES
      then False else history_turns_ok ext history None {})"

definition spawn_request_is_well_formed :: "externals \<Rightarrow> subagent_spawn_request \<Rightarrow> bool" where
  "spawn_request_is_well_formed ext r \<longleftrightarrow>
     \<not> is_blank (ssr_tool_call_id r) \<and> length (ssr_tool_call_id r) \<le> 256 \<and> \<not> is_nil (ssr_delegation_id r) \<and>
     ssr_role r \<noteq> ''primary'' \<and> portable_identifier (ssr_role r) 80 \<and>
     \<not> is_blank (ssr_input r) \<and> length (ssr_input r) \<le> 32000 \<and>
     is_positive_and_finite (ssr_budget r) \<and> is_sha256 (ssr_binding_digest r) \<and>
     valid_subagent_conversation_history ext (ssr_conversation_history r)"

section \<open>Session turns and branches\<close>

definition SESSION_HISTORY_MAX_TURNS :: nat where
  "SESSION_HISTORY_MAX_TURNS = 128"

definition SESSION_HISTORY_MAX_BYTES :: nat where
  "SESSION_HISTORY_MAX_BYTES = 2 * 1024 * 1024"

record session_conversation_turn =
  st_turn_ordinal :: u64
  st_run_id :: uuid
  st_transcript :: "message list"
  st_digest :: string

definition turn_material :: "externals \<Rightarrow> session_conversation_turn \<Rightarrow> json" where
  "turn_material ext t =
     JArray [JString ''agent-runtime-session-turn-v1'', ju64 (st_turn_ordinal t), juuid ext (st_run_id t),
             jarr ser_message (st_transcript t)]"

definition turn_calculate_digest :: "externals \<Rightarrow> session_conversation_turn \<Rightarrow> string" where
  "turn_calculate_digest ext t = json_digest ext (turn_material ext t)"

definition session_conversation_turn_new ::
  "externals \<Rightarrow> u64 \<Rightarrow> uuid \<Rightarrow> message list \<Rightarrow> session_conversation_turn" where
  "session_conversation_turn_new ext turn_ordinal run_id transcript =
     (let t = \<lparr>st_turn_ordinal = turn_ordinal, st_run_id = run_id, st_transcript = transcript, st_digest = []\<rparr>
      in t\<lparr>st_digest := turn_calculate_digest ext t\<rparr>)"

definition turn_verify_digest :: "externals \<Rightarrow> session_conversation_turn \<Rightarrow> bool" where
  "turn_verify_digest ext t \<longleftrightarrow> st_digest t = turn_calculate_digest ext t"

definition turn_is_well_formed :: "externals \<Rightarrow> session_conversation_turn \<Rightarrow> bool" where
  "turn_is_well_formed ext t \<longleftrightarrow>
     st_turn_ordinal t > 0 \<and> \<not> is_nil (st_run_id t) \<and> valid_subagent_transcript (st_transcript t) \<and>
     (st_transcript t \<noteq> [] \<and> msg_role (last (st_transcript t)) = AssistantRole) \<and>
     turn_verify_digest ext t"

definition ser_session_turn :: "externals \<Rightarrow> session_conversation_turn \<Rightarrow> json" where
  "ser_session_turn ext t = JObject
     [(''turn_ordinal'', ju64 (st_turn_ordinal t)), (''run_id'', juuid ext (st_run_id t)),
      (''transcript'', jarr ser_message (st_transcript t)), (''digest'', JString (st_digest t))]"

record session_branch_snapshot =
  sb_branch_id :: uuid
  sb_generation :: u64
  sb_history :: "session_conversation_turn list"
  sb_history_digest :: string

definition session_conversation_history_digest :: "externals \<Rightarrow> session_conversation_turn list \<Rightarrow> string" where
  "session_conversation_history_digest ext history =
     json_digest ext (JArray [JString ''agent-runtime-session-history-v1'', jarr (ser_session_turn ext) history])"

definition session_branch_snapshot_new ::
  "externals \<Rightarrow> uuid \<Rightarrow> u64 \<Rightarrow> session_conversation_turn list \<Rightarrow> session_branch_snapshot" where
  "session_branch_snapshot_new ext branch_id generation history =
     \<lparr>sb_branch_id = branch_id, sb_generation = generation, sb_history = history,
      sb_history_digest = session_conversation_history_digest ext history\<rparr>"

fun session_turns_ok :: "externals \<Rightarrow> nat \<Rightarrow> session_conversation_turn list \<Rightarrow> uuid set \<Rightarrow> bool" where
  "session_turns_ok ext index [] run_ids \<longleftrightarrow> True"
| "session_turns_ok ext index (turn # history) run_ids \<longleftrightarrow>
     st_turn_ordinal turn = saturating_add (if index < 2 ^ 64 then of_nat index else - 1) 1 \<and>
     st_run_id turn \<notin> run_ids \<and> turn_is_well_formed ext turn \<and>
     session_turns_ok ext (Suc index) history (insert (st_run_id turn) run_ids)"

definition valid_session_conversation_history :: "externals \<Rightarrow> session_conversation_turn list \<Rightarrow> bool" where
  "valid_session_conversation_history ext history \<longleftrightarrow>
     (if length history > SESSION_HISTORY_MAX_TURNS \<or>
         encoded_len ext (jarr (ser_session_turn ext) history) > SESSION_HISTORY_MAX_BYTES
      then False else session_turns_ok ext 0 history {})"

definition branch_is_well_formed :: "externals \<Rightarrow> session_branch_snapshot \<Rightarrow> bool" where
  "branch_is_well_formed ext b \<longleftrightarrow>
     \<not> is_nil (sb_branch_id b) \<and> sb_generation b > 0 \<and>
     valid_session_conversation_history ext (sb_history b) \<and>
     sb_history_digest b = session_conversation_history_digest ext (sb_history b)"

section \<open>Serialised messages are read back\<close>

lemma ser_role_inject [simp]: "ser_role a = ser_role b \<longleftrightarrow> a = b"
  by (cases a; cases b) simp_all

lemma ser_private_state_inject [simp]: "ser_private_state a = ser_private_state b \<longleftrightarrow> a = b"
  by (cases a; cases b) (simp add: ser_private_state_def)

lemma jopt_private_state_inject [simp]:
  "jopt ser_private_state a = jopt ser_private_state b \<longleftrightarrow> a = b"
  by (cases a; cases b) (simp_all add: jopt_def, simp_all add: ser_private_state_def)

lemma inj_JString [simp]: "inj JString"
  by (simp add: inj_def)

lemma ser_content_part_inject [simp]: "ser_content_part a = ser_content_part b \<longleftrightarrow> a = b"
  by (cases a; cases b) (simp_all add: jarr_inject)

lemma ser_message_inject: "ser_message a = ser_message b \<longleftrightarrow> a = b"
proof -
  have "inj ser_content_part" by (simp add: inj_def)
  then show ?thesis by (cases a; cases b) (auto simp: ser_message_def jarr_inject)
qed

lemma ser_usage_inject [simp]: "ser_usage a = ser_usage b \<longleftrightarrow> a = b"
  by (cases a; cases b) (simp add: ser_usage_def)

lemma result_material_inject:
  assumes "inj (ext_uuid_text ext)" and "result_material ext r = result_material ext r'"
    and "srd_digest r = srd_digest r'"
  shows "r = r'"
proof -
  have msg: "inj ser_message" by (simp add: inj_def ser_message_inject)
  show ?thesis
    using assms
    by (cases r; cases r')
       (auto simp: result_material_def Let_def juuid_inject jarr_inject [OF msg] split: if_splits)
qed

section \<open>Session histories\<close>

lemma session_turns_ok_iff:
  assumes "index + length h < 2 ^ 64"
  shows "session_turns_ok ext index h ids \<longleftrightarrow>
    (\<forall>i < length h. st_turn_ordinal (h ! i) = of_nat (Suc (index + i)) \<and> turn_is_well_formed ext (h ! i)) \<and>
    distinct (map st_run_id h) \<and> st_run_id ` set h \<inter> ids = {}"
  using assms
proof (induction h arbitrary: index ids)
  case (Cons t h)
  have "index < 2 ^ 64" "unat (of_nat index :: u64) = index" "Suc index < 2 ^ 64"
    using Cons.prems by (simp_all add: unat_of_nat)
  then have ordinal: "saturating_add (if index < 2 ^ 64 then of_nat index else - 1) 1 = (of_nat (Suc index) :: u64)"
    by (simp add: saturating_add_def)
  have "Suc index + length h < 2 ^ 64" using Cons.prems by simp
  note IH = Cons.IH [OF this]
  show ?case
    unfolding session_turns_ok.simps ordinal IH length_Cons All_less_Suc2 nth_Cons_0 nth_Cons_Suc
    by (simp only: add_0_right add_Suc add_Suc_right) auto
qed auto

section \<open>Properties\<close>

text \<open>
  C12. What a valid transcript is. The single pass over the messages accepts exactly the transcripts that begin with
  a user message, whose messages all have content fitting their role, in which Tool call identifiers are unique, and
  every call is answered exactly once, by a message that comes after the call.
\<close>

theorem valid_transcript_characterised:
  "valid_subagent_transcript t \<longleftrightarrow>
     t \<noteq> [] \<and> msg_role (hd t) = UserRole \<and> list_all message_ok t \<and>
     distinct (call_ids t) \<and> distinct (result_ids t) \<and> set (call_ids t) = set (result_ids t) \<and>
     (\<forall>i < length t. set (message_results (t ! i)) \<subseteq> set (call_ids (take i t)))"
  by (simp add: valid_transcript_iff answered_in_order_iff)

text \<open>
  The digest of a subagent result ties all of its fields. Three formats are hashed, depending on whether there is a
  transcript or usage to cover; two results that both verify under the same digest, without a collision
  between the hashed tuples, are equal, also across the formats.
\<close>

theorem result_digest_ties_fields:
  assumes "result_verify_digest ext r" "result_verify_digest ext r'" and "srd_digest r = srd_digest r'"
    and "inj (ext_uuid_text ext)" and "collision_free ext (result_material ext r) (result_material ext r')"
  shows "r = r'"
proof -
  have "result_material ext r = result_material ext r'"
    using assms by (simp add: result_verify_digest_def result_calculate_digest_def collision_free_def)
  with assms(3,4) show ?thesis by (simp add: result_material_inject)
qed

text \<open>
  The history of a well-formed Session branch is a numbered sequence of distinct Runs: the turns carry the ordinals 1, 2,
  3, and so on without gaps, no Run occurs twice, and every turn is a valid transcript that an assistant message closes.
\<close>

theorem session_history_numbered:
  assumes "branch_is_well_formed ext b"
  shows "map st_turn_ordinal (sb_history b) = map of_nat [1..<Suc (length (sb_history b))] \<and>
     distinct (map st_run_id (sb_history b)) \<and>
     (\<forall>t \<in> set (sb_history b). valid_subagent_transcript (st_transcript t) \<and>
        msg_role (last (st_transcript t)) = AssistantRole)"
proof -
  let ?h = "sb_history b"
  have "length ?h \<le> 128" and ok: "session_turns_ok ext 0 ?h {}"
    using assms by (simp_all add: branch_is_well_formed_def valid_session_conversation_history_def
        SESSION_HISTORY_MAX_TURNS_def split: if_splits)
  then have "0 + length ?h < 2 ^ 64" by simp
  note facts = ok [unfolded session_turns_ok_iff [OF this]]
  have "map st_turn_ordinal ?h = map of_nat [1..<Suc (length ?h)]"
    using facts by (intro nth_equalityI) (auto simp del: upt_Suc)
  with facts show ?thesis by (auto simp: turn_is_well_formed_def in_set_conv_nth)
qed

section \<open>Witnesses\<close>

definition sample_transcript :: "message list" where
  "sample_transcript =
     [\<lparr>msg_role = UserRole, msg_content = [PartText ''hi'']\<rparr>,
      \<lparr>msg_role = AssistantRole, msg_content = [PartToolCall ''c1'' ''shell'' JNull]\<rparr>,
      \<lparr>msg_role = ToolRole, msg_content = [PartToolResult ''c1'' JNull]\<rparr>,
      \<lparr>msg_role = AssistantRole, msg_content = [PartText ''done'']\<rparr>]"

definition sample_source :: subagent_result_source where
  "sample_source = \<lparr>srs_tool_call_id = ''c1'', srs_delegation_id = 1, srs_binding_digest = replicate 64 (CHR ''0''),
     srs_child_run_id = 1, srs_child_terminal_event_id = 2\<rparr>"

definition sample_outcome :: subagent_result_outcome where
  "sample_outcome = \<lparr>sro_terminal_status = Succeeded, sro_content = JNull, sro_is_error = False\<rparr>"

definition sample_branch :: session_branch_snapshot where
  "sample_branch = session_branch_snapshot_new sample_externals 1 1
     [session_conversation_turn_new sample_externals 1 5 sample_transcript]"

lemma sample_transcript_valid: "valid_subagent_transcript sample_transcript"
  by code_simp

lemma sample_turn_wf: "turn_is_well_formed sample_externals (session_conversation_turn_new sample_externals 1 5 sample_transcript)"
  using sample_transcript_valid
  by (simp add: turn_is_well_formed_def session_conversation_turn_new_def Let_def turn_verify_digest_def
      turn_calculate_digest_def turn_material_def is_nil_def nil_uuid_def)
     (simp add: sample_transcript_def)

lemma sample_branch_wf: "branch_is_well_formed sample_externals sample_branch"
proof -
  have "encoded_len sample_externals (jarr f xs) \<le> 2097152" for f and xs :: "session_conversation_turn list"
    by (simp add: encoded_len_def sample_externals_def jarr_def)
  moreover have "session_turns_ok sample_externals 0
      [session_conversation_turn_new sample_externals 1 5 sample_transcript] {}"
    using sample_turn_wf by (subst session_turns_ok_iff) (auto simp: session_conversation_turn_new_def Let_def)
  ultimately show ?thesis
    by (simp add: sample_branch_def branch_is_well_formed_def session_branch_snapshot_new_def is_nil_def nil_uuid_def
        valid_session_conversation_history_def SESSION_HISTORY_MAX_TURNS_def SESSION_HISTORY_MAX_BYTES_def not_less)
qed

theorem valid_transcript_characterised_witness:
  "valid_subagent_transcript sample_transcript \<and> set (call_ids sample_transcript) = set (result_ids sample_transcript) \<and>
   set (message_results (sample_transcript ! 2)) \<subseteq> set (call_ids (take 2 sample_transcript))"
proof -
  have "2 < length sample_transcript" by (simp add: sample_transcript_def)
  with sample_transcript_valid valid_transcript_characterised [of sample_transcript] show ?thesis by blast
qed

theorem result_digest_ties_fields_witness:
  "\<exists>r. result_verify_digest injective_externals r \<and> inj (ext_uuid_text injective_externals) \<and>
     r = new_with_usage injective_externals sample_source sample_outcome \<lparr>usage_tokens = 3, usage_cost_micros = 4\<rparr>"
proof -
  let ?r = "new_with_usage injective_externals sample_source sample_outcome \<lparr>usage_tokens = 3, usage_cost_micros = 4\<rparr>"
  have v: "result_verify_digest injective_externals ?r"
    by (simp add: result_verify_digest_def new_with_usage_def Let_def result_calculate_digest_def result_material_def)
  have "collision_free injective_externals (result_material injective_externals ?r) (result_material injective_externals ?r)"
    by (simp add: collision_free_def)
  with v inj_injective_externals show ?thesis
    using result_digest_ties_fields [OF v v refl inj_injective_externals] by blast
qed

theorem session_history_numbered_witness:
  "branch_is_well_formed sample_externals sample_branch \<and> map st_turn_ordinal (sb_history sample_branch) = [1]"
proof -
  have "length (sb_history sample_branch) = 1" by (simp add: sample_branch_def session_branch_snapshot_new_def)
  with session_history_numbered [OF sample_branch_wf] sample_branch_wf show ?thesis by simp
qed

end
