(* ===== verification/History_Repair.thy ===== *)
theory History_Repair
  imports Transcripts
begin

text \<open>
  \<open>repair_imported_history\<close> of \<open>runtime/crates/protocol/src/lib.rs\<close>: the scan that indexes Tool calls and results, the
  selection of one result per call, the reconstruction, and the final check. Message indices are natural numbers, the
  counters of the report are 32-bit words that saturate.
\<close>

section \<open>Definitions\<close>

definition HISTORY_IMPORT_MAX_MESSAGES :: nat where
  "HISTORY_IMPORT_MAX_MESSAGES = 1024"

definition HISTORY_IMPORT_MAX_BYTES :: nat where
  "HISTORY_IMPORT_MAX_BYTES = 2 * 1024 * 1024"

datatype history_import_source = External | Truncated

fun ser_import_source :: "history_import_source \<Rightarrow> json" where
  "ser_import_source External = JString ''external''"
| "ser_import_source Truncated = JString ''truncated''"

record history_import =
  hi_schema_version :: u32
  hi_source :: history_import_source
  hi_messages :: "message list"

record history_repair_report =
  hr_schema_version :: u32
  hr_source :: history_import_source
  hr_source_digest :: string
  hr_repaired_digest :: string
  hr_inserted_missing_results :: u32
  hr_dropped_orphan_results :: u32
  hr_dropped_duplicate_results :: u32
  hr_moved_results :: u32

record repaired_history =
  rh_messages :: "message list"
  rh_report :: history_repair_report

datatype history_repair_error =
    UnsupportedSchemaVersion u32
  | InvalidSize
  | SystemAuthority
  | InvalidRoleContent
  | DuplicateToolCallId string
  | InvalidRepairedHistory

record scan_state =
  call_positions :: "(string, nat) btree"
  call_order :: "(nat, string list) btree"
  result_candidates :: "(string, (nat \<times> message) list) btree"

definition push_entry :: "'k::linorder \<Rightarrow> 'v \<Rightarrow> ('k, 'v list) btree \<Rightarrow> ('k, 'v list) btree" where
  "push_entry k v m = bt_insert k ((case bt_get k m of None \<Rightarrow> [] | Some vs \<Rightarrow> vs) @ [v]) m"

fun scan_assistant ::
  "nat \<Rightarrow> content_part list \<Rightarrow> scan_state \<Rightarrow> (history_repair_error, scan_state) result" where
  "scan_assistant message_index [] st = Inr st"
| "scan_assistant message_index (part # parts) st =
     (case part of
        PartToolResult _ _ \<Rightarrow> Inl InvalidRoleContent
      | PartToolCall tool_call_id name _ \<Rightarrow>
          if is_blank tool_call_id \<or> length tool_call_id > 256 \<or> is_blank name \<or> length name > 256
          then Inl InvalidRoleContent
          else if bt_get tool_call_id (call_positions st) \<noteq> None then Inl (DuplicateToolCallId tool_call_id)
          else scan_assistant message_index parts
                 (st\<lparr>call_positions := bt_insert tool_call_id message_index (call_positions st),
                     call_order := push_entry message_index tool_call_id (call_order st)\<rparr>)
      | _ \<Rightarrow> scan_assistant message_index parts st)"

definition scan_message ::
  "nat \<Rightarrow> message \<Rightarrow> scan_state \<Rightarrow> (history_repair_error, scan_state) result" where
  "scan_message message_index message st =
     (if msg_content message = [] \<or> msg_role message = SystemRole
      then Inl (if msg_role message = SystemRole then SystemAuthority else InvalidRoleContent)
      else case msg_role message of
             SystemRole \<Rightarrow> Inl SystemAuthority
           | UserRole \<Rightarrow> if list_ex is_tool_part (msg_content message) then Inl InvalidRoleContent else Inr st
           | AssistantRole \<Rightarrow> scan_assistant message_index (msg_content message) st
           | ToolRole \<Rightarrow>
               (case msg_content message of
                  [PartToolResult tool_call_id _] \<Rightarrow>
                    if is_blank tool_call_id \<or> length tool_call_id > 256 then Inl InvalidRoleContent
                    else Inr (st\<lparr>result_candidates :=
                                  push_entry tool_call_id (message_index, message) (result_candidates st)\<rparr>)
                | _ \<Rightarrow> Inl InvalidRoleContent))"

fun scan_messages ::
  "nat \<Rightarrow> message list \<Rightarrow> scan_state \<Rightarrow> (history_repair_error, scan_state) result" where
  "scan_messages message_index [] st = Inr st"
| "scan_messages message_index (message # messages) st =
     (case scan_message message_index message st of
        Inl e \<Rightarrow> Inl e
      | Inr st' \<Rightarrow> scan_messages (Suc message_index) messages st')"

record select_state =
  ss_orphans :: u32
  ss_duplicates :: u32
  ss_moved :: u32
  ss_selected :: "(string, message) btree"

definition count_u32 :: "nat \<Rightarrow> u32" where
  "count_u32 n = (if n < 2 ^ 32 then of_nat n else - 1)"

definition list_position :: "'a \<Rightarrow> 'a list \<Rightarrow> nat" where
  "list_position x xs = length (takeWhile (\<lambda>y. y \<noteq> x) xs)"

definition select_one :: "scan_state \<Rightarrow> string \<times> (nat \<times> message) list \<Rightarrow> select_state \<Rightarrow> select_state" where
  "select_one st kv sel =
     (case kv of (tool_call_id, candidates) \<Rightarrow>
       (case bt_get tool_call_id (call_positions st) of
          None \<Rightarrow> sel\<lparr>ss_orphans := saturating_add (ss_orphans sel) (count_u32 (length candidates))\<rparr>
        | Some call_index \<Rightarrow>
            (case filter (\<lambda>c. fst c > call_index) candidates of
               [] \<Rightarrow> sel\<lparr>ss_orphans := saturating_add (ss_orphans sel) (count_u32 (length candidates))\<rparr>
             | (selected_index, selected) # later \<Rightarrow>
                 (let before_or_at = length (filter (\<lambda>c. fst c \<le> call_index) candidates);
                      call_offset =
                        (case bt_get call_index (call_order st) of
                           None \<Rightarrow> 0
                         | Some calls \<Rightarrow>
                             (if tool_call_id \<in> set calls then list_position tool_call_id calls else 0))
                  in \<lparr>ss_orphans = saturating_add (ss_orphans sel) (count_u32 before_or_at),
                      ss_duplicates = saturating_add (ss_duplicates sel) (count_u32 (length later)),
                      ss_moved = (if selected_index \<noteq> call_index + call_offset + 1
                                  then saturating_add (ss_moved sel) 1 else ss_moved sel),
                      ss_selected = bt_insert tool_call_id selected (ss_selected sel)\<rparr>))))"

definition synthetic_result :: "string \<Rightarrow> message" where
  "synthetic_result tool_call_id =
     \<lparr>msg_role = ToolRole,
      msg_content = [PartToolResult tool_call_id
        (jobj [(''error'', jobj [(''kind'', JString ''history_repair_missing_tool_result''),
                                 (''message'', JString ''Tool result was unavailable in the imported history.''),
                                 (''synthetic'', JBool True)])])]\<rparr>"

fun answer_calls ::
  "string list \<Rightarrow> (string, message) btree \<Rightarrow> u32 \<Rightarrow> message list \<Rightarrow> (string, message) btree \<times> u32 \<times> message list" where
  "answer_calls [] selected inserted repaired = (selected, inserted, repaired)"
| "answer_calls (tool_call_id # calls) selected inserted repaired =
     (case bt_get tool_call_id selected of
        Some r \<Rightarrow> answer_calls calls (bt_remove tool_call_id selected) inserted (repaired @ [r])
      | None \<Rightarrow> answer_calls calls selected (saturating_add inserted 1) (repaired @ [synthetic_result tool_call_id]))"

fun rebuild ::
  "scan_state \<Rightarrow> nat \<Rightarrow> message list \<Rightarrow> (string, message) btree \<Rightarrow> u32 \<Rightarrow> message list \<Rightarrow> u32 \<times> message list" where
  "rebuild st message_index [] selected inserted repaired = (inserted, repaired)"
| "rebuild st message_index (message # messages) selected inserted repaired =
     (if msg_role message = ToolRole then rebuild st (Suc message_index) messages selected inserted repaired
      else (case answer_calls (case bt_get message_index (call_order st) of None \<Rightarrow> [] | Some calls \<Rightarrow> calls)
                   selected inserted (repaired @ [message]) of
              (selected', inserted', repaired') \<Rightarrow>
                rebuild st (Suc message_index) messages selected' inserted' repaired'))"

definition repair_imported_history ::
  "externals \<Rightarrow> history_import \<Rightarrow> (history_repair_error, repaired_history) result" where
  "repair_imported_history ext history =
     (if hi_schema_version history \<noteq> 1 then Inl (UnsupportedSchemaVersion (hi_schema_version history))
      else if hi_messages history = [] \<or> length (hi_messages history) > HISTORY_IMPORT_MAX_MESSAGES \<or>
              encoded_len ext (jarr ser_message (hi_messages history)) > HISTORY_IMPORT_MAX_BYTES
      then Inl InvalidSize
      else case scan_messages 0 (hi_messages history)
                  \<lparr>call_positions = [], call_order = [], result_candidates = []\<rparr> of
             Inl e \<Rightarrow> Inl e
           | Inr st \<Rightarrow>
               (let sel = fold (select_one st) (result_candidates st)
                            \<lparr>ss_orphans = 0, ss_duplicates = 0, ss_moved = 0, ss_selected = []\<rparr>
                in case rebuild st 0 (hi_messages history) (ss_selected sel) 0 [] of
                     (inserted_missing_results, repaired) \<Rightarrow>
                       if \<not> valid_subagent_transcript repaired \<or>
                          encoded_len ext (jarr ser_message repaired) > HISTORY_IMPORT_MAX_BYTES
                       then Inl InvalidRepairedHistory
                       else Inr
                         \<lparr>rh_messages = repaired,
                          rh_report =
                            \<lparr>hr_schema_version = 1, hr_source = hi_source history,
                             hr_source_digest = json_digest ext
                               (JArray [JString ''agent-runtime-history-import-v1'', ser_import_source (hi_source history),
                                        jarr ser_message (hi_messages history)]),
                             hr_repaired_digest = json_digest ext
                               (JArray [JString ''agent-runtime-history-repaired-v1'', ser_import_source (hi_source history),
                                        jarr ser_message repaired]),
                             hr_inserted_missing_results = inserted_missing_results,
                             hr_dropped_orphan_results = ss_orphans sel,
                             hr_dropped_duplicate_results = ss_duplicates sel,
                             hr_moved_results = ss_moved sel\<rparr>\<rparr>))"

section \<open>What the scan collects\<close>

definition candidates_of :: "message list \<Rightarrow> string \<Rightarrow> (nat \<times> message) list" where
  "candidates_of ms i = filter (\<lambda>c. message_results (snd c) = [i]) (enumerate 0 ms)"

definition scanned :: "message list \<Rightarrow> scan_state \<Rightarrow> bool" where
  "scanned ms st \<longleftrightarrow>
     bt_wf (call_positions st) \<and> bt_wf (call_order st) \<and> bt_wf (result_candidates st) \<and>
     (\<forall>i j. bt_get i (call_positions st) = Some j \<longleftrightarrow> j < length ms \<and> i \<in> set (message_calls (ms ! j))) \<and>
     (\<forall>j. bt_get j (call_order st) =
        (if j < length ms \<and> message_calls (ms ! j) \<noteq> [] then Some (message_calls (ms ! j)) else None)) \<and>
     (\<forall>i. bt_get i (result_candidates st) = (if candidates_of ms i = [] then None else Some (candidates_of ms i))) \<and>
     sum_list (map (length \<circ> snd) (result_candidates st)) = length (result_ids ms)"

definition add_call :: "nat \<Rightarrow> string \<Rightarrow> scan_state \<Rightarrow> scan_state" where
  "add_call j i st =
     st\<lparr>call_positions := bt_insert i j (call_positions st), call_order := push_entry j i (call_order st)\<rparr>"

lemma scanned_empty: "scanned [] \<lparr>call_positions = [], call_order = [], result_candidates = []\<rparr>"
  by (simp add: scanned_def candidates_of_def)

lemma candidates_of_snoc:
  "candidates_of (ms @ [m]) i = candidates_of ms i @ (if message_results m = [i] then [(length ms, m)] else [])"
  by (simp add: candidates_of_def enumerate_append_eq)

lemma push_entry_wf: "bt_wf m \<Longrightarrow> bt_wf (push_entry k v m)"
  by (simp add: push_entry_def bt_wf_insert)

lemma bt_get_push_entry:
  "bt_get k' (push_entry k v m) =
     (if k' = k then Some ((case bt_get k m of None \<Rightarrow> [] | Some vs \<Rightarrow> vs) @ [v]) else bt_get k' m)"
  by (simp add: push_entry_def bt_get_insert)

lemma sum_bt_insert:
  assumes "bt_wf m"
  shows "sum_list (map (length \<circ> snd) (bt_insert k v m)) + (case bt_get k m of None \<Rightarrow> 0 | Some w \<Rightarrow> length w) =
    sum_list (map (length \<circ> snd) m) + length v"
  using assms
proof (induction m)
  case (Cons kv m)
  obtain a b where kv: "kv = (a, b)" by (cases kv)
  have "bt_get k m = None" if "k < a"
    using Cons.prems that by (fastforce simp: kv bt_wf_Cons bt_get_None_iff)
  then show ?case
    using Cons by (auto simp: kv bt_wf_Cons split: option.splits)
qed simp

lemma sum_push_entry:
  "bt_wf m \<Longrightarrow> sum_list (map (length \<circ> snd) (push_entry k v m)) = Suc (sum_list (map (length \<circ> snd) m))"
  using sum_bt_insert [of m k "(case bt_get k m of None \<Rightarrow> [] | Some vs \<Rightarrow> vs) @ [v]"]
  by (auto simp: push_entry_def split: option.splits)

lemma scan_assistant_iff:
  "scan_assistant j ps st = Inr st' \<longleftrightarrow>
     list_all assistant_part_ok ps \<and> distinct (part_calls ps) \<and>
     (\<forall>i \<in> set (part_calls ps). bt_get i (call_positions st) = None) \<and>
     st' = fold (add_call j) (part_calls ps) st"
proof (induction ps arbitrary: st)
  case (Cons p ps)
  show ?case
  proof (cases p)
    case (PartToolCall i n a)
    have pos: "bt_get k (call_positions (add_call j i st)) = (if k = i then Some j else bt_get k (call_positions st))" for k
      by (simp add: add_call_def bt_get_insert)
    have "scan_assistant j (p # ps) st =
        (if \<not> (valid_id i \<and> valid_id n) then Inl InvalidRoleContent
         else if bt_get i (call_positions st) \<noteq> None then Inl (DuplicateToolCallId i)
         else scan_assistant j ps (add_call j i st))"
      by (auto simp: PartToolCall valid_id_def add_call_def)
    with PartToolCall show ?thesis by (auto simp: assistant_part_ok_def Cons.IH pos)
  qed (auto simp: assistant_part_ok_def Cons.IH)
qed auto

lemma fold_add_call_positions:
  "bt_get i (call_positions (fold (add_call j) ids st)) = (if i \<in> set ids then Some j else bt_get i (call_positions st))"
  by (induction ids arbitrary: st) (auto simp: add_call_def bt_get_insert)

lemma fold_add_call_order:
  "bt_get k (call_order (fold (add_call j) ids st)) =
     (if k = j \<and> ids \<noteq> [] then Some ((case bt_get j (call_order st) of None \<Rightarrow> [] | Some vs \<Rightarrow> vs) @ ids)
      else bt_get k (call_order st))"
  by (induction ids arbitrary: st) (auto simp: add_call_def bt_get_push_entry)

lemma fold_add_call_frame:
  "result_candidates (fold (add_call j) ids st) = result_candidates st"
  "bt_wf (call_positions st) \<Longrightarrow> bt_wf (call_positions (fold (add_call j) ids st))"
  "bt_wf (call_order st) \<Longrightarrow> bt_wf (call_order (fold (add_call j) ids st))"
  by (induction ids arbitrary: st) (simp_all add: add_call_def bt_wf_insert push_entry_wf)

lemma scanned_positions_None:
  assumes "scanned ms st"
  shows "bt_get i (call_positions st) = None \<longleftrightarrow> i \<notin> set (call_ids ms)"
proof -
  have "i \<in> set (call_ids ms) \<longleftrightarrow> (\<exists>j < length ms. i \<in> set (message_calls (ms ! j)))"
    by (simp add: call_ids_def) (metis in_set_conv_nth)
  with assms show ?thesis unfolding scanned_def by (metis not_None_eq)
qed

lemma scanned_add_calls:
  assumes "scanned ms st" and "message_results m = []" and "set (message_calls m) \<inter> set (call_ids ms) = {}"
  shows "scanned (ms @ [m]) (fold (add_call (length ms)) (message_calls m) st)"
proof -
  have old: "i \<notin> set (message_calls (ms ! j))" if "i \<in> set (message_calls m)" "j < length ms" for i j
    using assms(3) that by (force simp: call_ids_def)
  have "candidates_of (ms @ [m]) i = candidates_of ms i" for i
    using assms(2) by (simp add: candidates_of_snoc)
  with assms old show ?thesis
    unfolding scanned_def fold_add_call_positions fold_add_call_order
    by (auto simp: fold_add_call_frame nth_append less_Suc_eq split: if_splits)
qed

lemma scanned_add_result:
  assumes "scanned ms st" and "message_results m = [i]" and "message_calls m = []"
  shows "scanned (ms @ [m]) (st\<lparr>result_candidates := push_entry i (length ms, m) (result_candidates st)\<rparr>)"
  using assms unfolding scanned_def
  by (auto simp: candidates_of_snoc bt_get_push_entry push_entry_wf sum_push_entry nth_append less_Suc_eq
      split: if_splits)

text \<open>One message is accepted exactly if it fits its role and its calls are new.\<close>

definition fits :: "message list \<Rightarrow> message \<Rightarrow> bool" where
  "fits ms m \<longleftrightarrow> message_ok m \<and> distinct (message_calls m) \<and> set (message_calls m) \<inter> set (call_ids ms) = {}"

lemma scan_message_fits:
  assumes "scanned ms st"
  shows "if fits ms m then \<exists>st'. scan_message (length ms) m st = Inr st' \<and> scanned (ms @ [m]) st'
         else \<exists>e. scan_message (length ms) m st = Inl e"
proof (cases "msg_role m")
  case SystemRole
  then show ?thesis by (simp add: fits_def message_ok_def scan_message_def)
next
  case UserRole
  then have m: "message_calls m = []" "message_results m = []" by (simp_all add: message_calls_def message_results_def)
  with scanned_add_calls [OF assms, of m] UserRole show ?thesis
    by (auto simp: fits_def message_ok_def scan_message_def)
next
  case AssistantRole
  then have m: "message_calls m = part_calls (msg_content m)" "message_results m = []"
    by (simp_all add: message_calls_def message_results_def)
  have new: "(\<forall>i \<in> set (part_calls (msg_content m)). bt_get i (call_positions st) = None) \<longleftrightarrow>
      set (message_calls m) \<inter> set (call_ids ms) = {}"
    by (auto simp: m scanned_positions_None [OF assms])
  have scan: "scan_message (length ms) m st =
      (if msg_content m = [] then Inl InvalidRoleContent else scan_assistant (length ms) (msg_content m) st)"
    by (simp add: scan_message_def AssistantRole)
  show ?thesis
  proof (cases "fits ms m")
    case True
    then have "scan_message (length ms) m st = Inr (fold (add_call (length ms)) (message_calls m) st)"
      unfolding scan
      using scan_assistant_iff [of "length ms" "msg_content m" st "fold (add_call (length ms)) (message_calls m) st"]
      by (simp add: fits_def message_ok_def AssistantRole new m)
    with True scanned_add_calls [OF assms m(2)] show ?thesis by (simp add: fits_def)
  next
    case False
    then have "scan_message (length ms) m st \<noteq> Inr st'" for st'
      unfolding scan
      by (auto simp: fits_def message_ok_def AssistantRole m scan_assistant_iff scanned_positions_None [OF assms]
          split: if_splits)
    with False show ?thesis by (cases "scan_message (length ms) m st") auto
  qed
next
  case ToolRole
  then have calls: "message_calls m = []" by (simp add: message_calls_def)
  show ?thesis
  proof (cases "\<exists>i c. msg_content m = [PartToolResult i c]")
    case True
    then obtain i c where c: "msg_content m = [PartToolResult i c]" by blast
    with ToolRole have "message_results m = [i]" by (simp add: message_results_def)
    with scanned_add_result [OF assms _ calls] c ToolRole calls show ?thesis
      by (auto simp: fits_def message_ok_def scan_message_def valid_id_def)
  next
    case False
    with ToolRole show ?thesis
      by (auto simp: fits_def message_ok_def scan_message_def split: list.splits content_part.splits)
  qed
qed

lemma scan_messages_Inr:
  assumes "scanned ms0 st" "distinct (call_ids ms0)" and "scan_messages (length ms0) ms st = Inr st'"
  shows "scanned (ms0 @ ms) st' \<and> list_all message_ok ms \<and> distinct (call_ids (ms0 @ ms))"
  using assms
proof (induction ms arbitrary: ms0 st)
  case (Cons m ms)
  then have "fits ms0 m" using scan_message_fits [of ms0 st m] by (auto split: sum.splits if_splits)
  with scan_message_fits [OF Cons.prems(1), of m] obtain st1 where
    "scan_message (length ms0) m st = Inr st1" "scanned (ms0 @ [m]) st1" by auto
  with Cons.IH [of "ms0 @ [m]" st1] Cons.prems \<open>fits ms0 m\<close> show ?case
    by (auto simp: fits_def)
qed auto

lemma scan_messages_succeeds:
  assumes "scanned ms0 st" and "list_all message_ok ms" and "distinct (call_ids (ms0 @ ms))"
  shows "\<exists>st'. scan_messages (length ms0) ms st = Inr st'"
  using assms
proof (induction ms arbitrary: ms0 st)
  case (Cons m ms)
  then have "fits ms0 m" by (auto simp: fits_def)
  with scan_message_fits [OF Cons.prems(1), of m] obtain st1 where
    "scan_message (length ms0) m st = Inr st1" "scanned (ms0 @ [m]) st1" by auto
  with Cons.IH [of "ms0 @ [m]" st1] Cons.prems show ?case by simp
qed simp

abbreviation empty_scan :: scan_state where
  "empty_scan \<equiv> \<lparr>call_positions = [], call_order = [], result_candidates = []\<rparr>"

lemma scan_history_iff:
  "(\<exists>st. scan_messages 0 ms empty_scan = Inr st) \<longleftrightarrow> list_all message_ok ms \<and> distinct (call_ids ms)"
  using scan_messages_Inr [OF scanned_empty, of ms] scan_messages_succeeds [OF scanned_empty, of ms] by auto

lemma scan_history: "scan_messages 0 ms empty_scan = Inr st \<Longrightarrow> scanned ms st \<and> list_all message_ok ms \<and> distinct (call_ids ms)"
  using scan_messages_Inr [OF scanned_empty, of ms] by simp

section \<open>What the selection keeps and counts\<close>

definition after_call :: "scan_state \<Rightarrow> string \<Rightarrow> (nat \<times> message) list \<Rightarrow> (nat \<times> message) list" where
  "after_call st i cs =
     (case bt_get i (call_positions st) of None \<Rightarrow> [] | Some p \<Rightarrow> filter (\<lambda>c. fst c > p) cs)"

lemma select_one_selected:
  "bt_get i (ss_selected (select_one st (k, cs) sel)) =
     (if i = k \<and> after_call st k cs \<noteq> [] then Some (snd (hd (after_call st k cs))) else bt_get i (ss_selected sel))"
  by (auto simp: select_one_def after_call_def Let_def bt_get_insert split: option.splits list.splits)

lemma select_one_wf: "bt_wf (ss_selected sel) \<Longrightarrow> bt_wf (ss_selected (select_one st kv sel))"
  by (auto simp: select_one_def Let_def bt_wf_insert split: option.splits list.splits prod.splits)

lemma fold_select_selected:
  "distinct (map fst kvs) \<Longrightarrow>
   bt_get i (ss_selected (fold (select_one st) kvs sel)) =
     (case map_of kvs i of
        Some cs \<Rightarrow> if after_call st i cs \<noteq> [] then Some (snd (hd (after_call st i cs))) else bt_get i (ss_selected sel)
      | None \<Rightarrow> bt_get i (ss_selected sel))"
proof (induction kvs arbitrary: sel)
  case (Cons kv kvs)
  obtain k cs where kv: "kv = (k, cs)" by (cases kv)
  with Cons.prems have "map_of kvs k = None" by (simp add: map_of_eq_None_iff)
  with Cons show ?case by (auto simp: kv select_one_selected split: option.splits)
qed simp

lemma fold_select_wf: "bt_wf (ss_selected sel) \<Longrightarrow> bt_wf (ss_selected (fold (select_one st) kvs sel))"
  by (induction kvs arbitrary: sel) (simp_all add: select_one_wf)

lemma unat_count_u32: "n < 2 ^ 32 \<Longrightarrow> unat (count_u32 n) = n"
  by (simp add: count_u32_def unat_of_nat)

lemma unat_saturating_add_small: "unat a + n < 2 ^ 32 \<Longrightarrow> unat (saturating_add (a::u32) (count_u32 n)) = unat a + n"
  by (simp add: unat_saturating_add unat_count_u32)

lemma filter_split_length: "length (filter (\<lambda>c. fst c > p) cs) + length (filter (\<lambda>c. fst c \<le> (p::nat)) cs) = length cs"
  using sum_length_filter_compl [of "\<lambda>c. fst c > p" cs] by (simp add: not_less)

lemma select_one_counts:
  assumes "unat (ss_orphans sel) + unat (ss_duplicates sel) + length cs < 2 ^ 32"
  shows "unat (ss_orphans (select_one st (k, cs) sel)) + unat (ss_duplicates (select_one st (k, cs) sel)) +
      (if after_call st k cs \<noteq> [] then 1 else 0) = unat (ss_orphans sel) + unat (ss_duplicates sel) + length cs"
proof (cases "after_call st k cs")
  case Nil
  then have "select_one st (k, cs) sel = sel\<lparr>ss_orphans := saturating_add (ss_orphans sel) (count_u32 (length cs))\<rparr>"
    by (auto simp: select_one_def after_call_def split: option.splits)
  with assms Nil show ?thesis by (simp add: unat_saturating_add_small)
next
  case (Cons c later)
  then obtain p where p: "bt_get k (call_positions st) = Some p" and f: "filter (\<lambda>c. fst c > p) cs = c # later"
    by (auto simp: after_call_def split: option.splits)
  let ?n = "length (filter (\<lambda>c. fst c \<le> p) cs)"
  have len: "?n + Suc (length later) = length cs" using filter_split_length [of p cs] f by simp
  obtain j m where "c = (j, m)" by (cases c)
  with p f have "ss_orphans (select_one st (k, cs) sel) = saturating_add (ss_orphans sel) (count_u32 ?n)"
    "ss_duplicates (select_one st (k, cs) sel) = saturating_add (ss_duplicates sel) (count_u32 (length later))"
    by (simp_all add: select_one_def Let_def)
  moreover have "unat (ss_orphans sel) + ?n < 2 ^ 32" "unat (ss_duplicates sel) + length later < 2 ^ 32"
    using assms len by simp_all
  ultimately show ?thesis using Cons len by (simp add: unat_saturating_add_small)
qed

lemma fold_select_counts:
  assumes "unat (ss_orphans sel) + unat (ss_duplicates sel) + sum_list (map (length \<circ> snd) kvs) < 2 ^ 32"
  shows "unat (ss_orphans (fold (select_one st) kvs sel)) + unat (ss_duplicates (fold (select_one st) kvs sel)) +
      length (filter (\<lambda>kv. after_call st (fst kv) (snd kv) \<noteq> []) kvs) =
    unat (ss_orphans sel) + unat (ss_duplicates sel) + sum_list (map (length \<circ> snd) kvs)"
  using assms
proof (induction kvs arbitrary: sel)
  case (Cons kv kvs)
  obtain k cs where kv: "kv = (k, cs)" by (cases kv)
  have one: "unat (ss_orphans (select_one st (k, cs) sel)) + unat (ss_duplicates (select_one st (k, cs) sel)) +
      (if after_call st k cs \<noteq> [] then 1 else 0) = unat (ss_orphans sel) + unat (ss_duplicates sel) + length cs"
    using Cons.prems by (intro select_one_counts) (simp add: kv)
  have "unat (ss_orphans (select_one st (k, cs) sel)) + unat (ss_duplicates (select_one st (k, cs) sel)) +
      sum_list (map (length \<circ> snd) kvs) < 2 ^ 32"
    using one Cons.prems by (simp add: kv comp_def split: if_splits)
  note IH = Cons.IH [OF this]
  show ?case using one IH by (simp add: kv comp_def split: if_splits)
qed simp

section \<open>What the reconstruction builds\<close>

definition answer :: "(string \<Rightarrow> message option) \<Rightarrow> string \<Rightarrow> message" where
  "answer f i = (case f i of Some r \<Rightarrow> r | None \<Rightarrow> synthetic_result i)"

definition repaired_of :: "(string \<Rightarrow> message option) \<Rightarrow> message list \<Rightarrow> message list" where
  "repaired_of f ms =
     concat (map (\<lambda>m. if msg_role m = ToolRole then [] else m # map (answer f) (message_calls m)) ms)"

lemma answer_calls_eq:
  assumes "distinct calls" and "bt_wf sel"
  shows "\<exists>sel' n'. answer_calls calls sel n rep =
      (sel', n', rep @ map (answer (\<lambda>i. bt_get i sel)) calls) \<and> bt_wf sel' \<and>
      (unat n + length calls < 2 ^ 32 \<longrightarrow>
         unat n' = unat n + length (filter (\<lambda>i. bt_get i sel = None) calls)) \<and>
      (\<forall>i. i \<notin> set calls \<longrightarrow> bt_get i sel' = bt_get i sel)"
  using assms
proof (induction calls arbitrary: sel n rep)
  case (Cons c calls)
  show ?case
  proof (cases "bt_get c sel")
    case None
    have "unat (saturating_add n 1) = Suc (unat n)" if "unat n + length (c # calls) < 2 ^ 32"
      using that by (simp add: unat_saturating_add)
    with Cons.IH [of sel "saturating_add n 1" "rep @ [synthetic_result c]"] Cons.prems None show ?thesis
      by (auto simp: answer_def)
  next
    case (Some r)
    let ?sel = "bt_remove c sel"
    have same: "map (answer (\<lambda>i. bt_get i ?sel)) calls = map (answer (\<lambda>i. bt_get i sel)) calls"
      "filter (\<lambda>i. bt_get i ?sel = None) calls = filter (\<lambda>i. bt_get i sel = None) calls"
      using Cons.prems by (auto simp: answer_def bt_get_remove intro!: filter_cong)
    have "answer (\<lambda>i. bt_get i sel) c = r" by (simp add: answer_def Some)
    with Cons.IH [of ?sel n "rep @ [r]"] Cons.prems Some same show ?thesis
      by (auto simp: bt_wf_remove bt_get_remove)
  qed
qed simp

lemma repaired_of_cong:
  "(\<And>i. i \<in> set (call_ids ms) \<Longrightarrow> f i = g i) \<Longrightarrow> repaired_of f ms = repaired_of g ms"
  by (induction ms) (auto simp: repaired_of_def answer_def)

lemma repaired_of_simps [simp]:
  "repaired_of f [] = []"
  "repaired_of f (m # ms) =
     (if msg_role m = ToolRole then [] else m # map (answer f) (message_calls m)) @ repaired_of f ms"
  by (simp_all add: repaired_of_def)

lemma rebuild_eq:
  assumes "\<forall>k < length ms.
      (case bt_get (j + k) (call_order st) of None \<Rightarrow> [] | Some calls \<Rightarrow> calls) = message_calls (ms ! k)"
    and "distinct (call_ids ms)" and "bt_wf sel"
  shows "\<exists>n'. rebuild st j ms sel n rep = (n', rep @ repaired_of (\<lambda>i. bt_get i sel) ms) \<and>
      (unat n + length (call_ids ms) < 2 ^ 32 \<longrightarrow>
         unat n' = unat n + length (filter (\<lambda>i. bt_get i sel = None) (call_ids ms)))"
  using assms
proof (induction ms arbitrary: j sel n rep)
  case (Cons m ms)
  have order: "\<forall>k < length ms.
      (case bt_get (Suc j + k) (call_order st) of None \<Rightarrow> [] | Some calls \<Rightarrow> calls) = message_calls (ms ! k)"
    using Cons.prems(1) by (simp add: All_less_Suc2)
  have here: "(case bt_get j (call_order st) of None \<Rightarrow> [] | Some calls \<Rightarrow> calls) = message_calls m"
    using Cons.prems(1) by (simp add: All_less_Suc2)
  show ?case
  proof (cases "msg_role m = ToolRole")
    case True
    then have "message_calls m = []" by (simp add: message_calls_def)
    with Cons.IH [of "Suc j" sel n rep] order Cons.prems True show ?thesis by simp
  next
    case False
    obtain sel1 n1 where ans: "answer_calls (message_calls m) sel n (rep @ [m]) =
        (sel1, n1, (rep @ [m]) @ map (answer (\<lambda>i. bt_get i sel)) (message_calls m))"
      and wf: "bt_wf sel1"
      and n1: "unat n + length (message_calls m) < 2 ^ 32 \<longrightarrow>
         unat n1 = unat n + length (filter (\<lambda>i. bt_get i sel = None) (message_calls m))"
      and frame: "\<forall>i. i \<notin> set (message_calls m) \<longrightarrow> bt_get i sel1 = bt_get i sel"
      using answer_calls_eq [of "message_calls m" sel n "rep @ [m]"] Cons.prems by auto
    have d: "distinct (call_ids ms)" using Cons.prems(2) by simp
    have other: "bt_get i sel1 = bt_get i sel" if "i \<in> set (call_ids ms)" for i
      using frame Cons.prems(2) that by auto
    have same: "repaired_of (\<lambda>i. bt_get i sel1) ms = repaired_of (\<lambda>i. bt_get i sel) ms"
      "filter (\<lambda>i. bt_get i sel1 = None) (call_ids ms) = filter (\<lambda>i. bt_get i sel = None) (call_ids ms)"
      using other by (auto intro!: repaired_of_cong filter_cong)
    obtain n2 where "rebuild st (Suc j) ms sel1 n1 ((rep @ [m]) @ map (answer (\<lambda>i. bt_get i sel)) (message_calls m)) =
        (n2, ((rep @ [m]) @ map (answer (\<lambda>i. bt_get i sel)) (message_calls m)) @ repaired_of (\<lambda>i. bt_get i sel) ms)"
      and n2: "unat n1 + length (call_ids ms) < 2 ^ 32 \<longrightarrow>
         unat n2 = unat n1 + length (filter (\<lambda>i. bt_get i sel = None) (call_ids ms))"
      using Cons.IH [OF order d wf, of n1 "(rep @ [m]) @ map (answer (\<lambda>i. bt_get i sel)) (message_calls m)",
          unfolded same]
      by (elim exE conjE) (rule that)
    then have "rebuild st j (m # ms) sel n rep = (n2, rep @ repaired_of (\<lambda>i. bt_get i sel) (m # ms))"
      using False by (simp add: here ans)
    moreover have "unat n2 = unat n + length (filter (\<lambda>i. bt_get i sel = None) (call_ids (m # ms)))"
      if bound: "unat n + length (call_ids (m # ms)) < 2 ^ 32"
    proof -
      have le: "length (filter (\<lambda>i. bt_get i sel = None) (message_calls m)) \<le> length (message_calls m)"
        by (rule length_filter_le)
      have eq: "unat n1 = unat n + length (filter (\<lambda>i. bt_get i sel = None) (message_calls m))"
        using bound n1 by simp
      have "unat n1 + length (call_ids ms) < 2 ^ 32"
        using le eq bound unfolding call_ids_simps length_append by linarith
      with n2 eq show ?thesis by simp
    qed
    ultimately show ?thesis by blast
  qed
qed simp

section \<open>The repaired history\<close>

text \<open>The result a call is given: the first one in the history that comes after the call.\<close>

definition chosen :: "message list \<Rightarrow> string \<Rightarrow> message option" where
  "chosen ms i =
     (case filter (\<lambda>c. \<exists>k < fst c. i \<in> set (message_calls (ms ! k))) (candidates_of ms i) of
        [] \<Rightarrow> None
      | c # _ \<Rightarrow> Some (snd c))"

abbreviation empty_select :: select_state where
  "empty_select \<equiv> \<lparr>ss_orphans = 0, ss_duplicates = 0, ss_moved = 0, ss_selected = []\<rparr>"

lemma candidates_of_index: "c \<in> set (candidates_of ms i) \<Longrightarrow> fst c < length ms \<and> snd c = ms ! fst c \<and> message_results (snd c) = [i]"
  by (auto simp: candidates_of_def in_set_enumerate_eq)

lemma after_call_candidates:
  assumes "scanned ms st"
  shows "after_call st i (candidates_of ms i) =
    filter (\<lambda>c. \<exists>k < fst c. i \<in> set (message_calls (ms ! k))) (candidates_of ms i)"
proof (cases "bt_get i (call_positions st)")
  case None
  with assms have "i \<notin> set (message_calls (ms ! k))" if "k < length ms" for k
    using that unfolding scanned_def by (metis option.distinct(1))
  then have "filter (\<lambda>c. \<exists>k < fst c. i \<in> set (message_calls (ms ! k))) (candidates_of ms i) = []"
    by (auto simp: filter_empty_conv dest!: candidates_of_index)
  with None show ?thesis by (simp add: after_call_def)
next
  case (Some p)
  have "fst c > p \<longleftrightarrow> (\<exists>k < fst c. i \<in> set (message_calls (ms ! k)))" if "c \<in> set (candidates_of ms i)" for c
  proof -
    have "k = p" if "k < length ms" "i \<in> set (message_calls (ms ! k))" for k
      using assms Some that unfolding scanned_def by (metis option.inject)
    moreover have "i \<in> set (message_calls (ms ! p))" using assms Some unfolding scanned_def by blast
    ultimately show ?thesis using candidates_of_index [OF that] by (metis less_trans)
  qed
  then show ?thesis unfolding after_call_def Some option.case by (intro filter_cong) auto
qed

lemma selected_is_chosen:
  assumes "scanned ms st"
  shows "bt_get i (ss_selected (fold (select_one st) (result_candidates st) empty_select)) = chosen ms i"
proof -
  have wf: "bt_wf (result_candidates st)" using assms by (simp add: scanned_def)
  have "map_of (result_candidates st) i = (if candidates_of ms i = [] then None else Some (candidates_of ms i))"
    using assms by (simp add: scanned_def bt_get_def)
  with fold_select_selected [OF bt_wf_distinct [OF wf], of i st empty_select] show ?thesis
    by (auto simp: chosen_def after_call_candidates [OF assms] split: list.splits if_splits)
qed

lemma chosen_candidate:
  assumes "chosen ms i = Some r"
  obtains c where "c \<in> set (candidates_of ms i)" "snd c = r" "\<exists>k < fst c. i \<in> set (message_calls (ms ! k))"
proof -
  let ?f = "filter (\<lambda>c. \<exists>k < fst c. i \<in> set (message_calls (ms ! k))) (candidates_of ms i)"
  from assms have "?f \<noteq> []" "snd (hd ?f) = r" by (auto simp: chosen_def split: list.splits)
  then have "hd ?f \<in> set ?f" by (intro hd_in_set)
  then have "hd ?f \<in> set (candidates_of ms i)" "\<exists>k < fst (hd ?f). i \<in> set (message_calls (ms ! k))"
    by (auto simp only: set_filter mem_Collect_eq)
  with \<open>snd (hd ?f) = r\<close> that [of "hd ?f"] show thesis by blast
qed

lemma chosen_Some: "chosen ms i = Some r \<Longrightarrow> r \<in> set ms \<and> message_results r = [i]"
  by (erule chosen_candidate) (use candidates_of_index in fastforce)

lemma chosen_call: "chosen ms i \<noteq> None \<Longrightarrow> i \<in> set (call_ids ms)"
proof -
  assume "chosen ms i \<noteq> None"
  then obtain c k where "c \<in> set (candidates_of ms i)" "k < fst c" "i \<in> set (message_calls (ms ! k))"
    using chosen_candidate by (metis not_None_eq)
  then have "ms ! k \<in> set ms" using candidates_of_index by fastforce
  with \<open>i \<in> set (message_calls (ms ! k))\<close> show ?thesis by (auto simp: call_ids_def)
qed

lemma results_role: "message_results m \<noteq> [] \<Longrightarrow> msg_role m = ToolRole \<and> message_calls m = []"
  by (auto simp: message_results_def message_calls_def split: if_splits)

lemma part_calls_valid: "list_all assistant_part_ok ps \<Longrightarrow> i \<in> set (part_calls ps) \<Longrightarrow> valid_id i"
  by (induction ps) (auto simp: assistant_part_ok_def split: content_part.splits)

lemma call_ids_valid: "list_all message_ok ms \<Longrightarrow> i \<in> set (call_ids ms) \<Longrightarrow> valid_id i"
  by (auto simp: call_ids_def list_all_iff message_calls_def message_ok_def part_calls_valid split: if_splits)

definition good_answer :: "string \<Rightarrow> message \<Rightarrow> bool" where
  "good_answer i r \<longleftrightarrow> message_ok r \<and> message_results r = [i]"

lemma answer_good:
  assumes "list_all message_ok ms" and "i \<in> set (call_ids ms)"
  shows "good_answer i (answer (chosen ms) i)"
proof (cases "chosen ms i")
  case None
  then show ?thesis
    using call_ids_valid [OF assms]
    by (simp add: answer_def good_answer_def synthetic_result_def message_ok_def message_results_def)
next
  case (Some r)
  with chosen_Some [OF Some] assms show ?thesis by (auto simp: answer_def good_answer_def list_all_iff)
qed

lemma answered_in_order_append:
  "answered_in_order C (s @ t) \<longleftrightarrow> answered_in_order C s \<and> answered_in_order (C \<union> set (call_ids s)) t"
  by (induction s arbitrary: C) (auto simp: Un_assoc)

lemma good_answers:
  "\<forall>i \<in> set ids. good_answer i (g i) \<Longrightarrow>
   list_all message_ok (map g ids) \<and> call_ids (map g ids) = [] \<and> result_ids (map g ids) = ids \<and>
   (\<forall>C. set ids \<subseteq> C \<longrightarrow> answered_in_order C (map g ids)) \<and>
   filter (\<lambda>m. msg_role m \<noteq> ToolRole) (map g ids) = []"
proof (induction ids)
  case (Cons i ids)
  then have "message_ok (g i)" "message_results (g i) = [i]" by (auto simp: good_answer_def)
  with results_role [of "g i"] Cons show ?case by simp
qed simp

lemma repaired_of_shape:
  "list_all message_ok ms \<Longrightarrow> \<forall>i \<in> set (call_ids ms). good_answer i (answer f i) \<Longrightarrow>
   list_all message_ok (repaired_of f ms) \<and> call_ids (repaired_of f ms) = call_ids ms \<and>
   result_ids (repaired_of f ms) = call_ids ms \<and> (\<forall>C. answered_in_order C (repaired_of f ms)) \<and>
   filter (\<lambda>m. msg_role m \<noteq> ToolRole) (repaired_of f ms) = filter (\<lambda>m. msg_role m \<noteq> ToolRole) ms"
proof (induction ms)
  case (Cons m ms)
  have calls: "\<forall>i \<in> set (message_calls m). good_answer i (answer f i)" using Cons.prems by simp
  have tool: "message_calls m = []" if "msg_role m = ToolRole" using that by (simp add: message_calls_def)
  have other: "message_results m = []" if "msg_role m \<noteq> ToolRole" using that by (simp add: message_results_def)
  show ?case
    using Cons good_answers [OF calls] tool other by (auto simp: answered_in_order_append)
qed simp

definition starts_with_user :: "message list \<Rightarrow> bool" where
  "starts_with_user ms \<longleftrightarrow>
     (case filter (\<lambda>m. msg_role m \<noteq> ToolRole) ms of [] \<Rightarrow> False | m # _ \<Rightarrow> msg_role m = UserRole)"

lemma repaired_of_head: "repaired_of f ms \<noteq> [] \<and> msg_role (hd (repaired_of f ms)) = UserRole \<longleftrightarrow> starts_with_user ms"
  by (induction ms) (auto simp: starts_with_user_def)

lemma repaired_valid:
  assumes "list_all message_ok ms" and "distinct (call_ids ms)"
  shows "valid_subagent_transcript (repaired_of (chosen ms) ms) \<longleftrightarrow> starts_with_user ms"
proof -
  have "\<forall>i \<in> set (call_ids ms). good_answer i (answer (chosen ms) i)" using answer_good [OF assms(1)] by blast
  from repaired_of_shape [OF assms(1) this] assms(2) repaired_of_head [of "chosen ms" ms] show ?thesis
    unfolding valid_transcript_iff by simp
qed

lemma scanned_order:
  "scanned ms st \<Longrightarrow> \<forall>k < length ms.
     (case bt_get (0 + k) (call_order st) of None \<Rightarrow> [] | Some calls \<Rightarrow> calls) = message_calls (ms ! k)"
  by (auto simp: scanned_def)

lemma rebuild_history:
  assumes "scan_messages 0 ms empty_scan = Inr st"
  shows "\<exists>n. rebuild st 0 ms (ss_selected (fold (select_one st) (result_candidates st) empty_select)) 0 [] =
      (n, repaired_of (chosen ms) ms) \<and>
      (length (call_ids ms) < 2 ^ 32 \<longrightarrow> unat n = length (filter (\<lambda>i. chosen ms i = None) (call_ids ms)))"
proof -
  have st: "scanned ms st" "distinct (call_ids ms)" using scan_history [OF assms] by simp_all
  have wf: "bt_wf (ss_selected (fold (select_one st) (result_candidates st) empty_select))"
    by (rule fold_select_wf) simp
  from rebuild_eq [OF scanned_order [OF st(1)] st(2) wf, of 0 "[]"] show ?thesis
    by (simp add: selected_is_chosen [OF st(1)])
qed

lemma length_result_ids: "length (result_ids ms) \<le> length ms"
proof (induction ms)
  case (Cons m ms)
  have "length (message_results m) \<le> 1"
    by (auto simp: message_results_def split: list.splits content_part.splits)
  with Cons show ?case by simp
qed simp

lemma kept_results:
  assumes st: "scanned ms st" and d: "distinct (call_ids ms)"
  shows "length (filter (\<lambda>kv. after_call st (fst kv) (snd kv) \<noteq> []) (result_candidates st)) =
    length (filter (\<lambda>i. chosen ms i \<noteq> None) (call_ids ms))"
proof -
  let ?kvs = "filter (\<lambda>kv. after_call st (fst kv) (snd kv) \<noteq> []) (result_candidates st)"
  let ?ids = "filter (\<lambda>i. chosen ms i \<noteq> None) (call_ids ms)"
  have wf: "bt_wf (result_candidates st)" using st by (simp add: scanned_def)
  have get: "(k, cs) \<in> set (result_candidates st) \<longleftrightarrow> cs = candidates_of ms k \<and> cs \<noteq> []" for k cs
  proof -
    have "bt_get k (result_candidates st) = (if candidates_of ms k = [] then None else Some (candidates_of ms k))"
      using st by (simp add: scanned_def)
    with bt_get_Some_iff [OF wf, of k cs] show ?thesis by (auto split: if_splits)
  qed
  have kept: "after_call st k (candidates_of ms k) \<noteq> [] \<longleftrightarrow> chosen ms k \<noteq> None" for k
    unfolding after_call_candidates [OF st] chosen_def by (auto split: list.splits)
  have same: "set (map fst ?kvs) = set ?ids"
  proof (intro set_eqI iffI)
    fix i assume "i \<in> set (map fst ?kvs)"
    then have "chosen ms i \<noteq> None" using kept by (auto simp: get)
    then show "i \<in> set ?ids" using chosen_call by auto
  next
    fix i assume "i \<in> set ?ids"
    then have "chosen ms i \<noteq> None" by simp
    moreover from this have "candidates_of ms i \<noteq> []" by (auto simp: chosen_def)
    ultimately show "i \<in> set (map fst ?kvs)" using kept get by (force simp: image_iff)
  qed
  have "length ?kvs = length (map fst ?kvs)" by (rule length_map [symmetric])
  also have "\<dots> = card (set (map fst ?kvs))"
    by (rule distinct_card [symmetric], rule distinct_map_filter, rule bt_wf_distinct [OF wf])
  also have "\<dots> = card (set ?ids)" by (simp only: same)
  also have "\<dots> = length ?ids" by (rule distinct_card, rule distinct_filter, rule d)
  finally show ?thesis .
qed

lemma repair_Inr:
  assumes "repair_imported_history ext h = Inr out"
  obtains st n where "scan_messages 0 (hi_messages h) empty_scan = Inr st"
    "rebuild st 0 (hi_messages h) (ss_selected (fold (select_one st) (result_candidates st) empty_select)) 0 [] =
       (n, rh_messages out)"
    "hr_inserted_missing_results (rh_report out) = n"
    "hr_dropped_orphan_results (rh_report out) = ss_orphans (fold (select_one st) (result_candidates st) empty_select)"
    "hr_dropped_duplicate_results (rh_report out) = ss_duplicates (fold (select_one st) (result_candidates st) empty_select)"
    "valid_subagent_transcript (rh_messages out)" "length (hi_messages h) \<le> 1024"
  using assms
  by (auto simp: repair_imported_history_def Let_def HISTORY_IMPORT_MAX_MESSAGES_def
      split: if_splits sum.splits prod.splits)

lemma repair_Ok_iff:
  "(\<exists>out. repair_imported_history ext h = Inr out) \<longleftrightarrow>
     hi_schema_version h = 1 \<and> hi_messages h \<noteq> [] \<and> length (hi_messages h) \<le> 1024 \<and>
     encoded_len ext (jarr ser_message (hi_messages h)) \<le> 2097152 \<and>
     list_all message_ok (hi_messages h) \<and> distinct (call_ids (hi_messages h)) \<and>
     starts_with_user (hi_messages h) \<and>
     encoded_len ext (jarr ser_message (repaired_of (chosen (hi_messages h)) (hi_messages h))) \<le> 2097152"
proof (cases "\<exists>st. scan_messages 0 (hi_messages h) empty_scan = Inr st")
  case True
  then obtain st where st: "scan_messages 0 (hi_messages h) empty_scan = Inr st" by blast
  note ok = scan_history [OF st]
  from rebuild_history [OF st] obtain n where
    "rebuild st 0 (hi_messages h) (ss_selected (fold (select_one st) (result_candidates st) empty_select)) 0 [] =
       (n, repaired_of (chosen (hi_messages h)) (hi_messages h))" by blast
  with ok repaired_valid [of "hi_messages h"] show ?thesis
    by (auto simp: repair_imported_history_def Let_def st HISTORY_IMPORT_MAX_MESSAGES_def HISTORY_IMPORT_MAX_BYTES_def)
next
  case False
  then have "\<not> (list_all message_ok (hi_messages h) \<and> distinct (call_ids (hi_messages h)))"
    using scan_history_iff by blast
  moreover from False obtain e where "scan_messages 0 (hi_messages h) empty_scan = Inl e"
    by (cases "scan_messages 0 (hi_messages h) empty_scan") auto
  ultimately show ?thesis by (auto simp: repair_imported_history_def)
qed

section \<open>Properties\<close>

text \<open>
  When an imported history can be repaired. The repair succeeds exactly if the schema version is 1, the history is not
  empty and within its limits, every message has content fitting its role, no Tool call identifier repeats, the first
  message that is not a Tool result is a user message, and the repaired history is within its size limit. No missing,
  orphaned, duplicated or misplaced Tool result makes it fail.
\<close>

theorem repair_succeeds_iff:
  "(\<exists>out. repair_imported_history ext h = Inr out) \<longleftrightarrow>
     hi_schema_version h = 1 \<and> hi_messages h \<noteq> [] \<and> length (hi_messages h) \<le> 1024 \<and>
     encoded_len ext (jarr ser_message (hi_messages h)) \<le> 2097152 \<and>
     list_all message_ok (hi_messages h) \<and> distinct (call_ids (hi_messages h)) \<and>
     starts_with_user (hi_messages h) \<and>
     encoded_len ext (jarr ser_message (repaired_of (chosen (hi_messages h)) (hi_messages h))) \<le> 2097152"
  by (rule repair_Ok_iff)

text \<open>
  C13. What a repair does. The messages are kept in order except for Tool results; behind each message come, in the order of its
  calls, one result per call: the first one the history holds after the call, or a synthetic error. The outcome is a
  valid transcript.
\<close>

theorem repair_result:
  assumes "repair_imported_history ext h = Inr out"
  shows "rh_messages out = repaired_of (chosen (hi_messages h)) (hi_messages h) \<and>
    filter (\<lambda>m. msg_role m \<noteq> ToolRole) (rh_messages out) = filter (\<lambda>m. msg_role m \<noteq> ToolRole) (hi_messages h) \<and>
    result_ids (rh_messages out) = call_ids (rh_messages out) \<and> call_ids (rh_messages out) = call_ids (hi_messages h) \<and>
    valid_subagent_transcript (rh_messages out)"
proof -
  let ?ms = "hi_messages h"
  from assms obtain st n where st: "scan_messages 0 ?ms empty_scan = Inr st"
    and rb: "rebuild st 0 ?ms (ss_selected (fold (select_one st) (result_candidates st) empty_select)) 0 [] = (n, rh_messages out)"
    and v: "valid_subagent_transcript (rh_messages out)" by (rule repair_Inr)
  have eq: "rh_messages out = repaired_of (chosen ?ms) ?ms" using rebuild_history [OF st] rb by auto
  have ok: "list_all message_ok ?ms" using scan_history [OF st] by simp
  then have "\<forall>i \<in> set (call_ids ?ms). good_answer i (answer (chosen ?ms) i)" using answer_good by blast
  with repaired_of_shape [OF ok this] eq v show ?thesis by simp
qed

text \<open>
  The report accounts for every Tool result. The Tool results of the source and those the repair inserted are together
  as many as the Tool calls and the results reported as dropped orphans and duplicates. (At most \<open>2 ^ 32 - 1\<close> calls are
  counted; the byte limit keeps a history far below that.)
\<close>

theorem repair_accounts:
  assumes "repair_imported_history ext h = Inr out" and "length (call_ids (hi_messages h)) < 2 ^ 32"
  shows "length (result_ids (hi_messages h)) + unat (hr_inserted_missing_results (rh_report out)) =
    length (call_ids (hi_messages h)) + unat (hr_dropped_orphan_results (rh_report out)) +
    unat (hr_dropped_duplicate_results (rh_report out))"
proof -
  let ?ms = "hi_messages h"
  from assms(1) obtain st n where st: "scan_messages 0 ?ms empty_scan = Inr st"
    and rb: "rebuild st 0 ?ms (ss_selected (fold (select_one st) (result_candidates st) empty_select)) 0 [] = (n, rh_messages out)"
    and rep: "hr_inserted_missing_results (rh_report out) = n"
      "hr_dropped_orphan_results (rh_report out) = ss_orphans (fold (select_one st) (result_candidates st) empty_select)"
      "hr_dropped_duplicate_results (rh_report out) = ss_duplicates (fold (select_one st) (result_candidates st) empty_select)"
    and len: "length ?ms \<le> 1024" by (rule repair_Inr)
  have s: "scanned ?ms st" "distinct (call_ids ?ms)" using scan_history [OF st] by simp_all
  have total: "sum_list (map (length \<circ> snd) (result_candidates st)) = length (result_ids ?ms)"
    using s by (simp add: scanned_def)
  have "length (result_ids ?ms) < 2 ^ 32" using length_result_ids [of ?ms] len by simp
  with total have "sum_list (map (length \<circ> snd) (result_candidates st)) < 2 ^ 32" by simp
  then have "unat (hr_dropped_orphan_results (rh_report out)) + unat (hr_dropped_duplicate_results (rh_report out)) +
      length (filter (\<lambda>i. chosen ?ms i \<noteq> None) (call_ids ?ms)) = length (result_ids ?ms)"
    using fold_select_counts [of empty_select "result_candidates st" st] total kept_results [OF s] rep by simp
  moreover have "unat n = length (filter (\<lambda>i. chosen ?ms i = None) (call_ids ?ms))"
    using rebuild_history [OF st] rb assms(2) by auto
  moreover have "length (filter (\<lambda>i. chosen ?ms i \<noteq> None) (call_ids ?ms)) +
      length (filter (\<lambda>i. chosen ?ms i = None) (call_ids ?ms)) = length (call_ids ?ms)"
    using sum_length_filter_compl [of "\<lambda>i. chosen ?ms i \<noteq> None" "call_ids ?ms"] by simp
  ultimately show ?thesis using rep by simp
qed

section \<open>Witnesses\<close>

text \<open>A history with an unanswered call, an orphaned result and a duplicated one.\<close>

definition sample_history :: history_import where
  "sample_history = \<lparr>hi_schema_version = 1, hi_source = External, hi_messages =
     [\<lparr>msg_role = ToolRole, msg_content = [PartToolResult ''c9'' JNull]\<rparr>,
      \<lparr>msg_role = UserRole, msg_content = [PartText ''hi'']\<rparr>,
      \<lparr>msg_role = AssistantRole, msg_content = [PartToolCall ''c1'' ''shell'' JNull, PartToolCall ''c2'' ''shell'' JNull]\<rparr>,
      \<lparr>msg_role = AssistantRole, msg_content = [PartText ''done'']\<rparr>,
      \<lparr>msg_role = ToolRole, msg_content = [PartToolResult ''c2'' JNull]\<rparr>,
      \<lparr>msg_role = ToolRole, msg_content = [PartToolResult ''c2'' (JBool True)]\<rparr>]\<rparr>"

lemma sample_history_ok:
  "list_all message_ok (hi_messages sample_history)" "distinct (call_ids (hi_messages sample_history))"
  "starts_with_user (hi_messages sample_history)"
  by code_simp+

lemma sample_history_counts:
  "length (call_ids (hi_messages sample_history)) = 2" "length (result_ids (hi_messages sample_history)) = 3"
  by code_simp+

lemma encoded_sample: "encoded_len sample_externals (jarr f xs) \<le> 2097152"
  by (simp add: encoded_len_def sample_externals_def jarr_def)

lemma sample_history_repairs: "\<exists>out. repair_imported_history sample_externals sample_history = Inr out"
proof -
  have "hi_schema_version sample_history = 1" "hi_messages sample_history \<noteq> []"
    "length (hi_messages sample_history) \<le> 1024"
    by (simp_all add: sample_history_def)
  with sample_history_ok encoded_sample show ?thesis unfolding repair_Ok_iff by blast
qed

theorem repair_result_witness:
  "\<exists>out. repair_imported_history sample_externals sample_history = Inr out \<and>
     result_ids (rh_messages out) = [''c1'', ''c2'']"
proof -
  obtain out where out: "repair_imported_history sample_externals sample_history = Inr out"
    using sample_history_repairs by blast
  have "call_ids (hi_messages sample_history) = [''c1'', ''c2'']" by code_simp
  with repair_result [OF out] out show ?thesis by auto
qed

theorem repair_accounts_witness:
  "\<exists>out. repair_imported_history sample_externals sample_history = Inr out \<and>
     3 + unat (hr_inserted_missing_results (rh_report out)) =
     2 + unat (hr_dropped_orphan_results (rh_report out)) + unat (hr_dropped_duplicate_results (rh_report out))"
proof -
  obtain out where out: "repair_imported_history sample_externals sample_history = Inr out"
    using sample_history_repairs by blast
  with repair_accounts [OF out] sample_history_counts show ?thesis by simp
qed

end
