(* ===== verification/Execution_Command.thy ===== *)
theory Execution_Command
  imports Control_Commands History_Repair
begin

text \<open>
  The commands of \<open>runtime/crates/protocol/src/lib.rs\<close> that queue a Run and hand it to a worker:
  \<open>RunQueuedCommand\<close>, \<open>RunExecutionCommand\<close> and the snapshots the latter carries (execution policy, MCP servers,
  Skills, lineage, subagent roles), each with its validation. A \<open>BTreeSet\<close> is the list of its elements and a
  \<open>BTreeMap\<close> the list of its entries, both in key order. The results are about what an accepted command cannot do: carry
  a feature its schema does not have, delegate more than it was given, or confuse two MCP servers.
\<close>

section \<open>Execution policy\<close>

record mcp_discovery_policy_snapshot =
  dp_max_concurrent_servers :: u8
  dp_per_server_timeout_ms :: u64
  dp_total_timeout_ms :: u64
  dp_max_attempts_per_server :: u8
  dp_initial_retry_backoff_ms :: u64

record model_failover_policy_snapshot =
  fp_max_provider_attempts :: u8
  fp_fallback_on :: "model_error_kind list"

record tool_execution_policy_snapshot =
  tp_timeout_ms :: u64
  tp_max_concurrent_tools :: u8

record context_compaction_policy_snapshot =
  cc_enabled :: bool
  cc_trigger_bytes :: u64
  cc_retain_bytes :: u64
  cc_max_summary_tokens :: u64

definition default_compaction :: context_compaction_policy_snapshot where
  "default_compaction = \<lparr>cc_enabled = False, cc_trigger_bytes = 0, cc_retain_bytes = 0, cc_max_summary_tokens = 0\<rparr>"

record runtime_execution_policy_snapshot =
  xp_schema_version :: u32
  xp_mcp_discovery :: mcp_discovery_policy_snapshot
  xp_model_failover :: model_failover_policy_snapshot
  xp_tool_execution :: tool_execution_policy_snapshot
  xp_context_compaction :: context_compaction_policy_snapshot

definition default_execution_policy :: runtime_execution_policy_snapshot where
  "default_execution_policy =
     \<lparr>xp_schema_version = 4,
      xp_mcp_discovery = \<lparr>dp_max_concurrent_servers = 4, dp_per_server_timeout_ms = 3000, dp_total_timeout_ms = 10000,
        dp_max_attempts_per_server = 2, dp_initial_retry_backoff_ms = 100\<rparr>,
      xp_model_failover = \<lparr>fp_max_provider_attempts = 8, fp_fallback_on = [Billing, RateLimited, Timeout, Unavailable]\<rparr>,
      xp_tool_execution = \<lparr>tp_timeout_ms = 30000, tp_max_concurrent_tools = 4\<rparr>,
      xp_context_compaction = default_compaction\<rparr>"

definition discovery_retry_ok :: "u32 \<Rightarrow> mcp_discovery_policy_snapshot \<Rightarrow> bool" where
  "discovery_retry_ok v d =
     (if v = 1 then dp_max_attempts_per_server d = 1 \<and> dp_initial_retry_backoff_ms d = 0
      else if 2 \<le> v \<and> v \<le> 4
      then 1 \<le> dp_max_attempts_per_server d \<and> dp_max_attempts_per_server d \<le> 4 \<and> dp_initial_retry_backoff_ms d \<le> 5000
      else False)"

definition tool_concurrency_ok :: "u32 \<Rightarrow> tool_execution_policy_snapshot \<Rightarrow> bool" where
  "tool_concurrency_ok v t =
     (if 1 \<le> v \<and> v \<le> 3 then tp_max_concurrent_tools t = 1
      else if v = 4 then 1 \<le> tp_max_concurrent_tools t \<and> tp_max_concurrent_tools t \<le> 16
      else False)"

definition compaction_ok :: "u32 \<Rightarrow> context_compaction_policy_snapshot \<Rightarrow> bool" where
  "compaction_ok v c =
     (if v = 1 \<or> v = 2 then c = default_compaction
      else if (v = 3 \<or> v = 4) \<and> \<not> cc_enabled c then c = default_compaction
      else if v = 3 \<or> v = 4
      then 4096 \<le> cc_trigger_bytes c \<and> cc_trigger_bytes c \<le> 67108864 \<and>
           1024 \<le> cc_retain_bytes c \<and> cc_retain_bytes c < cc_trigger_bytes c \<and>
           64 \<le> cc_max_summary_tokens c \<and> cc_max_summary_tokens c \<le> 8192
      else False)"

definition policy_is_bounded_and_safe :: "runtime_execution_policy_snapshot \<Rightarrow> bool" where
  "policy_is_bounded_and_safe p \<longleftrightarrow>
     (let v = xp_schema_version p; d = xp_mcp_discovery p; f = xp_model_failover p; t = xp_tool_execution p
      in 1 \<le> v \<and> v \<le> 4 \<and>
         1 \<le> dp_max_concurrent_servers d \<and> dp_max_concurrent_servers d \<le> 16 \<and>
         1 \<le> dp_per_server_timeout_ms d \<and> dp_per_server_timeout_ms d \<le> 60000 \<and>
         dp_total_timeout_ms d \<ge> dp_per_server_timeout_ms d \<and> dp_total_timeout_ms d \<le> 300000 \<and>
         discovery_retry_ok v d \<and>
         1 \<le> fp_max_provider_attempts f \<and> fp_max_provider_attempts f \<le> 8 \<and>
         list_all (\<lambda>kind. kind \<in> {RateLimited, Timeout, Unavailable, Billing}) (fp_fallback_on f) \<and>
         1 \<le> tp_timeout_ms t \<and> tp_timeout_ms t \<le> 3600000 \<and>
         tool_concurrency_ok v t \<and> compaction_ok v (xp_context_compaction p))"

section \<open>Queueing a Run\<close>

definition RUN_QUEUED_SCHEMA_VERSION :: u32 where "RUN_QUEUED_SCHEMA_VERSION = 1"

datatype run_priority = Interactive | Batch | System

record run_queued_command =
  rq_schema_version :: u32
  rq_message_id :: uuid
  rq_tenant_id :: uuid
  rq_run_id :: uuid
  rq_session_id :: uuid
  rq_workspace_id :: uuid
  rq_agent_version_id :: uuid
  rq_model_policy_id :: uuid
  rq_occurred_at :: datetime
  rq_input :: string
  rq_priority :: run_priority
  rq_placement :: placement
  rq_budget :: run_budget

datatype run_queued_validation_error =
  QueuedUnsupportedSchemaVersion u32 | QueuedBlankInput | NonPositiveBudget | DurationTooLong | QueuedMissingModelPolicy

definition queued_validate :: "run_queued_command \<Rightarrow> (run_queued_validation_error, unit) result" where
  "queued_validate c =
     (if rq_schema_version c \<noteq> RUN_QUEUED_SCHEMA_VERSION
      then Inl (QueuedUnsupportedSchemaVersion (rq_schema_version c))
      else if is_blank (rq_input c) then Inl QueuedBlankInput
      else if is_nil (rq_model_policy_id c) then Inl QueuedMissingModelPolicy
      else if max_tokens (rq_budget c) = 0 \<or> max_cost_cents (rq_budget c) = 0 \<or> max_duration_seconds (rq_budget c) = 0
      then Inl NonPositiveBudget
      else if max_duration_seconds (rq_budget c) > 86400 then Inl DurationTooLong
      else Inr ())"

section \<open>MCP servers\<close>

definition RUN_EXECUTION_SCHEMA_VERSION :: u32 where "RUN_EXECUTION_SCHEMA_VERSION = 22"
definition RUN_EXECUTION_MCP_OAUTH_SCHEMA_VERSION :: u32 where "RUN_EXECUTION_MCP_OAUTH_SCHEMA_VERSION = 21"

datatype mcp_protocol_revision = V2025_03_26 | V2025_06_18 | V2026_07_28

fun mcp_protocol_revision_str :: "mcp_protocol_revision \<Rightarrow> string" where
  "mcp_protocol_revision_str V2025_03_26 = ''2025-03-26''"
| "mcp_protocol_revision_str V2025_06_18 = ''2025-06-18''"
| "mcp_protocol_revision_str V2026_07_28 = ''2026-07-28''"

definition is_legacy :: "mcp_protocol_revision \<Rightarrow> bool" where
  "is_legacy r \<longleftrightarrow> r = V2025_03_26 \<or> r = V2025_06_18"

datatype mcp_client_capability = Elicitation

record mcp_server_snapshot =
  ms_server_id :: uuid
  ms_name :: string
  ms_endpoint :: string
  ms_credential_envelope_base64 :: string
  ms_oauth_credential_id :: "uuid option"
  ms_required :: bool
  ms_tool_effect_overrides :: "(string \<times> tool_effect) list"
  ms_protocol_revision :: mcp_protocol_revision
  ms_client_capabilities :: "mcp_client_capability list"

definition has_usable_namespace :: "mcp_server_snapshot \<Rightarrow> bool" where
  "has_usable_namespace s \<longleftrightarrow>
     (let bytes = ms_name s
      in (case bytes of [] \<Rightarrow> False | first # _ \<Rightarrow> is_ascii_lowercase first \<or> is_ascii_digit first) \<and>
         length bytes \<le> 64 \<and>
         list_all (\<lambda>byte. is_ascii_lowercase byte \<or> is_ascii_digit byte \<or> byte = CHR ''-'' \<or> byte = CHR ''_'') bytes)"

definition server_scope :: "mcp_server_snapshot \<Rightarrow> string" where
  "server_scope s = ''tool:mcp:'' @ ms_name s"

definition read_scope :: "mcp_server_snapshot \<Rightarrow> string" where
  "read_scope s = ''mcp:read:'' @ ms_name s"

definition has_valid_credential_mode :: "mcp_server_snapshot \<Rightarrow> u32 \<Rightarrow> bool" where
  "has_valid_credential_mode s schema_version =
     (case ms_oauth_credential_id s of
        Some credential_id \<Rightarrow>
          schema_version \<ge> RUN_EXECUTION_MCP_OAUTH_SCHEMA_VERSION \<and> \<not> is_nil credential_id \<and>
          ms_credential_envelope_base64 s = []
      | None \<Rightarrow> True)"

definition capability_scope :: "mcp_server_snapshot \<Rightarrow> mcp_client_capability \<Rightarrow> string" where
  "capability_scope s capability = (case capability of Elicitation \<Rightarrow> ''mcp:elicitation:'' @ ms_name s)"

section \<open>Skills, lineage and subagent roles\<close>

record skill_snapshot =
  sk_schema_version :: u32
  sk_application_id :: uuid
  sk_skill_version_id :: uuid
  sk_name :: string
  sk_semantic_version :: string
  sk_description :: string
  sk_instructions :: string
  sk_tool_names :: "string list"
  sk_supported_platforms :: "string list"
  sk_min_runtime_version :: string
  sk_artifact_digest :: string
  sk_signing_key_id :: string
  sk_signature :: string

definition canonical_material :: "externals \<Rightarrow> skill_snapshot \<Rightarrow> uuid \<Rightarrow> json" where
  "canonical_material ext s tenant_id = JObject
     [(''application_id'', juuid ext (sk_application_id s)),
      (''description'', JString (sk_description s)),
      (''instructions'', JString (sk_instructions s)),
      (''min_runtime_version'', JString (sk_min_runtime_version s)),
      (''name'', JString (sk_name s)),
      (''schema_version'', ju32 (sk_schema_version s)),
      (''semantic_version'', JString (sk_semantic_version s)),
      (''skill_version_id'', juuid ext (sk_skill_version_id s)),
      (''supported_platforms'', jarr JString (sk_supported_platforms s)),
      (''tenant_id'', juuid ext tenant_id),
      (''tool_names'', jarr JString (sk_tool_names s))]"

definition canonical_bytes :: "externals \<Rightarrow> skill_snapshot \<Rightarrow> uuid \<Rightarrow> u8 list" where
  "canonical_bytes ext s tenant_id = ext_to_vec ext (canonical_material ext s tenant_id)"

definition expected_artifact_digest :: "externals \<Rightarrow> skill_snapshot \<Rightarrow> uuid \<Rightarrow> string" where
  "expected_artifact_digest ext s tenant_id = ext_sha256_hex ext (canonical_bytes ext s tenant_id)"

definition artifact_digest_matches :: "externals \<Rightarrow> skill_snapshot \<Rightarrow> uuid \<Rightarrow> bool" where
  "artifact_digest_matches ext s tenant_id \<longleftrightarrow>
     is_sha256 (sk_artifact_digest s) \<and> expected_artifact_digest ext s tenant_id = sk_artifact_digest s"

definition skill_validate :: "externals \<Rightarrow> skill_snapshot \<Rightarrow> uuid \<Rightarrow> bool" where
  "skill_validate ext s tenant_id \<longleftrightarrow>
     sk_schema_version s = 1 \<and> \<not> is_nil (sk_application_id s) \<and> \<not> is_nil (sk_skill_version_id s) \<and>
     portable_identifier (sk_name s) 120 \<and> semantic_version (sk_semantic_version s) \<and>
     \<not> is_blank (sk_description s) \<and> length (sk_description s) \<le> 500 \<and>
     \<not> is_blank (sk_instructions s) \<and> length (sk_instructions s) \<le> 32000 \<and>
     sorted_unique (sk_tool_names s) 32 \<and> list_all (\<lambda>name. skill_tool_name name 120) (sk_tool_names s) \<and>
     sorted_unique (sk_supported_platforms s) 8 \<and> sk_supported_platforms s \<noteq> [] \<and>
     list_all (\<lambda>platform. platform \<in> {''darwin-arm64'', ''linux-arm64'', ''linux-x86_64''}) (sk_supported_platforms s) \<and>
     semantic_version (sk_min_runtime_version s) \<and> portable_identifier (sk_signing_key_id s) 128 \<and>
     (case ext_base64_url_decode ext (sk_signature s) of None \<Rightarrow> False | Some signature \<Rightarrow> length signature = 64) \<and>
     artifact_digest_matches ext s tenant_id"

record agent_lineage =
  al_root_run_id :: uuid
  al_parent_run_id :: "uuid option"
  al_delegation_id :: "uuid option"
  al_depth :: u8
  al_role :: string

definition valid_for :: "agent_lineage \<Rightarrow> uuid \<Rightarrow> bool" where
  "valid_for l run_id =
     (if al_depth l = 0
      then al_root_run_id l = run_id \<and> al_parent_run_id l = None \<and> al_delegation_id l = None \<and> al_role l = ''primary''
      else al_depth l \<le> 3 \<and> \<not> is_nil (al_root_run_id l) \<and> al_root_run_id l \<noteq> run_id \<and>
           (case al_parent_run_id l of None \<Rightarrow> False
            | Some parent_run_id \<Rightarrow> \<not> is_nil parent_run_id \<and> parent_run_id \<noteq> run_id) \<and>
           (case al_delegation_id l of None \<Rightarrow> False | Some delegation_id \<Rightarrow> \<not> is_nil delegation_id) \<and>
           al_role l \<noteq> ''primary'' \<and> portable_identifier (al_role l) 80)"

record subagent_role =
  sr_name :: string
  sr_instructions :: string
  sr_delegated_scopes :: "string list"

section \<open>The execution command\<close>

record run_execution_command =
  xc_schema_version :: u32
  xc_message_id :: uuid
  xc_tenant_id :: uuid
  xc_application_id :: uuid
  xc_workload_identity_id :: uuid
  xc_run_id :: uuid
  xc_session_id :: uuid
  xc_workspace_id :: uuid
  xc_agent_version_id :: uuid
  xc_model_policy_id :: uuid
  xc_attempt_id :: uuid
  xc_worker_id :: uuid
  xc_worker_incarnation_id :: uuid
  xc_owner_epoch :: u64
  xc_fencing_token :: uuid
  xc_issued_at :: datetime
  xc_lease_expires_at :: datetime
  xc_workload_token :: string
  xc_delegated_scopes :: "string list"
  xc_agent_instructions :: string
  xc_model_policy_snapshot_base64 :: string
  xc_model_policy_digest :: string
  xc_skill_snapshots :: "skill_snapshot list"
  xc_lineage :: agent_lineage
  xc_subagent_roles :: "subagent_role list"
  xc_tool_approval_policies :: "(string \<times> auto_approval) list"
  xc_mcp_servers :: "mcp_server_snapshot list"
  xc_runtime_policy :: "runtime_execution_policy_snapshot option"
  xc_subagent_history :: "subagent_conversation_turn list"
  xc_history_import :: "history_import option"
  xc_session_branch :: "session_branch_snapshot option"
  xc_input :: string
  xc_budget :: run_budget

datatype run_execution_validation_error =
    ExecutionUnsupportedSchemaVersion u32
  | NonPositiveOwnerEpoch
  | InvalidLeaseWindow
  | ExecutionBlankInput
  | InvalidBudget
  | ExecutionMissingModelPolicy
  | InvalidWorkloadToken
  | InvalidInvocationIdentity
  | InvalidDelegatedScopes
  | InvalidAgentInstructions
  | InvalidModelPolicySnapshot
  | InvalidSkillSnapshot
  | InvalidAgentLineage
  | InvalidSubagentRoles
  | ExecutionMissingWorkerIncarnation
  | InvalidToolApprovalPolicies
  | InvalidMcpServers
  | InvalidRuntimePolicy
  | InvalidMcpAvailabilityPolicy
  | InvalidParallelToolPolicy
  | InvalidMcpToolEffectOverrides
  | InvalidMcpProtocolPolicy
  | InvalidSubagentHistory
  | InvalidHistoryImport
  | InvalidSessionBranch

text \<open>\<open>iter().all\<close> with a set that collects the names seen so far; the recursion stops at the first failure.\<close>

primrec mcp_servers_ok :: "run_execution_command \<Rightarrow> mcp_server_snapshot list \<Rightarrow> string set \<Rightarrow> bool" where
  "mcp_servers_ok c [] seen = True"
| "mcp_servers_ok c (server # servers) seen =
     (\<not> is_nil (ms_server_id server) \<and> has_usable_namespace server \<and> length (ms_endpoint server) \<le> 2048 \<and>
      \<not> is_blank (ms_endpoint server) \<and> length (ms_credential_envelope_base64 server) \<le> 16 * 1024 \<and>
      has_valid_credential_mode server (xc_schema_version c) \<and>
      (server_scope server \<in> set (xc_delegated_scopes c) \<or> read_scope server \<in> set (xc_delegated_scopes c)) \<and>
      ms_name server \<notin> seen \<and> mcp_servers_ok c servers (Set.insert (ms_name server) seen))"

definition valid_mcp_servers :: "run_execution_command \<Rightarrow> bool" where
  "valid_mcp_servers c = (if length (xc_mcp_servers c) > 16 then False else mcp_servers_ok c (xc_mcp_servers c) {})"

definition valid_mcp_tool_effect_overrides :: "run_execution_command \<Rightarrow> bool" where
  "valid_mcp_tool_effect_overrides c \<longleftrightarrow>
     (let declared_tools = concat (map sk_tool_names (xc_skill_snapshots c));
          override_count = sum_list (map (\<lambda>server. length (ms_tool_effect_overrides server)) (xc_mcp_servers c))
      in override_count \<le> 512 \<and>
         list_all (\<lambda>server. list_all (\<lambda>tool_name.
             portable_identifier tool_name 120 \<and> (''mcp:'' @ ms_name server @ ''/'' @ tool_name) \<in> set declared_tools)
           (map fst (ms_tool_effect_overrides server))) (xc_mcp_servers c))"

definition valid_mcp_protocol_policy :: "run_execution_command \<Rightarrow> bool" where
  "valid_mcp_protocol_policy c \<longleftrightarrow>
     list_all (\<lambda>server.
        if is_legacy (ms_protocol_revision server) then ms_client_capabilities server = []
        else ms_client_capabilities server \<noteq> [] \<and>
             list_all (\<lambda>capability. capability_scope server capability \<in> set (xc_delegated_scopes c))
               (ms_client_capabilities server))
       (xc_mcp_servers c)"

primrec subagent_roles_ok :: "run_execution_command \<Rightarrow> subagent_role list \<Rightarrow> string set \<Rightarrow> bool" where
  "subagent_roles_ok c [] names = True"
| "subagent_roles_ok c (role # roles) names =
     (sr_name role \<noteq> ''primary'' \<and> portable_identifier (sr_name role) 80 \<and> sr_name role \<notin> names \<and>
      \<not> is_blank (sr_instructions role) \<and> length (sr_instructions role) \<le> 16000 \<and>
      length (sr_delegated_scopes role) \<le> 128 \<and>
      list_all (\<lambda>scope. \<not> is_blank scope \<and> length scope \<le> 128 \<and> scope \<in> set (xc_delegated_scopes c))
        (sr_delegated_scopes role) \<and>
      subagent_roles_ok c roles (Set.insert (sr_name role) names))"

definition valid_subagent_roles :: "run_execution_command \<Rightarrow> bool" where
  "valid_subagent_roles c =
     (if length (xc_subagent_roles c) > 16 \<or> (al_depth (xc_lineage c) \<ge> 3 \<and> xc_subagent_roles c \<noteq> []) then False
      else subagent_roles_ok c (xc_subagent_roles c) {})"

primrec skill_snapshots_ok ::
  "externals \<Rightarrow> run_execution_command \<Rightarrow> skill_snapshot list \<Rightarrow> uuid set \<Rightarrow> string set \<Rightarrow> bool" where
  "skill_snapshots_ok ext c [] ids names = True"
| "skill_snapshots_ok ext c (skill # skills) ids names =
     (sk_skill_version_id skill \<notin> ids \<and> sk_name skill \<notin> names \<and>
      (xc_schema_version c < 20 \<or> sk_application_id skill = xc_application_id c) \<and>
      skill_validate ext skill (xc_tenant_id c) \<and>
      skill_snapshots_ok ext c skills (Set.insert (sk_skill_version_id skill) ids) (Set.insert (sk_name skill) names))"

definition valid_skill_snapshots :: "externals \<Rightarrow> run_execution_command \<Rightarrow> bool" where
  "valid_skill_snapshots ext c =
     (if xc_skill_snapshots c = [] \<or> length (xc_skill_snapshots c) > 16 then False
      else skill_snapshots_ok ext c (xc_skill_snapshots c) {} {})"

definition valid_model_policy_snapshot :: "externals \<Rightarrow> run_execution_command \<Rightarrow> bool" where
  "valid_model_policy_snapshot ext c =
     (if length (xc_model_policy_digest c) \<noteq> 64 \<or>
         \<not> list_all (\<lambda>byte. is_ascii_digit byte \<or> (CHR ''a'' \<le> byte \<and> byte \<le> CHR ''f'')) (xc_model_policy_digest c)
      then False
      else case ext_base64_decode ext (xc_model_policy_snapshot_base64 c) of
        None \<Rightarrow> False
      | Some snapshot \<Rightarrow>
          if snapshot = [] \<or> length snapshot > 256 * 1024 then False
          else if ext_sha256_hex ext snapshot \<noteq> xc_model_policy_digest c then False
          else case ext_from_slice ext snapshot of
            None \<Rightarrow> False
          | Some snapshot \<Rightarrow>
              Option.bind (jget ''schema_version'' snapshot) as_u64 = Some 1 \<and>
              Option.bind (jget ''routing'' snapshot) as_str \<noteq> None \<and>
              (case Option.bind (jget ''candidates'' snapshot) as_array of
                 None \<Rightarrow> False
               | Some candidates \<Rightarrow> candidates \<noteq> [] \<and> length candidates \<le> 8))"

text \<open>
  The body of \<open>validate\<close> is a sequence of early returns. The longer conditions have names of their own; then the list
  \<open>execution_checks\<close> has one entry for each \<open>if\<close>, its condition with the error it returns, and the first condition that
  holds decides.
\<close>

definition missing_identity :: "run_execution_command \<Rightarrow> bool" where
  "missing_identity c \<longleftrightarrow>
     xc_schema_version c \<ge> 20 \<and> list_ex is_nil
       [xc_tenant_id c, xc_application_id c, xc_workload_identity_id c, xc_run_id c, xc_session_id c,
        xc_workspace_id c, xc_agent_version_id c, xc_attempt_id c, xc_worker_id c, xc_worker_incarnation_id c,
        xc_fencing_token c]"

definition bad_scopes :: "run_execution_command \<Rightarrow> bool" where
  "bad_scopes c \<longleftrightarrow>
     length (xc_delegated_scopes c) > 128 \<or>
     list_ex (\<lambda>scope. is_blank scope \<or> length scope > 128) (xc_delegated_scopes c)"

definition bad_instructions :: "run_execution_command \<Rightarrow> bool" where
  "bad_instructions c \<longleftrightarrow>
     xc_schema_version c \<ge> 3 \<and> (is_blank (xc_agent_instructions c) \<or> length (xc_agent_instructions c) > 32000)"

definition bad_skills :: "externals \<Rightarrow> run_execution_command \<Rightarrow> bool" where
  "bad_skills ext c \<longleftrightarrow>
     (xc_schema_version c = 5 \<or> (xc_schema_version c \<ge> 6 \<and> xc_skill_snapshots c \<noteq> [])) \<and> \<not> valid_skill_snapshots ext c"

definition bad_lineage :: "run_execution_command \<Rightarrow> bool" where
  "bad_lineage c \<longleftrightarrow> xc_schema_version c \<ge> 6 \<and> \<not> valid_for (xc_lineage c) (xc_run_id c)"

definition bad_roles :: "run_execution_command \<Rightarrow> bool" where
  "bad_roles c \<longleftrightarrow>
     (xc_schema_version c < 7 \<and> xc_subagent_roles c \<noteq> []) \<or> (xc_schema_version c \<ge> 7 \<and> \<not> valid_subagent_roles c)"

definition bad_servers :: "run_execution_command \<Rightarrow> bool" where
  "bad_servers c \<longleftrightarrow>
     (xc_schema_version c < 9 \<and> xc_mcp_servers c \<noteq> []) \<or> (xc_schema_version c \<ge> 9 \<and> \<not> valid_mcp_servers c)"

definition bad_overrides :: "run_execution_command \<Rightarrow> bool" where
  "bad_overrides c \<longleftrightarrow>
     (xc_schema_version c < 18 \<and> list_ex (\<lambda>server. ms_tool_effect_overrides server \<noteq> []) (xc_mcp_servers c)) \<or>
     (xc_schema_version c \<ge> 18 \<and> \<not> valid_mcp_tool_effect_overrides c)"

definition bad_protocol :: "run_execution_command \<Rightarrow> bool" where
  "bad_protocol c \<longleftrightarrow>
     (xc_schema_version c < 19 \<and> list_ex (\<lambda>server. ms_protocol_revision server \<noteq> V2025_06_18 \<or>
        ms_client_capabilities server \<noteq> []) (xc_mcp_servers c)) \<or>
     (xc_schema_version c < 22 \<and> list_ex (\<lambda>server. ms_protocol_revision server = V2025_03_26) (xc_mcp_servers c)) \<or>
     (xc_schema_version c \<ge> 19 \<and> \<not> valid_mcp_protocol_policy c)"

definition bad_policy :: "run_execution_command \<Rightarrow> bool" where
  "bad_policy c \<longleftrightarrow>
     (xc_schema_version c < 10 \<and> xc_runtime_policy c \<noteq> None) \<or>
     (xc_schema_version c \<ge> 10 \<and>
        \<not> (case xc_runtime_policy c of None \<Rightarrow> False | Some policy \<Rightarrow> policy_is_bounded_and_safe policy))"

definition policy_schema :: "run_execution_command \<Rightarrow> u32" where
  "policy_schema c = (case xc_runtime_policy c of None \<Rightarrow> 0 | Some policy \<Rightarrow> xp_schema_version policy)"

definition bad_availability :: "run_execution_command \<Rightarrow> bool" where
  "bad_availability c \<longleftrightarrow>
     (xc_schema_version c < 11 \<and> (policy_schema c \<ge> 2 \<or> list_ex ms_required (xc_mcp_servers c))) \<or>
     (11 \<le> xc_schema_version c \<and> xc_schema_version c < 13 \<and> policy_schema c \<noteq> 2) \<or>
     (13 \<le> xc_schema_version c \<and> xc_schema_version c < 17 \<and> policy_schema c \<noteq> 3)"

definition bad_parallel :: "run_execution_command \<Rightarrow> bool" where
  "bad_parallel c \<longleftrightarrow>
     (xc_schema_version c < 17 \<and> policy_schema c \<ge> 4) \<or> (xc_schema_version c \<ge> 17 \<and> policy_schema c \<noteq> 4)"

definition bad_subagent_history :: "externals \<Rightarrow> run_execution_command \<Rightarrow> bool" where
  "bad_subagent_history ext c \<longleftrightarrow>
     (let history = xc_subagent_history c;
          carries_typed_subagent_history = list_ex (\<lambda>turn. srd_transcript (sct_result turn) \<noteq> []) history;
          has_legacy_subagent_turn = list_ex (\<lambda>turn. srd_transcript (sct_result turn) = []) history
      in (xc_schema_version c < 12 \<and> history \<noteq> []) \<or>
         (12 \<le> xc_schema_version c \<and> xc_schema_version c < 14 \<and> carries_typed_subagent_history) \<or>
         (xc_schema_version c \<ge> 12 \<and>
            (\<not> valid_subagent_conversation_history ext history \<or> (history \<noteq> [] \<and> al_depth (xc_lineage c) = 0))) \<or>
         (xc_schema_version c \<ge> 14 \<and> has_legacy_subagent_turn))"

definition bad_session_branch :: "externals \<Rightarrow> run_execution_command \<Rightarrow> bool" where
  "bad_session_branch ext c \<longleftrightarrow>
     (let root_execution = (al_depth (xc_lineage c) = 0)
      in (xc_schema_version c < 16 \<and> xc_session_branch c \<noteq> None) \<or>
         (xc_schema_version c \<ge> 16 \<and>
           ((root_execution \<and>
              \<not> (case xc_session_branch c of None \<Rightarrow> False | Some branch \<Rightarrow> branch_is_well_formed ext branch)) \<or>
            (\<not> root_execution \<and> xc_session_branch c \<noteq> None) \<or>
            (xc_session_branch c \<noteq> None \<and> (xc_history_import c \<noteq> None \<or> xc_subagent_history c \<noteq> [])))))"

definition bad_history_import :: "externals \<Rightarrow> run_execution_command \<Rightarrow> bool" where
  "bad_history_import ext c \<longleftrightarrow>
     (xc_schema_version c < 15 \<and> xc_history_import c \<noteq> None) \<or>
     (xc_history_import c \<noteq> None \<and> xc_subagent_history c \<noteq> []) \<or>
     (case xc_history_import c of None \<Rightarrow> False | Some history \<Rightarrow> is_err (repair_imported_history ext history))"

definition execution_checks :: "externals \<Rightarrow> run_execution_command \<Rightarrow> (bool \<times> run_execution_validation_error) list" where
  "execution_checks ext c =
     [(\<not> (1 \<le> xc_schema_version c \<and> xc_schema_version c \<le> RUN_EXECUTION_SCHEMA_VERSION),
         ExecutionUnsupportedSchemaVersion (xc_schema_version c)),
      (missing_identity c, InvalidInvocationIdentity),
      (xc_schema_version c \<ge> 2 \<and> is_nil (xc_worker_incarnation_id c), ExecutionMissingWorkerIncarnation),
      (xc_owner_epoch c = 0, NonPositiveOwnerEpoch),
      (xc_lease_expires_at c \<le> xc_issued_at c, InvalidLeaseWindow),
      (is_blank (xc_input c), ExecutionBlankInput),
      (is_nil (xc_model_policy_id c), ExecutionMissingModelPolicy),
      (\<not> token_is_well_formed (xc_workload_token c), InvalidWorkloadToken),
      (bad_scopes c, InvalidDelegatedScopes),
      (bad_instructions c, InvalidAgentInstructions),
      (xc_schema_version c \<ge> 4 \<and> \<not> valid_model_policy_snapshot ext c, InvalidModelPolicySnapshot),
      (bad_skills ext c, InvalidSkillSnapshot),
      (bad_lineage c, InvalidAgentLineage),
      (bad_roles c, InvalidSubagentRoles),
      (xc_schema_version c < 8 \<and> xc_tool_approval_policies c \<noteq> [], InvalidToolApprovalPolicies),
      (bad_servers c, InvalidMcpServers),
      (bad_overrides c, InvalidMcpToolEffectOverrides),
      (bad_protocol c, InvalidMcpProtocolPolicy),
      (bad_policy c, InvalidRuntimePolicy),
      (bad_availability c, InvalidMcpAvailabilityPolicy),
      (bad_parallel c, InvalidParallelToolPolicy),
      (bad_subagent_history ext c, InvalidSubagentHistory),
      (bad_session_branch ext c, InvalidSessionBranch),
      (bad_history_import ext c, InvalidHistoryImport),
      (\<not> is_positive_and_finite (xc_budget c), InvalidBudget)]"

primrec first_failure :: "(bool \<times> 'e) list \<Rightarrow> ('e, unit) result" where
  "first_failure [] = Inr ()"
| "first_failure (check # checks) = (if fst check then Inl (snd check) else first_failure checks)"

definition execution_validate :: "externals \<Rightarrow> run_execution_command \<Rightarrow> (run_execution_validation_error, unit) result" where
  "execution_validate ext c = first_failure (execution_checks ext c)"

section \<open>Reading an accepted command\<close>

lemma first_failure_Ok: "first_failure checks = Inr () \<longleftrightarrow> list_all (\<lambda>check. \<not> fst check) checks"
  by (induction checks) auto

lemma mcp_servers_ok_iff:
  "mcp_servers_ok c servers seen \<longleftrightarrow>
     list_all (\<lambda>s. mcp_servers_ok c [s] {}) servers \<and> distinct (map ms_name servers) \<and> ms_name ` set servers \<inter> seen = {}"
  by (induction servers arbitrary: seen) auto

lemma subagent_roles_ok_iff:
  "subagent_roles_ok c roles names \<longleftrightarrow>
     list_all (\<lambda>r. subagent_roles_ok c [r] {}) roles \<and> distinct (map sr_name roles) \<and> sr_name ` set roles \<inter> names = {}"
  by (induction roles arbitrary: names) auto

lemma skill_snapshots_ok_iff:
  "skill_snapshots_ok ext c skills ids names \<longleftrightarrow>
     list_all (\<lambda>s. skill_snapshots_ok ext c [s] {} {}) skills \<and>
     distinct (map sk_skill_version_id skills) \<and> distinct (map sk_name skills) \<and>
     sk_skill_version_id ` set skills \<inter> ids = {} \<and> sk_name ` set skills \<inter> names = {}"
  by (induction skills arbitrary: ids names) auto

text \<open>What an accepted command passed.\<close>

lemma execution_accepted:
  assumes "execution_validate ext c = Inr ()"
  shows "1 \<le> xc_schema_version c" "xc_schema_version c \<le> 22"
    and "\<not> missing_identity c" "0 < xc_owner_epoch c" "xc_issued_at c < xc_lease_expires_at c"
    and "\<not> bad_scopes c" "\<not> bad_skills ext c" "\<not> bad_lineage c" "\<not> bad_roles c"
    and "xc_schema_version c < 8 \<Longrightarrow> xc_tool_approval_policies c = []"
    and "\<not> bad_servers c" "\<not> bad_overrides c" "\<not> bad_protocol c" "\<not> bad_policy c" "\<not> bad_availability c"
    and "\<not> bad_parallel c" "\<not> bad_subagent_history ext c" "\<not> bad_session_branch ext c"
    and "\<not> bad_history_import ext c" "is_positive_and_finite (xc_budget c)"
proof -
  have passed: "list_all (\<lambda>check. \<not> fst check) (execution_checks ext c)"
    using assms by (simp add: execution_validate_def first_failure_Ok)
  then have "\<not> fst (execution_checks ext c ! 0)" by (simp add: execution_checks_def)
  then show "1 \<le> xc_schema_version c" "xc_schema_version c \<le> 22"
    by (simp_all only: execution_checks_def nth_Cons_0 fst_conv RUN_EXECUTION_SCHEMA_VERSION_def simp_thms)
  from passed show "\<not> missing_identity c" "0 < xc_owner_epoch c" "xc_issued_at c < xc_lease_expires_at c"
    "\<not> bad_scopes c" "\<not> bad_skills ext c" "\<not> bad_lineage c" "\<not> bad_roles c" "\<not> bad_servers c" "\<not> bad_overrides c"
    "\<not> bad_protocol c" "\<not> bad_policy c" "\<not> bad_availability c" "\<not> bad_parallel c" "\<not> bad_subagent_history ext c"
    "\<not> bad_session_branch ext c" "\<not> bad_history_import ext c" "is_positive_and_finite (xc_budget c)"
    by (simp_all add: execution_checks_def word_neq_0_conv)
  from passed show "xc_schema_version c < 8 \<Longrightarrow> xc_tool_approval_policies c = []" by (simp add: execution_checks_def)
qed

lemma usable_namespace_no_slash:
  assumes "has_usable_namespace s"
  shows "CHR ''/'' \<notin> set (ms_name s)" "CHR '':'' \<notin> set (ms_name s)"
  using assms by (auto simp: has_usable_namespace_def Let_def list_all_iff text_simps)

lemma accepted_servers:
  assumes "execution_validate ext c = Inr ()"
  shows "distinct (map ms_name (xc_mcp_servers c))"
    and "s \<in> set (xc_mcp_servers c) \<Longrightarrow> has_usable_namespace s"
    and "s \<in> set (xc_mcp_servers c) \<Longrightarrow>
      server_scope s \<in> set (xc_delegated_scopes c) \<or> read_scope s \<in> set (xc_delegated_scopes c)"
proof -
  have "xc_mcp_servers c = [] \<or> mcp_servers_ok c (xc_mcp_servers c) {}"
    using execution_accepted(11) [OF assms] by (auto simp: bad_servers_def valid_mcp_servers_def not_less split: if_splits)
  then show "distinct (map ms_name (xc_mcp_servers c))"
    and "s \<in> set (xc_mcp_servers c) \<Longrightarrow> has_usable_namespace s"
    and "s \<in> set (xc_mcp_servers c) \<Longrightarrow>
      server_scope s \<in> set (xc_delegated_scopes c) \<or> read_scope s \<in> set (xc_delegated_scopes c)"
    by (auto simp: mcp_servers_ok_iff [of c "xc_mcp_servers c"] list_all_iff)
qed

lemma accepted_capabilities:
  assumes "execution_validate ext c = Inr ()" "s \<in> set (xc_mcp_servers c)" "k \<in> set (ms_client_capabilities s)"
  shows "capability_scope s k \<in> set (xc_delegated_scopes c)"
  using execution_accepted(13) [OF assms(1)] assms(2,3)
  by (cases "xc_schema_version c < 19")
    (fastforce simp: bad_protocol_def valid_mcp_protocol_policy_def list_ex_iff list_all_iff not_less split: if_splits)+

lemma accepted_roles:
  assumes "execution_validate ext c = Inr ()"
  shows "distinct (map sr_name (xc_subagent_roles c))"
    and "r \<in> set (xc_subagent_roles c) \<Longrightarrow> set (sr_delegated_scopes r) \<subseteq> set (xc_delegated_scopes c)"
    and "xc_subagent_roles c \<noteq> [] \<Longrightarrow> al_depth (xc_lineage c) < 3"
    and "r \<in> set (xc_subagent_roles c) \<Longrightarrow> sr_name r \<noteq> ''primary''"
proof -
  have *: "xc_subagent_roles c = [] \<or>
      subagent_roles_ok c (xc_subagent_roles c) {} \<and> al_depth (xc_lineage c) < 3"
    using execution_accepted(9) [OF assms]
    by (auto simp: bad_roles_def valid_subagent_roles_def not_less not_le split: if_splits)
  then show "distinct (map sr_name (xc_subagent_roles c))"
    and "r \<in> set (xc_subagent_roles c) \<Longrightarrow> set (sr_delegated_scopes r) \<subseteq> set (xc_delegated_scopes c)"
    and "r \<in> set (xc_subagent_roles c) \<Longrightarrow> sr_name r \<noteq> ''primary''"
    by (auto simp: subagent_roles_ok_iff [of c "xc_subagent_roles c"] list_all_iff)
  from * show "xc_subagent_roles c \<noteq> [] \<Longrightarrow> al_depth (xc_lineage c) < 3" by simp
qed

section \<open>Properties\<close>

text \<open>Fields that a command of an old schema may carry without effect.\<close>

lemma old_schema:
  assumes "(v :: u32) < 6"
  shows "v < 7" "v < 8" "v < 9" "v < 10" "v < 11" "v < 12" "v < 15" "v < 16" "v < 17" "v < 18" "v < 19" "v < 22"
    "\<not> 6 \<le> v" "\<not> 7 \<le> v" "\<not> 9 \<le> v" "\<not> 10 \<le> v" "\<not> 11 \<le> v" "\<not> 12 \<le> v" "\<not> 13 \<le> v" "\<not> 14 \<le> v" "\<not> 16 \<le> v" "\<not> 17 \<le> v"
    "\<not> 18 \<le> v" "\<not> 19 \<le> v" "\<not> 20 \<le> v" "v \<le> 22"
  using assms by (simp_all add: word_less_nat_alt word_le_nat_alt)

text \<open>What is left of the checks for the oldest schemas.\<close>

lemma old_schema_validate:
  assumes "xc_schema_version c < 6"
  shows "execution_validate ext c = Inr () \<longleftrightarrow>
    1 \<le> xc_schema_version c \<and> (2 \<le> xc_schema_version c \<longrightarrow> \<not> is_nil (xc_worker_incarnation_id c)) \<and> xc_owner_epoch c \<noteq> 0 \<and>
    \<not> xc_lease_expires_at c \<le> xc_issued_at c \<and> \<not> is_blank (xc_input c) \<and> \<not> is_nil (xc_model_policy_id c) \<and>
    token_is_well_formed (xc_workload_token c) \<and> \<not> bad_scopes c \<and> \<not> bad_instructions c \<and>
    (4 \<le> xc_schema_version c \<longrightarrow> valid_model_policy_snapshot ext c) \<and>
    (xc_schema_version c = 5 \<longrightarrow> valid_skill_snapshots ext c) \<and> xc_subagent_roles c = [] \<and> xc_tool_approval_policies c = [] \<and>
    xc_mcp_servers c = [] \<and> xc_runtime_policy c = None \<and> xc_subagent_history c = [] \<and> xc_session_branch c = None \<and>
    xc_history_import c = None \<and> is_positive_and_finite (xc_budget c)"
  unfolding execution_validate_def first_failure_Ok execution_checks_def missing_identity_def bad_skills_def bad_lineage_def
    bad_roles_def bad_servers_def bad_overrides_def bad_protocol_def bad_policy_def bad_availability_def bad_parallel_def
    bad_subagent_history_def bad_session_branch_def bad_history_import_def policy_schema_def RUN_EXECUTION_SCHEMA_VERSION_def Let_def
  using old_schema [OF assms] by auto

lemma ignored_features:
  assumes "execution_validate ext c = Inr ()"
  shows "xc_schema_version c < 3 \<longrightarrow> execution_validate ext (c\<lparr>xc_agent_instructions := instructions\<rparr>) = Inr ()"
    and "xc_schema_version c < 4 \<longrightarrow>
      execution_validate ext (c\<lparr>xc_model_policy_snapshot_base64 := snapshot, xc_model_policy_digest := digest\<rparr>) = Inr ()"
    and "xc_schema_version c < 5 \<longrightarrow> execution_validate ext (c\<lparr>xc_skill_snapshots := skills\<rparr>) = Inr ()"
    and "xc_schema_version c < 6 \<longrightarrow> execution_validate ext (c\<lparr>xc_lineage := lineage\<rparr>) = Inr ()"
proof -
  have "skill_snapshots_ok ext (c\<lparr>xc_lineage := lineage\<rparr>) sks a b = skill_snapshots_ok ext c sks a b" for sks a b
    by (induction sks arbitrary: a b) simp_all
  then have same: "valid_model_policy_snapshot ext (c\<lparr>xc_skill_snapshots := skills\<rparr>) = valid_model_policy_snapshot ext c"
    "valid_model_policy_snapshot ext (c\<lparr>xc_lineage := lineage\<rparr>) = valid_model_policy_snapshot ext c"
    "valid_skill_snapshots ext (c\<lparr>xc_lineage := lineage\<rparr>) = valid_skill_snapshots ext c"
    by (simp_all add: valid_model_policy_snapshot_def valid_skill_snapshots_def cong: option.case_cong)
  have less: "v < 6" "\<not> 4 \<le> v \<and> v \<noteq> 5 \<and> \<not> 3 \<le> v" if "v < 3" for v :: u32
    using that by (auto simp: word_less_nat_alt word_le_nat_alt)
  show "xc_schema_version c < 3 \<longrightarrow> execution_validate ext (c\<lparr>xc_agent_instructions := instructions\<rparr>) = Inr ()"
    using assms less [of "xc_schema_version c"]
    by (auto simp: old_schema_validate bad_scopes_def bad_instructions_def)
  have less: "v < 6" "\<not> 4 \<le> v \<and> v \<noteq> 5" if "v < 4" for v :: u32
    using that by (auto simp: word_less_nat_alt word_le_nat_alt)
  show "xc_schema_version c < 4 \<longrightarrow>
      execution_validate ext (c\<lparr>xc_model_policy_snapshot_base64 := snapshot, xc_model_policy_digest := digest\<rparr>) = Inr ()"
    using assms less [of "xc_schema_version c"]
    by (auto simp: old_schema_validate bad_scopes_def bad_instructions_def)
  have less: "v < 6" "v \<noteq> 5" if "v < 5" for v :: u32
    using that by (auto simp: word_less_nat_alt)
  show "xc_schema_version c < 5 \<longrightarrow> execution_validate ext (c\<lparr>xc_skill_snapshots := skills\<rparr>) = Inr ()"
    using assms less [of "xc_schema_version c"]
    by (auto simp: old_schema_validate bad_scopes_def bad_instructions_def same)
  show "xc_schema_version c < 6 \<longrightarrow> execution_validate ext (c\<lparr>xc_lineage := lineage\<rparr>) = Inr ()"
    using assms
    by (auto simp: old_schema_validate bad_scopes_def bad_instructions_def same)
qed

text \<open>The features of the MCP servers and of the subagent history that depend on the schema.\<close>

lemma accepted_server_features:
  assumes "execution_validate ext c = Inr ()" and "s \<in> set (xc_mcp_servers c)"
  shows "xc_schema_version c < 11 \<Longrightarrow> \<not> ms_required s"
    and "xc_schema_version c < 18 \<Longrightarrow> ms_tool_effect_overrides s = []"
    and "xc_schema_version c < 19 \<Longrightarrow> ms_client_capabilities s = [] \<and> ms_protocol_revision s = V2025_06_18"
    and "xc_schema_version c < 21 \<Longrightarrow> ms_oauth_credential_id s = None"
    and "xc_schema_version c < 22 \<Longrightarrow> ms_protocol_revision s \<noteq> V2025_03_26"
proof -
  note ok = execution_accepted [OF assms(1)]
  show "xc_schema_version c < 11 \<Longrightarrow> \<not> ms_required s" using ok(15) assms(2) by (auto simp: bad_availability_def list_ex_iff)
  show "xc_schema_version c < 18 \<Longrightarrow> ms_tool_effect_overrides s = []"
    using ok(12) assms(2) by (auto simp: bad_overrides_def list_ex_iff)
  show "xc_schema_version c < 19 \<Longrightarrow> ms_client_capabilities s = [] \<and> ms_protocol_revision s = V2025_06_18"
    "xc_schema_version c < 22 \<Longrightarrow> ms_protocol_revision s \<noteq> V2025_03_26"
    using ok(13) assms(2) by (auto simp: bad_protocol_def list_ex_iff)
  have "has_valid_credential_mode s (xc_schema_version c)"
    using ok(11) assms(2)
    by (auto simp: bad_servers_def valid_mcp_servers_def not_less mcp_servers_ok_iff [of c "xc_mcp_servers c"] list_all_iff split: if_splits)
  then show "xc_schema_version c < 21 \<Longrightarrow> ms_oauth_credential_id s = None"
    by (auto simp: has_valid_credential_mode_def RUN_EXECUTION_MCP_OAUTH_SCHEMA_VERSION_def split: option.splits)
qed

lemma accepted_history:
  assumes "execution_validate ext c = Inr ()"
  shows "xc_schema_version c < 12 \<Longrightarrow> xc_subagent_history c = []"
    and "xc_schema_version c < 14 \<Longrightarrow> turn \<in> set (xc_subagent_history c) \<Longrightarrow> srd_transcript (sct_result turn) = []"
    and "14 \<le> xc_schema_version c \<Longrightarrow> turn \<in> set (xc_subagent_history c) \<Longrightarrow> srd_transcript (sct_result turn) \<noteq> []"
  using execution_accepted(17) [OF assms]
  by (auto simp: bad_subagent_history_def Let_def list_ex_iff not_le not_less)

text \<open>
  C17. What the schema version of an accepted command rules out, feature by feature: subagent roles before version 7,
  approval policies before 8, MCP servers before 9, an execution policy before 10, a required server and a second policy schema
  before 11, a subagent history before 12 and a typed one before 14 (from 14 on every turn is typed), an imported history before 15, a
  Session branch before 16, effect overrides before 18, client capabilities and another protocol revision than that of June 2025 before 19,
  an OAuth credential before 21, and the revision of March 2025 before 22. The schema of the policy is fixed by that of the
  command from version 11 on. The four features that are older than these checks are not ruled out but ignored: the instructions
  below version 3, the model policy snapshot below 4, the Skills below 5 and the lineage below 6 do not change the verdict.
\<close>

theorem execution_no_downgrade:
  assumes "execution_validate ext c = Inr ()"
  defines "v \<equiv> xc_schema_version c"
  shows "1 \<le> v \<and> v \<le> 22 \<and>
     (v < 7 \<longrightarrow> xc_subagent_roles c = []) \<and>
     (v < 8 \<longrightarrow> xc_tool_approval_policies c = []) \<and>
     (v < 9 \<longrightarrow> xc_mcp_servers c = []) \<and>
     (v < 10 \<longrightarrow> xc_runtime_policy c = None) \<and>
     (v < 12 \<longrightarrow> xc_subagent_history c = []) \<and>
     (\<forall>turn \<in> set (xc_subagent_history c). v < 14 \<longleftrightarrow> srd_transcript (sct_result turn) = []) \<and>
     (v < 15 \<longrightarrow> xc_history_import c = None) \<and>
     (v < 16 \<longrightarrow> xc_session_branch c = None) \<and>
     (\<forall>s \<in> set (xc_mcp_servers c).
        (v < 11 \<longrightarrow> \<not> ms_required s) \<and> (v < 18 \<longrightarrow> ms_tool_effect_overrides s = []) \<and>
        (v < 19 \<longrightarrow> ms_client_capabilities s = [] \<and> ms_protocol_revision s = V2025_06_18) \<and>
        (v < 21 \<longrightarrow> ms_oauth_credential_id s = None) \<and> (v < 22 \<longrightarrow> ms_protocol_revision s \<noteq> V2025_03_26)) \<and>
     (v < 11 \<longrightarrow> policy_schema c < 2) \<and>
     (11 \<le> v \<longrightarrow> policy_schema c = (if v < 13 then 2 else if v < 17 then 3 else 4)) \<and>
     (v < 3 \<longrightarrow> execution_validate ext (c\<lparr>xc_agent_instructions := instructions\<rparr>) = Inr ()) \<and>
     (v < 4 \<longrightarrow> execution_validate ext (c\<lparr>xc_model_policy_snapshot_base64 := snapshot, xc_model_policy_digest := digest\<rparr>) = Inr ()) \<and>
     (v < 5 \<longrightarrow> execution_validate ext (c\<lparr>xc_skill_snapshots := skills\<rparr>) = Inr ()) \<and>
     (v < 6 \<longrightarrow> execution_validate ext (c\<lparr>xc_lineage := lineage\<rparr>) = Inr ())"
proof -
  note ok = execution_accepted [OF assms(1), folded v_def] and history = accepted_history [OF assms(1), folded v_def]
  have old: "v < 7 \<longrightarrow> xc_subagent_roles c = []" "v < 8 \<longrightarrow> xc_tool_approval_policies c = []"
    "v < 9 \<longrightarrow> xc_mcp_servers c = []" "v < 10 \<longrightarrow> xc_runtime_policy c = None"
    using ok(9-11,14) by (auto simp: bad_roles_def bad_servers_def bad_policy_def v_def)
  have turns: "v < 12 \<longrightarrow> xc_subagent_history c = []"
    "\<forall>turn \<in> set (xc_subagent_history c). v < 14 \<longleftrightarrow> srd_transcript (sct_result turn) = []"
    using history not_le by blast+
  have imported: "v < 15 \<longrightarrow> xc_history_import c = None" "v < 16 \<longrightarrow> xc_session_branch c = None"
    using ok(18,19) by (auto simp: bad_history_import_def bad_session_branch_def Let_def v_def)
  have servers: "\<forall>s \<in> set (xc_mcp_servers c).
      (v < 11 \<longrightarrow> \<not> ms_required s) \<and> (v < 18 \<longrightarrow> ms_tool_effect_overrides s = []) \<and>
      (v < 19 \<longrightarrow> ms_client_capabilities s = [] \<and> ms_protocol_revision s = V2025_06_18) \<and>
      (v < 21 \<longrightarrow> ms_oauth_credential_id s = None) \<and> (v < 22 \<longrightarrow> ms_protocol_revision s \<noteq> V2025_03_26)"
    using accepted_server_features [OF assms(1), folded v_def] by blast
  have policy: "v < 11 \<longrightarrow> policy_schema c < 2" using ok(15) by (auto simp: bad_availability_def v_def)
  have schema: "11 \<le> v \<longrightarrow> policy_schema c = (if v < 13 then 2 else if v < 17 then 3 else 4)"
    using ok(15,16) unfolding bad_availability_def bad_parallel_def v_def by (metis not_le)
  show ?thesis
    by (intro conjI) (fact ok(1,2) old turns imported servers policy schema ignored_features [OF assms(1), folded v_def])+
qed

text \<open>
  C18. A command delegates no more than it was given. Every scope of a subagent role is a delegated scope of the command,
  role names are distinct and none is the name of the primary agent, and only an execution less than three delegations
  deep has roles at all; every MCP server is reachable under a delegated Tool or read scope, and every client capability
  it may use is delegated for that server.
\<close>

theorem execution_authority:
  assumes "execution_validate ext c = Inr ()"
  shows "distinct (map sr_name (xc_subagent_roles c)) \<and>
     (\<forall>r \<in> set (xc_subagent_roles c). sr_name r \<noteq> ''primary'' \<and> al_depth (xc_lineage c) < 3 \<and>
        set (sr_delegated_scopes r) \<subseteq> set (xc_delegated_scopes c)) \<and>
     (\<forall>s \<in> set (xc_mcp_servers c).
        (server_scope s \<in> set (xc_delegated_scopes c) \<or> read_scope s \<in> set (xc_delegated_scopes c)) \<and>
        (\<forall>k \<in> set (ms_client_capabilities s). capability_scope s k \<in> set (xc_delegated_scopes c)))"
  using accepted_roles [OF assms] accepted_servers(3) [OF assms] accepted_capabilities [OF assms]
  by (metis list.set_intros(1) empty_iff list.set(1))

text \<open>
  The qualified names of the Tools of an accepted command are unambiguous: two servers of the command that give the
  same qualified name are the same server, and the Tool is the same.
\<close>

theorem mcp_tool_names_unambiguous:
  assumes "execution_validate ext c = Inr ()" "s \<in> set (xc_mcp_servers c)" "s' \<in> set (xc_mcp_servers c)"
    and "qualified_tool_name (ms_name s) tool = qualified_tool_name (ms_name s') tool'"
  shows "s = s' \<and> tool = tool'"
proof -
  have "ms_name s = ms_name s' \<and> tool = tool'"
    using assms(4) usable_namespace_no_slash(1) accepted_servers(2) [OF assms(1)] assms(2,3)
    by (simp add: qualified_tool_name_inject)
  with accepted_servers(1) [OF assms(1)] assms(2,3) show ?thesis by (auto simp: distinct_map dest: inj_onD)
qed

text \<open>
  An accepted command has at most one source of earlier conversation: of a Session branch, an imported history and
  the turns of a continued subagent, at most one is present. From version 16 on exactly the root executions have a
  Session branch, so that a history can be imported only into a delegated execution.
\<close>

theorem execution_context_sources:
  assumes "execution_validate ext c = Inr ()"
  shows "length (filter id [xc_session_branch c \<noteq> None, xc_history_import c \<noteq> None, xc_subagent_history c \<noteq> []]) \<le> 1 \<and>
     (16 \<le> xc_schema_version c \<longrightarrow>
        (xc_session_branch c \<noteq> None \<longleftrightarrow> al_depth (xc_lineage c) = 0) \<and>
        (xc_history_import c \<noteq> None \<longrightarrow> al_depth (xc_lineage c) \<noteq> 0))"
proof -
  note ok = execution_accepted(18,19) [OF assms]
  have "16 \<le> xc_schema_version c \<longrightarrow> (xc_session_branch c \<noteq> None \<longleftrightarrow> al_depth (xc_lineage c) = 0)"
    using ok(1) by (auto simp: bad_session_branch_def Let_def split: option.splits)
  moreover have "xc_session_branch c \<noteq> None \<longrightarrow> xc_history_import c = None \<and> xc_subagent_history c = []"
    using ok(1) by (auto simp: bad_session_branch_def Let_def not_less)
  moreover have "xc_history_import c \<noteq> None \<longrightarrow> xc_subagent_history c = []"
    using ok(2) by (auto simp: bad_history_import_def)
  ultimately show ?thesis by auto
qed

text \<open>
  The digest of a Skill artifact fixes the Skill: two Skills that validate with the same digest, even for two
  tenants, belong to the same tenant and application and agree in name, version, instructions, Tools and platforms,
  unless the hash of the two canonical forms collides.
\<close>

theorem skill_digest_ties_content:
  assumes "skill_validate ext a t" "skill_validate ext b u" "sk_artifact_digest a = sk_artifact_digest b"
    and "inj (ext_uuid_text ext)" "collision_free ext (canonical_material ext a t) (canonical_material ext b u)"
  shows "t = u \<and>
     a = b\<lparr>sk_signing_key_id := sk_signing_key_id a, sk_signature := sk_signature a\<rparr>"
proof -
  have "json_digest ext (canonical_material ext a t) = json_digest ext (canonical_material ext b u)"
    using assms(1-3)
    by (simp add: skill_validate_def artifact_digest_matches_def expected_artifact_digest_def canonical_bytes_def
        json_digest_def)
  with assms(5) have "canonical_material ext a t = canonical_material ext b u" by (simp add: collision_free_def)
  moreover have "sk_schema_version a = sk_schema_version b" using assms(1,2) by (simp add: skill_validate_def)
  moreover have "inj JString" by (simp add: inj_def)
  ultimately show ?thesis using assms(3)
    by (cases a; cases b) (simp add: canonical_material_def juuid_inject [OF assms(4)] jarr_inject)
qed

lemma default_policy_bounded: "policy_is_bounded_and_safe default_execution_policy"
  by (simp add: policy_is_bounded_and_safe_def default_execution_policy_def discovery_retry_ok_def
      tool_concurrency_ok_def compaction_ok_def default_compaction_def)

section \<open>Witnesses\<close>

definition sample_server :: mcp_server_snapshot where
  "sample_server = \<lparr>ms_server_id = 1, ms_name = ''files'', ms_endpoint = ''https'', ms_credential_envelope_base64 = [],
     ms_oauth_credential_id = None, ms_required = False, ms_tool_effect_overrides = [],
     ms_protocol_revision = V2025_06_18, ms_client_capabilities = []\<rparr>"

definition sample_role :: subagent_role where
  "sample_role = \<lparr>sr_name = ''reviewer'', sr_instructions = ''read'', sr_delegated_scopes = [''mcp:read:files'']\<rparr>"

definition sample_execution :: run_execution_command where
  "sample_execution = \<lparr>xc_schema_version = 9, xc_message_id = 1, xc_tenant_id = 2, xc_application_id = 3,
     xc_workload_identity_id = 4, xc_run_id = 1, xc_session_id = 3, xc_workspace_id = 6, xc_agent_version_id = 7,
     xc_model_policy_id = 8, xc_attempt_id = 9, xc_worker_id = 10, xc_worker_incarnation_id = 11, xc_owner_epoch = 2,
     xc_fencing_token = 12, xc_issued_at = 0, xc_lease_expires_at = 1, xc_workload_token = ''a.b.c'',
     xc_delegated_scopes = [''mcp:read:files''], xc_agent_instructions = ''read'',
     xc_model_policy_snapshot_base64 = ''x'', xc_model_policy_digest = replicate 64 (CHR ''0''), xc_skill_snapshots = [],
     xc_lineage = \<lparr>al_root_run_id = 1, al_parent_run_id = None, al_delegation_id = None, al_depth = 0,
       al_role = ''primary''\<rparr>,
     xc_subagent_roles = [sample_role], xc_tool_approval_policies = [], xc_mcp_servers = [sample_server],
     xc_runtime_policy = None, xc_subagent_history = [], xc_history_import = None, xc_session_branch = None,
     xc_input = ''read'', xc_budget = \<lparr>max_tokens = 1, max_cost_cents = 1, max_duration_seconds = 1\<rparr>\<rparr>"

lemma execution_sample_texts:
  "\<not> is_blank ''read''" "\<not> is_blank ''https''" "\<not> is_blank ''mcp:read:files''" "token_is_well_formed ''a.b.c''"
  "has_usable_namespace sample_server" "portable_identifier ''reviewer'' 80"
  by code_simp+

lemma execution_sample_policy: "valid_model_policy_snapshot injective_externals sample_execution"
proof -
  have "list_all (\<lambda>byte. is_ascii_digit byte \<or> (CHR ''a'' \<le> byte \<and> byte \<le> CHR ''f'')) (replicate 64 (CHR ''0''))"
    by code_simp
  then show ?thesis
    by (simp add: valid_model_policy_snapshot_def sample_execution_def injective_externals_def
        sample_externals_def as_bytes_def jget_def ju64_def)
qed

lemma sample_execution_checks:
  "\<not> missing_identity sample_execution" "\<not> bad_scopes sample_execution" "\<not> bad_instructions sample_execution"
  "\<not> bad_skills ext sample_execution" "\<not> bad_lineage sample_execution" "\<not> bad_roles sample_execution"
  "\<not> bad_servers sample_execution" "\<not> bad_overrides sample_execution" "\<not> bad_protocol sample_execution"
  "\<not> bad_policy sample_execution" "\<not> bad_availability sample_execution" "\<not> bad_parallel sample_execution"
  "\<not> bad_subagent_history ext sample_execution" "\<not> bad_session_branch ext sample_execution"
  "\<not> bad_history_import ext sample_execution"
  unfolding missing_identity_def bad_scopes_def bad_instructions_def bad_skills_def bad_lineage_def bad_roles_def
    bad_servers_def bad_overrides_def bad_protocol_def bad_policy_def bad_availability_def bad_parallel_def
    bad_subagent_history_def bad_session_branch_def bad_history_import_def
  by (simp_all add: sample_execution_def valid_for_def valid_subagent_roles_def sample_role_def valid_mcp_servers_def
      execution_sample_texts is_nil_def nil_uuid_def has_valid_credential_mode_def policy_schema_def)
    (simp_all add: sample_server_def read_scope_def execution_sample_texts)

lemma sample_execution_accepted: "execution_validate injective_externals sample_execution = Inr ()"
proof -
  have "1 \<le> xc_schema_version sample_execution \<and> xc_schema_version sample_execution \<le> RUN_EXECUTION_SCHEMA_VERSION"
    "\<not> is_nil (xc_worker_incarnation_id sample_execution)" "xc_owner_epoch sample_execution \<noteq> 0"
    "\<not> xc_lease_expires_at sample_execution \<le> xc_issued_at sample_execution" "\<not> is_blank (xc_input sample_execution)"
    "\<not> is_nil (xc_model_policy_id sample_execution)" "token_is_well_formed (xc_workload_token sample_execution)"
    "xc_tool_approval_policies sample_execution = []" "is_positive_and_finite (xc_budget sample_execution)"
    by (simp_all add: sample_execution_def RUN_EXECUTION_SCHEMA_VERSION_def is_nil_def nil_uuid_def execution_sample_texts
        is_positive_and_finite_def)
  then show ?thesis
    by (simp only: execution_validate_def first_failure_Ok execution_checks_def list.pred_inject fst_conv simp_thms
        sample_execution_checks execution_sample_policy)
qed

theorem execution_no_downgrade_witness:
  "execution_validate injective_externals sample_execution = Inr () \<and> xc_schema_version sample_execution < 10 \<and>
   xc_runtime_policy sample_execution = None"
  using execution_no_downgrade [OF sample_execution_accepted] sample_execution_accepted
  by (simp add: sample_execution_def)

theorem execution_authority_witness:
  "execution_validate injective_externals sample_execution = Inr () \<and> xc_subagent_roles sample_execution = [sample_role] \<and>
   set (sr_delegated_scopes sample_role) \<subseteq> set (xc_delegated_scopes sample_execution)"
proof -
  have "xc_subagent_roles sample_execution = [sample_role]" by (simp add: sample_execution_def)
  with execution_authority [OF sample_execution_accepted] sample_execution_accepted show ?thesis by simp
qed

theorem mcp_tool_names_unambiguous_witness:
  "execution_validate injective_externals sample_execution = Inr () \<and>
   (THE s. s \<in> set (xc_mcp_servers sample_execution) \<and>
      qualified_tool_name (ms_name s) ''open'' = ''mcp:files/open'') = sample_server"
proof -
  have s: "sample_server \<in> set (xc_mcp_servers sample_execution)" by (simp add: sample_execution_def)
  have q: "qualified_tool_name (ms_name sample_server) ''open'' = ''mcp:files/open''"
    by (simp add: qualified_tool_name_def sample_server_def)
  show ?thesis
    using mcp_tool_names_unambiguous [OF sample_execution_accepted _ s, of _ "''open''" "''open''"] s q
      sample_execution_accepted by (intro conjI the_equality) auto
qed

theorem execution_context_sources_witness:
  "execution_validate injective_externals sample_execution = Inr () \<and>
   length (filter id [xc_session_branch sample_execution \<noteq> None, xc_history_import sample_execution \<noteq> None,
     xc_subagent_history sample_execution \<noteq> []]) \<le> 1"
  using execution_context_sources [OF sample_execution_accepted] sample_execution_accepted by blast

definition skill_externals :: externals where
  "skill_externals = injective_externals\<lparr>ext_base64_url_decode := \<lambda>_. Some (replicate 64 0)\<rparr>"

definition sample_skill :: skill_snapshot where
  "sample_skill = \<lparr>sk_schema_version = 1, sk_application_id = 1, sk_skill_version_id = 2, sk_name = ''reviewer'',
     sk_semantic_version = ''1.0.0'', sk_description = ''read'', sk_instructions = ''read'', sk_tool_names = [],
     sk_supported_platforms = [''linux-arm64''], sk_min_runtime_version = ''1.0.0'',
     sk_artifact_digest = replicate 64 (CHR ''0''), sk_signing_key_id = ''reviewer'', sk_signature = []\<rparr>"

lemma sample_skill_valid: "skill_validate skill_externals sample_skill 7"
proof -
  have "semantic_version ''1.0.0''" "portable_identifier ''reviewer'' 120" "portable_identifier ''reviewer'' 128"
    "sorted_unique [''linux-arm64''] 8" "sorted_unique [] 32"
    by code_simp+
  then show ?thesis
    by (simp add: skill_validate_def sample_skill_def skill_externals_def execution_sample_texts is_nil_def nil_uuid_def
        artifact_digest_matches_def expected_artifact_digest_def injective_externals_def sample_externals_def
        control_sample_texts)
qed

theorem skill_digest_ties_content_witness:
  "skill_validate skill_externals sample_skill 7 \<and> inj (ext_uuid_text skill_externals) \<and>
   collision_free skill_externals (canonical_material skill_externals sample_skill 7)
     (canonical_material skill_externals sample_skill 7) \<and>
   sample_skill = sample_skill\<lparr>sk_signing_key_id := sk_signing_key_id sample_skill,
     sk_signature := sk_signature sample_skill\<rparr>"
proof -
  have i: "inj (ext_uuid_text skill_externals)" using inj_injective_externals by (simp add: skill_externals_def)
  have c: "collision_free skill_externals (canonical_material skill_externals sample_skill 7)
     (canonical_material skill_externals sample_skill 7)" by (simp add: collision_free_def)
  from skill_digest_ties_content [OF sample_skill_valid sample_skill_valid refl i c] sample_skill_valid i c
  show ?thesis by blast
qed

end
