(* ===== verification/Checkpoint_Publication.thy ===== *)
theory Checkpoint_Publication
  imports Checkpoint_Snapshot
begin

text \<open>
  \<open>RunCheckpointPublished\<close> of \<open>runtime/crates/protocol/src/lib.rs\<close>: how a checkpoint is prepared for publication,
  validated, and decoded again from its inline or external payload. The parameter \<open>de\<close> stands for
  \<open>serde_json::from_slice\<close> with the derived reader of the snapshot type, which hands the field \<open>state\<close> to the reader the
  repository has for it; base64, zstd and SHA-256 come from \<open>externals\<close>.
\<close>

section \<open>Definitions\<close>

definition RUN_CHECKPOINT_SCHEMA_VERSION :: u32 where
  "RUN_CHECKPOINT_SCHEMA_VERSION = 2"

definition INLINE_CHECKPOINT_MAX_BYTES :: nat where
  "INLINE_CHECKPOINT_MAX_BYTES = 512 * 1024"

definition CHECKPOINT_MAX_UNCOMPRESSED_BYTES :: nat where
  "CHECKPOINT_MAX_UNCOMPRESSED_BYTES = 16 * 1024 * 1024"

datatype checkpoint_payload_encoding = Identity | Zstd

record run_checkpoint_published =
  cp_schema_version :: u32
  cp_message_id :: uuid
  cp_tenant_id :: uuid
  cp_run_id :: uuid
  cp_session_id :: uuid
  cp_attempt_id :: uuid
  cp_owner_epoch :: u64
  cp_fencing_token :: uuid
  cp_sequence :: u64
  cp_status :: run_status
  cp_kernel_digest :: string
  cp_tool_catalog_digest :: string
  cp_payload_base64 :: "string option"
  cp_payload_ref :: "string option"
  cp_payload_encoding :: checkpoint_payload_encoding
  cp_payload_digest :: string
  cp_stored_payload_digest :: string
  cp_uncompressed_size :: u64
  cp_stored_size :: u64
  cp_created_at :: datetime

record prepared_run_checkpoint =
  pc_message :: run_checkpoint_published
  pc_external_payload :: "u8 list option"

datatype run_checkpoint_validation_error =
    CheckpointUnsupportedSchemaVersion u32
  | CheckpointInvalidIdentity
  | CheckpointInvalidDigest
  | CheckpointInvalidPayload

text \<open>The field \<open>state\<close> as it stands in the JSON document: a base64 text, or the bytes of an older writer.\<close>

datatype encoded_state = Base64 string | LegacyBytes "u8 list"

fun deserialize_state :: "externals \<Rightarrow> encoded_state \<Rightarrow> u8 list option" where
  "deserialize_state ext (Base64 encoded) = ext_base64_decode ext encoded"
| "deserialize_state ext (LegacyBytes bytes) = Some bytes"

record snapshot_document =
  sd_run_id :: uuid
  sd_tenant_id :: uuid
  sd_session_id :: uuid
  sd_attempt_id :: uuid
  sd_status :: run_status
  sd_sequence :: u64
  sd_state :: encoded_state
  sd_digest :: string

type_synonym snapshot_decoder = "u8 list \<Rightarrow> snapshot_document option"

definition snapshot_from_slice :: "externals \<Rightarrow> snapshot_decoder \<Rightarrow> u8 list \<Rightarrow> checkpoint_snapshot option" where
  "snapshot_from_slice ext de payload =
     (case de payload of
        None \<Rightarrow> None
      | Some d \<Rightarrow>
          (case deserialize_state ext (sd_state d) of
             None \<Rightarrow> None
           | Some state \<Rightarrow> Some \<lparr>cs_run_id = sd_run_id d, cs_tenant_id = sd_tenant_id d, cs_session_id = sd_session_id d,
               cs_attempt_id = sd_attempt_id d, cs_status = sd_status d, cs_sequence = sd_sequence d, cs_state = state,
               cs_digest = sd_digest d\<rparr>))"

type_synonym 'a checked = "(run_checkpoint_validation_error, 'a) result"

definition run_checkpoint_published_new ::
  "externals \<Rightarrow> uuid \<Rightarrow> checkpoint_snapshot \<Rightarrow> u64 \<Rightarrow> uuid \<Rightarrow> string \<Rightarrow> datetime \<Rightarrow> run_checkpoint_published" where
  "run_checkpoint_published_new ext now_v7 snapshot owner_epoch fencing_token tool_catalog_digest created_at =
     (let payload = ext_to_vec ext (ser_checkpoint_snapshot ext snapshot)
      in \<lparr>cp_schema_version = 1, cp_message_id = now_v7, cp_tenant_id = cs_tenant_id snapshot,
          cp_run_id = cs_run_id snapshot, cp_session_id = cs_session_id snapshot,
          cp_attempt_id = cs_attempt_id snapshot, cp_owner_epoch = owner_epoch, cp_fencing_token = fencing_token,
          cp_sequence = cs_sequence snapshot, cp_status = cs_status snapshot, cp_kernel_digest = cs_digest snapshot,
          cp_tool_catalog_digest = tool_catalog_digest,
          cp_payload_base64 = Some (ext_base64_encode ext payload), cp_payload_ref = None,
          cp_payload_encoding = Identity, cp_payload_digest = ext_sha256_hex ext payload,
          cp_stored_payload_digest = ext_sha256_hex ext payload, cp_uncompressed_size = of_nat (length payload),
          cp_stored_size = of_nat (length payload), cp_created_at = created_at\<rparr>)"

definition payload_reference :: "string \<Rightarrow> string" where
  "payload_reference stored_payload_digest = ''checkpoint://sha256/'' @ stored_payload_digest"

definition validate_metadata :: "run_checkpoint_published \<Rightarrow> unit checked" where
  "validate_metadata m =
     (if cp_schema_version m = 1
      then (if cp_payload_base64 m = None \<or> cp_payload_ref m \<noteq> None \<or> cp_payload_encoding m \<noteq> Identity
            then Inl CheckpointInvalidPayload else Inr ())
      else (let has_inline = cp_payload_base64 m \<noteq> None; has_ref = cp_payload_ref m \<noteq> None
            in if has_inline = has_ref \<or> cp_payload_encoding m \<noteq> Zstd \<or>
                  \<not> is_sha256 (cp_stored_payload_digest m) \<or>
                  cp_uncompressed_size m = 0 \<or>
                  cp_uncompressed_size m > of_nat CHECKPOINT_MAX_UNCOMPRESSED_BYTES \<or>
                  cp_stored_size m = 0 \<or>
                  (has_inline \<and> cp_stored_size m > of_nat INLINE_CHECKPOINT_MAX_BYTES) \<or>
                  (case cp_payload_ref m of
                     None \<Rightarrow> False
                   | Some reference \<Rightarrow> reference \<noteq> payload_reference (cp_stored_payload_digest m))
               then Inl CheckpointInvalidPayload else Inr ()))"

definition validate_snapshot :: "externals \<Rightarrow> run_checkpoint_published \<Rightarrow> checkpoint_snapshot \<Rightarrow> unit checked" where
  "validate_snapshot ext m snapshot =
     (if cs_tenant_id snapshot \<noteq> cp_tenant_id m \<or> cs_run_id snapshot \<noteq> cp_run_id m \<or>
         cs_session_id snapshot \<noteq> cp_session_id m \<or> cs_attempt_id snapshot \<noteq> cp_attempt_id m \<or>
         cs_sequence snapshot \<noteq> cp_sequence m \<or> cs_status snapshot \<noteq> cp_status m \<or>
         cs_digest snapshot \<noteq> cp_kernel_digest m \<or> \<not> verify_digest ext snapshot
      then Inl CheckpointInvalidPayload else Inr ())"

definition stored_to_payload :: "externals \<Rightarrow> run_checkpoint_published \<Rightarrow> u8 list \<Rightarrow> u8 list checked" where
  "stored_to_payload ext m stored =
     (if cp_schema_version m = 1
      then (if length stored > INLINE_CHECKPOINT_MAX_BYTES \<or> ext_sha256_hex ext stored \<noteq> cp_payload_digest m
            then Inl CheckpointInvalidPayload else Inr stored)
      else if cp_schema_version m = RUN_CHECKPOINT_SCHEMA_VERSION
      then (if of_nat (length stored) \<noteq> cp_stored_size m \<or> ext_sha256_hex ext stored \<noteq> cp_stored_payload_digest m
            then Inl CheckpointInvalidPayload
            else case ext_zstd_decompress ext CHECKPOINT_MAX_UNCOMPRESSED_BYTES stored of
                   None \<Rightarrow> Inl CheckpointInvalidPayload
                 | Some payload \<Rightarrow>
                     if of_nat (length payload) \<noteq> cp_uncompressed_size m \<or>
                        ext_sha256_hex ext payload \<noteq> cp_payload_digest m
                     then Inl CheckpointInvalidPayload else Inr payload)
      else Inl (CheckpointUnsupportedSchemaVersion (cp_schema_version m)))"

definition decode_stored_payload ::
  "externals \<Rightarrow> snapshot_decoder \<Rightarrow> run_checkpoint_published \<Rightarrow> u8 list \<Rightarrow> checkpoint_snapshot checked" where
  "decode_stored_payload ext de m stored =
     (if stored = [] then Inl CheckpointInvalidPayload
      else case stored_to_payload ext m stored of
             Inl e \<Rightarrow> Inl e
           | Inr payload \<Rightarrow>
               (case snapshot_from_slice ext de payload of
                  None \<Rightarrow> Inl CheckpointInvalidPayload
                | Some snapshot \<Rightarrow>
                    (case validate_snapshot ext m snapshot of Inl e \<Rightarrow> Inl e | Inr _ \<Rightarrow> Inr snapshot)))"

definition decode_snapshot ::
  "externals \<Rightarrow> snapshot_decoder \<Rightarrow> run_checkpoint_published \<Rightarrow> checkpoint_snapshot checked" where
  "decode_snapshot ext de m =
     (case cp_payload_base64 m of
        None \<Rightarrow> Inl CheckpointInvalidPayload
      | Some encoded \<Rightarrow>
          (case ext_base64_decode ext encoded of
             None \<Rightarrow> Inl CheckpointInvalidPayload
           | Some payload \<Rightarrow> decode_stored_payload ext de m payload))"

definition decode_snapshot_with_payload ::
  "externals \<Rightarrow> snapshot_decoder \<Rightarrow> run_checkpoint_published \<Rightarrow> u8 list \<Rightarrow> checkpoint_snapshot checked" where
  "decode_snapshot_with_payload ext de m stored =
     (if cp_payload_ref m = None \<or> cp_payload_base64 m \<noteq> None then Inl CheckpointInvalidPayload
      else decode_stored_payload ext de m stored)"

definition checkpoint_validate :: "externals \<Rightarrow> snapshot_decoder \<Rightarrow> run_checkpoint_published \<Rightarrow> unit checked" where
  "checkpoint_validate ext de m =
     (if \<not> (cp_schema_version m = 1 \<or> cp_schema_version m = RUN_CHECKPOINT_SCHEMA_VERSION)
      then Inl (CheckpointUnsupportedSchemaVersion (cp_schema_version m))
      else if is_nil (cp_message_id m) \<or> is_nil (cp_tenant_id m) \<or> is_nil (cp_run_id m) \<or>
              is_nil (cp_session_id m) \<or> is_nil (cp_attempt_id m) \<or> cp_owner_epoch m = 0 \<or>
              is_nil (cp_fencing_token m) \<or> is_terminal (cp_status m)
      then Inl CheckpointInvalidIdentity
      else if \<not> is_sha256 (cp_kernel_digest m) \<or> \<not> is_sha256 (cp_tool_catalog_digest m) \<or>
              \<not> is_sha256 (cp_payload_digest m)
      then Inl CheckpointInvalidDigest
      else case validate_metadata m of
             Inl e \<Rightarrow> Inl e
           | Inr _ \<Rightarrow>
               if cp_payload_ref m \<noteq> None then Inr ()
               else (case decode_snapshot ext de m of
                       Inl e \<Rightarrow> Inl e
                     | Inr snapshot \<Rightarrow> validate_snapshot ext m snapshot))"

definition prepare_v2 ::
  "externals \<Rightarrow> snapshot_decoder \<Rightarrow> uuid \<Rightarrow> checkpoint_snapshot \<Rightarrow> u64 \<Rightarrow> uuid \<Rightarrow> string \<Rightarrow> datetime \<Rightarrow>
   prepared_run_checkpoint checked" where
  "prepare_v2 ext de now_v7 snapshot owner_epoch fencing_token tool_catalog_digest created_at =
     (let payload = ext_to_vec ext (ser_checkpoint_snapshot ext snapshot)
      in if payload = [] \<or> length payload > CHECKPOINT_MAX_UNCOMPRESSED_BYTES then Inl CheckpointInvalidPayload
         else case ext_zstd_compress ext payload of
                None \<Rightarrow> Inl CheckpointInvalidPayload
              | Some stored \<Rightarrow>
                  (let stored_payload_digest = ext_sha256_hex ext stored;
                       is_inline = length stored \<le> INLINE_CHECKPOINT_MAX_BYTES;
                       message =
                         \<lparr>cp_schema_version = RUN_CHECKPOINT_SCHEMA_VERSION, cp_message_id = now_v7,
                          cp_tenant_id = cs_tenant_id snapshot, cp_run_id = cs_run_id snapshot,
                          cp_session_id = cs_session_id snapshot, cp_attempt_id = cs_attempt_id snapshot,
                          cp_owner_epoch = owner_epoch, cp_fencing_token = fencing_token,
                          cp_sequence = cs_sequence snapshot, cp_status = cs_status snapshot,
                          cp_kernel_digest = cs_digest snapshot, cp_tool_catalog_digest = tool_catalog_digest,
                          cp_payload_base64 = (if is_inline then Some (ext_base64_encode ext stored) else None),
                          cp_payload_ref =
                            (if \<not> is_inline then Some (payload_reference stored_payload_digest) else None),
                          cp_payload_encoding = Zstd, cp_payload_digest = ext_sha256_hex ext payload,
                          cp_stored_payload_digest = stored_payload_digest,
                          cp_uncompressed_size = of_nat (length payload), cp_stored_size = of_nat (length stored),
                          cp_created_at = created_at\<rparr>
                   in case validate_metadata message of
                        Inl e \<Rightarrow> Inl e
                      | Inr _ \<Rightarrow>
                          (case (if is_inline then checkpoint_validate ext de message else Inr ()) of
                             Inl e \<Rightarrow> Inl e
                           | Inr _ \<Rightarrow>
                               Inr \<lparr>pc_message = message,
                                    pc_external_payload = (if \<not> is_inline then Some stored else None)\<rparr>)))"

section \<open>Decoding\<close>

lemma validate_snapshot_Ok:
  "validate_snapshot ext m s = Inr () \<longleftrightarrow>
     cs_tenant_id s = cp_tenant_id m \<and> cs_run_id s = cp_run_id m \<and> cs_session_id s = cp_session_id m \<and>
     cs_attempt_id s = cp_attempt_id m \<and> cs_sequence s = cp_sequence m \<and> cs_status s = cp_status m \<and>
     cs_digest s = cp_kernel_digest m \<and> verify_digest ext s"
  by (simp add: validate_snapshot_def)

lemma decode_stored_payload_Ok:
  "decode_stored_payload ext de m stored = Inr s \<longleftrightarrow>
     stored \<noteq> [] \<and> (\<exists>payload. stored_to_payload ext m stored = Inr payload \<and> snapshot_from_slice ext de payload = Some s) \<and>
     validate_snapshot ext m s = Inr ()"
  by (auto simp: decode_stored_payload_def split: sum.splits option.splits)

lemma decoded_is_published:
  "decode_stored_payload ext de m stored = Inr s \<Longrightarrow> validate_snapshot ext m s = Inr ()"
  by (simp add: decode_stored_payload_Ok)

lemma decode_snapshot_cases:
  "decode_snapshot ext de m = Inr s \<or> decode_snapshot_with_payload ext de m stored = Inr s \<Longrightarrow>
   validate_snapshot ext m s = Inr ()"
  by (auto simp: decode_snapshot_def decode_snapshot_with_payload_def decoded_is_published
      split: option.splits if_splits)

text \<open>What a prepared message says about its snapshot.\<close>

lemma prepare_v2_Ok:
  assumes "prepare_v2 ext de u s epoch token catalog at = Inr p"
  obtains stored where
    "ext_zstd_compress ext (ext_to_vec ext (ser_checkpoint_snapshot ext s)) = Some stored" "stored \<noteq> []"
    "cp_schema_version (pc_message p) = 2" "cp_kernel_digest (pc_message p) = cs_digest s"
    "cp_tenant_id (pc_message p) = cs_tenant_id s" "cp_run_id (pc_message p) = cs_run_id s"
    "cp_session_id (pc_message p) = cs_session_id s" "cp_attempt_id (pc_message p) = cs_attempt_id s"
    "cp_sequence (pc_message p) = cs_sequence s" "cp_status (pc_message p) = cs_status s"
    "cp_stored_size (pc_message p) = of_nat (length stored)"
    "cp_stored_payload_digest (pc_message p) = ext_sha256_hex ext stored"
    "cp_uncompressed_size (pc_message p) = of_nat (length (ext_to_vec ext (ser_checkpoint_snapshot ext s)))"
    "cp_payload_digest (pc_message p) = ext_sha256_hex ext (ext_to_vec ext (ser_checkpoint_snapshot ext s))"
    "pc_external_payload p = None \<longrightarrow> cp_payload_base64 (pc_message p) = Some (ext_base64_encode ext stored)"
    "pc_external_payload p \<noteq> None \<longrightarrow> pc_external_payload p = Some stored \<and>
       cp_payload_ref (pc_message p) \<noteq> None \<and> cp_payload_base64 (pc_message p) = None"
proof -
  from assms obtain stored where "ext_zstd_compress ext (ext_to_vec ext (ser_checkpoint_snapshot ext s)) = Some stored"
    by (auto simp: prepare_v2_def Let_def split: if_splits option.splits)
  moreover from assms this have "stored \<noteq> []"
    by (auto simp: prepare_v2_def Let_def validate_metadata_def RUN_CHECKPOINT_SCHEMA_VERSION_def
        split: if_splits sum.splits)
  ultimately show thesis
    using assms
    by (intro that [of stored])
       (auto simp: prepare_v2_def Let_def RUN_CHECKPOINT_SCHEMA_VERSION_def split: if_splits sum.splits)
qed

section \<open>Properties\<close>

text \<open>The document a snapshot is written to.\<close>

definition document_of :: "externals \<Rightarrow> checkpoint_snapshot \<Rightarrow> snapshot_document" where
  "document_of ext s = \<lparr>sd_run_id = cs_run_id s, sd_tenant_id = cs_tenant_id s, sd_session_id = cs_session_id s,
     sd_attempt_id = cs_attempt_id s, sd_status = cs_status s, sd_sequence = cs_sequence s,
     sd_state = Base64 (ext_base64_encode ext (cs_state s)), sd_digest = cs_digest s\<rparr>"

lemma decoded_as_prepared:
  assumes "prepare_v2 ext de u s epoch token catalog at = Inr p"
    and "ext_zstd_compress ext (ext_to_vec ext (ser_checkpoint_snapshot ext s)) = Some stored"
    and "ext_zstd_decompress ext CHECKPOINT_MAX_UNCOMPRESSED_BYTES stored = Some (ext_to_vec ext (ser_checkpoint_snapshot ext s))"
    and "snapshot_from_slice ext de (ext_to_vec ext (ser_checkpoint_snapshot ext s)) = Some s"
  shows "decode_stored_payload ext de (pc_message p) stored = (if verify_digest ext s then Inr s else Inl CheckpointInvalidPayload)"
  by (rule prepare_v2_Ok [OF assms(1)])
     (use assms(2-4) in \<open>simp add: decode_stored_payload_def stored_to_payload_def RUN_CHECKPOINT_SCHEMA_VERSION_def validate_snapshot_def\<close>)

text \<open>An inline payload has been validated when the message was prepared, and with it the digest of the snapshot.\<close>

lemma inline_validated:
  assumes "prepare_v2 ext de u s epoch token catalog at = Inr p" and "pc_external_payload p = None"
  shows "\<exists>s'. decode_snapshot ext de (pc_message p) = Inr s'"
  using assms by (auto simp: prepare_v2_def Let_def checkpoint_validate_def split: if_splits option.splits sum.splits)

text \<open>
  C14. What a prepared checkpoint decodes to. If the message carries its payload inline, it decodes to the snapshot it was
  prepared from. If the payload is external, it decodes to that snapshot when the digest of the snapshot verifies, and is refused
  when it does not: a snapshot is checked while it is prepared only if it travels inline. The hypotheses are the round
  trips of the libraries on this snapshot: the derived JSON reader and writer, zstd, and base64 of the state and of the
  stored bytes.
\<close>

theorem prepared_checkpoint_decodes:
  assumes "prepare_v2 ext de u s epoch token catalog at = Inr p"
    and json: "de (ext_to_vec ext (ser_checkpoint_snapshot ext s)) = Some (document_of ext s)"
    and state: "ext_base64_decode ext (ext_base64_encode ext (cs_state s)) = Some (cs_state s)"
    and zstd: "\<And>stored. ext_zstd_compress ext (ext_to_vec ext (ser_checkpoint_snapshot ext s)) = Some stored \<Longrightarrow>
      ext_zstd_decompress ext CHECKPOINT_MAX_UNCOMPRESSED_BYTES stored =
        Some (ext_to_vec ext (ser_checkpoint_snapshot ext s)) \<and>
      ext_base64_decode ext (ext_base64_encode ext stored) = Some stored"
  shows "case pc_external_payload p of
      None \<Rightarrow> decode_snapshot ext de (pc_message p) = Inr s
    | Some stored \<Rightarrow> decode_snapshot_with_payload ext de (pc_message p) stored =
        (if verify_digest ext s then Inr s else Inl CheckpointInvalidPayload)"
proof -
  let ?m = "pc_message p" and ?payload = "ext_to_vec ext (ser_checkpoint_snapshot ext s)"
  from assms(1) obtain stored where comp: "ext_zstd_compress ext ?payload = Some stored"
    and inl: "pc_external_payload p = None \<longrightarrow> cp_payload_base64 ?m = Some (ext_base64_encode ext stored)"
    and outl: "pc_external_payload p \<noteq> None \<longrightarrow>
      pc_external_payload p = Some stored \<and> cp_payload_ref ?m \<noteq> None \<and> cp_payload_base64 ?m = None"
    by (rule prepare_v2_Ok)
  have "snapshot_from_slice ext de ?payload = Some s"
    by (simp add: snapshot_from_slice_def json document_of_def state)
  with decoded_as_prepared [OF assms(1) comp] zstd [OF comp]
  have dec: "decode_stored_payload ext de ?m stored = (if verify_digest ext s then Inr s else Inl CheckpointInvalidPayload)" by blast
  show ?thesis
  proof (cases "pc_external_payload p")
    case None
    with inl zstd [OF comp] have "decode_snapshot ext de ?m = decode_stored_payload ext de ?m stored"
      by (simp add: decode_snapshot_def)
    with inline_validated [OF assms(1) None] dec None show ?thesis by (auto split: if_splits)
  next
    case (Some b)
    with outl dec show ?thesis by (auto simp: decode_snapshot_with_payload_def)
  qed
qed

text \<open>
  C15. The kernel digest of a published checkpoint pins the snapshot. Whatever payloads are accepted for one message, inline
  or external, they decode to the same snapshot, and its tenant, Run, Session and attempt, its sequence number and its status
  are those the message states, provided the digest has no collision between the two snapshots and the text of an
  identifier determines the identifier.
\<close>

theorem published_checkpoint_pins_snapshot:
  assumes "decode_snapshot ext de m = Inr s \<or> decode_snapshot_with_payload ext de m a = Inr s"
    and "decode_snapshot ext de m = Inr s' \<or> decode_snapshot_with_payload ext de m b = Inr s'"
    and "inj (ext_uuid_text ext)" and "collision_free ext (snapshot_material ext s) (snapshot_material ext s')"
  shows "s = s' \<and> cs_run_id s = cp_run_id m \<and> cs_tenant_id s = cp_tenant_id m \<and> cs_session_id s = cp_session_id m \<and>
    cs_attempt_id s = cp_attempt_id m \<and> cs_sequence s = cp_sequence m \<and> cs_status s = cp_status m"
proof -
  have ok: "validate_snapshot ext m s = Inr ()" "validate_snapshot ext m s' = Inr ()"
    using assms(1,2) decode_snapshot_cases by blast+
  then have "cs_digest s = cs_digest s'" "verify_digest ext s" "verify_digest ext s'"
    by (simp_all add: validate_snapshot_Ok)
  with assms(4) have "snapshot_material ext s = snapshot_material ext s'"
    by (simp add: verify_digest_material collision_free_def)
  with assms(3) \<open>cs_digest s = cs_digest s'\<close> have "s = s'" by (intro snapshot_material_inject)
  with ok show ?thesis by (simp add: validate_snapshot_Ok)
qed

text \<open>
  Preparing skips the identity checks for large checkpoints. If the compressed payload is too large to travel inline, and
  the message metadata is in order, \<open>prepare_v2\<close> succeeds for a zero owner epoch, a nil fencing token and any
  status, although \<open>validate\<close> refuses the message it returns.
\<close>

theorem prepare_v2_external_unchecked:
  assumes "ext_to_vec ext (ser_checkpoint_snapshot ext s) \<noteq> []"
    and "length (ext_to_vec ext (ser_checkpoint_snapshot ext s)) \<le> CHECKPOINT_MAX_UNCOMPRESSED_BYTES"
    and "ext_zstd_compress ext (ext_to_vec ext (ser_checkpoint_snapshot ext s)) = Some stored"
    and "INLINE_CHECKPOINT_MAX_BYTES < length stored" "length stored < 2 ^ 64"
    and "is_sha256 (ext_sha256_hex ext stored)"
  shows "\<exists>p. prepare_v2 ext de u s 0 nil_uuid catalog at = Inr p \<and>
    checkpoint_validate ext de (pc_message p) = Inl CheckpointInvalidIdentity"
proof -
  let ?n = "length (ext_to_vec ext (ser_checkpoint_snapshot ext s))"
  have n: "0 < ?n" "?n \<le> 16777216" using assms(1,2) by (simp_all add: CHECKPOINT_MAX_UNCOMPRESSED_BYTES_def)
  then have "(of_nat ?n :: u64) \<noteq> 0" "\<not> (of_nat ?n :: u64) > 16777216"
    by (simp_all add: word_less_nat_alt unat_of_nat word_unat_eq_iff)
  moreover have "(of_nat (length stored) :: u64) \<noteq> 0"
    using assms(4,5) by (auto simp: word_unat_eq_iff unat_of_nat INLINE_CHECKPOINT_MAX_BYTES_def)
  ultimately show ?thesis
    using assms n
    by (simp add: prepare_v2_def Let_def validate_metadata_def checkpoint_validate_def is_nil_def
        CHECKPOINT_MAX_UNCOMPRESSED_BYTES_def INLINE_CHECKPOINT_MAX_BYTES_def RUN_CHECKPOINT_SCHEMA_VERSION_def)
qed

section \<open>Witnesses\<close>

definition sample_snapshot :: "externals \<Rightarrow> checkpoint_snapshot" where
  "sample_snapshot ext = checkpoint_snapshot_new ext 1 2 3 4 Running 5 [9]"

definition sample_decoder :: snapshot_decoder where
  "sample_decoder = (\<lambda>_. Some (document_of injective_externals (sample_snapshot injective_externals)))"

lemma sample_sha: "is_sha256 (ext_sha256_hex injective_externals bs)"
proof -
  have "is_sha256 (replicate 64 (CHR ''0''))" by code_simp
  then show ?thesis by (simp add: injective_externals_def sample_externals_def)
qed

lemma sample_snapshot_verifies: "verify_digest ext (sample_snapshot ext)"
  by (simp add: sample_snapshot_def verify_digest_new)

lemma sample_libraries:
  "ext_to_vec injective_externals (ser_checkpoint_snapshot ext s) = [0]"
  "ext_zstd_compress injective_externals bs = Some bs" "ext_zstd_decompress injective_externals n bs = Some bs"
  "ext_base64_decode injective_externals (ext_base64_encode injective_externals [0]) = Some [0]"
  by (simp_all add: injective_externals_def sample_externals_def ser_checkpoint_snapshot_def as_bytes_def
      of_char_def char_of_def)

lemma sample_base64: "ext_base64_decode injective_externals (ext_base64_encode injective_externals bs) = Some bs"
proof -
  have "(of_char (char_of (unat b)) :: u8) = b" for b :: u8
  proof -
    have "(of_char (char_of (unat b)) :: u8) = of_nat (of_char (char_of (unat b) :: char))" by (rule of_nat_of_char [symmetric])
    also have "\<dots> = of_nat (unat b mod 256)" by simp
    also have "unat b mod 256 = unat b" using unsigned_less [of b, where ?'a = nat] by simp
    finally show ?thesis by simp
  qed
  then show ?thesis by (simp add: injective_externals_def sample_externals_def as_bytes_def comp_def)
qed

lemma sample_from_slice:
  "snapshot_from_slice injective_externals sample_decoder bs = Some (sample_snapshot injective_externals)"
  by (simp add: snapshot_from_slice_def sample_decoder_def document_of_def sample_base64)

lemma sample_prepared:
  "\<exists>p. prepare_v2 injective_externals sample_decoder 7 (sample_snapshot injective_externals) 1 8
     (replicate 64 (CHR ''0'')) 0 = Inr p \<and> pc_external_payload p = None"
proof -
  let ?s = "sample_snapshot injective_externals"
  have s: "cs_tenant_id ?s = 2" "cs_run_id ?s = 1" "cs_session_id ?s = 3" "cs_attempt_id ?s = 4" "cs_status ?s = Running"
    "is_sha256 (cs_digest ?s)"
    using sample_sha by (simp_all add: sample_snapshot_def checkpoint_snapshot_new_def calculate_digest_def json_digest_def)
  have "is_sha256 (replicate 64 (CHR ''0''))" by code_simp
  with s sample_sha sample_snapshot_verifies show ?thesis
    by (simp add: prepare_v2_def Let_def validate_metadata_def checkpoint_validate_def is_nil_def nil_uuid_def
        CHECKPOINT_MAX_UNCOMPRESSED_BYTES_def INLINE_CHECKPOINT_MAX_BYTES_def RUN_CHECKPOINT_SCHEMA_VERSION_def
        sample_libraries decode_snapshot_def decode_stored_payload_def stored_to_payload_def sample_from_slice
        validate_snapshot_def)
qed

text \<open>A snapshot too large to travel inline, with a digest that does not verify.\<close>

definition bulky_externals :: externals where
  "bulky_externals = injective_externals\<lparr>ext_zstd_compress := \<lambda>_. Some (replicate 524289 0), ext_zstd_decompress := \<lambda>_ _. Some [0]\<rparr>"

definition bulky_snapshot :: checkpoint_snapshot where
  "bulky_snapshot = (sample_snapshot injective_externals)\<lparr>cs_digest := []\<rparr>"

lemma bulky_prepared:
  "\<exists>p. prepare_v2 bulky_externals (\<lambda>_. Some (document_of bulky_externals bulky_snapshot)) 7 bulky_snapshot 0 nil_uuid [] 0 = Inr p \<and>
     pc_external_payload p = Some (replicate 524289 0)"
proof -
  have len: "length (replicate 524289 (0 :: u8)) = 524289" by simp
  have "ext_to_vec bulky_externals (ser_checkpoint_snapshot bulky_externals bulky_snapshot) = [0]"
    by (simp add: bulky_externals_def injective_externals_def sample_externals_def ser_checkpoint_snapshot_def)
  moreover have "ext_zstd_compress bulky_externals bs = Some (replicate 524289 0)" for bs by (simp add: bulky_externals_def)
  moreover have "is_sha256 (ext_sha256_hex bulky_externals bs)" for bs using sample_sha by (simp add: bulky_externals_def)
  ultimately show ?thesis
    by (simp add: prepare_v2_def Let_def validate_metadata_def len CHECKPOINT_MAX_UNCOMPRESSED_BYTES_def INLINE_CHECKPOINT_MAX_BYTES_def
        RUN_CHECKPOINT_SCHEMA_VERSION_def del: replicate.simps length_replicate)
qed

theorem prepared_checkpoint_decodes_witness:
  "(\<exists>p. prepare_v2 injective_externals sample_decoder 7 (sample_snapshot injective_externals) 1 8
      (replicate 64 (CHR ''0'')) 0 = Inr p \<and>
    decode_snapshot injective_externals sample_decoder (pc_message p) = Inr (sample_snapshot injective_externals)) \<and>
   (\<exists>p stored. prepare_v2 bulky_externals (\<lambda>_. Some (document_of bulky_externals bulky_snapshot)) 7 bulky_snapshot 0 nil_uuid [] 0 = Inr p \<and>
    pc_external_payload p = Some stored \<and>
    decode_snapshot_with_payload bulky_externals (\<lambda>_. Some (document_of bulky_externals bulky_snapshot)) (pc_message p) stored =
      Inl CheckpointInvalidPayload)"
proof
  obtain p where p: "prepare_v2 injective_externals sample_decoder 7 (sample_snapshot injective_externals) 1 8
      (replicate 64 (CHR ''0'')) 0 = Inr p" "pc_external_payload p = None"
    using sample_prepared by blast
  have "sample_decoder bs = Some (document_of injective_externals (sample_snapshot injective_externals))" for bs
    by (simp add: sample_decoder_def)
  from prepared_checkpoint_decodes [OF p(1) this sample_base64] p
  show "\<exists>p. prepare_v2 injective_externals sample_decoder 7 (sample_snapshot injective_externals) 1 8
      (replicate 64 (CHR ''0'')) 0 = Inr p \<and>
    decode_snapshot injective_externals sample_decoder (pc_message p) = Inr (sample_snapshot injective_externals)"
    by (simp add: sample_libraries)
next
  let ?de = "\<lambda>_ :: u8 list. Some (document_of bulky_externals bulky_snapshot)"
  obtain p where p: "prepare_v2 bulky_externals ?de 7 bulky_snapshot 0 nil_uuid [] 0 = Inr p"
      "pc_external_payload p = Some (replicate 524289 0)"
    using bulky_prepared by blast
  have base64: "ext_base64_decode bulky_externals (ext_base64_encode bulky_externals bs) = Some bs" for bs
    using sample_base64 by (simp add: bulky_externals_def)
  have json: "ext_to_vec bulky_externals (ser_checkpoint_snapshot bulky_externals bulky_snapshot) = [0]"
    by (simp add: bulky_externals_def injective_externals_def sample_externals_def ser_checkpoint_snapshot_def)
  have zstd: "ext_zstd_decompress bulky_externals n bs = Some [0]" for n bs by (simp add: bulky_externals_def)
  have "[] \<noteq> json_digest bulky_externals v" for v
    by (simp add: json_digest_def bulky_externals_def injective_externals_def sample_externals_def)
  then have "\<not> verify_digest bulky_externals bulky_snapshot"
    by (simp add: verify_digest_material bulky_snapshot_def)
  with prepared_checkpoint_decodes [OF p(1) refl base64] p
  show "\<exists>p stored. prepare_v2 bulky_externals ?de 7 bulky_snapshot 0 nil_uuid [] 0 = Inr p \<and> pc_external_payload p = Some stored \<and>
      decode_snapshot_with_payload bulky_externals ?de (pc_message p) stored = Inl CheckpointInvalidPayload"
    by (simp add: base64 json zstd del: replicate.simps)
qed

theorem published_checkpoint_pins_snapshot_witness:
  "\<exists>m s. decode_snapshot injective_externals sample_decoder m = Inr s \<and> inj (ext_uuid_text injective_externals) \<and>
     cs_run_id s = cp_run_id m \<and> cs_sequence s = cp_sequence m"
proof -
  obtain p where p: "prepare_v2 injective_externals sample_decoder 7 (sample_snapshot injective_externals) 1 8
      (replicate 64 (CHR ''0'')) 0 = Inr p" "pc_external_payload p = None"
    using sample_prepared by blast
  obtain s where s: "decode_snapshot injective_externals sample_decoder (pc_message p) = Inr s"
    using p by (auto simp: prepare_v2_def checkpoint_validate_def Let_def split: if_splits sum.splits option.splits)
  have "collision_free injective_externals (snapshot_material injective_externals s) (snapshot_material injective_externals s)"
    by (simp add: collision_free_def)
  with published_checkpoint_pins_snapshot [OF disjI1 [OF s] disjI1 [OF s] inj_injective_externals] s
    inj_injective_externals show ?thesis by blast
qed

theorem prepare_v2_external_unchecked_witness:
  "\<exists>ext p. prepare_v2 ext sample_decoder 7 (sample_snapshot ext) 0 nil_uuid [] 0 = Inr p \<and>
     checkpoint_validate ext sample_decoder (pc_message p) = Inl CheckpointInvalidIdentity"
proof -
  let ?ext = "injective_externals\<lparr>ext_zstd_compress := \<lambda>_. Some (replicate 524289 0)\<rparr>"
  have "ext_to_vec ?ext (ser_checkpoint_snapshot ?ext (sample_snapshot ?ext)) = [0]"
    by (simp add: injective_externals_def sample_externals_def ser_checkpoint_snapshot_def)
  moreover have "is_sha256 (ext_sha256_hex ?ext bs)" for bs using sample_sha by simp
  ultimately show ?thesis
    using prepare_v2_external_unchecked [of ?ext "sample_snapshot ?ext" "replicate 524289 0" sample_decoder 7 "[]" 0]
    by (auto simp: CHECKPOINT_MAX_UNCOMPRESSED_BYTES_def INLINE_CHECKPOINT_MAX_BYTES_def)
qed

end
