(* ===== verification/Recovery.thy ===== *)
theory Recovery
  imports Execution_Command Checkpoint_Publication Run_Machine
begin

text \<open>
  \<open>RunRecoveryCommand\<close> of \<open>runtime/crates/protocol/src/lib.rs\<close>: an execution command with the checkpoint it resumes and
  at most one action to resume it with. The results compose the validation with the decoding of the checkpoint and the
  restoring of the machine: the new attempt fences the old one, and the action is one the restored machine accepts.
\<close>

definition RUN_RECOVERY_SCHEMA_VERSION :: u32 where "RUN_RECOVERY_SCHEMA_VERSION = 3"

record run_recovery_command =
  rr_schema_version :: u32
  rr_message_id :: uuid
  rr_execution :: run_execution_command
  rr_checkpoint :: run_checkpoint_published
  rr_subagent_result :: "subagent_result_delivery option"
  rr_steering :: "run_steering_command option"

datatype run_recovery_validation_error =
    RecoveryUnsupportedSchemaVersion u32
  | InvalidExecution string
  | RecoveryInvalidCheckpoint string
  | InvalidRecoveryBinding
  | LegacySubagentResult
  | LegacySteering
  | InvalidSubagentResult
  | InvalidSteering
  | ConflictingRecoveryActions

text \<open>The texts the two inner errors are reported with.\<close>

fun execution_error_text :: "run_execution_validation_error \<Rightarrow> string" where
  "execution_error_text (ExecutionUnsupportedSchemaVersion v) = ''unsupported execution schema version '' @ decimal (unat v)"
| "execution_error_text NonPositiveOwnerEpoch = ''execution owner epoch must be positive''"
| "execution_error_text InvalidLeaseWindow = ''execution lease must expire after it is issued''"
| "execution_error_text ExecutionBlankInput = ''execution input must not be blank''"
| "execution_error_text InvalidBudget = ''execution budgets must be finite and positive''"
| "execution_error_text ExecutionMissingModelPolicy = ''execution model policy id must not be nil''"
| "execution_error_text InvalidWorkloadToken = ''execution workload token is malformed''"
| "execution_error_text InvalidInvocationIdentity = ''v20 execution invocation identity is incomplete''"
| "execution_error_text InvalidDelegatedScopes =
     ''execution delegated scopes are malformed or exceed the contract limit''"
| "execution_error_text InvalidAgentInstructions = ''v3 execution agent instructions are blank or exceed 32000 bytes''"
| "execution_error_text InvalidModelPolicySnapshot =
     ''v4 execution model policy snapshot is missing, oversized, or digest mismatched''"
| "execution_error_text InvalidSkillSnapshot =
     ''v5 execution Skill snapshot is missing, malformed, or digest mismatched''"
| "execution_error_text InvalidAgentLineage = ''v6 execution agent lineage is missing or inconsistent''"
| "execution_error_text InvalidSubagentRoles =
     ''v7 execution subagent role catalog is malformed or exceeds current authority''"
| "execution_error_text ExecutionMissingWorkerIncarnation = ''v2 execution must target one worker incarnation''"
| "execution_error_text InvalidToolApprovalPolicies = ''tool approval policies are only carried from v8 onward''"
| "execution_error_text InvalidMcpServers =
     ''v9 federated MCP servers are malformed, undelegated, or carried by an older schema''"
| "execution_error_text InvalidRuntimePolicy =
     ''v10 execution runtime policy is missing, malformed, or carried by an older schema''"
| "execution_error_text InvalidMcpAvailabilityPolicy =
     ''v11 MCP availability and discovery retry policy cannot be carried by an older execution schema''"
| "execution_error_text InvalidParallelToolPolicy =
     ''v17 parallel Tool policy is malformed or carried by an older execution schema''"
| "execution_error_text InvalidMcpToolEffectOverrides =
     ''v18 MCP Tool effect overrides are malformed, undeclared, or carried by an older execution schema''"
| "execution_error_text InvalidMcpProtocolPolicy =
     ''v19 MCP protocol revision or client capability policy is malformed, undelegated, or carried by an older execution schema''"
| "execution_error_text InvalidSubagentHistory =
     ''v12 subagent conversation history is malformed or carried by an older schema''"
| "execution_error_text InvalidHistoryImport =
     ''v15 explicit history import is malformed, ambiguous, or carried by an older schema''"
| "execution_error_text InvalidSessionBranch =
     ''v16 root Session branch is malformed, ambiguous, or carried by an older schema''"

fun checkpoint_error_text :: "run_checkpoint_validation_error \<Rightarrow> string" where
  "checkpoint_error_text (CheckpointUnsupportedSchemaVersion v) = ''unsupported checkpoint schema version '' @ decimal (unat v)"
| "checkpoint_error_text CheckpointInvalidIdentity = ''checkpoint identity or lease is invalid''"
| "checkpoint_error_text CheckpointInvalidDigest = ''checkpoint digest is invalid''"
| "checkpoint_error_text CheckpointInvalidPayload = ''checkpoint payload is invalid''"

definition bad_recovery_binding :: "run_recovery_command \<Rightarrow> bool" where
  "bad_recovery_binding r \<longleftrightarrow>
     is_nil (rr_message_id r) \<or>
     xc_tenant_id (rr_execution r) \<noteq> cp_tenant_id (rr_checkpoint r) \<or>
     xc_run_id (rr_execution r) \<noteq> cp_run_id (rr_checkpoint r) \<or>
     xc_session_id (rr_execution r) \<noteq> cp_session_id (rr_checkpoint r) \<or>
     xc_attempt_id (rr_execution r) = cp_attempt_id (rr_checkpoint r) \<or>
     xc_owner_epoch (rr_execution r) \<le> cp_owner_epoch (rr_checkpoint r) \<or>
     xc_fencing_token (rr_execution r) = cp_fencing_token (rr_checkpoint r)"

definition bad_recovery_steering :: "externals \<Rightarrow> run_recovery_command \<Rightarrow> run_steering_command \<Rightarrow> bool" where
  "bad_recovery_steering ext r steering \<longleftrightarrow>
     cp_status (rr_checkpoint r) \<noteq> Running \<or> is_err (steering_validate ext steering) \<or>
     rsc_tenant_id steering \<noteq> xc_tenant_id (rr_execution r) \<or>
     rsc_run_id steering \<noteq> xc_run_id (rr_execution r) \<or>
     rsc_attempt_id steering \<noteq> xc_attempt_id (rr_execution r) \<or>
     rsc_worker_id steering \<noteq> xc_worker_id (rr_execution r) \<or>
     rsc_worker_incarnation_id steering \<noteq> xc_worker_incarnation_id (rr_execution r)"

definition recovery_validate ::
  "externals \<Rightarrow> snapshot_decoder \<Rightarrow> run_recovery_command \<Rightarrow> (run_recovery_validation_error, unit) result" where
  "recovery_validate ext de r =
     (if \<not> (1 \<le> rr_schema_version r \<and> rr_schema_version r \<le> RUN_RECOVERY_SCHEMA_VERSION)
      then Inl (RecoveryUnsupportedSchemaVersion (rr_schema_version r))
      else if rr_schema_version r = 1 \<and> rr_subagent_result r \<noteq> None then Inl LegacySubagentResult
      else if rr_schema_version r < 3 \<and> rr_steering r \<noteq> None then Inl LegacySteering
      else if rr_subagent_result r \<noteq> None \<and> rr_steering r \<noteq> None then Inl ConflictingRecoveryActions
      else case execution_validate ext (rr_execution r) of
        Inl error \<Rightarrow> Inl (InvalidExecution (execution_error_text error))
      | Inr _ \<Rightarrow> (case checkpoint_validate ext de (rr_checkpoint r) of
          Inl error \<Rightarrow> Inl (RecoveryInvalidCheckpoint (checkpoint_error_text error))
        | Inr _ \<Rightarrow>
            if bad_recovery_binding r then Inl InvalidRecoveryBinding
            else if (case rr_subagent_result r of None \<Rightarrow> False
                     | Some result \<Rightarrow> cp_status (rr_checkpoint r) \<noteq> Suspended \<or> \<not> result_validate ext result)
            then Inl InvalidSubagentResult
            else if (case rr_steering r of None \<Rightarrow> False | Some steering \<Rightarrow> bad_recovery_steering ext r steering)
            then Inl InvalidSteering
            else Inr ()))"

section \<open>What a valid recovery says\<close>

lemma recovery_accepted:
  assumes "recovery_validate ext de r = Inr ()"
  shows "execution_validate ext (rr_execution r) = Inr ()" "checkpoint_validate ext de (rr_checkpoint r) = Inr ()"
    and "\<not> bad_recovery_binding r"
    and "rr_subagent_result r = Some result \<Longrightarrow> cp_status (rr_checkpoint r) = Suspended \<and> result_validate ext result"
    and "rr_steering r = Some steering \<Longrightarrow> \<not> bad_recovery_steering ext r steering"
    and "rr_subagent_result r = None \<or> rr_steering r = None"
  using assms by (auto simp: recovery_validate_def split: if_splits sum.splits option.splits)

lemma execution_identified:
  "execution_validate ext c = Inr () \<Longrightarrow> xc_schema_version c \<ge> 20 \<Longrightarrow> \<not> is_nil (xc_attempt_id c)"
  by (drule execution_accepted(3)) (simp add: missing_identity_def)

lemma checkpoint_validate_live:
  "checkpoint_validate ext de m = Inr () \<Longrightarrow> \<not> is_terminal (cp_status m) \<and> 0 < cp_owner_epoch m"
  by (auto simp: checkpoint_validate_def word_neq_0_conv split: if_splits)

text \<open>The epochs of two executions of which the second recovers a checkpoint the first one published.\<close>

inductive recovers :: "externals \<Rightarrow> snapshot_decoder \<Rightarrow> run_execution_command \<Rightarrow> run_execution_command \<Rightarrow> bool"
  for ext de where
  recovers: "recovers ext de x (rr_execution r)"
  if "prepare_v2 ext de u s (xc_owner_epoch x) (xc_fencing_token x) catalog at = Inr p"
    and "cs_attempt_id s = xc_attempt_id x" "rr_checkpoint r = pc_message p"
    and "recovery_validate ext de r = Inr ()"

inductive_cases recoversE: "recovers ext de x y"

lemma prepare_v2_lease:
  assumes "prepare_v2 ext de u s epoch token catalog at = Inr p"
  shows "cp_owner_epoch (pc_message p) = epoch" "cp_fencing_token (pc_message p) = token"
    "cp_attempt_id (pc_message p) = cs_attempt_id s"
  using assms by (auto simp: prepare_v2_def Let_def split: if_splits option.splits sum.splits)

lemma recovers_advances:
  assumes "recovers ext de x y"
  shows "xc_owner_epoch x < xc_owner_epoch y" "xc_attempt_id x \<noteq> xc_attempt_id y" "xc_fencing_token x \<noteq> xc_fencing_token y"
proof -
  from assms obtain r u s catalog at p where
    p: "prepare_v2 ext de u s (xc_owner_epoch x) (xc_fencing_token x) catalog at = Inr p"
    and r: "cs_attempt_id s = xc_attempt_id x" "rr_checkpoint r = pc_message p" "recovery_validate ext de r = Inr ()"
      "y = rr_execution r"
    by (blast elim: recoversE)
  from recovery_accepted(3) [OF r(3)] prepare_v2_lease [OF p] r(1,2,4)
  show "xc_owner_epoch x < xc_owner_epoch y" "xc_attempt_id x \<noteq> xc_attempt_id y" "xc_fencing_token x \<noteq> xc_fencing_token y"
    by (auto simp: bad_recovery_binding_def)
qed

lemma recovers_chain:
  "(recovers ext de ^^ n) x y \<Longrightarrow> unat (xc_owner_epoch x) + n \<le> unat (xc_owner_epoch y)"
proof (induction n arbitrary: y)
  case (Suc n)
  then obtain z where "(recovers ext de ^^ n) x z" "recovers ext de z y" by auto
  with Suc.IH [of z] recovers_advances(1) [of ext de z y] show ?case by (simp add: word_less_nat_alt)
qed simp

section \<open>Properties\<close>

text \<open>
  C19. Recovery fences. Along a chain of recoveries, each from a checkpoint published by the execution before, the
  owner epoch grows by at least one with each step; so no execution recovers from itself, directly or through others,
  and there is no infinite chain.
\<close>

theorem recovery_fences:
  "((recovers ext de ^^ n) x y \<longrightarrow> unat (xc_owner_epoch x) + n \<le> unat (xc_owner_epoch y)) \<and>
   (recovers ext de x y \<longrightarrow> xc_attempt_id x \<noteq> xc_attempt_id y \<and> xc_fencing_token x \<noteq> xc_fencing_token y) \<and>
   \<not> (recovers ext de)\<^sup>+\<^sup>+ x x \<and> wfP ((recovers ext de)\<inverse>\<inverse>)"
proof -
  have "\<not> (recovers ext de)\<^sup>+\<^sup>+ x x"
  proof
    assume "(recovers ext de)\<^sup>+\<^sup>+ x x"
    then obtain n where "0 < n" "(recovers ext de ^^ n) x x" using tranclp_power by metis
    with recovers_chain show False by fastforce
  qed
  moreover have "wfP ((recovers ext de)\<inverse>\<inverse>)"
  proof (rule wfp_if_convertible_to_nat [where f = "\<lambda>x. 2 ^ 64 - unat (xc_owner_epoch x)"])
    fix y x assume "(recovers ext de)\<inverse>\<inverse> y x"
    then have "unat (xc_owner_epoch x) < unat (xc_owner_epoch y)"
      using recovers_advances(1) by (auto simp: word_less_nat_alt)
    moreover have "unat (xc_owner_epoch y) < 2 ^ 64" using unsigned_less [of "xc_owner_epoch y"] by simp
    ultimately show "2 ^ 64 - unat (xc_owner_epoch y) < 2 ^ 64 - unat (xc_owner_epoch x)" by linarith
  qed
  ultimately show ?thesis using recovers_chain recovers_advances by blast
qed

text \<open>
  C20. What a valid recovery leads to. Let its checkpoint decode to a snapshot. From schema 20 of the execution on the attempt has an
  identifier. If it has one, the machine is restored for this attempt, which is not that of the checkpoint, and for the
  Run, the Session and the tenant of the execution, at the sequence number of the checkpoint and in its status, which is not a terminal one;
  and if the command carries a subagent result or a steering input, the restored machine accepts it. If the attempt has
  none, which the validation lets pass below schema 20, the restoring refuses.
\<close>

theorem recovery_resumes:
  assumes "recovery_validate ext de r = Inr ()"
    and "decode_snapshot ext de (rr_checkpoint r) = Inr s \<or>
      decode_snapshot_with_payload ext de (rr_checkpoint r) stored = Inr s"
  shows "(xc_schema_version (rr_execution r) \<ge> 20 \<longrightarrow> \<not> is_nil (xc_attempt_id (rr_execution r))) \<and>
   (if is_nil (xc_attempt_id (rr_execution r))
    then from_checkpoint_for_attempt ext s (xc_attempt_id (rr_execution r)) = Inl InvalidCheckpoint
    else \<exists>m. from_checkpoint_for_attempt ext s (xc_attempt_id (rr_execution r)) = Inr m \<and>
     rm_attempt_id m = xc_attempt_id (rr_execution r) \<and> rm_attempt_id m \<noteq> cp_attempt_id (rr_checkpoint r) \<and>
     rm_run_id m = xc_run_id (rr_execution r) \<and> rm_session_id m = xc_session_id (rr_execution r) \<and>
     rm_tenant_id m = xc_tenant_id (rr_execution r) \<and>
     rm_sequence m = cp_sequence (rr_checkpoint r) \<and> rm_status m = cp_status (rr_checkpoint r) \<and> \<not> is_terminal (rm_status m) \<and>
     (\<forall>result n. rr_subagent_result r = Some result \<longrightarrow>
        is_ok (fst (record_subagent_result_received_with_remaining ext amb result n m))) \<and>
     (\<forall>steering. rr_steering r = Some steering \<longrightarrow>
        is_ok (fst (record_steering_applied ext amb (rsc_steering_id steering) (rsc_input_digest steering) m))))"
proof (cases "is_nil (xc_attempt_id (rr_execution r))")
  case True
  then have "\<not> xc_schema_version (rr_execution r) \<ge> 20"
    using execution_identified [OF recovery_accepted(1) [OF assms(1)]] by blast
  then show ?thesis using True by (simp add: from_checkpoint_for_attempt_def)
next
  case False
  note ok = recovery_accepted [OF assms(1)]
  have s: "validate_snapshot ext (rr_checkpoint r) s = Inr ()" using assms(2) by (rule decode_snapshot_cases)
  then obtain m where m: "from_checkpoint_for_attempt ext s (xc_attempt_id (rr_execution r)) = Inr m"
    using False by (simp add: from_checkpoint_for_attempt_def validate_snapshot_Ok)
  then have f: "rm_run_id m = cs_run_id s" "rm_session_id m = cs_session_id s" "rm_tenant_id m = cs_tenant_id s"
    "rm_attempt_id m = xc_attempt_id (rr_execution r)" "rm_sequence m = cs_sequence s" "rm_status m = cs_status s"
    by (auto simp: from_checkpoint_for_attempt_def split: if_splits)
  have live: "\<not> is_terminal (rm_status m)"
    using checkpoint_validate_live [OF ok(2)] s f(6) by (simp add: validate_snapshot_Ok)
  have "is_ok (fst (record_subagent_result_received_with_remaining ext amb result n m))"
    if "rr_subagent_result r = Some result" for result n
    using ok(4) [OF that] s f(6)
    by (simp add: validate_snapshot_Ok record_subagent_result_received_with_remaining_def ok_emit_def Let_def is_ok_def
        split: prod.splits)
  moreover have "is_ok (fst (record_steering_applied ext amb (rsc_steering_id st) (rsc_input_digest st) m))"
    if "rr_steering r = Some st" for st
    using ok(5) [OF that] s f(6)
    by (simp add: validate_snapshot_Ok record_steering_applied_def bad_recovery_steering_def ok_emit_def is_ok_def
        split: prod.splits)
  ultimately show ?thesis
    using False m f live ok(3) s by (simp add: bad_recovery_binding_def validate_snapshot_Ok)
qed

section \<open>Witnesses\<close>

definition sample_recovery :: "run_checkpoint_published \<Rightarrow> run_recovery_command" where
  "sample_recovery m = \<lparr>rr_schema_version = 3, rr_message_id = 1, rr_execution = sample_execution, rr_checkpoint = m,
     rr_subagent_result = None, rr_steering = None\<rparr>"

definition sample_publisher :: run_execution_command where
  "sample_publisher = sample_execution\<lparr>xc_attempt_id := 4, xc_owner_epoch := 1, xc_fencing_token := 8\<rparr>"

lemma sample_recovery_accepted:
  obtains p where
    "prepare_v2 injective_externals sample_decoder 7 (sample_snapshot injective_externals) 1 8
       (replicate 64 (CHR ''0'')) 0 = Inr p"
    "decode_snapshot injective_externals sample_decoder (pc_message p) = Inr (sample_snapshot injective_externals)"
    "recovery_validate injective_externals sample_decoder (sample_recovery (pc_message p)) = Inr ()"
proof -
  let ?s = "sample_snapshot injective_externals"
  obtain p where p: "prepare_v2 injective_externals sample_decoder 7 ?s 1 8 (replicate 64 (CHR ''0'')) 0 = Inr p"
      "pc_external_payload p = None"
    using sample_prepared by blast
  have v: "checkpoint_validate injective_externals sample_decoder (pc_message p) = Inr ()"
    using p by (auto simp: prepare_v2_def Let_def split: if_splits sum.splits option.splits)
  then have d: "decode_snapshot injective_externals sample_decoder (pc_message p) = Inr ?s"
    using p by (auto simp: prepare_v2_def checkpoint_validate_def Let_def decode_snapshot_def decode_stored_payload_def
        sample_from_slice split: if_splits sum.splits option.splits)
  have "\<not> bad_recovery_binding (sample_recovery (pc_message p))"
    using prepare_v2_lease [OF p(1)] decode_snapshot_cases [OF disjI1 [OF d]]
    by (simp add: bad_recovery_binding_def sample_recovery_def sample_execution_def validate_snapshot_Ok is_nil_def
        nil_uuid_def sample_snapshot_def checkpoint_snapshot_new_def word_le_nat_alt)
  then have "recovery_validate injective_externals sample_decoder (sample_recovery (pc_message p)) = Inr ()"
    using v sample_execution_accepted
    by (simp add: recovery_validate_def sample_recovery_def RUN_RECOVERY_SCHEMA_VERSION_def)
  with p(1) d that show thesis by blast
qed

theorem recovery_fences_witness:
  "recovers injective_externals sample_decoder sample_publisher sample_execution \<and>
   unat (xc_owner_epoch sample_publisher) + 1 \<le> unat (xc_owner_epoch sample_execution)"
proof -
  obtain p where p: "prepare_v2 injective_externals sample_decoder 7 (sample_snapshot injective_externals) 1 8
       (replicate 64 (CHR ''0'')) 0 = Inr p"
    "recovery_validate injective_externals sample_decoder (sample_recovery (pc_message p)) = Inr ()"
    using sample_recovery_accepted by blast
  have "recovers injective_externals sample_decoder sample_publisher (rr_execution (sample_recovery (pc_message p)))"
  proof (rule recovers [OF _ _ _ p(2)])
    show "prepare_v2 injective_externals sample_decoder 7 (sample_snapshot injective_externals)
        (xc_owner_epoch sample_publisher) (xc_fencing_token sample_publisher) (replicate 64 (CHR ''0'')) 0 = Inr p"
      using p(1) by (simp add: sample_publisher_def)
    show "cs_attempt_id (sample_snapshot injective_externals) = xc_attempt_id sample_publisher"
      by (simp add: sample_publisher_def sample_snapshot_def checkpoint_snapshot_new_def)
  qed (simp add: sample_recovery_def)
  then have "recovers injective_externals sample_decoder sample_publisher sample_execution"
    by (simp add: sample_recovery_def)
  with recovery_fences [where n = 1 and ext = injective_externals and de = sample_decoder and x = sample_publisher and y = sample_execution]
  show ?thesis by (auto simp: OO_def)
qed

text \<open>The same recovery with a steering input.\<close>

definition recovery_steering :: run_steering_command where
  "recovery_steering = run_steering_command_new injective_externals 1 2
     \<lparr>rst_tenant_id = 2, rst_run_id = 1, rst_attempt_id = 9, rst_worker_id = 10, rst_worker_incarnation_id = 11\<rparr>
     \<lparr>rsr_input = ''hi'', rsr_issued_at = 0, rsr_expires_at = minutes 5\<rparr>"

lemma recovery_steering_valid: "steering_validate injective_externals recovery_steering = Inr ()"
proof -
  have "input_digest_of injective_externals ''hi'' = ext_sha256_hex injective_externals (as_bytes ''hi'')"
    by (simp add: input_digest_of_def)
  then show ?thesis
    by (simp add: steering_validate_def recovery_steering_def run_steering_command_new_def is_nil_def nil_uuid_def
        control_sample_texts minutes_def steering_sample_digests)
qed

theorem recovery_resumes_witness:
  "\<exists>r m. recovery_validate injective_externals sample_decoder r = Inr () \<and> rr_steering r = Some recovery_steering \<and>
     from_checkpoint_for_attempt injective_externals (sample_snapshot injective_externals)
       (xc_attempt_id (rr_execution r)) = Inr m \<and> rm_status m = Running \<and>
     is_ok (fst (record_steering_applied injective_externals \<lparr>amb_event_id = 7, amb_trace_id = 8, amb_now = 0\<rparr> (rsc_steering_id recovery_steering)
       (rsc_input_digest recovery_steering) m))"
proof -
  obtain p :: prepared_run_checkpoint where d: "decode_snapshot injective_externals sample_decoder (pc_message p) =
      Inr (sample_snapshot injective_externals)"
    and v: "recovery_validate injective_externals sample_decoder (sample_recovery (pc_message p)) = Inr ()"
    using sample_recovery_accepted by blast
  let ?r = "(sample_recovery (pc_message p))\<lparr>rr_steering := Some recovery_steering\<rparr>"
  have status: "cp_status (pc_message p) = Running"
    using decode_snapshot_cases [OF disjI1 [OF d]] by (simp add: validate_snapshot_Ok sample_snapshot_def checkpoint_snapshot_new_def)
  then have "\<not> bad_recovery_steering injective_externals ?r recovery_steering"
    by (simp add: bad_recovery_steering_def recovery_steering_valid is_ok_def)
       (simp add: sample_recovery_def sample_execution_def recovery_steering_def run_steering_command_new_def)
  then have accepted: "recovery_validate injective_externals sample_decoder ?r = Inr ()"
    using v by (simp add: recovery_validate_def sample_recovery_def bad_recovery_binding_def RUN_RECOVERY_SCHEMA_VERSION_def
        split: if_splits sum.splits)
  have "\<not> is_nil (xc_attempt_id (rr_execution ?r))"
    by (simp add: sample_recovery_def sample_execution_def is_nil_def nil_uuid_def)
  moreover have "decode_snapshot injective_externals sample_decoder (rr_checkpoint ?r) = Inr (sample_snapshot injective_externals)"
    using d by (simp add: sample_recovery_def)
  ultimately obtain m where "from_checkpoint_for_attempt injective_externals (sample_snapshot injective_externals)
      (xc_attempt_id (rr_execution ?r)) = Inr m" "rm_status m = cp_status (rr_checkpoint ?r)"
    "is_ok (fst (record_steering_applied injective_externals \<lparr>amb_event_id = 7, amb_trace_id = 8, amb_now = 0\<rparr> (rsc_steering_id recovery_steering)
       (rsc_input_digest recovery_steering) m))"
    using recovery_resumes [OF accepted disjI1, of "sample_snapshot injective_externals" "\<lparr>amb_event_id = 7, amb_trace_id = 8, amb_now = 0\<rparr>"] by auto
  moreover have "cp_status (rr_checkpoint ?r) = Running" using status by (simp add: sample_recovery_def)
  ultimately show ?thesis using accepted by (intro exI [of _ ?r] exI [of _ m]) simp
qed

end
