(* ===== verification/Admission.thy ===== *)
theory Admission
  imports Control_Commands "HOL-Library.AList" "HOL-Library.Multiset"
begin

text \<open>
  \<open>RuntimeAdmissionController\<close> of \<open>runtime/apps/runtime-host/src/admission.rs\<close>: the bounded queues in front of the
  execution slots, one per tenant, served in rotation. Every operation runs under the controller's lock, so it is one
  function on \<open>admission_state\<close>. A \<open>HashMap\<close> is an association list; counters are natural numbers, which is what a
  \<open>usize\<close> bounded by a limit is. Whether \<open>grant.send\<close> reaches the waiter or finds its receiver dropped is decided
  outside the lock: it is the argument \<open>alive\<close>, a predicate on request identifiers.
\<close>

section \<open>State\<close>

record runtime_admission_limits =
  max_active_runs :: nat
  max_active_runs_per_tenant :: nat
  max_active_runs_per_workspace :: nat
  max_queued_runs :: nat
  max_queued_runs_per_tenant :: nat

datatype runtime_admission_error =
  InvalidLimits | InvalidInvocation string | TenantQueueFull | GlobalQueueFull | Closed

record waiting_run =
  wr_request_id :: uuid
  wr_invocation :: runtime_invocation_context

record admission_state =
  closed :: bool
  active_runs :: nat
  queued_runs :: nat
  active_by_tenant :: "(uuid \<times> nat) list"
  active_by_workspace :: "((uuid \<times> uuid \<times> uuid) \<times> nat) list"
  queues :: "(uuid \<times> waiting_run list) list"
  rotation :: "uuid list"
  last_admitted_tenant :: "uuid option"
  peak_active_runs :: nat
  peak_queued_runs :: nat
  peak_active_runs_per_tenant :: nat
  peak_active_runs_per_workspace :: nat

definition default_admission_state :: admission_state where
  "default_admission_state =
     \<lparr>closed = False, active_runs = 0, queued_runs = 0, active_by_tenant = [], active_by_workspace = [], queues = [],
      rotation = [], last_admitted_tenant = None, peak_active_runs = 0, peak_queued_runs = 0,
      peak_active_runs_per_tenant = 0, peak_active_runs_per_workspace = 0\<rparr>"

definition controller_new :: "runtime_admission_limits \<Rightarrow> (runtime_admission_error, admission_state) result" where
  "controller_new limits =
     (if max_active_runs limits = 0 \<or> max_active_runs_per_tenant limits = 0 \<or>
         max_active_runs_per_tenant limits > max_active_runs limits \<or>
         max_active_runs_per_workspace limits = 0 \<or>
         max_active_runs_per_workspace limits > max_active_runs limits \<or>
         max_queued_runs limits = 0 \<or> max_queued_runs_per_tenant limits = 0 \<or>
         max_queued_runs_per_tenant limits > max_queued_runs limits
      then Inl InvalidLimits
      else Inr default_admission_state)"

record runtime_admission_snapshot =
  sn_limits :: runtime_admission_limits
  sn_active_runs :: nat
  sn_queued_runs :: nat
  sn_active_tenants :: nat
  sn_active_workspaces :: nat
  sn_queued_tenants :: nat
  sn_peak_active_runs :: nat
  sn_peak_queued_runs :: nat
  sn_peak_active_runs_per_tenant :: nat
  sn_peak_active_runs_per_workspace :: nat

definition controller_snapshot :: "runtime_admission_limits \<Rightarrow> admission_state \<Rightarrow> runtime_admission_snapshot" where
  "controller_snapshot limits state =
     \<lparr>sn_limits = limits, sn_active_runs = active_runs state, sn_queued_runs = queued_runs state,
      sn_active_tenants = length (active_by_tenant state), sn_active_workspaces = length (active_by_workspace state),
      sn_queued_tenants = length (queues state), sn_peak_active_runs = peak_active_runs state,
      sn_peak_queued_runs = peak_queued_runs state, sn_peak_active_runs_per_tenant = peak_active_runs_per_tenant state,
      sn_peak_active_runs_per_workspace = peak_active_runs_per_workspace state\<rparr>"

section \<open>Counting active Runs\<close>

definition workspace_key :: "runtime_invocation_context \<Rightarrow> uuid \<times> uuid \<times> uuid" where
  "workspace_key invocation = (ric_tenant_id invocation, ric_application_id invocation, ric_workspace_id invocation)"

definition count_of :: "('k \<times> nat) list \<Rightarrow> 'k \<Rightarrow> nat" where
  "count_of m k = (case map_of m k of None \<Rightarrow> 0 | Some n \<Rightarrow> n)"

definition mark_active :: "admission_state \<Rightarrow> runtime_invocation_context \<Rightarrow> admission_state" where
  "mark_active state invocation =
     (let active = active_runs state + 1;
          tenant_active = count_of (active_by_tenant state) (ric_tenant_id invocation) + 1;
          workspace_active = count_of (active_by_workspace state) (workspace_key invocation) + 1
      in state
       \<lparr>active_runs := active,
        active_by_tenant := AList.update (ric_tenant_id invocation) tenant_active (active_by_tenant state),
        active_by_workspace := AList.update (workspace_key invocation) workspace_active (active_by_workspace state),
        peak_active_runs := max (peak_active_runs state) active,
        peak_active_runs_per_tenant := max (peak_active_runs_per_tenant state) tenant_active,
        peak_active_runs_per_workspace := max (peak_active_runs_per_workspace state) workspace_active\<rparr>)"

definition decrement :: "'k \<Rightarrow> ('k \<times> nat) list \<Rightarrow> ('k \<times> nat) list" where
  "decrement k m =
     (case map_of m k of
        None \<Rightarrow> m
      | Some active \<Rightarrow> if active - 1 = 0 then AList.delete k m else AList.update k (active - 1) m)"

definition unmark_active :: "admission_state \<Rightarrow> runtime_invocation_context \<Rightarrow> admission_state" where
  "unmark_active state invocation =
     state\<lparr>active_runs := active_runs state - 1,
           active_by_tenant := decrement (ric_tenant_id invocation) (active_by_tenant state),
           active_by_workspace := decrement (workspace_key invocation) (active_by_workspace state)\<rparr>"

section \<open>Promotion\<close>

definition workspace_free :: "runtime_admission_limits \<Rightarrow> admission_state \<Rightarrow> waiting_run \<Rightarrow> bool" where
  "workspace_free limits state waiting \<longleftrightarrow>
     count_of (active_by_workspace state) (workspace_key (wr_invocation waiting)) < max_active_runs_per_workspace limits"

definition eligible_tenant :: "runtime_admission_limits \<Rightarrow> admission_state \<Rightarrow> uuid \<Rightarrow> bool" where
  "eligible_tenant limits state tenant_id \<longleftrightarrow>
     (case map_of (queues state) tenant_id of
        None \<Rightarrow> False
      | Some queue \<Rightarrow> list_ex (workspace_free limits state) queue) \<and>
     count_of (active_by_tenant state) tenant_id < max_active_runs_per_tenant limits"

fun first_index :: "('a \<Rightarrow> bool) \<Rightarrow> 'a list \<Rightarrow> nat option" where
  "first_index P [] = None"
| "first_index P (x # xs) = (if P x then Some 0 else map_option Suc (first_index P xs))"

definition remove_at :: "nat \<Rightarrow> 'a list \<Rightarrow> 'a list" where
  "remove_at i xs = take i xs @ drop (Suc i) xs"

definition choose_tenant :: "runtime_admission_limits \<Rightarrow> admission_state \<Rightarrow> uuid option" where
  "choose_tenant limits state =
     (let eligible = filter (eligible_tenant limits state) (rotation state)
      in case List.find (\<lambda>tenant_id. Some tenant_id \<noteq> last_admitted_tenant state) eligible of
           Some tenant_id \<Rightarrow> Some tenant_id
         | None \<Rightarrow> (case eligible of [] \<Rightarrow> None | tenant_id # _ \<Rightarrow> Some tenant_id))"

text \<open>One turn of the loop of \<open>promote_locked\<close>: it ends, panics, or admits or abandons one waiter.\<close>

datatype promotion = Break | Panicked string | Promoted admission_state waiting_run bool

definition promote_step :: "runtime_admission_limits \<Rightarrow> (uuid \<Rightarrow> bool) \<Rightarrow> admission_state \<Rightarrow> promotion" where
  "promote_step limits alive state =
     (if \<not> active_runs state < max_active_runs limits then Break
      else case choose_tenant limits state of
        None \<Rightarrow> Break
      | Some tenant_id \<Rightarrow>
          (let rest = (case first_index (\<lambda>candidate. candidate = tenant_id) (rotation state) of
                         Some index \<Rightarrow> remove_at index (rotation state)
                       | None \<Rightarrow> rotation state)
           in case map_of (queues state) tenant_id of
                None \<Rightarrow> Panicked ''eligible tenant has an eligible workspace''
              | Some queue \<Rightarrow>
                  (case first_index (workspace_free limits state) queue of
                     None \<Rightarrow> Panicked ''eligible tenant has an eligible workspace''
                   | Some waiting_index \<Rightarrow>
                       (let waiting = queue ! waiting_index;
                            queue' = remove_at waiting_index queue;
                            state1 = state\<lparr>queued_runs := queued_runs state - 1,
                                           queues := AList.update tenant_id queue' (queues state)\<rparr>;
                            state2 = (if queue' \<noteq> []
                                      then state1\<lparr>rotation := rest @ [tenant_id]\<rparr>
                                      else state1\<lparr>rotation := rest, queues := AList.delete tenant_id (queues state1)\<rparr>);
                            state3 = (mark_active state2 (wr_invocation waiting))\<lparr>last_admitted_tenant := Some tenant_id\<rparr>
                        in if alive (wr_request_id waiting) then Promoted state3 waiting True
                           else Promoted (unmark_active state3 (wr_invocation waiting)) waiting False))))"

definition waiting_total :: "admission_state \<Rightarrow> nat" where
  "waiting_total state = sum_list (map (\<lambda>q. length (snd q)) (queues state))"

lemma first_index_Some:
  "first_index P xs = Some i \<longleftrightarrow> i < length xs \<and> P (xs ! i) \<and> (\<forall>j < i. \<not> P (xs ! j))"
proof (induction xs arbitrary: i)
  case (Cons x xs)
  show ?case
    by (cases i) (auto simp: Cons.IH All_less_Suc2)
qed simp

lemma first_index_None: "first_index P xs = None \<longleftrightarrow> \<not> list_ex P xs"
  by (induction xs) auto

lemma length_remove_at: "i < length xs \<Longrightarrow> length (remove_at i xs) = length xs - 1"
  by (simp add: remove_at_def)

lemma waiting_update:
  "map_of m k = Some q \<Longrightarrow>
   sum_list (map (\<lambda>q. length (snd q)) (AList.update k q' m)) + length q = sum_list (map (\<lambda>q. length (snd q)) m) + length q'"
  by (induction m) auto

lemma waiting_delete: "sum_list (map (\<lambda>q. length (snd q)) (AList.delete k m)) \<le> sum_list (map (\<lambda>q. length (snd q)) m)"
  by (induction m) (auto simp: AList.delete_eq)

lemma choose_tenant_eligible:
  assumes "choose_tenant limits state = Some t"
  shows "t \<in> set (rotation state)" "eligible_tenant limits state t"
proof -
  let ?eligible = "filter (eligible_tenant limits state) (rotation state)"
  have "t \<in> set ?eligible"
  proof (cases "List.find (\<lambda>tenant_id. Some tenant_id \<noteq> last_admitted_tenant state) ?eligible")
    case None
    with assms show ?thesis by (cases ?eligible) (simp_all add: choose_tenant_def Let_def)
  next
    case (Some u)
    with assms have "u = t" by (simp add: choose_tenant_def Let_def)
    with Some show ?thesis by (metis find_Some_iff nth_mem)
  qed
  then show "t \<in> set (rotation state)" "eligible_tenant limits state t" by simp_all
qed

text \<open>What one turn of the loop does, with the two panics excluded.\<close>

lemma promote_step_cases:
  obtains (Break) "promote_step limits alive state = Break" "\<not> active_runs state < max_active_runs limits \<or> choose_tenant limits state = None"
  | (Promoted) t queue i waiting rest state2 state3 where
      "active_runs state < max_active_runs limits" "choose_tenant limits state = Some t"
      "map_of (queues state) t = Some queue" "i < length queue" "waiting = queue ! i" "workspace_free limits state waiting"
      "\<forall>j < i. \<not> workspace_free limits state (queue ! j)"
      "rest = (case first_index (\<lambda>candidate. candidate = t) (rotation state) of
         Some index \<Rightarrow> remove_at index (rotation state) | None \<Rightarrow> rotation state)"
      "state2 = (if remove_at i queue \<noteq> []
         then state\<lparr>queued_runs := queued_runs state - 1, queues := AList.update t (remove_at i queue) (queues state),
                    rotation := rest @ [t]\<rparr>
         else state\<lparr>queued_runs := queued_runs state - 1, rotation := rest,
                    queues := AList.delete t (AList.update t (remove_at i queue) (queues state))\<rparr>)"
      "state3 = (mark_active state2 (wr_invocation waiting))\<lparr>last_admitted_tenant := Some t\<rparr>"
      "promote_step limits alive state =
         (if alive (wr_request_id waiting) then Promoted state3 waiting True
          else Promoted (unmark_active state3 (wr_invocation waiting)) waiting False)"
proof (cases "active_runs state < max_active_runs limits \<and> choose_tenant limits state \<noteq> None")
  case False
  then have "promote_step limits alive state = Break" by (auto simp: promote_step_def)
  with False Break show thesis by blast
next
  case True
  then obtain t where t: "choose_tenant limits state = Some t" by blast
  from choose_tenant_eligible(2) [OF t] obtain queue where
    q: "map_of (queues state) t = Some queue" "list_ex (workspace_free limits state) queue"
    by (auto simp: eligible_tenant_def split: option.splits)
  then obtain i where i: "first_index (workspace_free limits state) queue = Some i"
    using first_index_None [of "workspace_free limits state" queue] by auto
  from i have w: "i < length queue" "workspace_free limits state (queue ! i)" "\<forall>j < i. \<not> workspace_free limits state (queue ! j)"
    by (simp_all add: first_index_Some)
  show thesis
    by (rule Promoted [OF _ t q(1) w(1) refl w(2,3) refl refl refl])
      (use True t q i in \<open>simp_all add: promote_step_def Let_def\<close>)
qed

lemma active_fields [simp]:
  "queues (mark_active s x) = queues s" "rotation (mark_active s x) = rotation s" "queued_runs (mark_active s x) = queued_runs s"
  "closed (mark_active s x) = closed s" "last_admitted_tenant (mark_active s x) = last_admitted_tenant s"
  "queues (unmark_active s x) = queues s" "rotation (unmark_active s x) = rotation s"
  "queued_runs (unmark_active s x) = queued_runs s" "closed (unmark_active s x) = closed s"
  "last_admitted_tenant (unmark_active s x) = last_admitted_tenant s"
  by (simp_all add: mark_active_def unmark_active_def Let_def)

lemma promote_step_decreases:
  assumes "promote_step limits alive state = Promoted state' waiting granted"
  shows "waiting_total state' < waiting_total state"
proof (cases rule: promote_step_cases [of limits alive state])
  case (Promoted t queue i w rest state2 state3)
  have "queues state' = queues state2" using assms Promoted(10,11) by (auto split: if_splits)
  moreover have "waiting_total state2 < waiting_total state"
    using waiting_update [OF Promoted(3), of "remove_at i queue"] Promoted(4,9)
      waiting_delete [of t "AList.update t (remove_at i queue) (queues state)"]
    by (auto simp: waiting_total_def length_remove_at)
  ultimately show ?thesis by (simp add: waiting_total_def)
qed (use assms in simp)

function promote_locked ::
  "runtime_admission_limits \<Rightarrow> (uuid \<Rightarrow> bool) \<Rightarrow> admission_state \<Rightarrow> (string, admission_state \<times> waiting_run list) result" where
  "promote_locked limits alive state =
     (case promote_step limits alive state of
        Break \<Rightarrow> Inr (state, [])
      | Panicked message \<Rightarrow> Inl message
      | Promoted state' waiting granted \<Rightarrow>
          (case promote_locked limits alive state' of
             Inl message \<Rightarrow> Inl message
           | Inr (state'', admitted) \<Rightarrow> Inr (state'', if granted then waiting # admitted else admitted)))"
  by pat_completeness auto
termination
  by (relation "measure (\<lambda>(limits, alive, state). waiting_total state)") (auto simp: promote_step_decreases)

declare promote_locked.simps [simp del]

section \<open>Operations\<close>

definition invocation_error_text :: "runtime_invocation_validation_error \<Rightarrow> string" where
  "invocation_error_text e =
     (case e of
        InvocationUnsupportedSchemaVersion version \<Rightarrow>
          ''unsupported Runtime invocation schema version '' @ decimal (unat version)
      | InvocationIncompleteIdentity \<Rightarrow> ''Runtime invocation resource identity is incomplete'')"

text \<open>
  The part of \<open>acquire\<close> under the lock. It refuses, admits at once, or enqueues the request and promotes; then it returns
  the requests that were admitted, and the caller waits for its own.
\<close>

datatype acquisition = Refused runtime_admission_error | Admitted runtime_invocation_context | Enqueued "waiting_run list"

definition acquire ::
  "runtime_admission_limits \<Rightarrow> (uuid \<Rightarrow> bool) \<Rightarrow> uuid \<Rightarrow> runtime_invocation_context \<Rightarrow> admission_state \<Rightarrow>
   (string, admission_state \<times> acquisition) result" where
  "acquire limits alive request_id invocation state =
     (case invocation_validate invocation of
        Inl error \<Rightarrow> Inr (state, Refused (InvalidInvocation (invocation_error_text error)))
      | Inr _ \<Rightarrow>
          (let tenant_id = ric_tenant_id invocation;
               tenant_active = count_of (active_by_tenant state) tenant_id;
               workspace_active = count_of (active_by_workspace state) (workspace_key invocation)
           in if closed state then Inr (state, Refused Closed)
              else if queued_runs state = 0 \<and> active_runs state < max_active_runs limits \<and>
                      tenant_active < max_active_runs_per_tenant limits \<and>
                      workspace_active < max_active_runs_per_workspace limits
              then Inr ((mark_active state invocation)\<lparr>last_admitted_tenant := Some tenant_id\<rparr>, Admitted invocation)
              else
               (let queue = (case map_of (queues state) tenant_id of None \<Rightarrow> [] | Some queue \<Rightarrow> queue);
                    tenant_queued = length queue
                in if tenant_queued \<ge> max_queued_runs_per_tenant limits then Inr (state, Refused TenantQueueFull)
                   else if queued_runs state \<ge> max_queued_runs limits then Inr (state, Refused GlobalQueueFull)
                   else
                    (let waiting = \<lparr>wr_request_id = request_id, wr_invocation = invocation\<rparr>;
                         state1 = state
                           \<lparr>rotation := (if tenant_queued = 0 then rotation state @ [tenant_id] else rotation state),
                            queues := AList.update tenant_id (queue @ [waiting]) (queues state),
                            queued_runs := queued_runs state + 1,
                            peak_queued_runs := max (peak_queued_runs state) (queued_runs state + 1)\<rparr>
                     in case promote_locked limits alive state1 of
                          Inl message \<Rightarrow> Inl message
                        | Inr (state2, admitted) \<Rightarrow> Inr (state2, Enqueued admitted)))))"

definition close :: "admission_state \<Rightarrow> admission_state \<times> nat" where
  "close state = (state\<lparr>closed := True, queues := [], rotation := [], queued_runs := 0\<rparr>, queued_runs state)"

definition release ::
  "runtime_admission_limits \<Rightarrow> (uuid \<Rightarrow> bool) \<Rightarrow> runtime_invocation_context \<Rightarrow> admission_state \<Rightarrow>
   (string, admission_state \<times> waiting_run list) result" where
  "release limits alive invocation state = promote_locked limits alive (unmark_active state invocation)"

definition cancel_waiter ::
  "runtime_admission_limits \<Rightarrow> (uuid \<Rightarrow> bool) \<Rightarrow> uuid \<Rightarrow> uuid \<Rightarrow> admission_state \<Rightarrow>
   (string, admission_state \<times> waiting_run list) result" where
  "cancel_waiter limits alive tenant_id request_id state =
     (case map_of (queues state) tenant_id of
        None \<Rightarrow> Inr (state, [])
      | Some queue \<Rightarrow>
          (let queue' = filter (\<lambda>waiting. wr_request_id waiting \<noteq> request_id) queue;
               state1 = state\<lparr>queues := AList.update tenant_id queue' (queues state)\<rparr>
           in if length queue' = length queue then Inr (state1, [])
              else
               (let state2 = state1\<lparr>queued_runs := queued_runs state1 - 1\<rparr>;
                    state3 = (if queue' = []
                              then state2\<lparr>queues := AList.delete tenant_id (queues state2),
                                          rotation := filter (\<lambda>queued. queued \<noteq> tenant_id) (rotation state2)\<rparr>
                              else state2)
                in promote_locked limits alive state3)))"

section \<open>Slots\<close>

text \<open>
  The permits that exist, as a multiset of the invocations they were granted for: a permit exists from the moment it is
  made until it is dropped, whether it is held by the caller or still in the channel.
\<close>

definition tally :: "('p \<Rightarrow> 'k) \<Rightarrow> 'p multiset \<Rightarrow> 'k \<Rightarrow> nat" where
  "tally f P k = size (filter_mset (\<lambda>p. f p = k) P)"

definition counts :: "('k \<times> nat) list \<Rightarrow> ('p \<Rightarrow> 'k) \<Rightarrow> 'p multiset \<Rightarrow> bool" where
  "counts m f P \<longleftrightarrow> distinct (map fst m) \<and> (\<forall>k. map_of m k = (if tally f P k = 0 then None else Some (tally f P k)))"

lemma tally_add_mset: "tally f (add_mset p P) k = tally f P k + (if f p = k then 1 else 0)"
  by (simp add: tally_def)

lemma tally_mono: "tally f P k \<le> tally f (add_mset p P) k"
  by (simp add: tally_add_mset)

lemma count_of_counts: "counts m f P \<Longrightarrow> count_of m k = tally f P k"
  by (simp add: counts_def count_of_def)

lemma counts_mark: "counts m f P \<Longrightarrow> counts (AList.update (f p) (count_of m (f p) + 1) m) f (add_mset p P)"
  by (auto simp: counts_def count_of_def tally_add_mset update_conv' distinct_update)

lemma counts_unmark: "counts m f (add_mset p P) \<Longrightarrow> counts (decrement (f p) m) f P"
  by (auto simp: counts_def decrement_def tally_add_mset update_conv' delete_conv' distinct_update distinct_delete
      split: option.splits if_splits)

definition slots_ok :: "runtime_admission_limits \<Rightarrow> admission_state \<Rightarrow> runtime_invocation_context multiset \<Rightarrow> bool" where
  "slots_ok limits s P \<longleftrightarrow>
     active_runs s = size P \<and> counts (active_by_tenant s) ric_tenant_id P \<and> counts (active_by_workspace s) workspace_key P \<and>
     size P \<le> max_active_runs limits \<and> (\<forall>t. tally ric_tenant_id P t \<le> max_active_runs_per_tenant limits) \<and>
     (\<forall>w. tally workspace_key P w \<le> max_active_runs_per_workspace limits)"

lemma slots_mark:
  assumes "slots_ok limits s P" "active_runs s < max_active_runs limits"
    and "count_of (active_by_tenant s) (ric_tenant_id x) < max_active_runs_per_tenant limits"
    and "count_of (active_by_workspace s) (workspace_key x) < max_active_runs_per_workspace limits"
  shows "slots_ok limits (mark_active s x) (add_mset x P)"
proof -
  note s = assms(1) [unfolded slots_ok_def]
  have "counts (active_by_tenant (mark_active s x)) ric_tenant_id (add_mset x P)"
    "counts (active_by_workspace (mark_active s x)) workspace_key (add_mset x P)"
    using s counts_mark [of _ ric_tenant_id P x] counts_mark [of _ workspace_key P x] by (simp_all add: mark_active_def Let_def)
  moreover have "tally ric_tenant_id P (ric_tenant_id x) < max_active_runs_per_tenant limits"
    "tally workspace_key P (workspace_key x) < max_active_runs_per_workspace limits"
    using s assms(3,4) by (metis count_of_counts)+
  moreover have "active_runs (mark_active s x) = active_runs s + 1" by (simp add: mark_active_def Let_def)
  ultimately show ?thesis
    using s assms(2) by (auto simp: slots_ok_def tally_add_mset)
qed

lemma slots_unmark:
  assumes "slots_ok limits s (add_mset x P)"
  shows "slots_ok limits (unmark_active s x) P"
proof -
  note s = assms [unfolded slots_ok_def]
  have "tally ric_tenant_id P t \<le> max_active_runs_per_tenant limits" for t
    by (rule order_trans [OF tally_mono]) (use s in blast)
  moreover have "tally workspace_key P w \<le> max_active_runs_per_workspace limits" for w
    by (rule order_trans [OF tally_mono]) (use s in blast)
  ultimately show ?thesis
    using s counts_unmark [of _ ric_tenant_id x P] counts_unmark [of _ workspace_key x P] by (simp add: slots_ok_def unmark_active_def)
qed

section \<open>Queues\<close>

definition entry_ok :: "runtime_admission_limits \<Rightarrow> uuid \<Rightarrow> waiting_run list \<Rightarrow> bool" where
  "entry_ok limits t q \<longleftrightarrow>
     q \<noteq> [] \<and> length q \<le> max_queued_runs_per_tenant limits \<and> distinct (map wr_request_id q) \<and>
     (\<forall>w \<in> set q. ric_tenant_id (wr_invocation w) = t)"

definition queues_ok :: "runtime_admission_limits \<Rightarrow> admission_state \<Rightarrow> bool" where
  "queues_ok limits s \<longleftrightarrow>
     distinct (map fst (queues s)) \<and> (\<forall>t q. map_of (queues s) t = Some q \<longrightarrow> entry_ok limits t q) \<and>
     distinct (rotation s) \<and> set (rotation s) = dom (map_of (queues s)) \<and>
     queued_runs s = waiting_total s \<and> queued_runs s \<le> max_queued_runs limits \<and> (closed s \<longrightarrow> queues s = [])"

lemma waiting_delete_empty:
  "distinct (map fst m) \<Longrightarrow> map_of m k = Some [] \<Longrightarrow>
   sum_list (map (\<lambda>q. length (snd q)) (AList.delete k m)) = sum_list (map (\<lambda>q. length (snd q)) m)"
proof (induction m)
  case (Cons e m)
  then show ?case
    by (cases e) (auto simp: delete_id split: if_splits)
qed simp

lemma remove_first:
  assumes "distinct xs" "t \<in> set xs"
  shows "(case first_index (\<lambda>candidate. candidate = t) xs of Some index \<Rightarrow> remove_at index xs | None \<Rightarrow> xs) =
    filter (\<lambda>x. x \<noteq> t) xs"
  using assms
proof (induction xs)
  case (Cons x xs)
  show ?case
  proof (cases "x = t")
    case True
    with Cons.prems(1) show ?thesis by (auto simp: remove_at_def intro!: filter_True [symmetric])
  next
    case False
    with Cons.prems have "t \<in> set xs" "distinct xs" by simp_all
    then have "first_index (\<lambda>candidate. candidate = t) xs \<noteq> None" by (simp add: first_index_None list_ex_iff)
    with False Cons.IH [OF \<open>distinct xs\<close> \<open>t \<in> set xs\<close>] show ?thesis by (auto simp: remove_at_def)
  qed
qed simp

lemma set_remove_at: "set (remove_at i xs) \<subseteq> set xs"
  by (auto simp: remove_at_def dest: in_set_takeD in_set_dropD)

lemma distinct_remove_at: "distinct xs \<Longrightarrow> distinct (remove_at i xs)"
  by (auto simp: remove_at_def set_take_disj_set_drop_if_distinct)

lemma map_remove_at: "map f (remove_at i xs) = remove_at i (map f xs)"
  by (simp add: remove_at_def take_map drop_map)

lemma queues_ok_cong:
  "queues s' = queues s \<Longrightarrow> rotation s' = rotation s \<Longrightarrow> queued_runs s' = queued_runs s \<Longrightarrow> closed s' = closed s \<Longrightarrow>
   queues_ok limits s' \<longleftrightarrow> queues_ok limits s"
  by (simp add: queues_ok_def waiting_total_def)

lemma queues_shrink:
  assumes "queues_ok limits s" "map_of (queues s) t = Some q" "length q' + 1 = length q" "q' \<noteq> [] \<Longrightarrow> entry_ok limits t q'"
    and "distinct (rotation s')" "set (rotation s') = (if q' = [] then set (rotation s) - {t} else set (rotation s))"
    and "queues s' = (if q' = [] then AList.delete t (AList.update t q' (queues s)) else AList.update t q' (queues s))"
    and "queued_runs s' = queued_runs s - 1" "closed s' = closed s"
  shows "queues_ok limits s'"
proof -
  note s = assms(1) [unfolded queues_ok_def]
  have u: "distinct (map fst (AList.update t q' (queues s)))" using s by (simp add: distinct_update)
  then have d: "distinct (map fst (queues s'))" using assms(7) distinct_delete [OF u, of t] by (auto split: if_splits)
  have m: "map_of (queues s') = (map_of (queues s))(t := if q' = [] then None else Some q')"
    using assms(7) by (simp add: update_conv' delete_conv')
  have "waiting_total s' + 1 = waiting_total s"
    using waiting_update [OF assms(2), of q'] assms(3,7) waiting_delete_empty [OF u, of t]
    by (auto simp: waiting_total_def update_conv' split: if_splits)
  moreover have "entry_ok limits u q''" if "map_of (queues s') u = Some q''" for u q''
    using that s assms(4) by (auto simp: m split: if_splits)
  moreover have "set (rotation s') = dom (map_of (queues s'))" using s assms(2,6) by (auto simp: m)
  moreover have "queues s \<noteq> []" using assms(2) by auto
  ultimately show ?thesis using s assms(5,8,9) d by (auto simp: queues_ok_def)
qed

definition admission_ok :: "runtime_admission_limits \<Rightarrow> admission_state \<Rightarrow> runtime_invocation_context multiset \<Rightarrow> bool" where
  "admission_ok limits s P \<longleftrightarrow> slots_ok limits s P \<and> queues_ok limits s"

lemma promote_step_ok:
  assumes "promote_step limits alive s = Promoted s' w granted" "admission_ok limits s P"
  shows "admission_ok limits s' (if granted then add_mset (wr_invocation w) P else P)"
proof (cases rule: promote_step_cases [of limits alive s])
  case (Promoted t queue i waiting rest state2 state3)
  note s = assms(2) [unfolded admission_ok_def]
  have out: "s' = (if alive (wr_request_id waiting) then state3 else unmark_active state3 (wr_invocation waiting))"
    "w = waiting" "granted = alive (wr_request_id waiting)"
    using assms(1) unfolding Promoted(11) by (auto split: if_splits)
  have e: "entry_ok limits t queue" using s Promoted(3) by (simp add: queues_ok_def)
  have t: "t \<in> set (rotation s)" using choose_tenant_eligible(1) [OF Promoted(2)] .
  then have rest: "rest = filter (\<lambda>x. x \<noteq> t) (rotation s)"
    using s by (simp add: Promoted(8) remove_first queues_ok_def)
  have "queues_ok limits state2"
  proof (rule queues_shrink [OF _ Promoted(3), where q' = "remove_at i queue"])
    show "entry_ok limits t (remove_at i queue)" if "remove_at i queue \<noteq> []"
      using that e Promoted(4) set_remove_at [of i queue]
      by (auto simp: entry_ok_def length_remove_at map_remove_at distinct_remove_at)
    show "distinct (rotation state2)" using s by (auto simp: Promoted(9) rest queues_ok_def)
  qed (use s t Promoted(4) in \<open>auto simp: Promoted(9) rest length_remove_at\<close>)
  moreover have "queues s' = queues state2" "rotation s' = rotation state2" "queued_runs s' = queued_runs state2"
    "closed s' = closed state2"
    by (simp_all add: out Promoted(10))
  ultimately have q: "queues_ok limits s'" using queues_ok_cong by blast
  have tenant: "ric_tenant_id (wr_invocation waiting) = t" using e Promoted(4,5) by (simp add: entry_ok_def)
  have "slots_ok limits state2 P" using s by (simp add: Promoted(9) slots_ok_def)
  moreover have "active_runs state2 = active_runs s" "active_by_tenant state2 = active_by_tenant s"
    "active_by_workspace state2 = active_by_workspace s" by (simp_all add: Promoted(9))
  ultimately have "slots_ok limits (mark_active state2 (wr_invocation waiting)) (add_mset (wr_invocation waiting) P)"
    using Promoted(1,6) choose_tenant_eligible(2) [OF Promoted(2)] tenant
    by (intro slots_mark) (auto simp: eligible_tenant_def workspace_free_def)
  then have "slots_ok limits state3 (add_mset (wr_invocation waiting) P)" by (simp add: Promoted(10) slots_ok_def)
  with q slots_unmark [OF this] show ?thesis by (simp add: admission_ok_def out)
qed (use assms in simp)

definition settled :: "runtime_admission_limits \<Rightarrow> admission_state \<Rightarrow> bool" where
  "settled limits s \<longleftrightarrow> \<not> active_runs s < max_active_runs limits \<or> choose_tenant limits s = None"

lemma promote_locked_ok:
  assumes "admission_ok limits s P"
  obtains s' admitted where "promote_locked limits alive s = Inr (s', admitted)"
    "admission_ok limits s' (P + mset (map wr_invocation admitted))" "settled limits s'" "closed s' = closed s"
    "closed s \<Longrightarrow> admitted = []"
proof -
  have "\<exists>s' admitted. promote_locked limits alive s = Inr (s', admitted) \<and>
    admission_ok limits s' (P + mset (map wr_invocation admitted)) \<and> settled limits s' \<and> closed s' = closed s \<and>
    (closed s \<longrightarrow> admitted = [])"
    using assms
  proof (induction limits alive s arbitrary: P rule: promote_locked.induct)
    case (1 limits alive s)
    show ?case
    proof (cases rule: promote_step_cases [of limits alive s])
      case Break
      then show ?thesis using "1.prems" by (subst promote_locked.simps) (auto simp: settled_def)
    next
      case (Promoted t queue i waiting rest state2 state3)
      then obtain s' granted where s': "promote_step limits alive s = Promoted s' waiting granted" "closed s' = closed s"
        by (cases "alive (wr_request_id waiting)") auto
      let ?P = "if granted then add_mset (wr_invocation waiting) P else P"
      have running: "\<not> closed s" using "1.prems" Promoted(3) by (auto simp: admission_ok_def queues_ok_def)
      from "1.IH" [OF s'(1) promote_step_ok [OF s'(1) "1.prems"]] obtain s'' admitted where
        "promote_locked limits alive s' = Inr (s'', admitted)" "admission_ok limits s'' (?P + mset (map wr_invocation admitted))"
        "settled limits s''" "closed s'' = closed s" using s'(2) by auto
      with s'(1) running show ?thesis
        by (subst promote_locked.simps) (auto split: if_splits)
    qed
  qed
  with that show thesis by blast
qed

section \<open>Every history of the controller\<close>

fun granted :: "acquisition \<Rightarrow> runtime_invocation_context multiset" where
  "granted (Refused _) = {#}"
| "granted (Admitted invocation) = {#invocation#}"
| "granted (Enqueued admitted) = mset (map wr_invocation admitted)"

definition fresh_request :: "uuid \<Rightarrow> admission_state \<Rightarrow> bool" where
  "fresh_request request_id s \<longleftrightarrow> (\<forall>t q. map_of (queues s) t = Some q \<longrightarrow> request_id \<notin> wr_request_id ` set q)"

text \<open>
  A state with the permits that exist in it, after any sequence of requests, drops of permits, abandoned requests and a
  closing, in any order. The identifiers \<open>Uuid::now_v7\<close> makes for two waiting requests are assumed to differ.
\<close>

inductive admission_reach :: "runtime_admission_limits \<Rightarrow> admission_state \<Rightarrow> runtime_invocation_context multiset \<Rightarrow> bool"
  for limits where
  start: "controller_new limits = Inr s \<Longrightarrow> admission_reach limits s {#}"
| request: "admission_reach limits s P \<Longrightarrow> fresh_request request_id s \<Longrightarrow>
    acquire limits alive request_id invocation s = Inr (s', r) \<Longrightarrow> admission_reach limits s' (P + granted r)"
| drop: "admission_reach limits s (add_mset invocation P) \<Longrightarrow> release limits alive invocation s = Inr (s', admitted) \<Longrightarrow>
    admission_reach limits s' (P + mset (map wr_invocation admitted))"
| abandon: "admission_reach limits s P \<Longrightarrow> cancel_waiter limits alive tenant_id request_id s = Inr (s', admitted) \<Longrightarrow>
    admission_reach limits s' (P + mset (map wr_invocation admitted))"
| shut: "admission_reach limits s P \<Longrightarrow> admission_reach limits (fst (close s)) P"

definition admission_inv :: "runtime_admission_limits \<Rightarrow> admission_state \<Rightarrow> runtime_invocation_context multiset \<Rightarrow> bool" where
  "admission_inv limits s P \<longleftrightarrow> admission_ok limits s P \<and> settled limits s"

lemma promote_locked_inv:
  assumes "admission_ok limits s P"
  shows "\<exists>s' admitted. promote_locked limits alive s = Inr (s', admitted) \<and>
    admission_inv limits s' (P + mset (map wr_invocation admitted)) \<and> closed s' = closed s \<and> (closed s \<longrightarrow> admitted = [])"
  by (rule promote_locked_ok [OF assms, of alive]) (auto simp: admission_inv_def)

lemma no_queue_settled: "rotation s = [] \<Longrightarrow> settled limits s"
  by (simp add: settled_def choose_tenant_def)

lemma no_waiting:
  assumes "queues_ok limits s" "queued_runs s = 0"
  shows "queues s = []" "rotation s = []"
proof -
  have "map_of (queues s) t = None" for t
  proof (rule ccontr)
    assume "map_of (queues s) t \<noteq> None"
    then obtain q where "map_of (queues s) t = Some q" by blast
    then have "(t, q) \<in> set (queues s)" "q \<noteq> []" using assms(1) by (auto simp: queues_ok_def entry_ok_def dest: map_of_SomeD)
    then have "0 < waiting_total s" by (fastforce simp: waiting_total_def sum_list_eq_0_iff intro!: gr0I)
    with assms show False by (simp add: queues_ok_def)
  qed
  then show "queues s = []" by (metis map_of_eq_None_iff list.set_intros(1) imageI list.exhaust)
  with assms(1) show "rotation s = []" by (simp add: queues_ok_def)
qed

lemma waiting_append:
  "sum_list (map (\<lambda>q. length (snd q)) (AList.update t ((case map_of m t of None \<Rightarrow> [] | Some q \<Rightarrow> q) @ [w]) m)) =
   sum_list (map (\<lambda>q. length (snd q)) m) + 1"
  by (induction m) auto

lemma queues_enqueue:
  fixes s :: admission_state
  defines "q t \<equiv> case map_of (queues s) t of None \<Rightarrow> [] | Some queue \<Rightarrow> queue"
  assumes "queues_ok limits s" "\<not> closed s" "wr_request_id w \<notin> wr_request_id ` set (q t)" "ric_tenant_id (wr_invocation w) = t"
    and "length (q t) < max_queued_runs_per_tenant limits" "queued_runs s < max_queued_runs limits"
  shows "queues_ok limits (s\<lparr>rotation := (if length (q t) = 0 then rotation s @ [t] else rotation s),
     queues := AList.update t (q t @ [w]) (queues s), queued_runs := queued_runs s + 1, peak_queued_runs := n\<rparr>)"
proof -
  note s = assms(2) [unfolded queues_ok_def]
  have "map_of (queues s) t = None \<longleftrightarrow> length (q t) = 0"
    using s by (auto simp: q_def entry_ok_def split: option.splits)
  moreover have "sum_list (map (\<lambda>q. length (snd q)) (AList.update t (q t @ [w]) (queues s))) = waiting_total s + 1"
    by (simp add: waiting_total_def q_def waiting_append)
  moreover have "entry_ok limits t (q t @ [w])"
    using s assms(4-6) by (auto simp: q_def entry_ok_def split: option.splits)
  ultimately show ?thesis
    using s assms(3,7) by (auto simp: queues_ok_def waiting_total_def distinct_update update_conv' split: if_splits)
qed

lemma acquire_inv:
  assumes "admission_inv limits s P" "fresh_request request_id s"
  shows "\<exists>s' r. acquire limits alive request_id x s = Inr (s', r) \<and> admission_inv limits s' (P + granted r) \<and>
    closed s' = closed s \<and> (closed s \<longrightarrow> s' = s \<and> granted r = {#})"
proof (cases "invocation_validate x")
  case (Inl e)
  then show ?thesis using assms(1) by (simp add: acquire_def)
next
  case (Inr u)
  let ?t = "ric_tenant_id x"
  let ?q = "case map_of (queues s) ?t of None \<Rightarrow> [] | Some queue \<Rightarrow> queue"
  let ?w = "\<lparr>wr_request_id = request_id, wr_invocation = x\<rparr>"
  note s = assms(1) [unfolded admission_inv_def admission_ok_def]
  let ?free = "queued_runs s = 0 \<and> active_runs s < max_active_runs limits \<and>
    count_of (active_by_tenant s) ?t < max_active_runs_per_tenant limits \<and>
    count_of (active_by_workspace s) (workspace_key x) < max_active_runs_per_workspace limits"
  consider (shut) "closed s" | (direct) "\<not> closed s" "?free" | (wait) "\<not> closed s" "\<not> ?free" by argo
  then show ?thesis
  proof cases
    case shut
    then show ?thesis using assms(1) Inr by (simp add: acquire_def)
  next
    case direct
    let ?s = "(mark_active s x)\<lparr>last_admitted_tenant := Some ?t\<rparr>"
    have "slots_ok limits ?s (add_mset x P)" using slots_mark [of limits s P x] s direct by (simp add: slots_ok_def)
    moreover have "queues_ok limits ?s" using s queues_ok_cong [of ?s s limits] by simp
    moreover have "settled limits ?s" using no_waiting(2) [of limits s] s direct by (intro no_queue_settled) simp
    ultimately show ?thesis using Inr direct by (simp add: acquire_def admission_inv_def admission_ok_def Let_def)
  next
    case wait
    show ?thesis
    proof (cases "length ?q \<ge> max_queued_runs_per_tenant limits \<or> queued_runs s \<ge> max_queued_runs limits")
      case True
      then show ?thesis using Inr wait assms(1) unfolding acquire_def Let_def by auto
    next
      case False
      let ?s = "s\<lparr>rotation := (if length ?q = 0 then rotation s @ [?t] else rotation s),
                  queues := AList.update ?t (?q @ [?w]) (queues s), queued_runs := queued_runs s + 1,
                  peak_queued_runs := max (peak_queued_runs s) (queued_runs s + 1)\<rparr>"
      have "queues_ok limits ?s"
        using assms(2) s wait(1) False by (intro queues_enqueue) (auto simp: fresh_request_def split: option.splits)
      moreover have "slots_ok limits ?s P" using s by (simp add: slots_ok_def)
      ultimately have "admission_ok limits ?s P" by (simp add: admission_ok_def)
      from promote_locked_inv [OF this, of alive] obtain s' admitted where
        "promote_locked limits alive ?s = Inr (s', admitted)"
        "admission_inv limits s' (P + mset (map wr_invocation admitted))" "closed s' = closed s" by auto
      moreover have "acquire limits alive request_id x s = (case promote_locked limits alive ?s of
          Inl message \<Rightarrow> Inl message | Inr (state2, admitted) \<Rightarrow> Inr (state2, Enqueued admitted))"
        using wait False unfolding acquire_def Inr Let_def by auto
      ultimately show ?thesis using wait(1) by (simp only: sum.case prod.case) auto
    qed
  qed
qed

lemma release_inv:
  assumes "admission_inv limits s (add_mset x P)"
  shows "\<exists>s' admitted. release limits alive x s = Inr (s', admitted) \<and>
    admission_inv limits s' (P + mset (map wr_invocation admitted)) \<and> closed s' = closed s \<and> (closed s \<longrightarrow> admitted = [])"
proof -
  have "admission_ok limits (unmark_active s x) P"
    using assms slots_unmark queues_ok_cong [of "unmark_active s x" s limits] by (simp add: admission_inv_def admission_ok_def)
  from promote_locked_inv [OF this, of alive] show ?thesis by (simp add: release_def)
qed

lemma filter_request:
  assumes "distinct (map wr_request_id q)" "length (filter (\<lambda>w. wr_request_id w \<noteq> r) q) \<noteq> length q"
  shows "length (filter (\<lambda>w. wr_request_id w \<noteq> r) q) + 1 = length q"
  using assms
proof (induction q)
  case (Cons w q)
  show ?case
  proof (cases "wr_request_id w = r")
    case True
    with Cons.prems(1) have "r \<notin> wr_request_id ` set q" by simp
    then have "\<forall>w \<in> set q. wr_request_id w \<noteq> r" by (metis imageI)
    then have "filter (\<lambda>w. wr_request_id w \<noteq> r) q = q" by simp
    with True show ?thesis by simp
  next
    case False
    with Cons show ?thesis by simp
  qed
qed simp

lemma filter_same_length: "length (filter Q xs) = length xs \<Longrightarrow> filter Q xs = xs"
proof (induction xs)
  case (Cons x xs)
  have "length (filter Q xs) \<noteq> Suc (length xs)" using length_filter_le [of Q xs] by linarith
  with Cons show ?case by (simp split: if_splits)
qed simp

lemma update_same: "map_of m k = Some v \<Longrightarrow> AList.update k v m = m"
  by (induction m) auto

lemma cancel_inv:
  assumes "admission_inv limits s P"
  shows "\<exists>s' admitted. cancel_waiter limits alive t r s = Inr (s', admitted) \<and>
    admission_inv limits s' (P + mset (map wr_invocation admitted)) \<and> closed s' = closed s \<and> (closed s \<longrightarrow> admitted = [])"
proof (cases "map_of (queues s) t")
  case None
  then show ?thesis using assms by (simp add: cancel_waiter_def)
next
  case (Some q)
  let ?q = "filter (\<lambda>w. wr_request_id w \<noteq> r) q"
  note s = assms [unfolded admission_inv_def admission_ok_def]
  have e: "entry_ok limits t q" using s Some by (simp add: queues_ok_def)
  show ?thesis
  proof (cases "length ?q = length q")
    case True
    then have "?q = q" by (rule filter_same_length)
    then show ?thesis using assms Some by (simp add: cancel_waiter_def Let_def update_same)
  next
    case False
    let ?s = "if ?q = [] then s\<lparr>queued_runs := queued_runs s - 1, queues := AList.delete t (AList.update t ?q (queues s)),
        rotation := filter (\<lambda>queued. queued \<noteq> t) (rotation s)\<rparr>
      else s\<lparr>queues := AList.update t ?q (queues s), queued_runs := queued_runs s - 1\<rparr>"
    have "queues_ok limits ?s"
    proof (rule queues_shrink [OF _ Some])
      show "length ?q + 1 = length q" using filter_request [of q r] e False by (simp add: entry_ok_def)
      show "entry_ok limits t ?q" if "?q \<noteq> []" using e that by (auto simp: entry_ok_def distinct_map_filter intro: order_trans [OF length_filter_le])
    qed (use s in \<open>auto simp: queues_ok_def\<close>)
    moreover have "slots_ok limits ?s P" using s by (simp add: slots_ok_def)
    ultimately have "admission_ok limits ?s P" by (simp add: admission_ok_def)
    moreover have "cancel_waiter limits alive t r s = promote_locked limits alive ?s"
      using False Some by (simp add: cancel_waiter_def Let_def)
    moreover have "closed ?s = closed s" by simp
    ultimately show ?thesis using promote_locked_inv [of limits ?s P alive] by simp
  qed
qed

lemma close_inv: "admission_inv limits s P \<Longrightarrow> admission_inv limits (fst (close s)) P"
  by (auto simp: close_def admission_inv_def admission_ok_def slots_ok_def queues_ok_def waiting_total_def no_queue_settled)

lemma admission_reach_inv: "admission_reach limits s P \<Longrightarrow> admission_inv limits s P"
proof (induction rule: admission_reach.induct)
  case (start s)
  then show ?case
    by (auto simp: controller_new_def default_admission_state_def admission_inv_def admission_ok_def slots_ok_def counts_def
        tally_def queues_ok_def waiting_total_def no_queue_settled split: if_splits)
next
  case (request s P request_id alive invocation s' r)
  with acquire_inv [of limits s P request_id alive invocation] show ?case by auto
next
  case (drop s invocation P alive s' admitted)
  with release_inv [of limits s invocation P alive] show ?case by auto
next
  case (abandon s P alive tenant_id request_id s' admitted)
  with cancel_inv [of limits s P alive tenant_id request_id] show ?case by auto
next
  case (shut s P)
  from shut.IH show ?case by (rule close_inv)
qed

section \<open>Properties\<close>

text \<open>
  C21. The limits hold at every moment of every history. The number of active Runs is the number of permits that exist,
  it is within the global limit, for each tenant and each workspace the permits are within its limit and the counters
  say how many there are, and the queues are within theirs.
\<close>

theorem admission_limits:
  assumes "admission_reach limits s P"
  shows "active_runs s = size P \<and> size P \<le> max_active_runs limits \<and>
     (\<forall>t. count_of (active_by_tenant s) t = tally ric_tenant_id P t \<and>
        tally ric_tenant_id P t \<le> max_active_runs_per_tenant limits) \<and>
     (\<forall>w. count_of (active_by_workspace s) w = tally workspace_key P w \<and>
        tally workspace_key P w \<le> max_active_runs_per_workspace limits) \<and>
     queued_runs s = waiting_total s \<and> queued_runs s \<le> max_queued_runs limits \<and>
     (\<forall>t q. map_of (queues s) t = Some q \<longrightarrow> length q \<le> max_queued_runs_per_tenant limits)"
  using admission_reach_inv [OF assms]
  by (auto simp: admission_inv_def admission_ok_def slots_ok_def queues_ok_def entry_ok_def count_of_counts)

text \<open>
  C22. No Run waits for nothing. Whenever a request is queued although a slot is free, its tenant or its workspace is at
  its limit.
\<close>

theorem admission_no_idle_slot:
  assumes "admission_reach limits s P" "map_of (queues s) t = Some q" "w \<in> set q" "active_runs s < max_active_runs limits"
  shows "tally ric_tenant_id P t = max_active_runs_per_tenant limits \<or>
     tally workspace_key P (workspace_key (wr_invocation w)) = max_active_runs_per_workspace limits"
proof -
  note s = admission_reach_inv [OF assms(1), unfolded admission_inv_def admission_ok_def slots_ok_def queues_ok_def]
  have "t \<in> set (rotation s)" using s assms(2) by auto
  moreover have "filter (eligible_tenant limits s) (rotation s) = []"
    using s assms(4) by (auto simp: settled_def choose_tenant_def Let_def split: option.splits list.splits)
  ultimately have "\<not> eligible_tenant limits s t" by (simp add: filter_empty_conv)
  then have "\<not> workspace_free limits s w \<or> \<not> tally ric_tenant_id P t < max_active_runs_per_tenant limits"
    using assms(2,3) s by (auto simp: eligible_tenant_def list_ex_iff count_of_counts)
  moreover have "counts (active_by_workspace s) workspace_key P" using s by simp
  ultimately have "\<not> tally workspace_key P (workspace_key (wr_invocation w)) < max_active_runs_per_workspace limits \<or>
      \<not> tally ric_tenant_id P t < max_active_runs_per_tenant limits"
    by (simp add: workspace_free_def count_of_counts)
  moreover have "tally workspace_key P (workspace_key (wr_invocation w)) \<le> max_active_runs_per_workspace limits"
    "tally ric_tenant_id P t \<le> max_active_runs_per_tenant limits"
    using s by (simp_all del: split_paired_All)
  ultimately show ?thesis by linarith
qed

text \<open>
  The operations return. In every reachable state the promotion loop ends and neither of its two \<open>expect\<close> calls
  panics, for a request, the drop of an existing permit and an abandoned request alike; and once the controller is
  closed none of them admits a Run.
\<close>

theorem admission_operations_return:
  assumes "admission_reach limits s P"
  shows "(fresh_request request_id s \<longrightarrow>
       (\<exists>s' r. acquire limits alive request_id x s = Inr (s', r) \<and> (closed s \<longrightarrow> granted r = {#}))) \<and>
     (y \<in># P \<longrightarrow> (\<exists>s' admitted. release limits alive y s = Inr (s', admitted) \<and> (closed s \<longrightarrow> admitted = []))) \<and>
     (\<exists>s' admitted. cancel_waiter limits alive t r s = Inr (s', admitted) \<and> (closed s \<longrightarrow> admitted = []))"
proof -
  note i = admission_reach_inv [OF assms]
  have "\<exists>s' admitted. release limits alive y s = Inr (s', admitted) \<and> (closed s \<longrightarrow> admitted = [])" if "y \<in># P"
    using release_inv [of limits s y "P - {#y#}" alive] i that by auto
  with acquire_inv [OF i, of request_id alive x] cancel_inv [OF i, of alive t r] show ?thesis by blast
qed

section \<open>Witnesses\<close>

definition sample_limits :: runtime_admission_limits where
  "sample_limits = \<lparr>max_active_runs = 2, max_active_runs_per_tenant = 1, max_active_runs_per_workspace = 1,
     max_queued_runs = 1, max_queued_runs_per_tenant = 1\<rparr>"

lemma sample_invocation_valid: "invocation_validate sample_invocation = Inr ()"
  by (simp add: invocation_validate_def sample_invocation_def RUNTIME_INVOCATION_SCHEMA_VERSION_def is_nil_def nil_uuid_def)

lemma sample_queue:
  obtains s where "admission_reach sample_limits s {#sample_invocation#}" "active_runs s = 1" "rotation s = [1]"
    "map_of (queues s) 1 = Some [\<lparr>wr_request_id = 8, wr_invocation = sample_invocation\<rparr>]" "last_admitted_tenant s = Some 1"
proof -
  let ?alive = "\<lambda>_. True"
  have "admission_reach sample_limits default_admission_state {#}"
    by (rule start) (simp add: controller_new_def sample_limits_def)
  moreover obtain s1 where s1: "acquire sample_limits ?alive 7 sample_invocation default_admission_state =
      Inr (s1, Admitted sample_invocation)" "queues s1 = []" "active_runs s1 = 1" "rotation s1 = []" "queued_runs s1 = 0"
      "active_by_tenant s1 = [(1, 1)]" "active_by_workspace s1 = [((1, 2, 4), 1)]" "last_admitted_tenant s1 = Some 1" "\<not> closed s1"
    by (simp add: acquire_def sample_invocation_valid Let_def default_admission_state_def sample_limits_def mark_active_def
        count_of_def workspace_key_def) (simp add: sample_invocation_def)
  ultimately have r1: "admission_reach sample_limits s1 {#sample_invocation#}"
    using request [of sample_limits default_admission_state "{#}" 7 ?alive sample_invocation s1 "Admitted sample_invocation"]
    by (simp add: fresh_request_def default_admission_state_def)
  let ?w = "\<lparr>wr_request_id = 8, wr_invocation = sample_invocation\<rparr>"
  let ?s = "s1\<lparr>rotation := [1], queues := [(1, [?w])], queued_runs := 1, peak_queued_runs := max (peak_queued_runs s1) 1\<rparr>"
  have "promote_step sample_limits ?alive ?s = Break"
    using s1 by (simp add: promote_step_def choose_tenant_def eligible_tenant_def sample_limits_def count_of_def)
  then have "promote_locked sample_limits ?alive ?s = Inr (?s, [])" by (subst promote_locked.simps) simp
  then have "acquire sample_limits ?alive 8 sample_invocation s1 = Inr (?s, Enqueued [])"
    using s1 by (simp add: acquire_def sample_invocation_valid sample_limits_def count_of_def)
      (simp add: sample_invocation_def Let_def)
  from request [OF r1 _ this] s1 have "admission_reach sample_limits ?s {#sample_invocation#}" by (simp add: fresh_request_def)
  with that s1 show thesis by fastforce
qed

theorem admission_limits_witness:
  "\<exists>s. admission_reach sample_limits s {#sample_invocation#} \<and> active_runs s = 1 \<and>
     count_of (active_by_tenant s) 1 = tally ric_tenant_id {#sample_invocation#} 1"
  by (rule sample_queue) (use admission_limits in fastforce)

theorem admission_no_idle_slot_witness:
  "\<exists>s w. admission_reach sample_limits s {#sample_invocation#} \<and> map_of (queues s) 1 = Some [w] \<and>
     active_runs s < max_active_runs sample_limits \<and>
     (tally ric_tenant_id {#sample_invocation#} 1 = max_active_runs_per_tenant sample_limits \<or>
      tally workspace_key {#sample_invocation#} (workspace_key (wr_invocation w)) = max_active_runs_per_workspace sample_limits)"
proof -
  obtain s where s: "admission_reach sample_limits s {#sample_invocation#}" "active_runs s = 1"
    "map_of (queues s) 1 = Some [\<lparr>wr_request_id = 8, wr_invocation = sample_invocation\<rparr>]"
    by (rule sample_queue)
  then have "active_runs s < max_active_runs sample_limits" by (simp add: sample_limits_def)
  with admission_no_idle_slot [OF s(1,3)] s show ?thesis by fastforce
qed

theorem admission_operations_return_witness:
  "\<exists>s s' admitted. admission_reach sample_limits s {#sample_invocation#} \<and>
     release sample_limits (\<lambda>_. True) sample_invocation s = Inr (s', admitted)"
proof -
  obtain s where s: "admission_reach sample_limits s {#sample_invocation#}" by (rule sample_queue)
  with admission_operations_return [OF s, of _ "\<lambda>_. True" _ sample_invocation] show ?thesis by fastforce
qed

end
