(* ===== verification/Result_State.thy ===== *)
theory Result_State
  imports Runtime_Prelude
begin

text \<open>
  Code that updates a state and may return early. A Rust function \<open>fn f(state: &mut S) -> Result<A, E>\<close> is a function
  from the state to a result and the new state: what was written before an error is kept. \<open>then_do\<close> is the operator
  \<open>?\<close> followed by the rest of the function, \<open>for_each\<close> is a \<open>for\<close> loop whose body may return early.

  The lemmas are rules for a relation between the state before and after that the steps keep; a component proves the
  relation for its own primitive steps and the rules of the collection \<open>io_intros\<close> carry it through the rest.
\<close>

named_theorems io_intros \<open>rules for the relation an early-return computation keeps\<close>

section \<open>Computations\<close>

type_synonym ('s, 'e, 'a) io = "'s \<Rightarrow> ('e, 'a) result \<times> 's"

definition finish :: "'a \<Rightarrow> ('s, 'e, 'a) io" where
  "finish a s = (Inr a, s)"

definition give_up :: "'e \<Rightarrow> ('s, 'e, 'a) io" where
  "give_up e s = (Inl e, s)"

definition of_result :: "('e, 'a) result \<Rightarrow> ('s, 'e, 'a) io" where
  "of_result r s = (r, s)"

definition update :: "('s \<Rightarrow> 's) \<Rightarrow> ('s, 'e, unit) io" where
  "update f s = (Inr (), f s)"

definition inspect :: "('s \<Rightarrow> ('s, 'e, 'a) io) \<Rightarrow> ('s, 'e, 'a) io" where
  "inspect f s = f s s"

definition then_do :: "('s, 'e, 'a) io \<Rightarrow> ('a \<Rightarrow> ('s, 'e, 'b) io) \<Rightarrow> ('s, 'e, 'b) io" where
  "then_do m f s = (case m s of (Inl e, s') \<Rightarrow> (Inl e, s') | (Inr a, s') \<Rightarrow> f a s')"

fun for_each :: "('x \<Rightarrow> ('s, 'e, unit) io) \<Rightarrow> 'x list \<Rightarrow> ('s, 'e, unit) io" where
  "for_each f [] = finish ()"
| "for_each f (x # xs) = then_do (f x) (\<lambda>_. for_each f xs)"

text \<open>\<open>iter().map(f).collect::<Result<Vec<_>, _>>()\<close>: the first error ends the iteration.\<close>

fun collect_results :: "('a \<Rightarrow> ('e, 'b) result) \<Rightarrow> 'a list \<Rightarrow> ('e, 'b list) result" where
  "collect_results f [] = Inr []"
| "collect_results f (x # xs) =
     (case f x of
        Inl e \<Rightarrow> Inl e
      | Inr y \<Rightarrow> (case collect_results f xs of Inl e \<Rightarrow> Inl e | Inr ys \<Rightarrow> Inr (y # ys)))"

lemma collect_results_Inr: "collect_results f xs = Inr ys \<longleftrightarrow> list_all2 (\<lambda>x y. f x = Inr y) xs ys"
proof (induction xs arbitrary: ys)
  case (Cons x xs)
  have "collect_results f (x # xs) = Inr ys \<longleftrightarrow>
      (\<exists>z zs. ys = z # zs \<and> f x = Inr z \<and> collect_results f xs = Inr zs)"
    by (auto split: sum.splits)
  then show ?case unfolding Cons.IH by (auto simp: list_all2_Cons1)
qed auto

lemma collect_results_Inl: "collect_results f xs = Inl e \<Longrightarrow> \<exists>x \<in> set xs. f x = Inl e"
  by (induction xs) (auto split: sum.splits)

lemmas io_defs = finish_def give_up_def of_result_def update_def inspect_def then_do_def

lemma then_do_finish [simp]: "then_do (finish a) f = f a" "then_do m finish = m"
  by (auto simp: io_defs fun_eq_iff split: prod.split sum.split)

lemma then_do_give_up [simp]: "then_do (give_up e) f = give_up e"
  by (auto simp: io_defs)

lemma then_do_assoc: "then_do (then_do m f) g = then_do m (\<lambda>a. then_do (f a) g)"
  by (auto simp: then_do_def fun_eq_iff split: prod.split sum.split)

section \<open>Relations that computations keep\<close>

definition keeps :: "('s \<Rightarrow> 's \<Rightarrow> bool) \<Rightarrow> ('s, 'e, 'a) io \<Rightarrow> bool" where
  "keeps R m \<longleftrightarrow> (\<forall>s. R s (snd (m s)))"

definition fails_with :: "('e \<Rightarrow> bool) \<Rightarrow> ('s, 'e, 'a) io \<Rightarrow> bool" where
  "fails_with Q m \<longleftrightarrow> (\<forall>s e. fst (m s) = Inl e \<longrightarrow> Q e)"

text \<open>A relation between the state before and after, closed under doing nothing and doing one step after another.\<close>

locale progress =
  fixes R :: "'s \<Rightarrow> 's \<Rightarrow> bool"
  assumes refl: "R s s" and trans: "R s t \<Longrightarrow> R t u \<Longrightarrow> R s u"
begin

lemma keeps_finish [io_intros]: "keeps R (finish a)"
  by (simp add: keeps_def finish_def refl)

lemma keeps_give_up [io_intros]: "keeps R (give_up e)"
  by (simp add: keeps_def give_up_def refl)

lemma keeps_of_result [io_intros]: "keeps R (of_result r)"
  by (simp add: keeps_def of_result_def refl)

lemma keeps_then_do [io_intros]:
  assumes "keeps R m" and "\<And>a. keeps R (f a)"
  shows "keeps R (then_do m f)"
  unfolding keeps_def
proof
  fix s
  obtain r s' where m: "m s = (r, s')" by (cases "m s")
  then have "R s s'" using assms(1) by (metis keeps_def snd_conv)
  moreover have "R s' (snd (f a s'))" for a using assms(2) by (simp add: keeps_def)
  ultimately show "R s (snd (then_do m f s))"
    using m by (cases r) (auto simp: then_do_def intro: trans)
qed

lemma keeps_for_each [io_intros]: "(\<And>x. x \<in> set xs \<Longrightarrow> keeps R (f x)) \<Longrightarrow> keeps R (for_each f xs)"
  by (induction xs) (auto intro: keeps_finish keeps_then_do)

lemma keeps_inspect [io_intros]: "(\<And>s. keeps R (f s)) \<Longrightarrow> keeps R (inspect f)"
  by (simp add: keeps_def inspect_def)

end

section \<open>Branches\<close>

lemma keeps_option [io_intros]:
  "keeps R a \<Longrightarrow> (\<And>y. x = Some y \<Longrightarrow> keeps R (f y)) \<Longrightarrow> keeps R (case x of None \<Rightarrow> a | Some y \<Rightarrow> f y)"
  by (simp split: option.split)

lemma keeps_if [io_intros]: "keeps R a \<Longrightarrow> keeps R b \<Longrightarrow> keeps R (if c then a else b)"
  by simp

lemma fails_with_option [io_intros]:
  "fails_with Q a \<Longrightarrow> (\<And>y. x = Some y \<Longrightarrow> fails_with Q (f y)) \<Longrightarrow> fails_with Q (case x of None \<Rightarrow> a | Some y \<Rightarrow> f y)"
  by (simp split: option.split)

lemma fails_with_if [io_intros]: "fails_with Q a \<Longrightarrow> fails_with Q b \<Longrightarrow> fails_with Q (if c then a else b)"
  by simp

section \<open>Errors\<close>

lemma fails_with_finish [io_intros]: "fails_with Q (finish a)"
  by (simp add: fails_with_def finish_def)

lemma fails_with_give_up [io_intros]: "Q e \<Longrightarrow> fails_with Q (give_up e)"
  by (simp add: fails_with_def give_up_def)

lemma fails_with_of_result [io_intros]: "(\<And>e. r = Inl e \<Longrightarrow> Q e) \<Longrightarrow> fails_with Q (of_result r)"
  by (simp add: fails_with_def of_result_def)

lemma fails_with_update [io_intros]: "fails_with Q (update f)"
  by (simp add: fails_with_def update_def)

lemma fails_with_inspect [io_intros]: "(\<And>s. fails_with Q (f s)) \<Longrightarrow> fails_with Q (inspect f)"
  by (simp add: fails_with_def inspect_def)

lemma fails_with_then_do [io_intros]:
  assumes "fails_with Q m" and "\<And>a. fails_with Q (f a)"
  shows "fails_with Q (then_do m f)"
  unfolding fails_with_def
proof (intro allI impI)
  fix s e assume e: "fst (then_do m f s) = Inl e"
  obtain r s' where m: "m s = (r, s')" by (cases "m s")
  show "Q e"
  proof (cases r)
    case (Inl d)
    with e m have "fst (m s) = Inl e" by (simp add: then_do_def)
    with assms(1) show ?thesis by (simp add: fails_with_def)
  next
    case (Inr a)
    with e m have "fst (f a s') = Inl e" by (simp add: then_do_def)
    with assms(2) show ?thesis by (simp add: fails_with_def)
  qed
qed

lemma fails_with_for_each [io_intros]: "(\<And>x. x \<in> set xs \<Longrightarrow> fails_with Q (f x)) \<Longrightarrow> fails_with Q (for_each f xs)"
  by (induction xs) (auto intro: fails_with_finish fails_with_then_do)

end
