(* ===== verification/Provider_Common.thy ===== *)
theory Provider_Common
  imports Protocol_Types Result_State
begin

text \<open>
  What the three Provider adapters of \<open>runtime/apps/model-gateway/src\<close> share: the execution error, credentials and their
  redaction, the price of a turn, the classification of HTTP errors (all in \<open>openai_compatible.rs\<close>), the preparation of a
  request for one Provider (\<open>lib.rs\<close>), the event channel, and the loop that reads the event stream, which the three files
  write out in the same words.

  The HTTP client, the SSE decoder, \<open>serde_json\<close>'s text form, URL parsing and the parser of mail dates are parameters: the
  record \<open>gateway_externals\<close> and the values of \<open>exchange\<close>. The channel to the consumer is the state: the events it took so
  far, and how many more it takes before its receiver is dropped.
\<close>

section \<open>Third-party functions\<close>

record url =
  url_scheme :: string
  url_username :: string
  url_password :: "string option"

record gateway_externals =
  gx_from_str :: "string \<Rightarrow> (string, json) result"
  gx_to_string :: "json \<Rightarrow> string"
  gx_url_parse :: "string \<Rightarrow> (string, url) result"
  gx_client_build :: "(string, unit) result"
  gx_rfc2822_remaining_ms :: "string \<Rightarrow> int option"

section \<open>Requests\<close>

record tool_spec =
  ts_name :: string
  ts_description :: string
  ts_input_schema :: json

datatype reasoning_policy = Minimal | Balanced | Thorough

record model_request =
  mr_messages :: "message list"
  mr_tools :: "tool_spec list"
  mr_output_schema :: "json option"
  mr_reasoning :: reasoning_policy
  mr_max_output_tokens :: u64

section \<open>Errors and credentials\<close>

datatype provider_execution_error =
    ExecutionCancelled
  | InvalidConfiguration string
  | ConsumerClosed
  | ProviderFault model_error_kind bool "u16 option" "u64 option" string

definition provider_error :: "model_error_kind \<Rightarrow> bool \<Rightarrow> u16 option \<Rightarrow> string \<Rightarrow> provider_execution_error" where
  "provider_error kind retryable status message = ProviderFault kind retryable status None message"

definition capability_error :: "string \<Rightarrow> provider_execution_error" where
  "capability_error message = provider_error CapabilityMismatch False None message"

definition protocol_error :: "string \<Rightarrow> provider_execution_error" where
  "protocol_error message = provider_error Protocol False None message"

datatype provider_credential = ProviderCredential (expose: string)

definition bearer :: "string \<Rightarrow> (provider_execution_error, provider_credential) result" where
  "bearer value =
     (if is_blank value then Inl (InvalidConfiguration ''provider bearer token must not be blank'')
      else Inr (ProviderCredential value))"

text \<open>\<open>str::replace\<close>: the matches are taken from the left and do not overlap.\<close>

function replace_in :: "string \<Rightarrow> string \<Rightarrow> string \<Rightarrow> string" where
  "replace_in pat into [] = []"
| "replace_in pat into (c # cs) =
     (if pat \<noteq> [] \<and> prefix pat (c # cs) then into @ replace_in pat into (drop (length pat) (c # cs))
      else c # replace_in pat into cs)"
  by pat_completeness auto
termination
  by (relation "measure (\<lambda>(_, _, s). length s)") auto

definition str_replace :: "string \<Rightarrow> string \<Rightarrow> string \<Rightarrow> string" where
  "str_replace pat into s =
     (if pat = [] then concat (map (\<lambda>c. into @ c) (chars s)) @ into else replace_in pat into s)"

definition redact :: "provider_credential \<Rightarrow> string \<Rightarrow> string" where
  "redact credential message = str_replace (expose credential) ''[REDACTED]'' message"

definition take_chars :: "nat \<Rightarrow> string \<Rightarrow> string" where
  "take_chars n s = concat (take n (chars s))"

definition lowercase :: "string \<Rightarrow> string" where
  "lowercase s = map to_ascii_lowercase s"

section \<open>Endpoints\<close>

definition is_provider_safe_image_source :: "gateway_externals \<Rightarrow> string \<Rightarrow> bool" where
  "is_provider_safe_image_source ext source \<longleftrightarrow>
     prefix ''data:'' source \<or>
     (case gx_url_parse ext source of
        Inl _ \<Rightarrow> False
      | Inr u \<Rightarrow> url_scheme u \<in> {''http'', ''https''} \<and> url_username u = [] \<and> url_password u = None)"

definition parse_endpoint :: "gateway_externals \<Rightarrow> string \<Rightarrow> (provider_execution_error, url) result" where
  "parse_endpoint ext value =
     (case gx_url_parse ext value of
        Inl error \<Rightarrow> Inl (InvalidConfiguration (''provider endpoint is not a valid URL: '' @ error))
      | Inr endpoint \<Rightarrow>
          if url_scheme endpoint \<notin> {''http'', ''https''} \<or> url_username endpoint \<noteq> [] \<or> url_password endpoint \<noteq> None
          then Inl (InvalidConfiguration ''provider endpoint must be HTTP(S) and must not contain credentials'')
          else Inr endpoint)"

section \<open>The price of a turn\<close>

record provider_pricing =
  input_million_tokens_micros :: u64
  output_million_tokens_micros :: u64
  cached_input_million_tokens_micros :: "u64 option"

type_synonym u128 = "128 word"

definition calculate_cost :: "u64 \<Rightarrow> u64 \<Rightarrow> u64 \<Rightarrow> provider_pricing \<Rightarrow> u64" where
  "calculate_cost input_tokens output_tokens cached_input_tokens pricing =
     (let cached_rate = (case cached_input_million_tokens_micros pricing of
                           None \<Rightarrow> input_million_tokens_micros pricing | Some r \<Rightarrow> r);
          fresh_input_tokens = saturating_sub input_tokens cached_input_tokens;
          total = (ucast fresh_input_tokens :: u128) * ucast (input_million_tokens_micros pricing)
                  + ucast cached_input_tokens * ucast cached_rate
                  + ucast output_tokens * ucast (output_million_tokens_micros pricing);
          rounded_up = saturating_add total 999999 div 1000000
      in if unat rounded_up < 2 ^ 64 then ucast rounded_up else - 1)"

section \<open>Values\<close>

text \<open>\<open>value[key]\<close> on a borrowed value: null when the value is no object or has no such key.\<close>

definition jidx :: "string \<Rightarrow> json \<Rightarrow> json" where
  "jidx k v = (case jget k v of None \<Rightarrow> JNull | Some x \<Rightarrow> x)"

definition nonempty_str :: "json \<Rightarrow> string option" where
  "nonempty_str v = (case as_str v of Some s \<Rightarrow> if s = [] then None else Some s | None \<Rightarrow> None)"

definition array_items :: "json \<Rightarrow> json list" where
  "array_items v = (case as_array v of None \<Rightarrow> [] | Some xs \<Rightarrow> xs)"

definition or_default :: "'a \<Rightarrow> 'a option \<Rightarrow> 'a" where
  "or_default d x = (case x of None \<Rightarrow> d | Some a \<Rightarrow> a)"

definition narrow_index :: "u64 \<Rightarrow> u32" where
  "narrow_index i = (if unat i < 2 ^ 32 then ucast i else - 1)"

definition required_string :: "json \<Rightarrow> string \<Rightarrow> string \<Rightarrow> (provider_execution_error, string) result" where
  "required_string value field message =
     (case nonempty_str (jidx field value) of None \<Rightarrow> Inl (protocol_error message) | Some s \<Rightarrow> Inr s)"

section \<open>HTTP errors\<close>

text \<open>\<open>str::parse::<u64>()\<close>: an optional plus sign and at least one digit.\<close>

fun digits_value :: "string \<Rightarrow> nat \<Rightarrow> nat option" where
  "digits_value [] acc = Some acc"
| "digits_value (c # cs) acc =
     (if is_ascii_digit c then digits_value cs (10 * acc + (code c - 48)) else None)"

definition parse_u64 :: "string \<Rightarrow> u64 option" where
  "parse_u64 s =
     (let digits = (if prefix ''+'' s then drop 1 s else s)
      in if digits = [] then None
         else (case digits_value digits 0 of
                 None \<Rightarrow> None
               | Some n \<Rightarrow> if n < 2 ^ 64 then Some (of_nat n) else None))"

definition saturating_mul :: "u64 \<Rightarrow> u64 \<Rightarrow> u64" where
  "saturating_mul a b = (if unat a * unat b < 2 ^ 64 then a * b else - 1)"

definition parse_retry_after_ms :: "gateway_externals \<Rightarrow> string \<Rightarrow> u64 option" where
  "parse_retry_after_ms ext value =
     (case parse_u64 (trim value) of
        Some seconds \<Rightarrow> Some (saturating_mul seconds 1000)
      | None \<Rightarrow>
          (case gx_rfc2822_remaining_ms ext (trim value) of
             None \<Rightarrow> None
           | Some remaining \<Rightarrow> if max remaining 0 < 2 ^ 64 then Some (of_int (max remaining 0)) else None))"

definition looks_like_context_overflow :: "string \<Rightarrow> bool" where
  "looks_like_context_overflow message \<longleftrightarrow>
     (let m = lowercase message
      in sublist ''context length'' m \<or> sublist ''context window'' m \<or> sublist ''too many tokens'' m)"

definition looks_like_exhausted_quota :: "string \<Rightarrow> bool" where
  "looks_like_exhausted_quota message \<longleftrightarrow>
     (let m = lowercase message
      in sublist ''insufficient_quota'' m \<or> sublist ''usage_limit_reached'' m \<or> sublist ''usage_not_included'' m \<or>
         sublist ''exceeded your current quota'' m \<or> sublist ''credit balance is too low'' m \<or>
         sublist ''billing_hard_limit_reached'' m)"

definition is_refusal_code :: "string \<Rightarrow> bool" where
  "is_refusal_code c \<longleftrightarrow>
     lowercase c \<in> {''invalid_prompt'', ''bio_policy'', ''cyber_policy'', ''content_filter'', ''content_policy_violation''}"

definition body_names_a_refusal :: "gateway_externals \<Rightarrow> string \<Rightarrow> bool" where
  "body_names_a_refusal ext body \<longleftrightarrow>
     (case gx_from_str ext body of
        Inl _ \<Rightarrow> False
      | Inr parsed \<Rightarrow>
          (let error = jidx ''error'' parsed
           in list_ex is_refusal_code
                (List.map_filter as_str [jidx ''code'' error, jidx ''type'' error, jidx ''code'' parsed])))"

datatype sse_item = StreamCancelled | StreamIdle | SseFailed string | SseEvent string string

record http_response =
  hr_status :: u16
  hr_retry_after :: "string option"
  hr_body :: "string option"
  hr_stream :: "sse_item list"

datatype exchange = ExchangeCancelled | HeadersTimedOut | TransportFailed bool bool string | Responded http_response

definition is_success :: "u16 \<Rightarrow> bool" where
  "is_success status \<longleftrightarrow> 200 \<le> status \<and> status < 300"

definition is_server_error :: "u16 \<Rightarrow> bool" where
  "is_server_error status \<longleftrightarrow> 500 \<le> status \<and> status < 600"

definition http_error_kind :: "gateway_externals \<Rightarrow> u16 \<Rightarrow> string \<Rightarrow> model_error_kind \<times> bool" where
  "http_error_kind ext status message =
     (if status = 401 \<or> status = 403 then (Authentication, False)
      else if status = 402 then (Billing, False)
      else if status = 429 \<and> looks_like_exhausted_quota message then (Billing, False)
      else if status = 429 then (RateLimited, True)
      else if status = 408 \<or> status = 504 then (Timeout, True)
      else if is_server_error status then (Unavailable, True)
      else if body_names_a_refusal ext message then (KindContentFilter, False)
      else if looks_like_context_overflow message then (ContextOverflow, False)
      else (Protocol, False))"

definition classify_http_error :: "gateway_externals \<Rightarrow> http_response \<Rightarrow> provider_credential \<Rightarrow> provider_execution_error" where
  "classify_http_error ext response credential =
     (let status = hr_status response;
          retry_after_ms = Option.bind (hr_retry_after response) (parse_retry_after_ms ext);
          body = or_default ''provider returned an unreadable error body'' (hr_body response);
          message = redact credential (take_chars 2048 body);
          (kind, retryable) = http_error_kind ext status message
      in ProviderFault kind retryable (Some status) retry_after_ms message)"

definition classify_transport_error :: "bool \<Rightarrow> bool \<Rightarrow> string \<Rightarrow> provider_execution_error" where
  "classify_transport_error is_timeout is_connect error =
     (let kind = (if is_timeout then Timeout else if is_connect then Unavailable else Protocol);
          retryable = (kind = Timeout \<or> kind = Unavailable)
      in provider_error kind retryable None (''provider transport error: '' @ error))"

section \<open>The event channel\<close>

record sink =
  delivered :: "model_stream_event list"
  room :: "nat option"

definition emit_event :: "model_stream_event \<Rightarrow> ('a sink_scheme, provider_execution_error, unit) io" where
  "emit_event event s =
     (if room s = Some 0 then (Inl ConsumerClosed, s)
      else (Inr (), s\<lparr>delivered := delivered s @ [event], room := map_option (\<lambda>n. n - 1) (room s)\<rparr>))"

section \<open>Preparing a request for one Provider\<close>

fun prepare_part ::
  "string \<Rightarrow> string \<Rightarrow> string \<Rightarrow> content_part \<Rightarrow>
   (provider_execution_error, content_part \<times> model_stream_event list) result" where
  "prepare_part target_provider_id target_protocol target_model (PartReasoning summary (Some state)) =
     (if \<not> private_state_is_well_formed state
      then Inl (InvalidConfiguration ''provider-private model state is malformed'')
      else if pps_provider_id state = target_provider_id \<and> pps_protocol state = target_protocol \<and>
              pps_model state = target_model
      then Inr (PartReasoning summary (Some state), [])
      else Inr (PartReasoning summary None,
                [PrivateStateOmitted (pps_provider_id state) target_provider_id (pps_format state)]))"
| "prepare_part target_provider_id target_protocol target_model part = Inr (part, [])"

definition prepare_message ::
  "string \<Rightarrow> string \<Rightarrow> string \<Rightarrow> message \<Rightarrow> (provider_execution_error, message \<times> model_stream_event list) result" where
  "prepare_message target_provider_id target_protocol target_model m =
     (case collect_results (prepare_part target_provider_id target_protocol target_model) (msg_content m) of
        Inl e \<Rightarrow> Inl e
      | Inr prepared \<Rightarrow> Inr (m\<lparr>msg_content := map fst prepared\<rparr>, concat (map snd prepared)))"

definition prepare_request_for_provider ::
  "model_request \<Rightarrow> string \<Rightarrow> string \<Rightarrow> string \<Rightarrow>
   (provider_execution_error, model_request \<times> model_stream_event list) result" where
  "prepare_request_for_provider request target_provider_id target_protocol target_model =
     (case collect_results (prepare_message target_provider_id target_protocol target_model) (mr_messages request) of
        Inl e \<Rightarrow> Inl e
      | Inr prepared \<Rightarrow> Inr (request\<lparr>mr_messages := map fst prepared\<rparr>, concat (map snd prepared)))"

section \<open>Reading the stream\<close>

text \<open>
  \<open>handler\<close> is the body of the loop for one decoded event and says whether the turn is over; \<open>at_end\<close> is what the adapter
  does when the stream ends.
\<close>

fun drive ::
  "(string \<Rightarrow> string \<Rightarrow> ('s, provider_execution_error, bool) io) \<Rightarrow> ('s, provider_execution_error, unit) io \<Rightarrow>
   sse_item list \<Rightarrow> ('s, provider_execution_error, unit) io" where
  "drive handler at_end [] = at_end"
| "drive handler at_end (StreamCancelled # _) = give_up ExecutionCancelled"
| "drive handler at_end (StreamIdle # _) =
     give_up (provider_error Timeout True None ''provider stream was idle beyond the configured timeout'')"
| "drive handler at_end (SseFailed error # _) = give_up (protocol_error (''invalid provider SSE stream: '' @ error))"
| "drive handler at_end (SseEvent name data # items) =
     then_do (handler name data) (\<lambda>over. if over then finish () else drive handler at_end items)"

definition converse ::
  "gateway_externals \<Rightarrow> (string \<Rightarrow> string \<Rightarrow> ('s, provider_execution_error, bool) io) \<Rightarrow>
   ('s, provider_execution_error, unit) io \<Rightarrow> provider_credential \<Rightarrow> exchange \<Rightarrow>
   ('s, provider_execution_error, unit) io" where
  "converse ext handler at_end credential x =
     (case x of
        ExchangeCancelled \<Rightarrow> give_up ExecutionCancelled
      | HeadersTimedOut \<Rightarrow>
          give_up (provider_error Timeout True None
            ''provider did not return response headers before the configured timeout'')
      | TransportFailed is_timeout is_connect error \<Rightarrow> give_up (classify_transport_error is_timeout is_connect error)
      | Responded response \<Rightarrow>
          if \<not> is_success (hr_status response) then give_up (classify_http_error ext response credential)
          else drive handler at_end (hr_stream response))"

definition sse_json :: "gateway_externals \<Rightarrow> string \<Rightarrow> (provider_execution_error, json) result" where
  "sse_json ext data =
     (case gx_from_str ext data of
        Inl error \<Rightarrow> Inl (protocol_error (''provider SSE data is not valid JSON: '' @ error))
      | Inr value \<Rightarrow> Inr value)"

section \<open>What a turn delivers\<close>

fun closes_turn :: "model_stream_event \<Rightarrow> bool" where
  "closes_turn (Completed _) = True"
| "closes_turn (ModelFailed _ _ _) = True"
| "closes_turn _ = False"

fun is_tool_event :: "model_stream_event \<Rightarrow> bool" where
  "is_tool_event (ModelToolCall _ _ _) = True"
| "is_tool_event _ = False"

definition extends :: "(model_stream_event \<Rightarrow> bool) \<Rightarrow> 'a sink_scheme \<Rightarrow> 'a sink_scheme \<Rightarrow> bool" where
  "extends P s s' \<longleftrightarrow> (\<exists>es. delivered s' = delivered s @ es \<and> list_all P es)"

abbreviation open_turn :: "model_stream_event \<Rightarrow> bool" where
  "open_turn event \<equiv> \<not> closes_turn event"

definition completes :: "'a sink_scheme \<Rightarrow> 'a sink_scheme \<Rightarrow> bool" where
  "completes s s' \<longleftrightarrow> (\<exists>es reason. delivered s' = delivered s @ es @ [Completed reason] \<and> list_all open_turn es)"

interpretation grows: progress "extends P" for P :: "model_stream_event \<Rightarrow> bool"
proof
  show "extends P s s" for s :: "'a sink_scheme" by (simp add: extends_def)
  show "extends P s u" if "extends P s t" "extends P t u" for s t u :: "'a sink_scheme"
    using that by (auto simp: extends_def)
qed

lemma keeps_emit [io_intros]: "P event \<Longrightarrow> keeps (extends P) (emit_event event)"
  by (auto simp: keeps_def emit_event_def extends_def)

lemma keeps_update [io_intros]:
  "(\<And>s :: 'a sink_scheme. delivered (f s) = delivered s) \<Longrightarrow> keeps (extends P) (update f)"
  by (auto simp: keeps_def update_def extends_def)

text \<open>
  A step that ends the turn exactly when it says so: \<open>over\<close> tells which results end it.
\<close>

definition ends_turn :: "('r \<Rightarrow> bool) \<Rightarrow> ('e, 'r) result \<Rightarrow> bool" where
  "ends_turn over r \<longleftrightarrow> (case r of Inl _ \<Rightarrow> False | Inr a \<Rightarrow> over a)"

definition turn_step :: "('r \<Rightarrow> bool) \<Rightarrow> ('a sink_scheme, provider_execution_error, 'r) io \<Rightarrow> bool" where
  "turn_step over m \<longleftrightarrow>
     (\<forall>s r s'. m s = (r, s') \<longrightarrow> (if ends_turn over r then completes s s' else extends open_turn s s'))"

lemma ends_turn_simps [simp]: "ends_turn over (Inl e) = False" "ends_turn over (Inr a) = over a"
  by (simp_all add: ends_turn_def)

lemma extends_completes: "extends open_turn s t \<Longrightarrow> completes t u \<Longrightarrow> completes s u"
  unfolding extends_def completes_def by (metis append_assoc list_all_append)

lemma turn_step_then [io_intros]:
  assumes "keeps (extends open_turn) m" and f: "\<And>a. turn_step over (f a)"
  shows "turn_step over (then_do m f)"
  unfolding turn_step_def
proof (intro allI impI)
  fix s r' u assume run: "then_do m f s = (r', u)"
  obtain r t where m: "m s = (r, t)" by (cases "m s")
  then have st: "extends open_turn s t" using assms(1) by (metis keeps_def snd_conv)
  show "if ends_turn over r' then completes s u else extends open_turn s u"
  proof (cases r)
    case (Inl e)
    with m st run show ?thesis by (auto simp: then_do_def)
  next
    case (Inr a)
    with m run have "f a t = (r', u)" by (simp add: then_do_def)
    then have "if ends_turn over r' then completes t u else extends open_turn t u"
      using f [of a] by (simp add: turn_step_def)
    with st show ?thesis by (auto split: if_splits intro: extends_completes grows.trans)
  qed
qed

lemma turn_step_finish [io_intros]: "\<not> over a \<Longrightarrow> turn_step over (finish a)"
  by (simp add: turn_step_def finish_def grows.refl)

lemma turn_step_give_up [io_intros]: "turn_step over (give_up e)"
  by (simp add: turn_step_def give_up_def grows.refl)

lemma turn_step_complete [io_intros]:
  "over a \<Longrightarrow> turn_step over (then_do (emit_event (Completed reason)) (\<lambda>_. finish a))"
  by (auto simp: turn_step_def then_do_def emit_event_def finish_def completes_def extends_def)

lemma turn_step_inspect [io_intros]: "(\<And>s. turn_step over (f s)) \<Longrightarrow> turn_step over (inspect f)"
  by (simp add: turn_step_def inspect_def)

lemma turn_step_option [io_intros]:
  "turn_step over a \<Longrightarrow> (\<And>y. x = Some y \<Longrightarrow> turn_step over (f y)) \<Longrightarrow>
     turn_step over (case x of None \<Rightarrow> a | Some y \<Rightarrow> f y)"
  by (simp split: option.split)

lemma turn_step_if [io_intros]: "turn_step over a \<Longrightarrow> turn_step over b \<Longrightarrow> turn_step over (if c then a else b)"
  by simp

lemma turn_step_loop:
  assumes "turn_step (\<lambda>over. over) m" and rest: "turn_step (\<lambda>_. True) rest"
  shows "turn_step (\<lambda>_. True) (then_do m (\<lambda>over. if over then finish () else rest))"
  unfolding turn_step_def
proof (intro allI impI)
  fix s r' u assume run: "then_do m (\<lambda>over. if over then finish () else rest) s = (r', u)"
  obtain r t where m: "m s = (r, t)" by (cases "m s")
  then have st: "if ends_turn (\<lambda>over. over) r then completes s t else extends open_turn s t"
    using assms(1) by (simp add: turn_step_def)
  show "if ends_turn (\<lambda>_. True) r' then completes s u else extends open_turn s u"
  proof (cases r)
    case (Inl e)
    with m st run show ?thesis by (auto simp: then_do_def)
  next
    case (Inr over)
    show ?thesis
    proof (cases over)
      case True
      with Inr m st run show ?thesis by (auto simp: then_do_def finish_def)
    next
      case False
      with Inr m run have "rest t = (r', u)" by (simp add: then_do_def)
      then have "if ends_turn (\<lambda>_. True) r' then completes t u else extends open_turn t u"
        using rest by (simp add: turn_step_def)
      with st False Inr show ?thesis by (auto split: if_splits intro: extends_completes grows.trans)
    qed
  qed
qed

section \<open>Sound faults\<close>

text \<open>A fault marked retryable is of one of the three transient kinds.\<close>

fun sound_fault :: "provider_execution_error \<Rightarrow> bool" where
  "sound_fault (ProviderFault kind retryable _ _ _) = (retryable \<longrightarrow> kind \<in> {RateLimited, Timeout, Unavailable})"
| "sound_fault _ = True"

lemma sound_provider_error [simp]:
  "sound_fault (provider_error kind retryable status message) \<longleftrightarrow>
     (retryable \<longrightarrow> kind \<in> {RateLimited, Timeout, Unavailable})"
  by (simp add: provider_error_def)

lemma sound_protocol_error [simp]: "sound_fault (protocol_error message)" "sound_fault (capability_error message)"
  by (simp_all add: protocol_error_def capability_error_def)

lemma sound_http_error [simp]: "sound_fault (classify_http_error ext response credential)"
  by (auto simp: classify_http_error_def http_error_kind_def Let_def split: prod.split)

lemma sound_transport_error [simp]: "sound_fault (classify_transport_error t c error)"
  by (simp add: classify_transport_error_def Let_def)

lemma fails_with_emit [io_intros]: "fails_with sound_fault (emit_event event)"
  by (auto simp: fails_with_def emit_event_def)

section \<open>The contract of an adapter\<close>

text \<open>
  What the loop of an adapter has to keep: a handled event ends the turn exactly when it delivered the one \<open>Completed\<close>
  event, and no error claims to be retryable without a transient kind. The loop and the exchange around it then keep it.
\<close>

locale provider_turn =
  fixes handler :: "string \<Rightarrow> string \<Rightarrow> ('a sink_scheme, provider_execution_error, bool) io"
    and at_end :: "('a sink_scheme, provider_execution_error, unit) io"
  assumes handler_turn: "turn_step (\<lambda>over. over) (handler name data)"
    and at_end_turn: "turn_step (\<lambda>_. True) at_end"
    and handler_fault: "fails_with sound_fault (handler name data)"
    and at_end_fault: "fails_with sound_fault at_end"
begin

lemma drive_turn: "turn_step (\<lambda>_. True) (drive handler at_end items)"
proof (induction items)
  case Nil
  show ?case by (simp add: at_end_turn)
next
  case (Cons item items)
  then show ?case
    by (cases item) (simp_all add: turn_step_give_up turn_step_loop handler_turn)
qed

lemma drive_fault: "fails_with sound_fault (drive handler at_end items)"
proof (induction items)
  case Nil
  show ?case by (simp add: at_end_fault)
next
  case (Cons item items)
  then show ?case
    by (cases item) (auto intro!: io_intros handler_fault)
qed

lemma converse_turn: "turn_step (\<lambda>_. True) (converse ext handler at_end credential x)"
  by (auto simp: converse_def drive_turn turn_step_give_up split: exchange.split)

lemma converse_fault: "fails_with sound_fault (converse ext handler at_end credential x)"
  by (auto simp: converse_def drive_fault split: exchange.split intro!: io_intros)

end

text \<open>
  The further contract of an adapter that knows when the turn asked for a Tool: what it delivers is recorded, and the turn
  does not end with \<open>Stop\<close> once a Tool call is recorded.
\<close>

definition records_tools :: "('a sink_scheme \<Rightarrow> bool) \<Rightarrow> 'a sink_scheme \<Rightarrow> 'a sink_scheme \<Rightarrow> bool" where
  "records_tools seen s s' \<longleftrightarrow>
     (\<exists>es. delivered s' = delivered s @ es \<and> (seen s \<or> list_ex is_tool_event es \<longrightarrow> seen s'))"

interpretation records: progress "records_tools seen" for seen :: "'a sink_scheme \<Rightarrow> bool"
proof
  show "records_tools seen s s" for s by (simp add: records_tools_def)
  show "records_tools seen s u" if "records_tools seen s t" "records_tools seen t u" for s t u
    using that by (auto simp: records_tools_def)
qed

lemma keeps_records_emit:
  assumes "\<And>s d r. seen (s\<lparr>delivered := d, room := r\<rparr>) = seen s" and "\<not> is_tool_event event"
  shows "keeps (records_tools seen) (emit_event event)"
  using assms by (auto simp: keeps_def emit_event_def records_tools_def)

lemma keeps_records_update:
  "(\<And>s. delivered (f s) = delivered s) \<Longrightarrow> (\<And>s. seen s \<Longrightarrow> seen (f s)) \<Longrightarrow> keeps (records_tools seen) (update f)"
  by (auto simp: keeps_def update_def records_tools_def)

definition honest_stop :: "('a sink_scheme \<Rightarrow> bool) \<Rightarrow> ('r \<Rightarrow> bool) \<Rightarrow> ('a sink_scheme, 'e, 'r) io \<Rightarrow> bool" where
  "honest_stop seen over m \<longleftrightarrow>
     (\<forall>s r s'. m s = (r, s') \<longrightarrow> ends_turn over r \<longrightarrow> last (delivered s') = Completed Stop \<longrightarrow> \<not> seen s')"

locale tool_aware_turn = provider_turn +
  fixes seen :: "'a sink_scheme \<Rightarrow> bool"
  assumes handler_records: "keeps (records_tools seen) (handler name data)"
    and at_end_records: "keeps (records_tools seen) at_end"
    and handler_honest: "honest_stop seen (\<lambda>over. over) (handler name data)"
    and at_end_honest: "honest_stop seen (\<lambda>_. True) at_end"
begin

lemma drive_stop:
  "drive handler at_end items s = (Inr (), s') \<Longrightarrow>
     records_tools seen s s' \<and> (last (delivered s') = Completed Stop \<longrightarrow> \<not> seen s')"
proof (induction items arbitrary: s)
  case Nil
  with at_end_records have "records_tools seen s s'" by (simp add: keeps_def) (metis snd_conv)
  with Nil at_end_honest show ?case by (simp add: honest_stop_def)
next
  case (Cons item items)
  then obtain name data where item: "item = SseEvent name data"
    by (cases item) (simp_all add: give_up_def)
  obtain r t where h: "handler name data s = (r, t)" by (cases "handler name data s")
  then have st: "records_tools seen s t" using handler_records by (metis keeps_def snd_conv)
  from Cons.prems item h obtain over where r: "r = Inr over" by (cases r) (simp_all add: then_do_def)
  show ?case
  proof (cases over)
    case True
    with Cons.prems item h r have t: "t = s'" by (simp add: then_do_def finish_def)
    have "last (delivered s') = Completed Stop \<longrightarrow> \<not> seen s'"
      using handler_honest h r True t by (simp add: honest_stop_def)
    with st t show ?thesis by simp
  next
    case False
    with Cons.prems item h r have "drive handler at_end items t = (Inr (), s')" by (simp add: then_do_def)
    from Cons.IH [OF this] st show ?thesis using records.trans by blast
  qed
qed

lemma converse_stop:
  assumes "converse ext handler at_end credential x s = (Inr (), s')"
    and "delivered s' = delivered s @ es @ [Completed Stop]"
  shows "\<not> list_ex is_tool_event es"
proof -
  from assms(1) obtain response :: http_response where "drive handler at_end (hr_stream response) s = (Inr (), s')"
    by (cases x) (auto simp: converse_def give_up_def split: if_splits)
  from drive_stop [OF this] assms(2) show ?thesis by (auto simp: records_tools_def)
qed

end

section \<open>Lemmas on the price\<close>

lemma unat_ucast_128 [simp]: "unat (ucast (w :: u64) :: u128) = unat w"
  by (simp add: unsigned_ucast_eq take_bit_nat_eq_self_iff unsigned_less [THEN less_le_trans])

text \<open>The price of a turn in natural numbers, before it is rounded up to a micro.\<close>

definition turn_price :: "u64 \<Rightarrow> u64 \<Rightarrow> u64 \<Rightarrow> provider_pricing \<Rightarrow> nat" where
  "turn_price input_tokens output_tokens cached_input_tokens pricing =
     (unat input_tokens - unat cached_input_tokens) * unat (input_million_tokens_micros pricing)
     + unat cached_input_tokens * unat (or_default (input_million_tokens_micros pricing)
         (cached_input_million_tokens_micros pricing))
     + unat output_tokens * unat (output_million_tokens_micros pricing)"

lemma unat_saturating_sub: "unat (saturating_sub a b) = unat a - unat b"
  by (auto simp: saturating_sub_def word_le_nat_alt unat_sub)

lemma unat_add_128: "unat a + unat b < 2 ^ 128 \<Longrightarrow> unat (a + b :: u128) = unat a + unat b"
  by (simp add: unat_word_ariths)

lemma unat_mult_128: "unat a * unat b < 2 ^ 128 \<Longrightarrow> unat (a * b :: u128) = unat a * unat b"
  by (simp add: unat_word_ariths)

lemma unat_minus_one_64: "unat (- 1 :: u64) = 2 ^ 64 - 1"
  by (simp add: unsigned_minus_1_eq_mask mask_eq_exp_minus_1)

lemma calculate_cost_nat:
  assumes "turn_price i out c p + 999999 < 2 ^ 128"
  shows "unat (calculate_cost i out c p) = min ((turn_price i out c p + 999999) div 1000000) (2 ^ 64 - 1)"
proof -
  let ?rate = "or_default (input_million_tokens_micros p) (cached_input_million_tokens_micros p)"
  let ?total = "(ucast (saturating_sub i c) :: u128) * ucast (input_million_tokens_micros p)
     + ucast c * ucast ?rate + ucast out * ucast (output_million_tokens_micros p)"
  have total: "unat ?total = turn_price i out c p"
    using assms by (simp add: turn_price_def unat_add_128 unat_mult_128 unat_saturating_sub)
  have "unat (saturating_add ?total 999999 div 1000000) = (turn_price i out c p + 999999) div 1000000"
    using assms total by (simp add: unat_div unat_saturating_add)
  moreover have "calculate_cost i out c p =
      (let r = saturating_add ?total 999999 div 1000000 in if unat r < 2 ^ 64 then ucast r else - 1)"
    by (simp add: calculate_cost_def or_default_def Let_def)
  ultimately show ?thesis
    by (auto simp: Let_def unat_minus_one_64 unsigned_ucast_eq take_bit_nat_eq_self_iff min_def)
qed

section \<open>Lemmas on prepared requests\<close>

text \<open>The private states a request carries.\<close>

fun part_states :: "content_part \<Rightarrow> provider_private_state list" where
  "part_states (PartReasoning _ (Some state)) = [state]"
| "part_states _ = []"

definition request_states :: "model_request \<Rightarrow> provider_private_state list" where
  "request_states request = concat (map (\<lambda>m. concat (map part_states (msg_content m))) (mr_messages request))"

definition meant_for :: "string \<Rightarrow> string \<Rightarrow> string \<Rightarrow> provider_private_state \<Rightarrow> bool" where
  "meant_for provider_id protocol model state \<longleftrightarrow>
     pps_provider_id state = provider_id \<and> pps_protocol state = protocol \<and> pps_model state = model"

definition omission :: "string \<Rightarrow> provider_private_state \<Rightarrow> model_stream_event" where
  "omission provider_id state = PrivateStateOmitted (pps_provider_id state) provider_id (pps_format state)"

lemma prepare_part_states:
  assumes "prepare_part i pr m part = Inr (part', omitted)"
  shows "part_states part' = filter (meant_for i pr m) (part_states part) \<and>
    omitted = map (omission i) (filter (\<lambda>s. \<not> meant_for i pr m s) (part_states part))"
  using assms by (cases "(i, pr, m, part)" rule: prepare_part.cases)
    (auto simp: meant_for_def omission_def split: if_splits)

lemma collect_states:
  assumes "list_all2 (\<lambda>x y. f x = Inr y) xs ys"
    and "\<And>x y. f x = Inr y \<Longrightarrow> states' (fst y) = filter P (states x) \<and> snd y = map om (filter (\<lambda>s. \<not> P s) (states x))"
  shows "concat (map states' (map fst ys)) = filter P (concat (map states xs)) \<and>
    concat (map snd ys) = map om (filter (\<lambda>s. \<not> P s) (concat (map states xs)))"
  using assms(1) by (induction rule: list_all2_induct) (simp_all add: assms(2))

lemma prepare_message_states:
  assumes "prepare_message i pr m msg = Inr (msg', omitted)"
  shows "concat (map part_states (msg_content msg')) = filter (meant_for i pr m) (concat (map part_states (msg_content msg))) \<and>
    omitted = map (omission i) (filter (\<lambda>s. \<not> meant_for i pr m s) (concat (map part_states (msg_content msg))))"
proof -
  from assms obtain ys where ys: "list_all2 (\<lambda>x y. prepare_part i pr m x = Inr y) (msg_content msg) ys"
    "msg' = msg\<lparr>msg_content := map fst ys\<rparr>" "omitted = concat (map snd ys)"
    by (auto simp: prepare_message_def collect_results_Inr split: sum.splits)
  have "part_states (fst y) = filter (meant_for i pr m) (part_states x) \<and>
      snd y = map (omission i) (filter (\<lambda>s. \<not> meant_for i pr m s) (part_states x))"
    if "prepare_part i pr m x = Inr y" for x y
    using prepare_part_states [of i pr m x "fst y" "snd y"] that by simp
  from collect_states [OF ys(1) this] ys(2,3) show ?thesis by simp
qed

lemma prepare_request_states:
  assumes "prepare_request_for_provider request i pr m = Inr (request', omitted)"
  shows "request_states request' = filter (meant_for i pr m) (request_states request) \<and>
    omitted = map (omission i) (filter (\<lambda>s. \<not> meant_for i pr m s) (request_states request))"
proof -
  let ?st = "\<lambda>m. concat (map part_states (msg_content m))"
  from assms obtain ys where ys: "list_all2 (\<lambda>x y. prepare_message i pr m x = Inr y) (mr_messages request) ys"
    "request' = request\<lparr>mr_messages := map fst ys\<rparr>" "omitted = concat (map snd ys)"
    by (auto simp: prepare_request_for_provider_def collect_results_Inr split: sum.splits)
  have "?st (fst y) = filter (meant_for i pr m) (?st x) \<and>
      snd y = map (omission i) (filter (\<lambda>s. \<not> meant_for i pr m s) (?st x))"
    if "prepare_message i pr m x = Inr y" for x y
    using prepare_message_states [of i pr m x "fst y" "snd y"] that by simp
  from collect_states [OF ys(1) this] ys(2,3) show ?thesis by (simp add: request_states_def)
qed

section \<open>Lemmas on redaction\<close>

lemma prefix_of_replaced:
  "hd into \<notin> set p \<Longrightarrow> into \<noteq> [] \<Longrightarrow> prefix p (replace_in pat into s) \<Longrightarrow> prefix p s"
proof (induction pat into s arbitrary: p rule: replace_in.induct)
  case (2 pat into c cs)
  show ?case
  proof (cases p)
    case (Cons x xs)
    have "\<not> (pat \<noteq> [] \<and> prefix pat (c # cs))"
    proof
      assume "pat \<noteq> [] \<and> prefix pat (c # cs)"
      with 2(4,5) Cons have "x = hd into" by (cases into) simp_all
      with 2(3) Cons show False by simp
    qed
    with 2 Cons show ?thesis by simp
  qed simp
qed simp

lemma sublist_after:
  assumes "last into \<notin> set pat" and "\<not> sublist pat into" and "\<not> sublist pat rest"
  shows "\<not> sublist pat (into @ rest)"
proof
  assume "sublist pat (into @ rest)"
  with assms(2,3) obtain p q where pq: "pat = p @ q" "suffix p into" "prefix q rest" by (auto simp: sublist_append)
  show False
  proof (cases "p = []")
    case True
    with pq assms(3) show False by simp
  next
    case False
    with pq(2) have "last p = last into" by (auto simp: suffix_def)
    with False pq(1) assms(1) show False by (metis Un_iff last_in_set set_append)
  qed
qed

lemma replaced_not_sublist:
  assumes "pat \<noteq> []" and "hd into \<notin> set pat" and "last into \<notin> set pat" and "into \<noteq> []" and "\<not> sublist pat into"
  shows "\<not> sublist pat (replace_in pat into s)"
proof (induction "length s" arbitrary: s rule: less_induct)
  case less
  show ?case
  proof (cases s)
    case Nil
    with assms(1) show ?thesis by simp
  next
    case (Cons c cs)
    show ?thesis
    proof (cases "prefix pat (c # cs)")
      case True
      have "\<not> sublist pat (replace_in pat into (drop (length pat) (c # cs)))"
        using assms(1) Cons by (intro less) (cases pat, simp_all)
      with sublist_after [OF assms(3,5)] True assms(1) Cons show ?thesis by simp
    next
      case False
      have "\<not> sublist pat (replace_in pat into cs)" using Cons by (intro less) simp
      moreover have "\<not> prefix pat (replace_in pat into s)"
        using prefix_of_replaced [of into pat pat s] assms(2,4) False Cons by blast
      ultimately show ?thesis using False Cons by (simp add: sublist_Cons_right)
    qed
  qed
qed

lemma replace_in_absent: "\<not> sublist pat s \<Longrightarrow> replace_in pat into s = s"
  by (induction pat into s rule: replace_in.induct) (auto simp: sublist_Cons_right)

definition hidable :: "string \<Rightarrow> bool" where
  "hidable secret \<longleftrightarrow> \<not> is_blank secret \<and> CHR ''['' \<notin> set secret \<and> CHR '']'' \<notin> set secret \<and> \<not> sublist secret ''[REDACTED]''"

lemma redact_hides: "hidable secret \<Longrightarrow> \<not> sublist secret (redact (ProviderCredential secret) message)"
  using replaced_not_sublist [of secret "''[REDACTED]''" message] not_blank_nonempty [of secret]
  by (simp add: hidable_def redact_def str_replace_def)

lemma take_chars_ascii: "is_ascii s \<Longrightarrow> take_chars n s = take n s"
  by (simp add: take_chars_def chars_ascii take_map concat_map_singleton)

lemma truncated_not_sublist:
  assumes "CHR ''.'' \<notin> set secret" and "k < length secret"
  shows "\<not> sublist secret (replicate n (CHR ''.'') @ take k secret)"
proof -
  have ne: "secret \<noteq> []" using assms(2) by auto
  have "\<not> sublist secret (take k secret)" using assms(2) sublist_length_le by fastforce
  moreover have "\<not> sublist secret (replicate n (CHR ''.''))"
    using ne assms(1) by (metis hd_in_set in_set_replicate set_mono_sublist subsetD)
  moreover have "p = []" if "secret = p @ q" "suffix p (replicate n (CHR ''.''))" for p q
    using that assms(1) set_mono_suffix [OF that(2)] by (cases p) auto
  moreover have "\<not> prefix secret (take k secret)" using assms(2) prefix_length_le by fastforce
  ultimately show ?thesis unfolding sublist_append by (metis append_Nil)
qed

section \<open>Properties\<close>

text \<open>
  The price of a turn is exact. As long as no rate reaches \<open>2^62\<close> the sum does not overflow 128 bits, and the cost is
  the price of the fresh, the cached and the produced tokens, rounded up to a whole micro and capped at the largest 64-bit
  number; a cached token is charged once, at the cached rate if there is one.
\<close>

theorem calculate_cost_exact:
  assumes "input_million_tokens_micros p < 2 ^ 62" and "output_million_tokens_micros p < 2 ^ 62"
    and "or_default 0 (cached_input_million_tokens_micros p) < 2 ^ 62"
  shows "unat (calculate_cost i out c p) = min ((turn_price i out c p + 999999) div 1000000) (2 ^ 64 - 1)"
proof (rule calculate_cost_nat)
  let ?rate = "or_default (input_million_tokens_micros p) (cached_input_million_tokens_micros p)"
  have bound: "unat a * unat r \<le> (2 ^ 64 - 1) * (2 ^ 62 - 1)" if "r < 2 ^ 62" for a r :: u64
    using that unsigned_less [of a, where 'a = nat] by (intro mult_le_mono) (simp_all add: word_less_nat_alt)
  have "?rate < 2 ^ 62"
    using assms(1,3) by (simp add: or_default_def split: option.splits)
  moreover have "unat i - unat c \<le> unat i" by simp
  then have "(unat i - unat c) * unat (input_million_tokens_micros p) \<le> (2 ^ 64 - 1) * (2 ^ 62 - 1)"
    using bound [OF assms(1), of i] mult_le_mono1 order_trans by blast
  ultimately show "turn_price i out c p + 999999 < 2 ^ 128"
    using bound [OF assms(2), of out] bound [of ?rate c] unfolding turn_price_def by simp
qed

text \<open>A part, a message and a request without their private states.\<close>

fun bare_part :: "content_part \<Rightarrow> content_part" where
  "bare_part (PartReasoning summary _) = PartReasoning summary None"
| "bare_part part = part"

definition bare_message :: "message \<Rightarrow> message" where
  "bare_message m = m\<lparr>msg_content := map bare_part (msg_content m)\<rparr>"

definition bare_request :: "model_request \<Rightarrow> model_request" where
  "bare_request request = request\<lparr>mr_messages := map bare_message (mr_messages request)\<rparr>"

lemma prepare_part_bare: "prepare_part i pr m part = Inr out \<Longrightarrow> bare_part (fst out) = bare_part part"
  by (induction i pr m part rule: prepare_part.induct) (auto split: if_splits)

lemma prepared_bare:
  assumes "collect_results f xs = Inr ys" and "\<And>x y. f x = Inr y \<Longrightarrow> bare (fst y) = bare x"
  shows "map bare (map fst ys) = map bare xs"
  using assms(1) unfolding collect_results_Inr by (induction rule: list_all2_induct) (auto dest: assms(2))

lemma prepare_message_bare:
  assumes "prepare_message i pr m message = Inr out"
  shows "bare_message (fst out) = bare_message message"
proof -
  from assms obtain ys where ys: "collect_results (prepare_part i pr m) (msg_content message) = Inr ys"
    and out: "fst out = message\<lparr>msg_content := map fst ys\<rparr>"
    by (auto simp: prepare_message_def split: sum.splits)
  from prepared_bare [OF ys, where bare = bare_part] prepare_part_bare
  have "map bare_part (map fst ys) = map bare_part (msg_content message)" by blast
  then show ?thesis by (simp add: bare_message_def out)
qed

lemma prepare_request_bare:
  assumes "prepare_request_for_provider request i pr m = Inr (request', omitted)"
  shows "bare_request request' = bare_request request"
proof -
  from assms obtain ys where ys: "collect_results (prepare_message i pr m) (mr_messages request) = Inr ys"
    and out: "request' = request\<lparr>mr_messages := map fst ys\<rparr>"
    by (auto simp: prepare_request_for_provider_def split: sum.splits)
  from prepared_bare [OF ys, where bare = bare_message] prepare_message_bare
  have "map bare_message (map fst ys) = map bare_message (mr_messages request)" by blast
  then show ?thesis by (simp add: bare_request_def out)
qed

text \<open>
  C25. Private state stays with its Provider. Of the Provider-private states a request carries, the prepared request keeps
  exactly those that name the target Provider, its protocol and its model, in order; one audit event is produced for each
  of the others; and apart from private states the two requests are the same, message by message and part by part.
\<close>

theorem private_state_stays_with_provider:
  assumes "prepare_request_for_provider request i pr m = Inr (request', omitted)"
  shows "request_states request' = filter (meant_for i pr m) (request_states request) \<and>
    omitted = map (omission i) (filter (\<lambda>s. \<not> meant_for i pr m s) (request_states request)) \<and>
    bare_request request' = bare_request request"
  using prepare_request_states [OF assms] prepare_request_bare [OF assms] by blast

text \<open>
  An HTTP error does not show the credential. Whatever body the Provider sent, the message of the error does not
  contain a credential that has no square bracket and is not part of the replacement text.
\<close>

theorem http_error_hides_credential:
  assumes "hidable secret"
  shows "\<exists>kind retryable retry_after message.
    classify_http_error ext response (ProviderCredential secret) =
      ProviderFault kind retryable (Some (hr_status response)) retry_after message \<and>
    \<not> sublist secret message \<and> (retryable \<longrightarrow> kind \<in> {RateLimited, Timeout, Unavailable})"
proof -
  have "sound_fault (classify_http_error ext response (ProviderCredential secret))" by simp
  then show ?thesis
    using redact_hides [OF assms] by (auto simp: classify_http_error_def Let_def split: prod.splits)
qed

text \<open>
  The body is cut before it is redacted. A credential that lies across the 2048th character of an error body is cut by
  the truncation, is then no longer recognised, and its first characters are left in the message.
\<close>

theorem http_error_shows_cut_credential:
  assumes "is_ascii secret" and "CHR ''.'' \<notin> set secret" and "k < length secret" and "k \<le> 2048"
    and "hr_body response = Some (replicate (2048 - k) (CHR ''.'') @ secret)"
  shows "\<exists>kind retryable retry_after message.
    classify_http_error ext response (ProviderCredential secret) =
      ProviderFault kind retryable (Some (hr_status response)) retry_after message \<and>
    suffix (take k secret) message"
proof -
  let ?dots = "replicate (2048 - k) (CHR ''.'')"
  have "is_ascii (?dots @ secret)" using assms(1) by (auto simp: is_ascii_def)
  then have "take_chars 2048 (?dots @ secret) = ?dots @ take k secret" using assms(4) by (simp add: take_chars_ascii)
  moreover have "redact (ProviderCredential secret) (?dots @ take k secret) = ?dots @ take k secret"
    using truncated_not_sublist [OF assms(2,3)] assms(3)
    by (auto simp: redact_def str_replace_def replace_in_absent)
  ultimately show ?thesis
    using assms(5) by (auto simp: classify_http_error_def or_default_def Let_def suffix_def split: prod.splits)
qed

section \<open>Instances\<close>

definition sample_gateway :: gateway_externals where
  "sample_gateway =
     \<lparr>gx_from_str = (\<lambda>_. Inl ''unsupported''), gx_to_string = (\<lambda>_. ''{}''),
      gx_url_parse = (\<lambda>_. Inr \<lparr>url_scheme = ''https'', url_username = [], url_password = None\<rparr>),
      gx_client_build = Inr (), gx_rfc2822_remaining_ms = (\<lambda>_. None)\<rparr>"

theorem calculate_cost_exact_witness:
  "unat (calculate_cost 1000 500 400 \<lparr>input_million_tokens_micros = 3000000, output_million_tokens_micros = 15000000,
     cached_input_million_tokens_micros = Some 300000\<rparr>) = 9420"
  by (subst calculate_cost_exact) (simp_all add: or_default_def turn_price_def)

definition sample_state :: provider_private_state where
  "sample_state = \<lparr>pps_provider_id = ''p'', pps_protocol = ''openai_responses'', pps_model = ''m'', pps_format = ''f'',
     pps_data = ''d''\<rparr>"

definition sample_model_request :: model_request where
  "sample_model_request =
     \<lparr>mr_messages = [\<lparr>msg_role = AssistantRole, msg_content = [PartReasoning [''thought''] (Some sample_state)]\<rparr>],
      mr_tools = [], mr_output_schema = None, mr_reasoning = Balanced, mr_max_output_tokens = 100\<rparr>"

lemma sample_state_well_formed: "private_state_is_well_formed sample_state"
proof -
  have "\<not> is_blank ''p''" "\<not> is_blank ''openai_responses''" "\<not> is_blank ''m''" "\<not> is_blank ''f''" by code_simp+
  then show ?thesis by (simp add: private_state_is_well_formed_def sample_state_def)
qed

theorem private_state_stays_with_provider_witness:
  "\<exists>request'. prepare_request_for_provider sample_model_request ''q'' ''openai_responses'' ''m'' =
      Inr (request', [PrivateStateOmitted ''p'' ''q'' ''f'']) \<and> request_states request' = []"
proof -
  obtain request' where r: "prepare_request_for_provider sample_model_request ''q'' ''openai_responses'' ''m'' =
      Inr (request', [PrivateStateOmitted ''p'' ''q'' ''f''])"
    using sample_state_well_formed
    by (simp add: prepare_request_for_provider_def prepare_message_def sample_model_request_def) (simp add: sample_state_def)
  from private_state_stays_with_provider [OF r] have "request_states request' = []"
    by (simp add: request_states_def sample_model_request_def meant_for_def sample_state_def)
  with r show ?thesis by blast
qed

theorem http_error_hides_credential_witness:
  "\<exists>kind retryable retry_after message.
    classify_http_error sample_gateway \<lparr>hr_status = 429, hr_retry_after = Some ''2'', hr_body = Some ''key sk-1 is slow'',
      hr_stream = []\<rparr> (ProviderCredential ''sk-1'') = ProviderFault kind retryable (Some 429) retry_after message \<and>
    \<not> sublist ''sk-1'' message"
proof -
  have "hidable ''sk-1''" by code_simp
  from http_error_hides_credential [OF this, of sample_gateway "\<lparr>hr_status = 429, hr_retry_after = Some ''2'',
      hr_body = Some ''key sk-1 is slow'', hr_stream = []\<rparr>"]
  show ?thesis by auto
qed

theorem http_error_shows_cut_credential_witness:
  "\<exists>kind retryable retry_after message.
    classify_http_error sample_gateway \<lparr>hr_status = 400, hr_retry_after = None,
      hr_body = Some (replicate 2042 (CHR ''.'') @ ''sk-12345''), hr_stream = []\<rparr> (ProviderCredential ''sk-12345'') =
      ProviderFault kind retryable (Some 400) retry_after message \<and> suffix ''sk-123'' message"
  using http_error_shows_cut_credential [of "''sk-12345''" 6 "\<lparr>hr_status = 400, hr_retry_after = None,
      hr_body = Some (replicate 2042 (CHR ''.'') @ ''sk-12345''), hr_stream = []\<rparr>" sample_gateway]
  by (simp add: is_ascii_def)

end
