(* ===== verification/Workload_Identity.thy ===== *)
theory Workload_Identity
  imports Text_Checks
begin

text \<open>
  The workload tokens of \<open>runtime/crates/workload-identity/src/lib.rs\<close>: the claims, the verification of a token against
  what a surface requires, and the binding of accepted claims to the identity a request asserts. The signature scheme,
  Base64 and the JSON reader are parameters; times are 64-bit two's complement milliseconds as in the source, and the
  subtraction of two of them wraps.

  The lemmas read an accepted token back: what was signed, which identity it names, how long it lives. A Run token and an
  operator token never authorise the same binding.
\<close>

section \<open>Claims\<close>

definition OPERATOR_SCHEMA_VERSION :: u32 where
  "OPERATOR_SCHEMA_VERSION = 5"

definition TOKEN_VERSION :: string where
  "TOKEN_VERSION = ''v2''"

definition MAX_TOKEN_LIFETIME_MS :: i64 where
  "MAX_TOKEN_LIFETIME_MS = 5 * 60 * 1000"

record workload_identity_binding =
  wb_tenant_id :: uuid
  wb_application_id :: uuid
  wb_workload_identity_id :: uuid
  wb_run_id :: uuid
  wb_session_id :: uuid
  wb_workspace_id :: uuid
  wb_agent_version_id :: uuid
  wb_attempt_id :: uuid
  wb_worker_id :: uuid
  wb_worker_incarnation_id :: uuid

record workload_identity_claims =
  wc_schema_version :: u32
  wc_tenant_id :: uuid
  wc_application_id :: uuid
  wc_workload_identity_id :: uuid
  wc_run_id :: uuid
  wc_session_id :: uuid
  wc_workspace_id :: uuid
  wc_agent_version_id :: uuid
  wc_attempt_id :: uuid
  wc_worker_id :: uuid
  wc_worker_incarnation_id :: uuid
  wc_model_policy_id :: uuid
  wc_model_policy_digest :: string
  wc_authorized_mcp_servers :: "(uuid, string) btree"
  wc_audiences :: "string list"
  wc_scopes :: "string list"
  wc_issued_at_unix_ms :: i64
  wc_expires_at_unix_ms :: i64

definition is_operator :: "workload_identity_claims \<Rightarrow> bool" where
  "is_operator claims \<longleftrightarrow> wc_schema_version claims = OPERATOR_SCHEMA_VERSION"

definition authorizes :: "workload_identity_claims \<Rightarrow> workload_identity_binding \<Rightarrow> bool" where
  "authorizes claims binding \<longleftrightarrow>
     wc_tenant_id claims = wb_tenant_id binding \<and>
     wc_application_id claims = wb_application_id binding \<and>
     wc_workload_identity_id claims = wb_workload_identity_id binding \<and>
     wc_run_id claims = wb_run_id binding \<and>
     wc_session_id claims = wb_session_id binding \<and>
     wc_workspace_id claims = wb_workspace_id binding \<and>
     wc_agent_version_id claims = wb_agent_version_id binding \<and>
     wc_attempt_id claims = wb_attempt_id binding \<and>
     wc_worker_id claims = wb_worker_id binding \<and>
     wc_worker_incarnation_id claims = wb_worker_incarnation_id binding"

definition binding_of_claims :: "workload_identity_claims \<Rightarrow> workload_identity_binding" where
  "binding_of_claims claims =
     \<lparr>wb_tenant_id = wc_tenant_id claims, wb_application_id = wc_application_id claims,
      wb_workload_identity_id = wc_workload_identity_id claims, wb_run_id = wc_run_id claims,
      wb_session_id = wc_session_id claims, wb_workspace_id = wc_workspace_id claims,
      wb_agent_version_id = wc_agent_version_id claims, wb_attempt_id = wc_attempt_id claims,
      wb_worker_id = wc_worker_id claims, wb_worker_incarnation_id = wc_worker_incarnation_id claims\<rparr>"

section \<open>What a surface requires\<close>

datatype required_identity_shape = Execution | Operator

record required_capability =
  rc_audience :: string
  rc_scope :: string
  rc_require_incarnation :: bool
  rc_shape :: required_identity_shape

definition required_capability_new :: "string \<Rightarrow> string \<Rightarrow> bool \<Rightarrow> required_capability" where
  "required_capability_new audience scope require_incarnation =
     \<lparr>rc_audience = audience, rc_scope = scope, rc_require_incarnation = require_incarnation, rc_shape = Execution\<rparr>"

definition required_capability_operator :: "string \<Rightarrow> string \<Rightarrow> required_capability" where
  "required_capability_operator audience scope =
     \<lparr>rc_audience = audience, rc_scope = scope, rc_require_incarnation = False, rc_shape = Operator\<rparr>"

datatype workload_token_error =
  InvalidFormat | InvalidSignature | InvalidClaims | MissingCapability | InvalidLifetime | WrongIdentityShape

datatype verifier_configuration_error = InvalidBase64 | InvalidLength | InvalidKey

text \<open>The signature scheme and the JSON reader of the claims.\<close>

record token_externals =
  te_key_from_bytes :: "u8 list \<Rightarrow> u8 list option"
  te_signature_from_slice :: "u8 list \<Rightarrow> u8 list option"
  te_verify_strict :: "u8 list \<Rightarrow> u8 list \<Rightarrow> u8 list \<Rightarrow> bool"
  te_claims_from_slice :: "u8 list \<Rightarrow> workload_identity_claims option"

record workload_token_verifier =
  wv_verifying_key :: "u8 list"

definition verifier_from_base64 ::
  "externals \<Rightarrow> token_externals \<Rightarrow> string \<Rightarrow> (verifier_configuration_error, workload_token_verifier) result" where
  "verifier_from_base64 ext te encoded =
     (case ext_base64_decode ext encoded of
        None \<Rightarrow> Inl InvalidBase64
      | Some bytes \<Rightarrow>
          if length bytes \<noteq> 32 then Inl InvalidLength
          else (case te_key_from_bytes te bytes of
                  None \<Rightarrow> Inl InvalidKey
                | Some key \<Rightarrow> Inr \<lparr>wv_verifying_key = key\<rparr>))"

section \<open>Verification\<close>

definition legacy_invocation_fields_are_empty :: "workload_identity_claims \<Rightarrow> bool" where
  "legacy_invocation_fields_are_empty c \<longleftrightarrow>
     is_nil (wc_application_id c) \<and> is_nil (wc_workload_identity_id c) \<and> is_nil (wc_session_id c) \<and>
     is_nil (wc_workspace_id c) \<and> is_nil (wc_agent_version_id c) \<and> wc_authorized_mcp_servers c = []"

definition valid_policy_binding :: "workload_identity_claims \<Rightarrow> bool" where
  "valid_policy_binding c =
     (if wc_schema_version c = 2
      then wc_model_policy_digest c = [] \<and> legacy_invocation_fields_are_empty c
      else if wc_schema_version c = 3
      then is_lower_hex_sha256 (wc_model_policy_digest c) \<and> legacy_invocation_fields_are_empty c
      else if wc_schema_version c = 4
      then is_lower_hex_sha256 (wc_model_policy_digest c) \<and> \<not> is_nil (wc_application_id c) \<and>
           \<not> is_nil (wc_workload_identity_id c) \<and> \<not> is_nil (wc_session_id c) \<and> \<not> is_nil (wc_workspace_id c) \<and>
           \<not> is_nil (wc_agent_version_id c) \<and> length (wc_authorized_mcp_servers c) \<le> 32 \<and>
           list_all (\<lambda>(server_id, digest). \<not> is_nil server_id \<and> is_lower_hex_sha256 digest) (wc_authorized_mcp_servers c)
      else if wc_schema_version c = OPERATOR_SCHEMA_VERSION
      then wc_model_policy_digest c = [] \<and> is_nil (wc_run_id c) \<and> is_nil (wc_attempt_id c) \<and>
           is_nil (wc_worker_id c) \<and> is_nil (wc_worker_incarnation_id c) \<and> is_nil (wc_model_policy_id c) \<and>
           is_nil (wc_session_id c) \<and> is_nil (wc_workspace_id c) \<and> is_nil (wc_agent_version_id c) \<and>
           wc_authorized_mcp_servers c = [] \<and> \<not> is_nil (wc_application_id c) \<and>
           \<not> is_nil (wc_workload_identity_id c)
      else False)"

definition run_identity_missing :: "workload_identity_claims \<Rightarrow> bool" where
  "run_identity_missing c \<longleftrightarrow>
     is_nil (wc_run_id c) \<or> is_nil (wc_attempt_id c) \<or> is_nil (wc_worker_id c) \<or> is_nil (wc_model_policy_id c)"

definition claims_are_invalid :: "required_capability \<Rightarrow> workload_identity_claims \<Rightarrow> bool" where
  "claims_are_invalid required c \<longleftrightarrow>
     is_nil (wc_tenant_id c) \<or> \<not> valid_policy_binding c \<or> (\<not> is_operator c \<and> run_identity_missing c) \<or>
     (\<not> is_operator c \<and> rc_require_incarnation required \<and> is_nil (wc_worker_incarnation_id c))"

definition lifetime_is_invalid :: "workload_identity_claims \<Rightarrow> i64 \<Rightarrow> bool" where
  "lifetime_is_invalid c now \<longleftrightarrow>
     sint (wc_issued_at_unix_ms c) > sint now \<or> sint (wc_expires_at_unix_ms c) \<le> sint now \<or>
     sint (wc_expires_at_unix_ms c - wc_issued_at_unix_ms c) > sint MAX_TOKEN_LIFETIME_MS"

definition shape_matches :: "required_capability \<Rightarrow> workload_identity_claims \<Rightarrow> bool" where
  "shape_matches required c = (case rc_shape required of Execution \<Rightarrow> \<not> is_operator c | Operator \<Rightarrow> is_operator c)"

definition check_claims ::
  "required_capability \<Rightarrow> i64 \<Rightarrow> workload_identity_claims \<Rightarrow> (workload_token_error, workload_identity_claims) result" where
  "check_claims required now claims =
     (if claims_are_invalid required claims then Inl InvalidClaims
      else if lifetime_is_invalid claims now then Inl InvalidLifetime
      else if rc_audience required \<notin> set (wc_audiences claims) \<or> rc_scope required \<notin> set (wc_scopes claims)
      then Inl MissingCapability
      else if \<not> shape_matches required claims then Inl WrongIdentityShape
      else Inr claims)"

definition verify ::
  "externals \<Rightarrow> token_externals \<Rightarrow> workload_token_verifier \<Rightarrow> string \<Rightarrow> required_capability \<Rightarrow> i64 \<Rightarrow>
   (workload_token_error, workload_identity_claims) result" where
  "verify ext te verifier token required now =
     (case split_on (CHR ''.'') token of
        [version, payload, signature] \<Rightarrow>
          if version \<noteq> TOKEN_VERSION then Inl InvalidFormat
          else (case ext_base64_url_decode ext signature of
              None \<Rightarrow> Inl InvalidSignature
            | Some signature_bytes \<Rightarrow>
                (case te_signature_from_slice te signature_bytes of
                   None \<Rightarrow> Inl InvalidSignature
                 | Some parsed \<Rightarrow>
                     if \<not> te_verify_strict te (wv_verifying_key verifier)
                          (as_bytes (TOKEN_VERSION @ ''.'' @ payload)) parsed
                     then Inl InvalidSignature
                     else (case ext_base64_url_decode ext payload of
                         None \<Rightarrow> Inl InvalidClaims
                       | Some bytes \<Rightarrow>
                           (case te_claims_from_slice te bytes of
                              None \<Rightarrow> Inl InvalidClaims
                            | Some claims \<Rightarrow> check_claims required now claims))))
      | _ \<Rightarrow> Inl InvalidFormat)"

section \<open>Reading an accepted token\<close>

lemma check_claims_Ok:
  "check_claims required now claims = Inr c \<longleftrightarrow>
     c = claims \<and> \<not> claims_are_invalid required claims \<and> \<not> lifetime_is_invalid claims now \<and>
     rc_audience required \<in> set (wc_audiences claims) \<and> rc_scope required \<in> set (wc_scopes claims) \<and>
     shape_matches required claims"
  by (auto simp: check_claims_def)

definition signed_by ::
  "externals \<Rightarrow> token_externals \<Rightarrow> workload_token_verifier \<Rightarrow> string \<Rightarrow> workload_identity_claims \<Rightarrow> bool" where
  "signed_by ext te verifier token claims \<longleftrightarrow>
     (\<exists>payload signature signature_bytes parsed bytes.
        token = ''v2.'' @ payload @ ''.'' @ signature \<and> CHR ''.'' \<notin> set payload \<and> CHR ''.'' \<notin> set signature \<and>
        ext_base64_url_decode ext signature = Some signature_bytes \<and>
        te_signature_from_slice te signature_bytes = Some parsed \<and>
        te_verify_strict te (wv_verifying_key verifier) (as_bytes (''v2.'' @ payload)) parsed \<and>
        ext_base64_url_decode ext payload = Some bytes \<and> te_claims_from_slice te bytes = Some claims)"

lemma verify_parts:
  "verify ext te verifier token required now = Inr c \<longleftrightarrow>
     (\<exists>claims. signed_by ext te verifier token claims \<and> check_claims required now claims = Inr c)"
proof
  assume ok: "verify ext te verifier token required now = Inr c"
  then obtain version payload signature where parts: "split_on (CHR ''.'') token = [version, payload, signature]"
    by (auto simp: verify_def split: list.splits)
  with ok obtain signature_bytes parsed bytes claims where
    "version = ''v2''" "ext_base64_url_decode ext signature = Some signature_bytes"
    "te_signature_from_slice te signature_bytes = Some parsed"
    "te_verify_strict te (wv_verifying_key verifier) (as_bytes (''v2.'' @ payload)) parsed"
    "ext_base64_url_decode ext payload = Some bytes" "te_claims_from_slice te bytes = Some claims"
    and c: "check_claims required now claims = Inr c"
    by (auto simp: verify_def TOKEN_VERSION_def split: if_splits option.splits)
  moreover have "token = version @ CHR ''.'' # payload @ CHR ''.'' # signature"
    "CHR ''.'' \<notin> set payload" "CHR ''.'' \<notin> set signature"
    using parts by (simp_all add: split_on_three)
  ultimately have "signed_by ext te verifier token claims"
    unfolding signed_by_def by (intro exI [of _ payload] exI [of _ signature] exI [of _ signature_bytes] exI [of _ parsed]
        exI [of _ bytes]) simp
  with c show "\<exists>claims. signed_by ext te verifier token claims \<and> check_claims required now claims = Inr c" by blast
next
  assume "\<exists>claims. signed_by ext te verifier token claims \<and> check_claims required now claims = Inr c"
  then obtain claims payload signature signature_bytes parsed bytes where
    token: "token = ''v2.'' @ payload @ ''.'' @ signature" "CHR ''.'' \<notin> set payload" "CHR ''.'' \<notin> set signature"
    and rest: "ext_base64_url_decode ext signature = Some signature_bytes"
      "te_signature_from_slice te signature_bytes = Some parsed"
      "te_verify_strict te (wv_verifying_key verifier) (as_bytes (''v2.'' @ payload)) parsed"
      "ext_base64_url_decode ext payload = Some bytes" "te_claims_from_slice te bytes = Some claims"
      "check_claims required now claims = Inr c"
    unfolding signed_by_def by blast
  have "split_on (CHR ''.'') token = [''v2'', payload, signature]"
    unfolding split_on_three using token by simp
  then show "verify ext te verifier token required now = Inr c"
    using rest by (simp add: verify_def TOKEN_VERSION_def)
qed

lemma verify_Ok:
  "verify ext te verifier token required now = Inr c \<longleftrightarrow>
     signed_by ext te verifier token c \<and> \<not> claims_are_invalid required c \<and> \<not> lifetime_is_invalid c now \<and>
     rc_audience required \<in> set (wc_audiences c) \<and> rc_scope required \<in> set (wc_scopes c) \<and> shape_matches required c"
  by (auto simp: verify_parts check_claims_Ok)

section \<open>The lifetime\<close>

lemma sint_i64_bounds: "- (2 ^ 63) \<le> sint (t :: i64)" "sint (t :: i64) < 2 ^ 63"
  using sint_ge [of t] sint_lt [of t] by simp_all

lemma sint_difference:
  fixes a b :: i64
  assumes "sint b \<le> sint a"
  shows "sint (a - b) = (if sint a - sint b < 2 ^ 63 then sint a - sint b else sint a - sint b - 2 ^ 64)"
proof -
  let ?d = "sint a - sint b"
  have d: "0 \<le> ?d" "?d < 2 ^ 64" using assms sint_i64_bounds [of a] sint_i64_bounds [of b] by simp_all
  have "sint (a - b) = signed_take_bit 63 ?d" by (simp add: sint_word_ariths)
  also have "\<dots> = (?d + 2 ^ 63) mod 2 ^ 64 - 2 ^ 63"
    by (simp add: signed_take_bit_eq_take_bit_shift take_bit_eq_mod)
  also have "\<dots> = (if ?d < 2 ^ 63 then ?d else ?d - 2 ^ 64)"
  proof (cases "?d < 2 ^ 63")
    case True
    then have "(?d + 2 ^ 63) mod 2 ^ 64 = ?d + 2 ^ 63" using d by (intro mod_pos_pos_trivial) simp_all
    with True show ?thesis by simp
  next
    case False
    then have "(?d + 2 ^ 63 - 2 ^ 64) mod 2 ^ 64 = ?d + 2 ^ 63 - 2 ^ 64"
      using d by (intro mod_pos_pos_trivial) simp_all
    moreover have "(?d + 2 ^ 63 - 2 ^ 64) mod 2 ^ 64 = (?d + 2 ^ 63) mod 2 ^ 64"
      by (rule minus_mod_self2)
    ultimately show ?thesis using False by simp
  qed
  finally show ?thesis .
qed

lemma lifetime_invalid_iff:
  "lifetime_is_invalid c now \<longleftrightarrow>
     \<not> (sint (wc_issued_at_unix_ms c) \<le> sint now \<and> sint now < sint (wc_expires_at_unix_ms c) \<and>
        (sint (wc_expires_at_unix_ms c) - sint (wc_issued_at_unix_ms c) \<le> 300000 \<or>
         2 ^ 63 \<le> sint (wc_expires_at_unix_ms c) - sint (wc_issued_at_unix_ms c)))"
proof (cases "sint (wc_issued_at_unix_ms c) \<le> sint now \<and> sint now < sint (wc_expires_at_unix_ms c)")
  case True
  have "sint MAX_TOKEN_LIFETIME_MS = 300000" by (simp add: MAX_TOKEN_LIFETIME_MS_def)
  with True show ?thesis
    using sint_difference [of "wc_issued_at_unix_ms c" "wc_expires_at_unix_ms c"]
      sint_i64_bounds [of "wc_issued_at_unix_ms c"] sint_i64_bounds [of "wc_expires_at_unix_ms c"]
    by (auto simp: lifetime_is_invalid_def)
next
  case False
  then show ?thesis by (auto simp: lifetime_is_invalid_def)
qed

section \<open>Run identities and operators\<close>

lemma execution_identity:
  assumes "\<not> claims_are_invalid required c" and "\<not> is_operator c"
  shows "\<not> is_nil (wc_tenant_id c)" "\<not> is_nil (wc_run_id c)" "\<not> is_nil (wc_attempt_id c)" "\<not> is_nil (wc_worker_id c)"
    "\<not> is_nil (wc_model_policy_id c)" "wc_schema_version c \<in> {2, 3, 4}"
  using assms
  by (auto simp: claims_are_invalid_def run_identity_missing_def valid_policy_binding_def is_operator_def
      split: if_splits)

lemma operator_identity:
  assumes "\<not> claims_are_invalid required c" and "is_operator c"
  shows "\<not> is_nil (wc_tenant_id c)" "is_nil (wc_run_id c)" "is_nil (wc_attempt_id c)" "is_nil (wc_worker_id c)"
    "wc_authorized_mcp_servers c = []" "\<not> is_nil (wc_application_id c)"
  using assms
  by (auto simp: claims_are_invalid_def valid_policy_binding_def is_operator_def OPERATOR_SCHEMA_VERSION_def)

text \<open>
  C35. A token a Run surface accepts and a token an operator surface accepts never stand for the same caller: the first
  names a tenant, Run, attempt, worker and model policy and carries a Run schema, the second names none of them, and no
  request identity is authorised by both. In each case the accepted claims are the ones under the signature, and the
  required audience and scope are among those signed.
\<close>
theorem identity_shapes_disjoint:
  assumes run: "verify ext te verifier token (required_capability_new audience scope incarnation) now = Inr c"
    and operator: "verify ext te verifier' token' (required_capability_operator audience' scope') now' = Inr d"
  shows "signed_by ext te verifier token c \<and> audience \<in> set (wc_audiences c) \<and> scope \<in> set (wc_scopes c) \<and>
    \<not> is_nil (wc_run_id c) \<and> \<not> is_nil (wc_attempt_id c) \<and> \<not> is_nil (wc_worker_id c) \<and>
    \<not> is_nil (wc_model_policy_id c) \<and> (incarnation \<longrightarrow> \<not> is_nil (wc_worker_incarnation_id c)) \<and>
    signed_by ext te verifier' token' d \<and> audience' \<in> set (wc_audiences d) \<and> scope' \<in> set (wc_scopes d) \<and>
    is_nil (wc_run_id d) \<and> is_nil (wc_attempt_id d) \<and> is_nil (wc_worker_id d) \<and>
    \<not> (authorizes c binding \<and> authorizes d binding)"
proof -
  have c: "\<not> claims_are_invalid (required_capability_new audience scope incarnation) c" "\<not> is_operator c"
    using run by (auto simp: verify_Ok shape_matches_def required_capability_new_def)
  have d: "\<not> claims_are_invalid (required_capability_operator audience' scope') d" "is_operator d"
    using operator by (auto simp: verify_Ok shape_matches_def required_capability_operator_def)
  have "incarnation \<longrightarrow> \<not> is_nil (wc_worker_incarnation_id c)"
    using c by (auto simp: claims_are_invalid_def required_capability_new_def)
  moreover have "\<not> (authorizes c binding \<and> authorizes d binding)"
    using execution_identity(2) [OF c] operator_identity(2) [OF d] by (auto simp: authorizes_def)
  ultimately show ?thesis
    using run operator execution_identity [OF c] operator_identity [OF d]
    by (simp add: verify_Ok required_capability_new_def required_capability_operator_def)
qed

text \<open>
  C36. A token is accepted only from its issue up to its expiry. The two are at most five minutes apart, or so far apart
  that their difference as a 64-bit number has wrapped around, which the comparison with the maximal lifetime does not
  notice.
\<close>
theorem token_lifetime_bounded:
  assumes "verify ext te verifier token required now = Inr c"
  shows "sint (wc_issued_at_unix_ms c) \<le> sint now \<and> sint now < sint (wc_expires_at_unix_ms c) \<and>
    (sint (wc_expires_at_unix_ms c) - sint (wc_issued_at_unix_ms c) \<le> 300000 \<or>
     2 ^ 63 \<le> sint (wc_expires_at_unix_ms c) - sint (wc_issued_at_unix_ms c))"
  using assms by (simp add: verify_Ok lifetime_invalid_iff)

section \<open>Instances\<close>

definition run_claims :: workload_identity_claims where
  "run_claims = \<lparr>wc_schema_version = 2, wc_tenant_id = 1, wc_application_id = 0, wc_workload_identity_id = 0, wc_run_id = 2,
     wc_session_id = 0, wc_workspace_id = 0, wc_agent_version_id = 0, wc_attempt_id = 3, wc_worker_id = 4,
     wc_worker_incarnation_id = 5, wc_model_policy_id = 6, wc_model_policy_digest = [], wc_authorized_mcp_servers = [],
     wc_audiences = [''model-gateway''], wc_scopes = [''model.execute''], wc_issued_at_unix_ms = 1000,
     wc_expires_at_unix_ms = 61000\<rparr>"

definition operator_claims :: workload_identity_claims where
  "operator_claims = run_claims\<lparr>wc_schema_version := 5, wc_application_id := 7, wc_workload_identity_id := 8, wc_run_id := 0,
     wc_attempt_id := 0, wc_worker_id := 0, wc_worker_incarnation_id := 0, wc_model_policy_id := 0,
     wc_scopes := [''mcp.oauth.admin'']\<rparr>"

definition endless_claims :: workload_identity_claims where
  "endless_claims = run_claims\<lparr>wc_issued_at_unix_ms := 2 ^ 63\<rparr>"

text \<open>Tokens whose payload is one letter that stands for the claims.\<close>

definition sample_token_externals :: token_externals where
  "sample_token_externals = \<lparr>te_key_from_bytes = Some, te_signature_from_slice = Some, te_verify_strict = (\<lambda>_ _ _. True),
     te_claims_from_slice = (\<lambda>bytes. if bytes = [1] then Some run_claims else if bytes = [2] then Some operator_claims
       else Some endless_claims)\<rparr>"

definition letter_externals :: externals where
  "letter_externals = sample_externals\<lparr>ext_base64_url_decode :=
     (\<lambda>s. Some (if s = ''a'' then [1] else if s = ''b'' then [2] else [3]))\<rparr>"

abbreviation sample_verifier :: workload_token_verifier where
  "sample_verifier \<equiv> \<lparr>wv_verifying_key = []\<rparr>"

lemma sample_tokens:
  "verify letter_externals sample_token_externals sample_verifier ''v2.a.s''
     (required_capability_new ''model-gateway'' ''model.execute'' True) 2000 = Inr run_claims"
  "verify letter_externals sample_token_externals sample_verifier ''v2.b.s''
     (required_capability_operator ''model-gateway'' ''mcp.oauth.admin'') 2000 = Inr operator_claims"
  "verify letter_externals sample_token_externals sample_verifier ''v2.c.s''
     (required_capability_new ''model-gateway'' ''model.execute'' True) 2000 = Inr endless_claims"
  by (simp_all add: verify_def letter_externals_def sample_token_externals_def TOKEN_VERSION_def check_claims_def
      claims_are_invalid_def run_claims_def operator_claims_def endless_claims_def is_nil_def valid_policy_binding_def
      legacy_invocation_fields_are_empty_def is_operator_def OPERATOR_SCHEMA_VERSION_def run_identity_missing_def
      required_capability_new_def required_capability_operator_def lifetime_is_invalid_def MAX_TOKEN_LIFETIME_MS_def
      shape_matches_def)

theorem identity_shapes_disjoint_witness:
  "verify letter_externals sample_token_externals sample_verifier ''v2.a.s''
     (required_capability_new ''model-gateway'' ''model.execute'' True) 2000 = Inr run_claims \<and>
   verify letter_externals sample_token_externals sample_verifier ''v2.b.s''
     (required_capability_operator ''model-gateway'' ''mcp.oauth.admin'') 2000 = Inr operator_claims \<and>
   \<not> (authorizes run_claims (binding_of_claims run_claims) \<and> authorizes operator_claims (binding_of_claims run_claims))"
  using identity_shapes_disjoint [OF sample_tokens(1,2), of "binding_of_claims run_claims"] sample_tokens by simp

theorem token_lifetime_bounded_witness:
  "verify letter_externals sample_token_externals sample_verifier ''v2.c.s''
     (required_capability_new ''model-gateway'' ''model.execute'' True) 2000 = Inr endless_claims \<and>
   2 ^ 63 \<le> sint (wc_expires_at_unix_ms endless_claims) - sint (wc_issued_at_unix_ms endless_claims)"
  using token_lifetime_bounded [OF sample_tokens(3)] sample_tokens(3) by (simp add: endless_claims_def run_claims_def)

end
