(* ===== verification/Grpc_Status.thy ===== *)
theory Grpc_Status
  imports Workload_Identity
begin

text \<open>
  What the gRPC services of the runtime share: the status a call is refused with, the bearer token of its metadata, and the
  reading of bytes as UTF-8 text.
\<close>

section \<open>Status\<close>

datatype grpc_code =
    CodeCancelled | InvalidArgument | PermissionDenied | FailedPrecondition | OutOfRange | Unimplemented | Internal
  | CodeUnavailable | Unauthenticated

datatype status = Status (status_code: grpc_code) (status_message: string)

text \<open>The \<open>authorization\<close> entry of the metadata, when it is there and readable as text.\<close>

definition bearer_of :: "string option \<Rightarrow> (status, string) result" where
  "bearer_of authorization =
     (case Option.bind authorization (strip_prefix_str ''Bearer '') of
        None \<Rightarrow> Inl (Status Unauthenticated ''missing workload bearer token'')
      | Some bearer \<Rightarrow> Inr bearer)"

section \<open>UTF-8\<close>

definition continuation_byte :: "u8 \<Rightarrow> bool" where
  "continuation_byte b \<longleftrightarrow> 0x80 \<le> b \<and> b \<le> 0xBF"

text \<open>\<open>std::str::from_utf8\<close>: the well-formed byte sequences of the Unicode standard.\<close>

fun valid_utf8 :: "u8 list \<Rightarrow> bool" where
  "valid_utf8 [] = True"
| "valid_utf8 (a # bs) =
     (if a \<le> 0x7F then valid_utf8 bs
      else if 0xC2 \<le> a \<and> a \<le> 0xDF
      then (case bs of b # bs \<Rightarrow> continuation_byte b \<and> valid_utf8 bs | _ \<Rightarrow> False)
      else if 0xE0 \<le> a \<and> a \<le> 0xEF
      then (case bs of
              b # c # bs \<Rightarrow>
                (if a = 0xE0 then 0xA0 \<le> b \<and> b \<le> 0xBF else if a = 0xED then 0x80 \<le> b \<and> b \<le> 0x9F else continuation_byte b) \<and>
                continuation_byte c \<and> valid_utf8 bs
            | _ \<Rightarrow> False)
      else if 0xF0 \<le> a \<and> a \<le> 0xF4
      then (case bs of
              b # c # d # bs \<Rightarrow>
                (if a = 0xF0 then 0x90 \<le> b \<and> b \<le> 0xBF else if a = 0xF4 then 0x80 \<le> b \<and> b \<le> 0x8F else continuation_byte b) \<and>
                continuation_byte c \<and> continuation_byte d \<and> valid_utf8 bs
            | _ \<Rightarrow> False)
      else False)"

definition from_utf8 :: "u8 list \<Rightarrow> string option" where
  "from_utf8 bytes = (if valid_utf8 bytes then Some (map (\<lambda>b. char_of (unat b)) bytes) else None)"

lemma unat_of_char: "unat (of_char c :: u8) = code c"
proof -
  have "code c < 256" using of_char_of [of "code c"] by (metis char_of_char mod_less_divisor zero_less_numeral)
  moreover have "(of_char c :: u8) = of_nat (code c)" by (rule of_nat_of_char [symmetric])
  ultimately show ?thesis by (simp only: unat_of_nat) simp
qed

lemma as_bytes_inject [simp]: "as_bytes s = as_bytes t \<longleftrightarrow> s = t"
proof -
  have "inj (of_char :: char \<Rightarrow> u8)"
    by (rule injI) (metis unat_of_char of_char_eq_iff)
  then show ?thesis by (simp add: as_bytes_def)
qed

lemma from_utf8_as_bytes: "from_utf8 bytes = Some s \<Longrightarrow> as_bytes s = bytes"
proof -
  have "of_char (char_of (unat b)) = b" for b :: u8
  proof -
    have "unat b < 256" using unsigned_less [of b] by simp
    then show ?thesis by (simp add: word_unat_eq_iff unat_of_char)
  qed
  then have "of_char \<circ> (\<lambda>b. char_of (unat b)) = (id :: u8 \<Rightarrow> u8)" by (simp add: fun_eq_iff)
  then have "as_bytes (map (\<lambda>b. char_of (unat b)) bytes) = bytes" by (simp add: as_bytes_def)
  then show "from_utf8 bytes = Some s \<Longrightarrow> as_bytes s = bytes"
    unfolding from_utf8_def by (metis option.inject option.distinct(1))
qed

end
