(* ===== verification/Model_Wire.thy ===== *)
theory Model_Wire
  imports Provider_Common Grpc_Status
begin

text \<open>
  The wire between the worker and the model gateway: the messages of \<open>contracts/proto/model_gateway.proto\<close>, their encoding
  and decoding in \<open>model-gateway/src/grpc.rs\<close>, \<open>model-gateway/src/invocation.rs\<close> and \<open>worker/src/lib.rs\<close>, and the client of
  \<open>worker/src/model_gateway.rs\<close>. An enumeration travels as its number in 32 bits, so a decoder meets numbers it has no name
  for. \<open>ProviderPrivateState\<close> has the same five fields on both sides and is one record here. JSON inside a message is bytes.

  The lemmas are round trips: what the gateway encodes is what the client decodes, and a transcript survives the way to the
  gateway.
\<close>

section \<open>Messages\<close>

type_synonym i32 = "32 word"

datatype wire_part =
    WireText string
  | WireImage string string
  | WireAudio string string
  | WireToolResult string "u8 list"
  | WireToolCall string string "u8 list"
  | WireReasoning "string list" "provider_private_state option"
  | WireRefusal string

record model_message =
  mm_role :: i32
  mm_content :: "wire_part option list"

record model_tool =
  mt_name :: string
  mt_description :: string
  mt_input_schema_json :: "u8 list"

record model_invocation =
  mi_schema_version :: u32
  mi_tenant_id :: string
  mi_run_id :: string
  mi_session_id :: string
  mi_attempt_id :: string
  mi_worker_id :: string
  mi_model_policy_id :: string
  mi_expires_at_unix_ms :: i64
  mi_messages :: "model_message list"
  mi_tools :: "model_tool list"
  mi_output_schema_json :: "u8 list"
  mi_reasoning :: i32
  mi_max_output_tokens :: u64
  mi_worker_incarnation_id :: string
  mi_model_policy_snapshot_json :: "u8 list"
  mi_model_policy_digest :: string
  mi_runtime_policy_snapshot_json :: "u8 list"
  mi_runtime_policy_digest :: string
  mi_application_id :: string
  mi_workload_identity_id :: string
  mi_workspace_id :: string
  mi_agent_version_id :: string

datatype event_body =
    WireTextDelta string "u32 option"
  | WireToolCallEvent string string "u8 list"
  | WireUsage u64 u64 u64
  | WireCompleted i32
  | WireFailed i32 bool string
  | WireReasoningEvent "string list" "provider_private_state option"
  | WireRefusalEvent string
  | WirePrivateStateOmitted string string string
  | WireReasoningDelta string "u32 option"

record model_event =
  me_schema_version :: u32
  me_sequence :: u64
  me_body :: "event_body option"

section \<open>Numbers of the enumerations\<close>

fun model_role :: "role \<Rightarrow> i32" where
  "model_role SystemRole = 1"
| "model_role UserRole = 2"
| "model_role AssistantRole = 3"
| "model_role ToolRole = 4"

definition role_of_number :: "i32 \<Rightarrow> role option" where
  "role_of_number n =
     (if n = 1 then Some SystemRole else if n = 2 then Some UserRole else if n = 3 then Some AssistantRole
      else if n = 4 then Some ToolRole else None)"

fun encode_reasoning :: "reasoning_policy \<Rightarrow> i32" where
  "encode_reasoning Minimal = 1"
| "encode_reasoning Balanced = 2"
| "encode_reasoning Thorough = 3"

definition reasoning_of_number :: "i32 \<Rightarrow> reasoning_policy option" where
  "reasoning_of_number n =
     (if n = 1 then Some Minimal else if n = 2 then Some Balanced else if n = 3 then Some Thorough else None)"

fun encode_finish_reason :: "model_finish_reason \<Rightarrow> i32" where
  "encode_finish_reason Stop = 1"
| "encode_finish_reason ToolCalls = 2"
| "encode_finish_reason Length = 3"
| "encode_finish_reason ReasonContentFilter = 4"

fun encode_error_kind :: "model_error_kind \<Rightarrow> i32" where
  "encode_error_kind Authentication = 1"
| "encode_error_kind Billing = 2"
| "encode_error_kind RateLimited = 3"
| "encode_error_kind Timeout = 4"
| "encode_error_kind Protocol = 5"
| "encode_error_kind ContextOverflow = 6"
| "encode_error_kind CapabilityMismatch = 7"
| "encode_error_kind Unavailable = 8"
| "encode_error_kind KindContentFilter = 9"

section \<open>Events from the gateway\<close>

definition encode_body :: "externals \<Rightarrow> model_stream_event \<Rightarrow> event_body" where
  "encode_body ext event =
     (case event of
        TextDelta text block \<Rightarrow> WireTextDelta text block
      | ReasoningDelta text block \<Rightarrow> WireReasoningDelta text block
      | Usage input_tokens output_tokens cost_micros \<Rightarrow> WireUsage input_tokens output_tokens cost_micros
      | Completed reason \<Rightarrow> WireCompleted (encode_finish_reason reason)
      | ModelFailed kind retryable message \<Rightarrow> WireFailed (encode_error_kind kind) retryable message
      | ModelToolCall call_id name arguments \<Rightarrow> WireToolCallEvent call_id name (ext_to_vec ext arguments)
      | Reasoning summary private_state \<Rightarrow> WireReasoningEvent summary private_state
      | Refusal text \<Rightarrow> WireRefusalEvent text
      | PrivateStateOmitted origin target format \<Rightarrow> WirePrivateStateOmitted origin target format)"

definition encode_event :: "externals \<Rightarrow> u64 \<Rightarrow> model_stream_event \<Rightarrow> (status, model_event) result" where
  "encode_event ext sequence event =
     Inr \<lparr>me_schema_version = 1, me_sequence = sequence, me_body = Some (encode_body ext event)\<rparr>"

definition encode_provider_failure :: "externals \<Rightarrow> u64 \<Rightarrow> provider_execution_error \<Rightarrow> (status, model_event) result" where
  "encode_provider_failure ext sequence error =
     (case error of
        ProviderFault kind retryable _ _ message \<Rightarrow> encode_event ext sequence (ModelFailed kind retryable message)
      | InvalidConfiguration message \<Rightarrow> Inl (Status FailedPrecondition message)
      | ConsumerClosed \<Rightarrow> Inl (Status CodeCancelled ''provider consumer closed'')
      | ExecutionCancelled \<Rightarrow> Inl (Status CodeCancelled ''provider execution cancelled''))"

section \<open>Events at the worker\<close>

datatype client_error =
    TransportFailure string
  | RpcFailure grpc_code string
  | CallCancelled
  | ClientConsumerClosed
  | InvalidEvent string

definition decode_finish_reason :: "i32 \<Rightarrow> (client_error, model_finish_reason) result" where
  "decode_finish_reason n =
     (if n = 1 then Inr Stop else if n = 2 then Inr ToolCalls else if n = 3 then Inr Length
      else if n = 4 then Inr ReasonContentFilter else Inl (InvalidEvent ''finish reason is unspecified''))"

definition decode_error_kind :: "i32 \<Rightarrow> (client_error, model_error_kind) result" where
  "decode_error_kind n =
     (if n = 1 then Inr Authentication else if n = 2 then Inr Billing else if n = 3 then Inr RateLimited
      else if n = 4 then Inr Timeout else if n = 5 then Inr Protocol else if n = 6 then Inr ContextOverflow
      else if n = 7 then Inr CapabilityMismatch else if n = 8 then Inr Unavailable
      else if n = 9 then Inr KindContentFilter else Inl (InvalidEvent ''model error kind is unspecified''))"

definition decode_event :: "externals \<Rightarrow> model_event \<Rightarrow> (client_error, model_stream_event) result" where
  "decode_event ext event =
     (if me_schema_version event \<noteq> 1 \<or> me_sequence event = 0
      then Inl (InvalidEvent ''unsupported schema version or zero sequence'')
      else (case me_body event of
          None \<Rightarrow> Inl (InvalidEvent ''event body is missing'')
        | Some body \<Rightarrow>
            (case body of
               WireTextDelta text block \<Rightarrow> Inr (TextDelta text block)
             | WireReasoningDelta text block \<Rightarrow> Inr (ReasoningDelta text block)
             | WireUsage input_tokens output_tokens cost_micros \<Rightarrow> Inr (Usage input_tokens output_tokens cost_micros)
             | WireCompleted reason \<Rightarrow>
                 (case decode_finish_reason reason of Inl e \<Rightarrow> Inl e | Inr decoded \<Rightarrow> Inr (Completed decoded))
             | WireFailed kind retryable message \<Rightarrow>
                 Inr (ModelFailed (case decode_error_kind kind of Inl _ \<Rightarrow> Protocol | Inr decoded \<Rightarrow> decoded) retryable message)
             | WireToolCallEvent call_id name arguments_json \<Rightarrow>
                 (case ext_from_slice ext arguments_json of
                    None \<Rightarrow> Inl (InvalidEvent ''tool-call arguments are not valid JSON'')
                  | Some arguments \<Rightarrow> Inr (ModelToolCall call_id name arguments))
             | WireReasoningEvent summary private_state \<Rightarrow>
                 (if (case private_state of None \<Rightarrow> False | Some s \<Rightarrow> \<not> private_state_is_well_formed s)
                  then Inl (InvalidEvent ''provider-private model state is malformed'')
                  else Inr (Reasoning summary private_state))
             | WireRefusalEvent text \<Rightarrow> Inr (Refusal text)
             | WirePrivateStateOmitted origin target format \<Rightarrow> Inr (PrivateStateOmitted origin target format))))"

text \<open>
  The stream a client reads: the next message or the status that ends it, or the cancellation of the call. The consumer of
  the decoded events is the sink of \<open>Provider_Common\<close>.
\<close>

datatype stream_item = CallInterrupted | Received "(status, model_event) result"

definition client_emit :: "model_stream_event \<Rightarrow> (sink, client_error, unit) io" where
  "client_emit event s = (case emit_event event s of (Inl _, s') \<Rightarrow> (Inl ClientConsumerClosed, s') | (Inr u, s') \<Rightarrow> (Inr u, s'))"

fun client_loop :: "externals \<Rightarrow> stream_item list \<Rightarrow> (sink, client_error, unit) io" where
  "client_loop ext [] = give_up (InvalidEvent ''model gateway stream ended without a terminal event'')"
| "client_loop ext (CallInterrupted # items) = give_up CallCancelled"
| "client_loop ext (Received (Inl s) # items) = give_up (RpcFailure (status_code s) (status_message s))"
| "client_loop ext (Received (Inr event) # items) =
     then_do (of_result (decode_event ext event))
       (\<lambda>event. then_do (client_emit event) (\<lambda>_. if closes_turn event then finish () else client_loop ext items))"

text \<open>The call as a whole: the request may be refused before there is a stream. \<open>None\<close> is a token no header can carry.\<close>

definition client_execute ::
  "externals \<Rightarrow> (string \<Rightarrow> string option) \<Rightarrow> (string \<Rightarrow> (status, stream_item list) result) \<Rightarrow> string \<Rightarrow>
   (sink, client_error, unit) io" where
  "client_execute ext header call workload_token =
     (case header (''Bearer '' @ workload_token) of
        None \<Rightarrow> give_up (TransportFailure ''invalid workload token'')
      | Some authorization \<Rightarrow>
          (case call authorization of
             Inl s \<Rightarrow> give_up (RpcFailure (status_code s) (status_message s))
           | Inr items \<Rightarrow> client_loop ext items))"

section \<open>Transcripts\<close>

fun part_from_protocol :: "externals \<Rightarrow> content_part \<Rightarrow> wire_part" where
  "part_from_protocol ext (PartText text) = WireText text"
| "part_from_protocol ext (PartImage media_type source) = WireImage media_type source"
| "part_from_protocol ext (PartAudio media_type source) = WireAudio media_type source"
| "part_from_protocol ext (PartToolResult tool_call_id content) = WireToolResult tool_call_id (ext_to_vec ext content)"
| "part_from_protocol ext (PartToolCall tool_call_id name arguments) =
     WireToolCall tool_call_id name (ext_to_vec ext arguments)"
| "part_from_protocol ext (PartReasoning summary private_state) = WireReasoning summary private_state"
| "part_from_protocol ext (PartRefusal text) = WireRefusal text"

definition model_message_from_protocol :: "externals \<Rightarrow> message \<Rightarrow> model_message" where
  "model_message_from_protocol ext m =
     \<lparr>mm_role = model_role (msg_role m), mm_content = map (Some \<circ> part_from_protocol ext) (msg_content m)\<rparr>"

definition malformed_state :: "provider_private_state option \<Rightarrow> bool" where
  "malformed_state private_state = (case private_state of None \<Rightarrow> False | Some s \<Rightarrow> \<not> private_state_is_well_formed s)"

fun part_from_model :: "externals \<Rightarrow> wire_part option \<Rightarrow> (string, content_part) result" where
  "part_from_model ext (Some (WireText text)) = Inr (PartText text)"
| "part_from_model ext (Some (WireImage media_type source)) = Inr (PartImage media_type source)"
| "part_from_model ext (Some (WireAudio media_type source)) = Inr (PartAudio media_type source)"
| "part_from_model ext (Some (WireToolResult tool_call_id content_json)) =
     (case ext_from_slice ext content_json of
        None \<Rightarrow> Inl ''Tool result content is not JSON''
      | Some content \<Rightarrow> Inr (PartToolResult tool_call_id content))"
| "part_from_model ext (Some (WireToolCall tool_call_id name arguments_json)) =
     (case ext_from_slice ext arguments_json of
        None \<Rightarrow> Inl ''Tool call arguments are not JSON''
      | Some arguments \<Rightarrow> Inr (PartToolCall tool_call_id name arguments))"
| "part_from_model ext (Some (WireReasoning summary private_state)) =
     (if malformed_state private_state then Inl ''provider-private model state is malformed''
      else Inr (PartReasoning summary private_state))"
| "part_from_model ext (Some (WireRefusal text)) = Inr (PartRefusal text)"
| "part_from_model ext None = Inl ''model message has an empty content part''"

text \<open>A system message is left out; the error is the text of \<open>InvalidTranscript\<close>, without the words of the JSON reader.\<close>

definition protocol_message_from_model :: "externals \<Rightarrow> model_message \<Rightarrow> (string, message option) result" where
  "protocol_message_from_model ext m =
     (case role_of_number (mm_role m) of
        None \<Rightarrow> Inl ''model message has an unspecified role''
      | Some r \<Rightarrow>
          if r = SystemRole then Inr None
          else (case collect_results (part_from_model ext) (mm_content m) of
                  Inl e \<Rightarrow> Inl e
                | Inr content \<Rightarrow> Inr (Some \<lparr>msg_role = r, msg_content = content\<rparr>)))"

section \<open>Invocations at the gateway\<close>

datatype invocation_decode_error =
    UnspecifiedRole | InvalidToolResultContent | InvalidToolCallArguments | InvalidPrivateState | UnsupportedContentPart
  | InvalidToolSchema | BlankToolName | StructuredOutputUnsupported | UnspecifiedReasoningPolicy | EmptyInvocation

fun decode_part :: "externals \<Rightarrow> wire_part option \<Rightarrow> (invocation_decode_error, content_part) result" where
  "decode_part ext (Some (WireText text)) = Inr (PartText text)"
| "decode_part ext (Some (WireToolResult tool_call_id content_json)) =
     (case ext_from_slice ext content_json of
        None \<Rightarrow> Inl InvalidToolResultContent
      | Some content \<Rightarrow> Inr (PartToolResult tool_call_id content))"
| "decode_part ext (Some (WireToolCall tool_call_id name arguments_json)) =
     (case ext_from_slice ext arguments_json of
        None \<Rightarrow> Inl InvalidToolCallArguments
      | Some arguments \<Rightarrow> Inr (PartToolCall tool_call_id name arguments))"
| "decode_part ext (Some (WireReasoning summary private_state)) =
     (if malformed_state private_state then Inl InvalidPrivateState else Inr (PartReasoning summary private_state))"
| "decode_part ext (Some (WireRefusal text)) = Inr (PartRefusal text)"
| "decode_part ext _ = Inl UnsupportedContentPart"

definition decode_message :: "externals \<Rightarrow> model_message \<Rightarrow> (invocation_decode_error, message) result" where
  "decode_message ext m =
     (case role_of_number (mm_role m) of
        None \<Rightarrow> Inl UnspecifiedRole
      | Some r \<Rightarrow>
          (case collect_results (decode_part ext) (mm_content m) of
             Inl e \<Rightarrow> Inl e
           | Inr content \<Rightarrow> Inr \<lparr>msg_role = r, msg_content = content\<rparr>))"

definition decode_tool :: "externals \<Rightarrow> model_tool \<Rightarrow> (invocation_decode_error, tool_spec) result" where
  "decode_tool ext t =
     (case ext_from_slice ext (mt_input_schema_json t) of
        None \<Rightarrow> Inl InvalidToolSchema
      | Some input_schema \<Rightarrow>
          if is_blank (mt_name t) then Inl BlankToolName
          else Inr \<lparr>ts_name = mt_name t, ts_description = mt_description t, ts_input_schema = input_schema\<rparr>)"

definition decode_model_invocation :: "externals \<Rightarrow> model_invocation \<Rightarrow> (invocation_decode_error, model_request) result" where
  "decode_model_invocation ext invocation =
     (case collect_results (decode_message ext) (mi_messages invocation) of
        Inl e \<Rightarrow> Inl e
      | Inr messages \<Rightarrow>
          (case collect_results (decode_tool ext) (mi_tools invocation) of
             Inl e \<Rightarrow> Inl e
           | Inr tools \<Rightarrow>
               if mi_output_schema_json invocation \<noteq> [] then Inl StructuredOutputUnsupported
               else (case reasoning_of_number (mi_reasoning invocation) of
                   None \<Rightarrow> Inl UnspecifiedReasoningPolicy
                 | Some reasoning \<Rightarrow>
                     if messages = [] \<or> mi_max_output_tokens invocation = 0 then Inl EmptyInvocation
                     else Inr \<lparr>mr_messages = messages, mr_tools = tools, mr_output_schema = None, mr_reasoning = reasoning,
                               mr_max_output_tokens = mi_max_output_tokens invocation\<rparr>)))"

section \<open>Round trips\<close>

lemma finish_reason_round_trip [simp]: "decode_finish_reason (encode_finish_reason reason) = Inr reason"
  by (cases reason) (simp_all add: decode_finish_reason_def)

lemma error_kind_round_trip [simp]: "decode_error_kind (encode_error_kind kind) = Inr kind"
  by (cases kind) (simp_all add: decode_error_kind_def)

lemma role_round_trip [simp]: "role_of_number (model_role r) = Some r"
  by (cases r) (simp_all add: role_of_number_def)

lemma reasoning_round_trip [simp]: "reasoning_of_number (encode_reasoning r) = Some r"
  by (cases r) (simp_all add: reasoning_of_number_def)

text \<open>What an event or a message part must be like to cross the wire: its JSON is read back, its private state is well formed.\<close>

definition json_survives :: "externals \<Rightarrow> json \<Rightarrow> bool" where
  "json_survives ext v \<longleftrightarrow> ext_from_slice ext (ext_to_vec ext v) = Some v"

fun event_survives :: "externals \<Rightarrow> model_stream_event \<Rightarrow> bool" where
  "event_survives ext (ModelToolCall _ _ arguments) = json_survives ext arguments"
| "event_survives ext (Reasoning _ private_state) = (\<not> malformed_state private_state)"
| "event_survives ext _ = True"

fun part_survives :: "externals \<Rightarrow> content_part \<Rightarrow> bool" where
  "part_survives ext (PartToolResult _ content) = json_survives ext content"
| "part_survives ext (PartToolCall _ _ arguments) = json_survives ext arguments"
| "part_survives ext (PartReasoning _ private_state) = (\<not> malformed_state private_state)"
| "part_survives ext _ = True"

fun is_media :: "content_part \<Rightarrow> bool" where
  "is_media (PartImage _ _) = True"
| "is_media (PartAudio _ _) = True"
| "is_media _ = False"

lemma event_round_trip:
  assumes "sequence \<noteq> 0" and "event_survives ext event"
  shows "decode_event ext \<lparr>me_schema_version = 1, me_sequence = sequence, me_body = Some (encode_body ext event)\<rparr> = Inr event"
  using assms
  by (cases event) (auto simp: decode_event_def encode_body_def json_survives_def malformed_state_def split: option.splits)

lemma collect_results_map: "(\<And>x. x \<in> set xs \<Longrightarrow> f (g x) = Inr x) \<Longrightarrow> collect_results f (map g xs) = Inr xs"
  by (induction xs) simp_all

lemma worker_part_round_trip:
  "part_survives ext part \<Longrightarrow> part_from_model ext (Some (part_from_protocol ext part)) = Inr part"
  by (cases part) (simp_all add: json_survives_def)

lemma gateway_part_round_trip:
  "part_survives ext part \<Longrightarrow> \<not> is_media part \<Longrightarrow> decode_part ext (Some (part_from_protocol ext part)) = Inr part"
  by (cases part) (simp_all add: json_survives_def)

lemma media_refused: "is_media part \<Longrightarrow> decode_part ext (Some (part_from_protocol ext part)) = Inl UnsupportedContentPart"
  by (cases part) simp_all

lemma worker_message_round_trip:
  assumes "list_all (part_survives ext) (msg_content m)"
  shows "protocol_message_from_model ext (model_message_from_protocol ext m) =
    Inr (if msg_role m = SystemRole then None else Some m)"
proof -
  have "collect_results (part_from_model ext) (map (Some \<circ> part_from_protocol ext) (msg_content m)) = Inr (msg_content m)"
    using assms by (intro collect_results_map) (simp add: list_all_iff worker_part_round_trip)
  then show ?thesis by (simp add: protocol_message_from_model_def model_message_from_protocol_def)
qed

section \<open>The client\<close>

lemma client_emit_open:
  "room s = None \<Longrightarrow> client_emit event s = (Inr (), s\<lparr>delivered := delivered s @ [event]\<rparr>)"
  by (simp add: client_emit_def emit_event_def)

text \<open>A client with an open consumer passes on the events it can decode up to the first one that closes the turn.\<close>

lemma client_passes:
  assumes "list_all (event_survives ext) events" and "list_all (\<lambda>e. \<not> closes_turn e) events" and "room s = None"
    and "list_all2 (\<lambda>item event. \<exists>sequence. sequence \<noteq> 0 \<and> item = Received (encode_event ext sequence event)) items events"
  shows "client_loop ext (items @ rest) s = client_loop ext rest (s\<lparr>delivered := delivered s @ events\<rparr>)"
  using assms(4,1-3)
proof (induction arbitrary: s rule: list_all2_induct)
  case (Cons item items event events)
  then obtain sequence where item: "sequence \<noteq> 0" "item = Received (encode_event ext sequence event)" by blast
  have "client_loop ext (item # items @ rest) s = client_loop ext (items @ rest) (s\<lparr>delivered := delivered s @ [event]\<rparr>)"
    using Cons.prems item event_round_trip [OF item(1), of ext event]
    by (simp add: encode_event_def of_result_def then_do_def client_emit_open)
  also have "\<dots> = client_loop ext rest (s\<lparr>delivered := delivered s @ [event]\<rparr>\<lparr>delivered := delivered s @ event # events\<rparr>)"
    using Cons.prems Cons.IH [of "s\<lparr>delivered := delivered s @ [event]\<rparr>"] by simp
  finally show ?case by simp
qed simp

lemma client_closes:
  assumes "event_survives ext event" and "closes_turn event" and "room s = None" and "sequence \<noteq> 0"
  shows "client_loop ext (Received (encode_event ext sequence event) # rest) s =
    (Inr (), s\<lparr>delivered := delivered s @ [event]\<rparr>)"
  using assms event_round_trip [OF assms(4,1)]
  by (simp add: encode_event_def of_result_def then_do_def client_emit_open finish_def)

section \<open>Transcripts at both ends\<close>

lemma collect_results_first:
  assumes "\<And>x. x \<in> set xs \<Longrightarrow> f (g x) = (if bad x then Inl e else Inr x)"
  shows "collect_results f (map g xs) = (if list_ex bad xs then Inl e else Inr xs)"
  using assms by (induction xs) auto

lemma gateway_message:
  assumes "list_all (part_survives ext) (msg_content m)"
  shows "decode_message ext (model_message_from_protocol ext m) =
    (if list_ex is_media (msg_content m) then Inl UnsupportedContentPart else Inr m)"
proof -
  have "collect_results (decode_part ext) (map (Some \<circ> part_from_protocol ext) (msg_content m)) =
      (if list_ex is_media (msg_content m) then Inl UnsupportedContentPart else Inr (msg_content m))"
    using assms by (intro collect_results_first) (simp add: list_all_iff media_refused gateway_part_round_trip)
  then show ?thesis by (simp add: decode_message_def model_message_from_protocol_def)
qed

text \<open>
  C34. A transcript crosses the wire. If its JSON is read back and its private states are well formed, the gateway decodes the
  messages the worker encoded to the same messages, unless one has an image or audio part, which it refuses. The worker
  reads its own encoding back as well, media included, but only the messages that are not system messages: those it drops.
\<close>
theorem transcript_crosses_wire:
  assumes "list_all (\<lambda>m. list_all (part_survives ext) (msg_content m)) messages"
  shows "collect_results (decode_message ext) (map (model_message_from_protocol ext) messages) =
      (if list_ex (\<lambda>m. list_ex is_media (msg_content m)) messages then Inl UnsupportedContentPart else Inr messages) \<and>
    map_sum id (\<lambda>ms. map the (filter (\<lambda>m. m \<noteq> None) ms))
      (collect_results (protocol_message_from_model ext) (map (model_message_from_protocol ext) messages)) =
      Inr (filter (\<lambda>m. msg_role m \<noteq> SystemRole) messages)"
  using assms
proof (induction messages)
  case (Cons m messages)
  then show ?case
    by (auto simp: gateway_message worker_message_round_trip list_all_iff split: sum.splits)
qed simp

definition text_externals :: externals where
  "text_externals = sample_externals\<lparr>ext_from_slice := \<lambda>bytes. Some (JString (map (\<lambda>b. char_of (unat b)) bytes))\<rparr>"

theorem transcript_crosses_wire_witness:
  "collect_results (decode_message text_externals) (map (model_message_from_protocol text_externals)
     [\<lparr>msg_role = UserRole, msg_content = [PartText ''ls'']\<rparr>,
      \<lparr>msg_role = AssistantRole, msg_content = [PartToolCall ''c'' ''list'' (JString [])]\<rparr>]) =
   Inr [\<lparr>msg_role = UserRole, msg_content = [PartText ''ls'']\<rparr>,
      \<lparr>msg_role = AssistantRole, msg_content = [PartToolCall ''c'' ''list'' (JString [])]\<rparr>]"
proof -
  have "json_survives text_externals (JString [])"
    by (simp add: json_survives_def text_externals_def sample_externals_def as_bytes_def)
  then show ?thesis
    using transcript_crosses_wire [of text_externals "[\<lparr>msg_role = UserRole, msg_content = [PartText ''ls'']\<rparr>,
      \<lparr>msg_role = AssistantRole, msg_content = [PartToolCall ''c'' ''list'' (JString [])]\<rparr>]"] by simp
qed

end
