(* ===== verification/Chat_Completions.thy ===== *)
theory Chat_Completions
  imports Provider_Common
begin

text \<open>
  The chat-completions adapter, \<open>runtime/apps/model-gateway/src/openai_compatible.rs\<close>: its configuration, the payload of a
  request, the chunks of the answer, Tool calls that arrive in fragments, errors reported inside the stream, and the end of
  the turn. The lemmas interpret the contract of an adapter, and show that Tool calls are put together from their
  fragments whatever the chunks they arrive in.
\<close>

section \<open>Configuration\<close>

record openai_compatible_config =
  oc_endpoint :: string
  oc_model :: string
  oc_pricing :: provider_pricing
  oc_response_timeout :: nat
  oc_stream_idle_timeout :: nat
  oc_max_output_tokens :: "u64 option"
  oc_supports_reasoning_effort :: bool

record openai_compatible_adapter =
  oa_endpoint :: url
  oa_model :: string
  oa_pricing :: provider_pricing
  oa_response_timeout :: nat
  oa_stream_idle_timeout :: nat
  oa_max_output_tokens :: "u64 option"
  oa_supports_reasoning_effort :: bool

definition openai_compatible_new ::
  "gateway_externals \<Rightarrow> openai_compatible_config \<Rightarrow> (provider_execution_error, openai_compatible_adapter) result" where
  "openai_compatible_new ext config =
     (case parse_endpoint ext (oc_endpoint config) of
        Inl e \<Rightarrow> Inl e
      | Inr endpoint \<Rightarrow>
          if is_blank (oc_model config) \<or> oc_response_timeout config = 0 \<or> oc_stream_idle_timeout config = 0
          then Inl (InvalidConfiguration ''provider model and timeouts must be configured'')
          else (case gx_client_build ext of
                  Inl error \<Rightarrow> Inl (InvalidConfiguration (''provider HTTP client could not be built: '' @ error))
                | Inr _ \<Rightarrow> Inr \<lparr>oa_endpoint = endpoint, oa_model = oc_model config, oa_pricing = oc_pricing config,
                    oa_response_timeout = oc_response_timeout config,
                    oa_stream_idle_timeout = oc_stream_idle_timeout config,
                    oa_max_output_tokens = oc_max_output_tokens config,
                    oa_supports_reasoning_effort = oc_supports_reasoning_effort config\<rparr>))"

section \<open>The payload\<close>

definition text_item :: "string \<Rightarrow> json" where
  "text_item text = jobj [(''type'', JString ''text''), (''text'', JString text)]"

text \<open>A Tool result as text: a string as it is, any other value serialised.\<close>

definition result_text :: "gateway_externals \<Rightarrow> json \<Rightarrow> string" where
  "result_text ext content = or_default (gx_to_string ext content) (as_str content)"

fun payload_parts ::
  "gateway_externals \<Rightarrow> role \<Rightarrow> content_part list \<Rightarrow> json list \<Rightarrow> json list \<Rightarrow>
   (provider_execution_error, json list \<times> json list) result" where
  "payload_parts ext r [] content tool_calls = Inr (content, tool_calls)"
| "payload_parts ext r (PartText text # parts) content tool_calls =
     payload_parts ext r parts (content @ [text_item text]) tool_calls"
| "payload_parts ext r (PartImage media_type source # parts) content tool_calls =
     (if is_provider_safe_image_source ext source
      then payload_parts ext r parts
             (content @ [jobj [(''type'', JString ''image_url''), (''image_url'', jobj [(''url'', JString source)])]])
             tool_calls
      else Inl (capability_error ''image source must be an HTTP(S) URL or data URL resolved by the model gateway''))"
| "payload_parts ext r (PartAudio media_type source # parts) content tool_calls =
     Inl (capability_error ''audio input is not supported by the first chat-completions adapter'')"
| "payload_parts ext r (PartToolResult tool_call_id result # parts) content tool_calls =
     Inl (capability_error ''tool results are only valid in tool-role messages'')"
| "payload_parts ext r (PartToolCall tool_call_id name arguments # parts) content tool_calls =
     (if r = AssistantRole
      then payload_parts ext r parts content
             (tool_calls @ [jobj [(''id'', JString tool_call_id), (''type'', JString ''function''),
                (''function'', jobj [(''name'', JString name), (''arguments'', JString (gx_to_string ext arguments))])]])
      else Inl (capability_error ''tool calls are only valid in assistant-role messages''))"
| "payload_parts ext r (PartReasoning summary private_state # parts) content tool_calls =
     payload_parts ext r parts content tool_calls"
| "payload_parts ext r (PartRefusal text # parts) content tool_calls =
     (if r = AssistantRole then payload_parts ext r parts (content @ [text_item text]) tool_calls
      else Inl (capability_error ''refusals are only valid in assistant-role messages''))"

definition message_payload :: "gateway_externals \<Rightarrow> message \<Rightarrow> (provider_execution_error, json) result" where
  "message_payload ext message =
     (let r = ser_role (msg_role message)
      in if msg_role message = ToolRole
         then if length (msg_content message) \<noteq> 1
              then Inl (capability_error ''tool messages must contain exactly one tool result'')
              else (case hd (msg_content message) of
                      PartToolResult tool_call_id content \<Rightarrow>
                        Inr (jobj [(''role'', r), (''tool_call_id'', JString tool_call_id),
                                   (''content'', JString (result_text ext content))])
                    | _ \<Rightarrow> Inl (capability_error ''tool role requires a tool result''))
         else (case payload_parts ext (msg_role message) (msg_content message) [] [] of
                 Inl e \<Rightarrow> Inl e
               | Inr (content, tool_calls) \<Rightarrow>
                   (let content' = (if content = [] \<and> tool_calls \<noteq> [] then JNull
                                    else if length content = 1 \<and> jidx ''type'' (hd content) = JString ''text''
                                    then jidx ''text'' (hd content) else JArray content);
                        payload = jobj [(''role'', r), (''content'', content')]
                    in Inr (if tool_calls \<noteq> [] then jset ''tool_calls'' (JArray tool_calls) payload else payload))))"

definition effort :: "reasoning_policy \<Rightarrow> string" where
  "effort policy = (case policy of Minimal \<Rightarrow> ''low'' | Balanced \<Rightarrow> ''medium'' | Thorough \<Rightarrow> ''high'')"

definition chat_tool :: "tool_spec \<Rightarrow> json" where
  "chat_tool tool = jobj [(''type'', JString ''function''),
     (''function'', jobj [(''name'', JString (ts_name tool)), (''description'', JString (ts_description tool)),
                          (''parameters'', ts_input_schema tool)])]"

definition chat_request_payload ::
  "gateway_externals \<Rightarrow> openai_compatible_adapter \<Rightarrow> model_request \<Rightarrow> (provider_execution_error, json) result" where
  "chat_request_payload ext adapter request =
     (case collect_results (message_payload ext) (mr_messages request) of
        Inl e \<Rightarrow> Inl e
      | Inr messages \<Rightarrow>
          (let payload = jobj [(''model'', JString (oa_model adapter)), (''messages'', JArray messages),
                               (''stream'', JBool True),
                               (''stream_options'', jobj [(''include_usage'', JBool True)])];
               payload = jset ''max_tokens''
                 (ju64 (case oa_max_output_tokens adapter of
                          Some ceiling \<Rightarrow> min ceiling (mr_max_output_tokens request)
                        | None \<Rightarrow> mr_max_output_tokens request)) payload;
               payload = (if oa_supports_reasoning_effort adapter
                          then jset ''reasoning_effort'' (JString (effort (mr_reasoning request))) payload else payload);
               payload = (if mr_tools request \<noteq> []
                          then jset ''tool_choice'' (JString ''auto'')
                                 (jset ''tools'' (JArray (map chat_tool (mr_tools request))) payload)
                          else payload);
               payload = (case mr_output_schema request of
                            None \<Rightarrow> payload
                          | Some schema \<Rightarrow> jset ''response_format''
                              (jobj [(''type'', JString ''json_schema''),
                                     (''json_schema'', jobj [(''name'', JString ''agent_output''),
                                        (''strict'', JBool True), (''schema'', schema)])]) payload)
           in Inr payload))"

section \<open>Content\<close>

datatype said = SaidText string | SaidThinking string

fun as_thinking :: "said \<Rightarrow> said" where
  "as_thinking (SaidText text) = SaidThinking text"
| "as_thinking (SaidThinking text) = SaidThinking text"

lemma bt_get_size: "bt_get k m = Some v \<Longrightarrow> size v < size (JObject m)"
proof -
  assume "bt_get k m = Some v"
  then have "(k, v) \<in> set m" by (auto simp: bt_get_def dest: map_of_SomeD)
  then show ?thesis
    by (induction m) (auto simp: size_prod_simp)
qed

text \<open>The field a content part keeps its words in: the first of the three it has.\<close>

definition part_words :: "(string \<times> json) list \<Rightarrow> json option" where
  "part_words m =
     (case bt_get ''text'' m of
        Some v \<Rightarrow> Some v
      | None \<Rightarrow> (case bt_get ''content'' m of Some v \<Rightarrow> Some v | None \<Rightarrow> bt_get ''thinking'' m))"

lemma part_words_size: "part_words m = Some v \<Longrightarrow> size v < size (JObject m)"
  unfolding part_words_def by (auto dest!: bt_get_size split: option.splits)

function content_parts :: "json \<Rightarrow> said list" where
  "content_parts (JString text) = (if text = [] then [] else [SaidText text])"
| "content_parts (JArray parts) = concat (map content_parts parts)"
| "content_parts (JObject part) =
     (let kind = lowercase (or_default [] (Option.bind (bt_get ''type'' part) as_str));
          text = (case part_words part of None \<Rightarrow> [] | Some v \<Rightarrow> content_parts v)
      in if sublist ''thinking'' kind \<or> sublist ''reasoning'' kind then map as_thinking text else text)"
| "content_parts JNull = []"
| "content_parts (JBool b) = []"
| "content_parts (JNumber n) = []"
  by pat_completeness auto
termination
proof (relation "measure size", goal_cases)
  case (2 parts part)
  then show ?case by (induction parts) auto
qed (auto dest: part_words_size)

section \<open>Chunks\<close>

record partial_tool_call =
  ptc_id :: string
  ptc_name :: string
  ptc_arguments :: string

definition default_partial :: partial_tool_call where
  "default_partial = \<lparr>ptc_id = [], ptc_name = [], ptc_arguments = []\<rparr>"

record chat_state = sink +
  chat_tool_calls :: "(u64, partial_tool_call) btree"
  chat_finish_reason :: "model_finish_reason option"

type_synonym 'a chat = "(chat_state, provider_execution_error, 'a) io"

definition merge_fragment :: "json \<Rightarrow> partial_tool_call \<Rightarrow> partial_tool_call" where
  "merge_fragment fragment partial =
     (let function = jidx ''function'' fragment;
          partial = (case nonempty_str (jidx ''id'' fragment) of None \<Rightarrow> partial | Some i \<Rightarrow> partial\<lparr>ptc_id := i\<rparr>);
          partial = (case nonempty_str (jidx ''name'' function) of None \<Rightarrow> partial | Some n \<Rightarrow> partial\<lparr>ptc_name := n\<rparr>)
      in case as_str (jidx ''arguments'' function) of
           None \<Rightarrow> partial
         | Some arguments \<Rightarrow> partial\<lparr>ptc_arguments := ptc_arguments partial @ arguments\<rparr>)"

definition absorb :: "u64 \<Rightarrow> json \<Rightarrow> (u64, partial_tool_call) btree \<Rightarrow> (u64, partial_tool_call) btree" where
  "absorb index fragment tool_calls =
     bt_insert index (merge_fragment fragment (or_default default_partial (bt_get index tool_calls))) tool_calls"

definition consume_fragment :: "json \<Rightarrow> unit chat" where
  "consume_fragment fragment =
     (case as_u64 (jidx ''index'' fragment) of
        None \<Rightarrow> give_up (protocol_error ''streamed tool call is missing its index'')
      | Some index \<Rightarrow> update (\<lambda>s. s\<lparr>chat_tool_calls := absorb index fragment (chat_tool_calls s)\<rparr>))"

definition chat_finish :: "string \<Rightarrow> model_finish_reason" where
  "chat_finish reason =
     (if reason = ''stop'' then Stop
      else if reason = ''tool_calls'' \<or> reason = ''function_call'' then ToolCalls
      else if reason = ''length'' then Length
      else if reason = ''content_filter'' then ReasonContentFilter
      else Stop)"

definition choice_delta :: "json \<Rightarrow> json" where
  "choice_delta choice =
     (case jidx ''delta'' choice of JNull \<Rightarrow> jidx ''message'' choice | delta \<Rightarrow> delta)"

definition choice_thinking :: "json \<Rightarrow> string option" where
  "choice_thinking delta =
     (case (case as_str (jidx ''reasoning'' delta) of
              Some text \<Rightarrow> Some text
            | None \<Rightarrow> as_str (jidx ''reasoning_content'' delta)) of
        None \<Rightarrow> None
      | Some text \<Rightarrow> if text = [] then None else Some text)"

definition said_event :: "u32 option \<Rightarrow> said \<Rightarrow> model_stream_event" where
  "said_event block said =
     (case said of SaidText text \<Rightarrow> TextDelta text block | SaidThinking text \<Rightarrow> ReasoningDelta text block)"

definition consume_choice :: "json \<Rightarrow> unit chat" where
  "consume_choice choice =
     (let delta = choice_delta choice;
          block = map_option narrow_index (as_u64 (jidx ''index'' choice))
      in then_do (case choice_thinking delta of None \<Rightarrow> finish () | Some text \<Rightarrow> emit_event (ReasoningDelta text block))
       (\<lambda>_. then_do (for_each (\<lambda>said. emit_event (said_event block said)) (content_parts (jidx ''content'' delta)))
       (\<lambda>_. then_do (case nonempty_str (jidx ''refusal'' delta) of None \<Rightarrow> finish () | Some text \<Rightarrow> emit_event (Refusal text))
       (\<lambda>_. then_do (for_each consume_fragment (array_items (jidx ''tool_calls'' delta)))
       (\<lambda>_. case as_str (jidx ''finish_reason'' choice) of
               None \<Rightarrow> finish ()
             | Some reason \<Rightarrow> update (\<lambda>s. s\<lparr>chat_finish_reason := Some (chat_finish reason)\<rparr>))))))"

definition usage_event :: "provider_pricing \<Rightarrow> json \<Rightarrow> model_stream_event" where
  "usage_event pricing usage =
     (let input_tokens = or_default 0 (Option.bind (jget ''prompt_tokens'' usage) as_u64);
          output_tokens = or_default 0 (Option.bind (jget ''completion_tokens'' usage) as_u64);
          cached_input_tokens = or_default 0 (Option.bind
            (Option.bind (jget ''prompt_tokens_details'' usage) (jget ''cached_tokens'')) as_u64)
      in Usage input_tokens output_tokens (calculate_cost input_tokens output_tokens cached_input_tokens pricing))"

definition consume_chunk :: "provider_pricing \<Rightarrow> json \<Rightarrow> unit chat" where
  "consume_chunk pricing chunk =
     then_do (for_each consume_choice (array_items (jidx ''choices'' chunk)))
       (\<lambda>_. if is_object (jidx ''usage'' chunk) then emit_event (usage_event pricing (jidx ''usage'' chunk)) else finish ())"

section \<open>The end of the turn\<close>

definition tool_event :: "gateway_externals \<Rightarrow> partial_tool_call \<Rightarrow> (provider_execution_error, model_stream_event) result" where
  "tool_event ext tool_call =
     (if ptc_id tool_call = [] \<or> ptc_name tool_call = []
      then Inl (protocol_error ''streamed tool call is missing id or function name'')
      else if trim (ptc_arguments tool_call) = []
      then Inr (ModelToolCall (ptc_id tool_call) (ptc_name tool_call) (JObject []))
      else (case gx_from_str ext (trim (ptc_arguments tool_call)) of
              Inl error \<Rightarrow> Inl (protocol_error
                (''streamed tool arguments for '' @ ptc_name tool_call @ '' are invalid JSON: '' @ error))
            | Inr arguments \<Rightarrow> Inr (ModelToolCall (ptc_id tool_call) (ptc_name tool_call) arguments)))"

definition flush_tool_calls :: "gateway_externals \<Rightarrow> (u64, partial_tool_call) btree \<Rightarrow> unit chat" where
  "flush_tool_calls ext tool_calls =
     for_each (\<lambda>(index, tool_call). then_do (of_result (tool_event ext tool_call)) emit_event) tool_calls"

definition tool_turn :: "model_finish_reason \<Rightarrow> (u64, partial_tool_call) btree \<Rightarrow> model_finish_reason" where
  "tool_turn reason tool_calls = (if reason = Stop \<and> tool_calls \<noteq> [] then ToolCalls else reason)"

definition complete_turn :: "gateway_externals \<Rightarrow> 'r \<Rightarrow> string \<Rightarrow> 'r chat" where
  "complete_turn ext over missing =
     inspect (\<lambda>s. case chat_finish_reason s of
                    None \<Rightarrow> give_up (protocol_error missing)
                  | Some reason \<Rightarrow>
                      then_do (flush_tool_calls ext (chat_tool_calls s))
                        (\<lambda>_. then_do (emit_event (Completed (tool_turn reason (chat_tool_calls s)))) (\<lambda>_. finish over)))"

definition fault_kind :: "bool \<Rightarrow> string \<Rightarrow> string \<Rightarrow> model_error_kind \<times> bool" where
  "fault_kind refused message kind_hint =
     (if refused then (KindContentFilter, False)
      else if looks_like_context_overflow message then (ContextOverflow, False)
      else if sublist ''rate_limit'' kind_hint \<or> sublist ''overloaded'' kind_hint then (RateLimited, True)
      else if sublist ''quota'' kind_hint \<or> sublist ''billing'' kind_hint then (Billing, False)
      else if sublist ''authentication'' kind_hint \<or> sublist ''permission'' kind_hint then (Authentication, False)
      else if sublist ''timeout'' kind_hint then (Timeout, True)
      else if sublist ''server'' kind_hint \<or> sublist ''unavailable'' kind_hint then (Unavailable, True)
      else (Protocol, False))"

definition in_band_error :: "gateway_externals \<Rightarrow> json \<Rightarrow> provider_credential \<Rightarrow> provider_execution_error option" where
  "in_band_error ext chunk credential =
     (case jget ''error'' chunk of
        None \<Rightarrow> None
      | Some error \<Rightarrow>
          if is_null error then None
          else
            (let kind_hint = lowercase (or_default []
                   (Option.bind (case jget ''type'' error of Some t \<Rightarrow> Some t | None \<Rightarrow> jget ''code'' error) as_str));
                 said = or_default ''provider reported a fault with no message''
                   (Option.bind (jget ''message'' error) as_str);
                 message = redact credential (take_chars 2048 said);
                 refused = list_ex is_refusal_code
                   (List.map_filter (\<lambda>v. Option.bind v as_str) [jget ''code'' error, jget ''type'' error]);
                 (kind, retryable) = fault_kind refused message kind_hint;
                 retry_after_ms = (case Option.bind (jget ''retry_after_ms'' error) as_u64 of
                     Some n \<Rightarrow> Some n
                   | None \<Rightarrow> Option.bind (Option.bind (jget ''retry_after'' error) as_str) (parse_retry_after_ms ext))
             in Some (ProviderFault kind retryable None retry_after_ms message)))"

section \<open>The adapter\<close>

definition chat_handler ::
  "gateway_externals \<Rightarrow> openai_compatible_adapter \<Rightarrow> provider_credential \<Rightarrow> string \<Rightarrow> string \<Rightarrow> bool chat" where
  "chat_handler ext adapter credential name data =
     (if data = ''[DONE]'' then complete_turn ext True ''provider stream completed without finish_reason''
      else then_do (of_result (sse_json ext data))
        (\<lambda>chunk. case in_band_error ext chunk credential of
                   Some reported \<Rightarrow> give_up reported
                 | None \<Rightarrow> then_do (consume_chunk (oa_pricing adapter) chunk) (\<lambda>_. finish False)))"

definition chat_at_end :: "gateway_externals \<Rightarrow> unit chat" where
  "chat_at_end ext = complete_turn ext () ''provider stream ended before the model said the turn was over''"

definition chat_begin :: "sink \<Rightarrow> chat_state" where
  "chat_begin events = sink.extend events \<lparr>chat_tool_calls = [], chat_finish_reason = None\<rparr>"

definition chat_execute ::
  "gateway_externals \<Rightarrow> (json \<Rightarrow> exchange) \<Rightarrow> openai_compatible_adapter \<Rightarrow> model_request \<Rightarrow> provider_credential \<Rightarrow>
   (sink, provider_execution_error, unit) io" where
  "chat_execute ext post adapter request credential events =
     (case chat_request_payload ext adapter request of
        Inl e \<Rightarrow> (Inl e, events)
      | Inr payload \<Rightarrow>
          map_prod id sink.truncate
            (converse ext (chat_handler ext adapter credential) (chat_at_end ext) credential (post payload)
               (chat_begin events)))"

section \<open>The contract\<close>

lemma consume_fragment_keeps [io_intros]:
  "keeps (extends P) (consume_fragment fragment)" "fails_with sound_fault (consume_fragment fragment)"
  unfolding consume_fragment_def by (intro io_intros; simp)+

lemma said_event_kind [simp]: "\<not> closes_turn (said_event block said)" "\<not> is_tool_event (said_event block said)"
  by (simp_all add: said_event_def split: said.split)

lemma consume_choice_keeps [io_intros]:
  "keeps (extends open_turn) (consume_choice choice)" "fails_with sound_fault (consume_choice choice)"
  unfolding consume_choice_def Let_def by (intro io_intros; simp)+

lemma consume_chunk_keeps [io_intros]:
  "keeps (extends open_turn) (consume_chunk pricing chunk)" "fails_with sound_fault (consume_chunk pricing chunk)"
  unfolding consume_chunk_def usage_event_def Let_def by (intro io_intros; simp)+

lemma tool_event_cases:
  "tool_event ext tool_call = Inr event \<Longrightarrow> \<exists>arguments. event = ModelToolCall (ptc_id tool_call) (ptc_name tool_call) arguments"
  "tool_event ext tool_call = Inl e \<Longrightarrow> sound_fault e"
  by (auto simp: tool_event_def split: if_splits sum.splits)

lemma flush_keeps [io_intros]:
  "keeps (extends open_turn) (flush_tool_calls ext tool_calls)" "fails_with sound_fault (flush_tool_calls ext tool_calls)"
proof -
  have "keeps (extends open_turn) (then_do (of_result (tool_event ext t)) emit_event :: unit chat)" for t
  proof (cases "tool_event ext t")
    case (Inr event)
    then have "open_turn event" using tool_event_cases(1) by fastforce
    with Inr show ?thesis
      by (auto simp: keeps_def then_do_def of_result_def emit_event_def extends_def)
  qed (simp add: keeps_def then_do_def of_result_def grows.refl)
  then show "keeps (extends open_turn) (flush_tool_calls ext tool_calls)"
    unfolding flush_tool_calls_def by (intro grows.keeps_for_each) (simp split: prod.split)
  show "fails_with sound_fault (flush_tool_calls ext tool_calls)"
    using tool_event_cases(2) by (auto simp: flush_tool_calls_def intro!: io_intros)
qed

lemma complete_turn_ends: "over a \<Longrightarrow> turn_step over (complete_turn ext a missing)"
  unfolding complete_turn_def
  by (intro turn_step_inspect)
     (auto intro!: turn_step_give_up turn_step_then turn_step_complete flush_keeps split: option.split)

lemma complete_turn_fault: "fails_with sound_fault (complete_turn ext a missing)"
  unfolding complete_turn_def by (intro fails_with_inspect) (auto intro!: io_intros split: option.split)

lemma fault_kind_sound: "fault_kind refused message hint = (kind, True) \<Longrightarrow> kind \<in> {RateLimited, Timeout, Unavailable}"
  by (simp add: fault_kind_def split: if_splits)

lemma in_band_error_sound: "in_band_error ext chunk credential = Some e \<Longrightarrow> sound_fault e"
  using fault_kind_sound by (simp add: in_band_error_def Let_def split: option.splits prod.splits if_splits) fastforce+

lemma sse_json_sound: "sse_json ext data = Inl e \<Longrightarrow> sound_fault e"
  by (auto simp: sse_json_def split: sum.splits)

interpretation chat: provider_turn "chat_handler ext adapter credential" "chat_at_end ext" for ext adapter credential
proof
  show "turn_step (\<lambda>over. over) (chat_handler ext adapter credential name data)" for name data
    by (auto simp: chat_handler_def complete_turn_ends
        intro!: turn_step_then turn_step_give_up turn_step_finish grows.keeps_of_result consume_chunk_keeps split: option.split)
  show "turn_step (\<lambda>_. True) (chat_at_end ext)"
    by (simp add: chat_at_end_def complete_turn_ends)
  show "fails_with sound_fault (chat_handler ext adapter credential name data)" for name data
    by (auto simp: chat_handler_def complete_turn_fault in_band_error_sound sse_json_sound intro!: io_intros split: option.split)
  show "fails_with sound_fault (chat_at_end ext)"
    by (simp add: chat_at_end_def complete_turn_fault)
qed

section \<open>Tool turns\<close>

definition same_calls :: "chat_state \<Rightarrow> chat_state \<Rightarrow> bool" where
  "same_calls s s' \<longleftrightarrow> chat_tool_calls s' = chat_tool_calls s"

interpretation same_calls: progress same_calls
  by unfold_locales (simp_all add: same_calls_def)

lemma same_calls_emit [io_intros]: "keeps same_calls (emit_event event)"
  by (auto simp: keeps_def emit_event_def same_calls_def)

abbreviation asks_tool :: "chat_state \<Rightarrow> bool" where
  "asks_tool s \<equiv> chat_tool_calls s \<noteq> []"

lemma flush_grows: "keeps (extends (\<lambda>_. True)) (flush_tool_calls ext tool_calls)"
  unfolding flush_tool_calls_def by (intro grows.keeps_for_each) (auto intro!: io_intros)

lemma flush_same_calls: "keeps same_calls (flush_tool_calls ext tool_calls)"
  unfolding flush_tool_calls_def by (intro same_calls.keeps_for_each) (auto intro!: io_intros)

lemma complete_turn_records: "keeps (records_tools asks_tool) (complete_turn ext a missing)"
  unfolding keeps_def
proof
  fix s
  have grows: "keeps (extends (\<lambda>_. True)) (complete_turn ext a missing)"
    unfolding complete_turn_def
    by (intro grows.keeps_inspect keeps_option grows.keeps_give_up grows.keeps_then_do flush_grows keeps_emit
        grows.keeps_finish) simp
  have same: "keeps same_calls (complete_turn ext a missing)"
    unfolding complete_turn_def
    by (intro same_calls.keeps_inspect keeps_option same_calls.keeps_give_up same_calls.keeps_then_do flush_same_calls
        same_calls_emit same_calls.keeps_finish)
  show "records_tools asks_tool s (snd (complete_turn ext a missing s))"
  proof (cases "asks_tool s")
    case True
    with grows same show ?thesis by (auto simp: keeps_def extends_def records_tools_def same_calls_def)
  next
    case False
    then show ?thesis
      by (auto simp: complete_turn_def inspect_def flush_tool_calls_def then_do_def finish_def give_up_def
          emit_event_def records_tools_def split: option.split)
  qed
qed

lemma complete_turn_honest: "honest_stop asks_tool over (complete_turn ext a missing)"
  unfolding honest_stop_def
proof (intro allI impI)
  fix s r s'
  assume run: "complete_turn ext a missing s = (r, s')" and "ends_turn over r" and stop: "last (delivered s') = Completed Stop"
  then obtain b where r: "r = Inr b" by (cases r) simp_all
  from run r obtain reason where reason: "chat_finish_reason s = Some reason"
    by (cases "chat_finish_reason s") (simp_all add: complete_turn_def inspect_def give_up_def)
  obtain r1 t where flush: "flush_tool_calls ext (chat_tool_calls s) s = (r1, t)" by fastforce
  with run r reason obtain u where r1: "r1 = Inr u" by (cases r1) (simp_all add: complete_turn_def inspect_def then_do_def)
  have t: "chat_tool_calls t = chat_tool_calls s"
    using flush_same_calls [of ext "chat_tool_calls s"] flush unfolding keeps_def same_calls_def by (metis snd_conv)
  from run r reason flush r1 have
    "delivered s' = delivered t @ [Completed (tool_turn reason (chat_tool_calls s))]" and "chat_tool_calls s' = chat_tool_calls t"
    by (auto simp: complete_turn_def inspect_def then_do_def emit_event_def finish_def split: if_splits)
  with stop t show "\<not> asks_tool s'" by (auto simp: tool_turn_def split: if_splits)
qed

lemma bt_insert_not_Nil: "bt_insert k v m \<noteq> []"
  by (cases "(k, v, m)" rule: bt_insert.cases) auto

lemma consume_fragment_records [io_intros]: "keeps (records_tools asks_tool) (consume_fragment fragment)"
  unfolding consume_fragment_def
  by (intro io_intros keeps_records_update) (auto simp: absorb_def bt_insert_not_Nil)

lemma consume_choice_records [io_intros]: "keeps (records_tools asks_tool) (consume_choice choice)"
  unfolding consume_choice_def Let_def
  by (intro records.keeps_then_do records.keeps_finish records.keeps_for_each keeps_option keeps_records_emit
      keeps_records_update consume_fragment_records) simp_all

lemma consume_chunk_records: "keeps (records_tools asks_tool) (consume_chunk pricing chunk)"
  unfolding consume_chunk_def usage_event_def Let_def
  by (intro records.keeps_then_do records.keeps_finish records.keeps_for_each keeps_if keeps_records_emit
      consume_choice_records) simp_all

lemma never_over: "honest_stop seen (\<lambda>over. over) (then_do m (\<lambda>_. finish False))"
  by (auto simp: honest_stop_def then_do_def finish_def split: prod.splits sum.splits)

lemma chat_handler_honest: "honest_stop asks_tool (\<lambda>over. over) (chat_handler ext adapter credential name data)"
proof (cases "data = ''[DONE]''")
  case True
  then show ?thesis by (simp add: chat_handler_def complete_turn_honest)
next
  case False
  have "honest_stop asks_tool (\<lambda>over. over)
      (case in_band_error ext chunk credential of Some e \<Rightarrow> give_up e
       | None \<Rightarrow> then_do (consume_chunk (oa_pricing adapter) chunk) (\<lambda>_. finish False))" for chunk
    by (simp add: never_over split: option.split) (simp add: honest_stop_def give_up_def)
  with False show ?thesis
    by (cases "sse_json ext data") (auto simp: chat_handler_def then_do_def of_result_def honest_stop_def)
qed

interpretation chat_tools: tool_aware_turn "chat_handler ext adapter credential" "chat_at_end ext" asks_tool
  for ext adapter credential
proof
  show "keeps (records_tools asks_tool) (chat_handler ext adapter credential name data)" for name data
    unfolding chat_handler_def
    by (intro keeps_if complete_turn_records records.keeps_then_do records.keeps_of_result keeps_option
        records.keeps_give_up records.keeps_finish consume_chunk_records)
  show "keeps (records_tools asks_tool) (chat_at_end ext)"
    by (simp add: chat_at_end_def complete_turn_records)
  show "honest_stop asks_tool (\<lambda>over. over) (chat_handler ext adapter credential name data)" for name data
    by (rule chat_handler_honest)
  show "honest_stop asks_tool (\<lambda>_. True) (chat_at_end ext)"
    by (simp add: chat_at_end_def complete_turn_honest)
qed

section \<open>Tool calls from fragments\<close>

definition choice_fragments :: "json \<Rightarrow> json list" where
  "choice_fragments choice = array_items (jidx ''tool_calls'' (choice_delta choice))"

definition chunk_fragments :: "json \<Rightarrow> json list" where
  "chunk_fragments chunk = concat (map choice_fragments (array_items (jidx ''choices'' chunk)))"

definition fragment_index :: "json \<Rightarrow> u64 option" where
  "fragment_index fragment = as_u64 (jidx ''index'' fragment)"

definition absorb_fragment :: "json \<Rightarrow> (u64, partial_tool_call) btree \<Rightarrow> (u64, partial_tool_call) btree" where
  "absorb_fragment fragment calls =
     (case fragment_index fragment of None \<Rightarrow> calls | Some index \<Rightarrow> absorb index fragment calls)"

text \<open>What a step that succeeds does to the partial calls.\<close>

definition calls_by ::
  "((u64, partial_tool_call) btree \<Rightarrow> (u64, partial_tool_call) btree) \<Rightarrow> 'r chat \<Rightarrow> bool" where
  "calls_by g m \<longleftrightarrow> (\<forall>s a s'. m s = (Inr a, s') \<longrightarrow> chat_tool_calls s' = g (chat_tool_calls s))"

lemma calls_by_same: "keeps same_calls m \<Longrightarrow> calls_by (\<lambda>c. c) m"
  by (auto simp: keeps_def same_calls_def calls_by_def) (metis snd_conv)

lemma calls_by_then:
  assumes "calls_by g m" and "\<And>a. calls_by h (f a)"
  shows "calls_by (\<lambda>c. h (g c)) (then_do m f)"
  unfolding calls_by_def
proof (intro allI impI)
  fix s b u assume run: "then_do m f s = (Inr b, u)"
  then obtain a t where m: "m s = (Inr a, t)" and f: "f a t = (Inr b, u)"
    by (auto simp: then_do_def split: prod.splits sum.splits)
  then show "chat_tool_calls u = h (g (chat_tool_calls s))" using assms by (simp add: calls_by_def)
qed

lemma calls_by_for_each: "(\<And>x. calls_by (g x) (f x)) \<Longrightarrow> calls_by (fold g xs) (for_each f xs)"
proof (induction xs)
  case Nil
  then show ?case by (simp add: calls_by_def finish_def)
next
  case (Cons x xs)
  have "calls_by (\<lambda>c. fold g xs (g x c)) (then_do (f x) (\<lambda>_. for_each f xs))"
    by (rule calls_by_then) (simp_all add: Cons)
  then show ?case by (simp add: comp_def)
qed

lemma consume_fragment_calls: "calls_by (absorb_fragment fragment) (consume_fragment fragment)"
  by (auto simp: calls_by_def consume_fragment_def absorb_fragment_def fragment_index_def update_def give_up_def
      split: option.split)

lemma consume_choice_calls: "calls_by (fold absorb_fragment (choice_fragments choice)) (consume_choice choice)"
proof -
  let ?d = "choice_delta choice" and ?b = "map_option narrow_index (as_u64 (jidx ''index'' choice))"
  have 1: "calls_by (\<lambda>c. c) (case choice_thinking ?d of None \<Rightarrow> finish () | Some text \<Rightarrow> emit_event (ReasoningDelta text ?b))"
    and 2: "calls_by (\<lambda>c. c) (for_each (\<lambda>said. emit_event (said_event ?b said)) (content_parts (jidx ''content'' ?d)))"
    and 3: "calls_by (\<lambda>c. c) (case nonempty_str (jidx ''refusal'' ?d) of None \<Rightarrow> finish () | Some text \<Rightarrow> emit_event (Refusal text))"
    and 5: "calls_by (\<lambda>c. c) (case as_str (jidx ''finish_reason'' choice) of None \<Rightarrow> finish ()
       | Some reason \<Rightarrow> update (\<lambda>s. s\<lparr>chat_finish_reason := Some (chat_finish reason)\<rparr>))"
    by (intro calls_by_same keeps_option same_calls.keeps_finish same_calls.keeps_for_each same_calls_emit;
        simp add: keeps_def update_def same_calls_def)+
  have 4: "calls_by (fold absorb_fragment (choice_fragments choice)) (for_each consume_fragment (array_items (jidx ''tool_calls'' ?d)))"
    unfolding choice_fragments_def by (intro calls_by_for_each consume_fragment_calls)
  show ?thesis
    unfolding consume_choice_def Let_def
    using calls_by_then [OF 1 calls_by_then [OF 2 calls_by_then [OF 3 calls_by_then [OF 4 5]]]] by simp
qed

lemma consume_chunk_calls: "calls_by (fold absorb_fragment (chunk_fragments chunk)) (consume_chunk pricing chunk)"
proof -
  have 1: "calls_by (fold (\<lambda>choice. fold absorb_fragment (choice_fragments choice)) (array_items (jidx ''choices'' chunk)))
      (for_each consume_choice (array_items (jidx ''choices'' chunk)))"
    by (intro calls_by_for_each consume_choice_calls)
  have 2: "calls_by (\<lambda>c. c) (if is_object (jidx ''usage'' chunk) then emit_event (usage_event pricing (jidx ''usage'' chunk)) else finish ())"
    by (intro calls_by_same keeps_if same_calls.keeps_finish same_calls_emit)
  have "fold (\<lambda>choice. fold absorb_fragment (choice_fragments choice)) cs c =
      fold absorb_fragment (concat (map choice_fragments cs)) c" for cs c
    by (induction cs arbitrary: c) simp_all
  then show ?thesis
    using calls_by_then [OF 1 2] unfolding consume_chunk_def chunk_fragments_def by simp
qed

text \<open>The call that the fragments of one index make.\<close>

definition last_known :: "string \<Rightarrow> string option list \<Rightarrow> string" where
  "last_known before texts = fold (\<lambda>t b. or_default b t) texts before"

definition assembled :: "json list \<Rightarrow> partial_tool_call" where
  "assembled fragments =
     \<lparr>ptc_id = last_known [] (map (\<lambda>f. nonempty_str (jidx ''id'' f)) fragments),
      ptc_name = last_known [] (map (\<lambda>f. nonempty_str (jidx ''name'' (jidx ''function'' f))) fragments),
      ptc_arguments = concat (map (\<lambda>f. or_default [] (as_str (jidx ''arguments'' (jidx ''function'' f)))) fragments)\<rparr>"

lemma merge_fragments:
  "fold merge_fragment fs p =
     \<lparr>ptc_id = last_known (ptc_id p) (map (\<lambda>f. nonempty_str (jidx ''id'' f)) fs),
      ptc_name = last_known (ptc_name p) (map (\<lambda>f. nonempty_str (jidx ''name'' (jidx ''function'' f))) fs),
      ptc_arguments = ptc_arguments p @ concat (map (\<lambda>f. or_default [] (as_str (jidx ''arguments'' (jidx ''function'' f)))) fs)\<rparr>"
proof (induction fs arbitrary: p)
  case Nil
  then show ?case by (simp add: last_known_def)
next
  case (Cons f fs)
  have "ptc_id (merge_fragment f p) = or_default (ptc_id p) (nonempty_str (jidx ''id'' f))"
    "ptc_name (merge_fragment f p) = or_default (ptc_name p) (nonempty_str (jidx ''name'' (jidx ''function'' f)))"
    "ptc_arguments (merge_fragment f p) = ptc_arguments p @ or_default [] (as_str (jidx ''arguments'' (jidx ''function'' f)))"
    by (simp_all add: merge_fragment_def or_default_def Let_def split: option.split)
  with Cons show ?case by (simp add: last_known_def)
qed

abbreviation fragments_of :: "u64 \<Rightarrow> json list \<Rightarrow> json list" where
  "fragments_of i fs \<equiv> filter (\<lambda>f. fragment_index f = Some i) fs"

lemma absorbed_call:
  "bt_get i (fold absorb_fragment fs calls) =
     (if fragments_of i fs = [] then bt_get i calls
      else Some (fold merge_fragment (fragments_of i fs) (or_default default_partial (bt_get i calls))))"
proof (induction fs arbitrary: calls)
  case (Cons f fs)
  have "bt_get i (absorb_fragment f calls) = (if fragment_index f = Some i
      then Some (merge_fragment f (or_default default_partial (bt_get i calls))) else bt_get i calls)"
    by (simp add: absorb_fragment_def absorb_def bt_get_insert split: option.split)
  with Cons show ?case by (auto simp: or_default_def)
qed simp

lemma absorbed_wf: "bt_wf calls \<Longrightarrow> bt_wf (fold absorb_fragment fs calls)"
  by (induction fs arbitrary: calls) (auto simp: absorb_fragment_def absorb_def bt_wf_insert split: option.split)

definition fragment_indexes :: "json list \<Rightarrow> u64 list" where
  "fragment_indexes fs = sorted_list_of_set {i. \<exists>f \<in> set fs. fragment_index f = Some i}"

lemma finite_fragment_indexes: "finite {i. \<exists>f \<in> set fs. fragment_index f = Some i}"
proof -
  have "{i. \<exists>f \<in> set fs. fragment_index f = Some i} \<subseteq> the ` fragment_index ` set fs" by force
  then show ?thesis using finite_surj finite_set by blast
qed

lemma absorbed_calls:
  "fold absorb_fragment fs [] = map (\<lambda>i. (i, assembled (fragments_of i fs))) (fragment_indexes fs)" (is "?l = ?r")
proof (rule bt_ext)
  show "bt_wf ?l" by (rule absorbed_wf) simp
  show "bt_wf ?r" by (simp add: bt_wf_def fragment_indexes_def comp_def)
  fix i
  have "fragments_of i fs = [] \<longleftrightarrow> i \<notin> set (fragment_indexes fs)"
    by (auto simp: fragment_indexes_def finite_fragment_indexes filter_empty_conv)
  moreover have "bt_get i (map (\<lambda>i. (i, h i)) is) = (if i \<in> set is then Some (h i) else None)" for h :: "u64 \<Rightarrow> partial_tool_call" and "is"
    by (induction "is") (auto simp: bt_get_def)
  ultimately show "bt_get i ?l = bt_get i ?r"
    by (simp add: absorbed_call merge_fragments assembled_def default_partial_def or_default_def)
qed

lemma flushed_events:
  "flush_tool_calls ext calls s = (Inr (), s') \<Longrightarrow>
     \<exists>events. delivered s' = delivered s @ events \<and> map Inr events = map (\<lambda>(i, call). tool_event ext call) calls"
proof (induction calls arbitrary: s)
  case Nil
  then show ?case by (simp add: flush_tool_calls_def finish_def)
next
  case (Cons ic calls)
  obtain i call where ic: "ic = (i, call)" by fastforce
  with Cons.prems obtain event where e: "tool_event ext call = Inr event"
    by (cases "tool_event ext call") (simp_all add: flush_tool_calls_def then_do_def of_result_def)
  let ?t = "s\<lparr>delivered := delivered s @ [event], room := map_option (\<lambda>n. n - 1) (room s)\<rparr>"
  from Cons.prems ic e have "flush_tool_calls ext calls ?t = (Inr (), s')"
    by (auto simp: flush_tool_calls_def then_do_def of_result_def emit_event_def split: if_splits)
  from Cons.IH [OF this] obtain events where "delivered s' = delivered s @ event # events"
    "map Inr events = map (\<lambda>(i, call). tool_event ext call) calls" by auto
  with ic e show ?case by (intro exI [of _ "event # events"]) simp
qed

lemma completed_events:
  assumes "complete_turn ext a missing s = (Inr b, s')"
  shows "\<exists>events reason. delivered s' = delivered s @ events @ [Completed reason] \<and>
    map Inr events = map (\<lambda>(i, call). tool_event ext call) (chat_tool_calls s)"
proof -
  from assms obtain reason where reason: "chat_finish_reason s = Some reason"
    by (cases "chat_finish_reason s") (simp_all add: complete_turn_def inspect_def give_up_def)
  obtain r t where flush: "flush_tool_calls ext (chat_tool_calls s) s = (r, t)" by fastforce
  with assms reason obtain u where r: "r = Inr u" by (cases r) (simp_all add: complete_turn_def inspect_def then_do_def)
  from assms reason flush r have "delivered s' = delivered t @ [Completed (tool_turn reason (chat_tool_calls s))]"
    by (auto simp: complete_turn_def inspect_def then_do_def emit_event_def finish_def split: if_splits)
  with flushed_events [of ext "chat_tool_calls s" s t] flush r show ?thesis by auto
qed

lemma complete_turn_over: "complete_turn ext a missing s = (Inr b, s') \<Longrightarrow> b = a"
  by (auto simp: complete_turn_def inspect_def give_up_def then_do_def finish_def split: option.splits prod.splits sum.splits)

abbreviation quiet :: "model_stream_event \<Rightarrow> bool" where
  "quiet event \<equiv> \<not> is_tool_event event"

lemma consume_choice_quiet: "keeps (extends quiet) (consume_choice choice)"
  unfolding consume_choice_def Let_def by (intro io_intros; simp)+

lemma consume_chunk_quiet: "keeps (extends quiet) (consume_chunk pricing chunk)"
  unfolding consume_chunk_def usage_event_def Let_def by (intro io_intros consume_choice_quiet; simp)+

text \<open>
  One frame after the other: the partial calls absorb the fragments, and no Tool call is delivered yet.
\<close>

lemma chat_frames:
  assumes "list_all2 (\<lambda>(name, data) chunk. data \<noteq> ''[DONE]'' \<and> gx_from_str ext data = Inr chunk) frames chunks"
    and "drive (chat_handler ext adapter credential) at_end (map (\<lambda>(name, data). SseEvent name data) frames @ rest) s = (Inr (), s')"
  shows "\<exists>t. drive (chat_handler ext adapter credential) at_end rest t = (Inr (), s') \<and> extends quiet s t \<and>
    chat_tool_calls t = fold absorb_fragment (concat (map chunk_fragments chunks)) (chat_tool_calls s)"
  using assms
proof (induction frames chunks arbitrary: s rule: list_all2_induct)
  case Nil
  then show ?case by (auto intro: grows.refl)
next
  case (Cons frame frames chunk chunks)
  obtain name data where frame: "frame = (name, data)" by fastforce
  with Cons.hyps have data: "data \<noteq> ''[DONE]''" "sse_json ext data = Inr chunk" by (simp_all add: sse_json_def)
  let ?rest = "map (\<lambda>(name, data). SseEvent name data) frames @ rest"
  have no_error: "in_band_error ext chunk credential = None"
  proof (cases "in_band_error ext chunk credential")
    case (Some e)
    with data have "chat_handler ext adapter credential name data s = (Inl e, s)"
      by (simp add: chat_handler_def then_do_def of_result_def give_up_def)
    with Cons.prems frame show ?thesis by (simp add: then_do_def)
  qed
  obtain r t where chunk: "consume_chunk (oa_pricing adapter) chunk s = (r, t)"
    by (cases "consume_chunk (oa_pricing adapter) chunk s")
  then have handler: "chat_handler ext adapter credential name data s = (map_sum id (\<lambda>_. False) r, t)"
    using data no_error by (cases r) (simp_all add: chat_handler_def then_do_def of_result_def finish_def)
  have run: "then_do (chat_handler ext adapter credential name data)
      (\<lambda>over. if over then finish () else drive (chat_handler ext adapter credential) at_end ?rest) s = (Inr (), s')"
    using Cons.prems frame by simp
  from run handler have r: "r = Inr ()" by (cases r) (simp_all add: then_do_def)
  with run handler have rest: "drive (chat_handler ext adapter credential) at_end ?rest t = (Inr (), s')"
    by (simp add: then_do_def)
  have "extends quiet s t" using consume_chunk_quiet chunk by (metis keeps_def snd_conv)
  moreover have "chat_tool_calls t = fold absorb_fragment (chunk_fragments chunk) (chat_tool_calls s)"
    using consume_chunk_calls [of chunk "oa_pricing adapter"] chunk r by (simp add: calls_by_def)
  moreover obtain u where "drive (chat_handler ext adapter credential) at_end rest u = (Inr (), s')" "extends quiet t u"
    "chat_tool_calls u = fold absorb_fragment (concat (map chunk_fragments chunks)) (chat_tool_calls t)"
    using Cons.IH [OF rest] by blast
  ultimately show ?case by (auto intro: grows.trans)
qed

section \<open>Property\<close>

text \<open>
  C26. Tool calls are put together from their fragments, however the answer is cut into chunks. When a turn succeeds, the
  Tool calls it delivered are, in the order of their indexes, one for each index a fragment named: with the last id and
  name that were given, and with the arguments read from the concatenation of the argument texts of the fragments of
  that index in the order they arrived, whatever other fragments came between them.
\<close>

theorem chat_tool_calls_reassembled:
  assumes "list_all2 (\<lambda>(name, data) chunk. data \<noteq> ''[DONE]'' \<and> gx_from_str ext data = Inr chunk) frames chunks"
    and "ending \<in> {[], [SseEvent name ''[DONE]'']}"
    and "drive (chat_handler ext adapter credential) (chat_at_end ext)
      (map (\<lambda>(name, data). SseEvent name data) frames @ ending) (chat_begin events) = (Inr (), s')"
  shows "\<exists>new. delivered s' = delivered events @ new \<and>
    map Inr (filter is_tool_event new) =
      (let fragments = concat (map chunk_fragments chunks)
       in map (\<lambda>i. tool_event ext (assembled (fragments_of i fragments))) (fragment_indexes fragments))"
proof -
  let ?fs = "concat (map chunk_fragments chunks)"
  have begin': "delivered (chat_begin events) = delivered events" "chat_tool_calls (chat_begin events) = []"
    by (simp_all add: chat_begin_def sink.defs)
  obtain t where t: "drive (chat_handler ext adapter credential) (chat_at_end ext) ending t = (Inr (), s')"
    "extends quiet (chat_begin events) t" "chat_tool_calls t = fold absorb_fragment ?fs []"
    using chat_frames [OF assms(1,3)] begin'(2) by auto
  obtain pre where pre: "delivered t = delivered events @ pre" "list_all quiet pre"
    using t(2) begin'(1) by (auto simp: extends_def)
  have "\<exists>tools reason. delivered s' = delivered t @ tools @ [Completed reason] \<and>
      map Inr tools = map (\<lambda>(i, call). tool_event ext call) (chat_tool_calls t)"
  proof (cases "ending = []")
    case True
    with t(1) have "complete_turn ext () ''provider stream ended before the model said the turn was over'' t = (Inr (), s')"
      by (simp add: chat_at_end_def)
    from completed_events [OF this] show ?thesis .
  next
    case False
    with assms(2) t(1) have run: "then_do (complete_turn ext True ''provider stream completed without finish_reason'')
        (\<lambda>over. if over then finish () else chat_at_end ext) t = (Inr (), s')"
      by (simp add: chat_handler_def cong: if_cong)
    obtain r u where c: "complete_turn ext True ''provider stream completed without finish_reason'' t = (r, u)"
      by (cases "complete_turn ext True ''provider stream completed without finish_reason'' t")
    with run obtain over where r: "r = Inr over" by (cases r) (simp_all add: then_do_def)
    have over: "over" using complete_turn_over [of ext True _ t over u] c r by simp
    with run c r have "u = s'" by (simp add: then_do_def finish_def)
    with c r completed_events [of ext True _ t over s'] show ?thesis by simp
  qed
  then obtain tools reason where tools: "delivered s' = delivered t @ tools @ [Completed reason]"
    "map Inr tools = map (\<lambda>i. tool_event ext (assembled (fragments_of i ?fs))) (fragment_indexes ?fs)"
    by (auto simp: t(3) absorbed_calls comp_def)
  have "is_tool_event event" if "event \<in> set tools" for event
  proof -
    have "(Inr event :: (provider_execution_error, model_stream_event) result) \<in> set (map Inr tools)" using that by simp
    then obtain i where "tool_event ext (assembled (fragments_of i ?fs)) = Inr event" unfolding tools(2) by auto
    then show ?thesis using tool_event_cases(1) by force
  qed
  then show ?thesis
    using pre tools by (intro exI [of _ "pre @ tools @ [Completed reason]"])
      (auto simp: Let_def list_all_iff filter_empty_conv filter_id_conv)
qed

section \<open>Instance\<close>

definition sample_chunk :: "string \<Rightarrow> (string \<times> json) list \<Rightarrow> json" where
  "sample_chunk arguments ending = JObject [(''choices'', JArray [JObject ((''delta'', JObject [(''tool_calls'', JArray [JObject
     [(''function'', JObject [(''arguments'', JString arguments), (''name'', JString ''read'')]), (''id'', JString ''call''),
      (''index'', ju64 0)]])]) # ending)])]"

definition chat_sample_gateway :: gateway_externals where
  "chat_sample_gateway = sample_gateway\<lparr>gx_from_str := (\<lambda>text.
     if text = ''first'' then Inr (sample_chunk ''{'' [])
     else if text = ''second'' then Inr (sample_chunk ''}'' [(''finish_reason'', JString ''stop'')])
     else if text = ''{}'' then Inr (JObject []) else Inl ''unexpected'')\<rparr>"

definition sample_adapter :: openai_compatible_adapter where
  "sample_adapter = \<lparr>oa_endpoint = \<lparr>url_scheme = ''https'', url_username = [], url_password = None\<rparr>, oa_model = ''m'',
     oa_pricing = \<lparr>input_million_tokens_micros = 1, output_million_tokens_micros = 1,
       cached_input_million_tokens_micros = None\<rparr>,
     oa_response_timeout = 1, oa_stream_idle_timeout = 1, oa_max_output_tokens = None, oa_supports_reasoning_effort = False\<rparr>"

abbreviation sample_frames :: "(string \<times> string) list" where
  "sample_frames \<equiv> [(''message'', ''first''), (''message'', ''second'')]"

lemmas chat_eval = chat_handler_def chat_at_end_def complete_turn_def chat_begin_def sse_json_def in_band_error_def
  consume_chunk_def consume_choice_def consume_fragment_def choice_delta_def choice_thinking_def flush_tool_calls_def
  tool_event_def tool_turn_def chat_finish_def absorb_def merge_fragment_def default_partial_def jidx_def jget_def
  array_items_def nonempty_str_def or_default_def io_defs emit_event_def sink.defs bt_get_def ju64_def

lemma sample_trim: "trim ''{}'' = ''{}''"
  by code_simp

lemma sample_turn:
  "\<exists>s'. drive (chat_handler chat_sample_gateway sample_adapter credential) (chat_at_end chat_sample_gateway)
     (map (\<lambda>(name, data). SseEvent name data) sample_frames @ [SseEvent ''message'' ''[DONE]'']) (chat_begin \<lparr>delivered = [], room = None\<rparr>) = (Inr (), s')"
  by (simp add: chat_sample_gateway_def sample_chunk_def chat_eval sample_trim)

theorem chat_tool_calls_reassembled_witness:
  "\<exists>s'. drive (chat_handler chat_sample_gateway sample_adapter (ProviderCredential ''sk'')) (chat_at_end chat_sample_gateway)
      (map (\<lambda>(name, data). SseEvent name data) sample_frames @ [SseEvent ''message'' ''[DONE]'']) (chat_begin \<lparr>delivered = [], room = None\<rparr>) =
      (Inr (), s') \<and> filter is_tool_event (delivered s') = [ModelToolCall ''call'' ''read'' (JObject [])]"
proof -
  let ?events = "\<lparr>delivered = [], room = None\<rparr> :: sink" and ?chunks = "[sample_chunk ''{'' [], sample_chunk ''}'' [(''finish_reason'', JString ''stop'')]]"
  obtain s' where run: "drive (chat_handler chat_sample_gateway sample_adapter (ProviderCredential ''sk'')) (chat_at_end chat_sample_gateway)
      (map (\<lambda>(name, data). SseEvent name data) sample_frames @ [SseEvent ''message'' ''[DONE]'']) (chat_begin ?events) = (Inr (), s')"
    using sample_turn by blast
  have frames: "list_all2 (\<lambda>(name, data) chunk. data \<noteq> ''[DONE]'' \<and> gx_from_str chat_sample_gateway data = Inr chunk) sample_frames ?chunks"
    by (simp add: chat_sample_gateway_def)
  have "\<exists>new. delivered s' = delivered ?events @ new \<and> map Inr (filter is_tool_event new) =
      (let fragments = concat (map chunk_fragments ?chunks)
       in map (\<lambda>i. tool_event chat_sample_gateway (assembled (fragments_of i fragments))) (fragment_indexes fragments))"
    by (rule chat_tool_calls_reassembled [OF frames _ run, of "''message''"]) simp
  moreover have "fragment_indexes (concat (map chunk_fragments ?chunks)) = [0]"
    by (simp add: fragment_indexes_def chunk_fragments_def choice_fragments_def fragment_index_def sample_chunk_def
        array_items_def jidx_def jget_def choice_delta_def bt_get_def ju64_def)
  ultimately have "filter is_tool_event (delivered s') = [ModelToolCall ''call'' ''read'' (JObject [])]"
    by (auto simp: chunk_fragments_def choice_fragments_def fragment_index_def sample_chunk_def assembled_def last_known_def
        array_items_def jidx_def jget_def choice_delta_def bt_get_def ju64_def nonempty_str_def or_default_def tool_event_def
        sample_trim chat_sample_gateway_def)
  with run show ?thesis by blast
qed

end
