(* ===== verification/Anthropic_Messages.thy ===== *)
theory Anthropic_Messages
  imports Provider_Common
begin

text \<open>
  The Messages adapter, \<open>runtime/apps/model-gateway/src/anthropic_messages.rs\<close>: the payload of a request with its merged
  messages, the content blocks of the answer, the Tool uses and thinking blocks that are put together delta by delta, and
  the end of the turn. The lemmas interpret the contract of an adapter, show that the roles of the messages sent alternate,
  and that a signed thinking block that was delivered is sent back as it was.
\<close>

section \<open>Configuration\<close>

record anthropic_messages_config =
  ac_endpoint :: string
  ac_model :: string
  ac_anthropic_version :: string
  ac_pricing :: provider_pricing
  ac_response_timeout :: nat
  ac_stream_idle_timeout :: nat

record anthropic_messages_adapter =
  aa_endpoint :: url
  aa_model :: string
  aa_anthropic_version :: string
  aa_pricing :: provider_pricing
  aa_response_timeout :: nat
  aa_stream_idle_timeout :: nat

definition anthropic_messages_new ::
  "gateway_externals \<Rightarrow> anthropic_messages_config \<Rightarrow> (provider_execution_error, anthropic_messages_adapter) result" where
  "anthropic_messages_new ext config =
     (case parse_endpoint ext (ac_endpoint config) of
        Inl e \<Rightarrow> Inl e
      | Inr endpoint \<Rightarrow>
          if is_blank (ac_model config) \<or> is_blank (ac_anthropic_version config) \<or> ac_response_timeout config = 0 \<or>
             ac_stream_idle_timeout config = 0
          then Inl (InvalidConfiguration ''provider model, Anthropic version, and timeouts must be configured'')
          else (case gx_client_build ext of
                  Inl error \<Rightarrow> Inl (InvalidConfiguration (''provider HTTP client could not be built: '' @ error))
                | Inr _ \<Rightarrow> Inr \<lparr>aa_endpoint = endpoint, aa_model = ac_model config,
                    aa_anthropic_version = ac_anthropic_version config, aa_pricing = ac_pricing config,
                    aa_response_timeout = ac_response_timeout config,
                    aa_stream_idle_timeout = ac_stream_idle_timeout config\<rparr>))"

section \<open>The payload\<close>

definition text_block :: "string \<Rightarrow> json" where
  "text_block text = jobj [(''type'', JString ''text''), (''text'', JString text)]"

definition thinking_block :: "json \<Rightarrow> bool" where
  "thinking_block block \<longleftrightarrow>
     (as_str (jidx ''type'' block) = Some ''thinking'' \<and> as_str (jidx ''thinking'' block) \<noteq> None \<and>
      as_str (jidx ''signature'' block) \<noteq> None) \<or>
     (as_str (jidx ''type'' block) = Some ''redacted_thinking'' \<and> as_str (jidx ''data'' block) \<noteq> None)"

definition anthropic_part ::
  "gateway_externals \<Rightarrow> role \<Rightarrow> content_part \<Rightarrow> (provider_execution_error, json list) result" where
  "anthropic_part ext r part =
     (case part of
        PartText text \<Rightarrow>
          if r \<noteq> ToolRole then Inr [text_block text]
          else Inl (capability_error ''tool messages require tool results'')
      | PartToolCall tool_call_id name arguments \<Rightarrow>
          if r = AssistantRole
          then Inr [jobj [(''type'', JString ''tool_use''), (''id'', JString tool_call_id), (''name'', JString name),
                          (''input'', arguments)]]
          else Inl (capability_error ''tool calls are only valid in assistant messages'')
      | PartToolResult tool_call_id result \<Rightarrow>
          if r = ToolRole
          then Inr [jobj [(''type'', JString ''tool_result''), (''tool_use_id'', JString tool_call_id),
                          (''content'', JString (or_default (gx_to_string ext result) (as_str result)))]]
          else Inl (capability_error ''tool results are only valid in tool messages'')
      | PartImage _ _ \<Rightarrow>
          Inl (capability_error ''image input is not supported by the first Anthropic Messages adapter'')
      | PartAudio _ _ \<Rightarrow> Inl (capability_error ''audio input is not supported by the Anthropic Messages adapter'')
      | PartReasoning summary private_state \<Rightarrow>
          (case private_state of
             None \<Rightarrow> Inr []
           | Some state \<Rightarrow>
               if r = AssistantRole \<and> pps_format state = ''anthropic.messages.thinking.v1''
               then (case gx_from_str ext (pps_data state) of
                       Inl _ \<Rightarrow> Inl (protocol_error ''Anthropic thinking continuation state is invalid'')
                     | Inr block \<Rightarrow>
                         if thinking_block block then Inr [block]
                         else Inl (protocol_error ''Anthropic thinking continuation state has an unsupported shape''))
               else Inr [])
      | PartRefusal text \<Rightarrow>
          if r = AssistantRole then Inr [text_block text]
          else Inl (capability_error ''refusals are only valid in assistant messages''))"

definition anthropic_content ::
  "gateway_externals \<Rightarrow> role \<Rightarrow> content_part list \<Rightarrow> (provider_execution_error, json list) result" where
  "anthropic_content ext r parts =
     (case collect_results (anthropic_part ext r) parts of Inl e \<Rightarrow> Inl e | Inr blocks \<Rightarrow> Inr (concat blocks))"

definition system_part :: "content_part \<Rightarrow> (provider_execution_error, json) result" where
  "system_part part =
     (case part of
        PartText text \<Rightarrow> Inr (text_block text)
      | _ \<Rightarrow> Inl (capability_error ''Anthropic system messages only support text in this adapter''))"

definition push_message :: "string \<Rightarrow> json list \<Rightarrow> json list \<Rightarrow> json list" where
  "push_message r content messages =
     (if messages \<noteq> [] \<and> jidx ''role'' (last messages) = JString r
      then butlast messages @
        [jset ''content'' (JArray (array_items (jidx ''content'' (last messages)) @ content)) (last messages)]
      else messages @ [jobj [(''role'', JString r), (''content'', JArray content)]])"

fun anthropic_messages_loop ::
  "gateway_externals \<Rightarrow> message list \<Rightarrow> json list \<Rightarrow> json list \<Rightarrow> (provider_execution_error, json list \<times> json list) result" where
  "anthropic_messages_loop ext [] system messages = Inr (system, messages)"
| "anthropic_messages_loop ext (message # rest) system messages =
     (if msg_role message = SystemRole
      then (case collect_results system_part (msg_content message) of
              Inl e \<Rightarrow> Inl e
            | Inr parts \<Rightarrow> anthropic_messages_loop ext rest (system @ parts) messages)
      else (case anthropic_content ext (msg_role message) (msg_content message) of
              Inl e \<Rightarrow> Inl e
            | Inr content \<Rightarrow>
                if content = [] then anthropic_messages_loop ext rest system messages
                else anthropic_messages_loop ext rest system
                       (push_message (if msg_role message = AssistantRole then ''assistant'' else ''user'') content messages)))"

definition anthropic_messages ::
  "gateway_externals \<Rightarrow> model_request \<Rightarrow> (provider_execution_error, json list \<times> json list) result" where
  "anthropic_messages ext request = anthropic_messages_loop ext (mr_messages request) [] []"

definition anthropic_tool :: "tool_spec \<Rightarrow> json" where
  "anthropic_tool tool = jobj [(''name'', JString (ts_name tool)), (''description'', JString (ts_description tool)),
     (''input_schema'', ts_input_schema tool)]"

definition anthropic_request_payload ::
  "gateway_externals \<Rightarrow> anthropic_messages_adapter \<Rightarrow> model_request \<Rightarrow> (provider_execution_error, json) result" where
  "anthropic_request_payload ext adapter request =
     (if mr_output_schema request \<noteq> None
      then Inl (capability_error ''structured output is not supported by the Anthropic Messages adapter'')
      else (case anthropic_messages ext request of
              Inl e \<Rightarrow> Inl e
            | Inr (system, messages) \<Rightarrow>
                (let payload = jobj [(''model'', JString (aa_model adapter)), (''messages'', JArray messages),
                                     (''max_tokens'', ju64 (mr_max_output_tokens request)), (''stream'', JBool True)];
                     payload = (if system \<noteq> [] then jset ''system'' (JArray system) payload else payload);
                     payload = (if mr_tools request \<noteq> []
                                then jset ''tools'' (JArray (map anthropic_tool (mr_tools request))) payload else payload)
                 in Inr payload)))"

section \<open>Content blocks\<close>

record partial_tool_use =
  ptu_id :: string
  ptu_name :: string
  ptu_input_json :: string

datatype partial_reasoning = Thinking string string | Redacted string

record anthropic_state = sink +
  an_input_tokens :: u64
  an_output_tokens :: u64
  an_stop_reason :: "model_finish_reason option"
  an_tools :: "(u64, partial_tool_use) btree"
  an_reasoning :: "(u64, partial_reasoning) btree"

type_synonym 'a anthropic = "(anthropic_state, provider_execution_error, 'a) io"

definition required_index :: "json \<Rightarrow> (provider_execution_error, u64) result" where
  "required_index value =
     (case as_u64 (jidx ''index'' value) of
        None \<Rightarrow> Inl (protocol_error ''content block event is missing index'')
      | Some index \<Rightarrow> Inr index)"

definition block_index :: "u64 \<Rightarrow> u32 option" where
  "block_index index = Some (narrow_index index)"

definition start_tool_use :: "gateway_externals \<Rightarrow> u64 \<Rightarrow> json \<Rightarrow> unit anthropic" where
  "start_tool_use ext index block =
     then_do (of_result (required_string block ''id'' ''tool_use block is missing id''))
     (\<lambda>i. then_do (of_result (required_string block ''name'' ''tool_use block is missing name''))
     (\<lambda>name.
        let input_json = (case jget ''input'' block of
                            Some (JObject m) \<Rightarrow> if m = [] then [] else gx_to_string ext (JObject m)
                          | _ \<Rightarrow> [])
        in update (\<lambda>s. s\<lparr>an_tools :=
             bt_insert index \<lparr>ptu_id = i, ptu_name = name, ptu_input_json = input_json\<rparr> (an_tools s)\<rparr>)))"

definition consume_block_start :: "gateway_externals \<Rightarrow> json \<Rightarrow> unit anthropic" where
  "consume_block_start ext value =
     then_do (of_result (required_index value))
     (\<lambda>index.
        let block = jidx ''content_block'' value
        in case as_str (jidx ''type'' block) of
             None \<Rightarrow> give_up (protocol_error ''content block is missing type'')
           | Some kind \<Rightarrow>
               if kind = ''text''
               then (case nonempty_str (jidx ''text'' block) of
                       None \<Rightarrow> finish ()
                     | Some text \<Rightarrow> emit_event (TextDelta text (block_index index)))
               else if kind = ''tool_use'' then start_tool_use ext index block
               else if kind = ''thinking''
               then update (\<lambda>s. s\<lparr>an_reasoning :=
                      bt_insert index (Thinking (or_default [] (as_str (jidx ''thinking'' block))) []) (an_reasoning s)\<rparr>)
               else if kind = ''redacted_thinking''
               then then_do (of_result (required_string block ''data'' ''redacted_thinking block is missing data''))
                      (\<lambda>data. update (\<lambda>s. s\<lparr>an_reasoning := bt_insert index (Redacted data) (an_reasoning s)\<rparr>))
               else give_up (protocol_error (''unsupported Anthropic content block '' @ kind)))"

definition push_input :: "json \<Rightarrow> u64 \<Rightarrow> unit anthropic" where
  "push_input delta index =
     inspect (\<lambda>s. case bt_get index (an_tools s) of
        None \<Rightarrow> give_up (protocol_error ''tool input delta arrived before tool_use block'')
      | Some tool \<Rightarrow>
          (case as_str (jidx ''partial_json'' delta) of
             None \<Rightarrow> finish ()
           | Some fragment \<Rightarrow> update (\<lambda>s. s\<lparr>an_tools :=
               bt_insert index (tool\<lparr>ptu_input_json := ptu_input_json tool @ fragment\<rparr>) (an_tools s)\<rparr>)))"

definition push_thinking :: "string \<Rightarrow> (string \<Rightarrow> string \<Rightarrow> partial_reasoning) \<Rightarrow> string option \<Rightarrow> u64 \<Rightarrow> unit anthropic" where
  "push_thinking missing extended fragment index =
     inspect (\<lambda>s. case bt_get index (an_reasoning s) of
        Some (Thinking thinking signature) \<Rightarrow>
          (case fragment of
             None \<Rightarrow> finish ()
           | Some _ \<Rightarrow> update (\<lambda>s. s\<lparr>an_reasoning := bt_insert index (extended thinking signature) (an_reasoning s)\<rparr>))
      | _ \<Rightarrow> give_up (protocol_error missing))"

definition consume_block_delta :: "json \<Rightarrow> unit anthropic" where
  "consume_block_delta value =
     (let delta = jidx ''delta'' value
      in case as_str (jidx ''type'' delta) of
           None \<Rightarrow> give_up (protocol_error ''content delta is missing type'')
         | Some kind \<Rightarrow>
             if kind = ''text_delta''
             then (case nonempty_str (jidx ''text'' delta) of
                     None \<Rightarrow> finish ()
                   | Some text \<Rightarrow>
                       then_do (of_result (required_index value)) (\<lambda>index. emit_event (TextDelta text (block_index index))))
             else if kind = ''input_json_delta'' then then_do (of_result (required_index value)) (push_input delta)
             else if kind = ''thinking_delta''
             then then_do (of_result (required_index value))
                    (push_thinking ''thinking delta arrived before thinking block''
                       (\<lambda>thinking signature. Thinking (thinking @ or_default [] (as_str (jidx ''thinking'' delta))) signature)
                       (as_str (jidx ''thinking'' delta)))
             else if kind = ''signature_delta''
             then then_do (of_result (required_index value))
                    (push_thinking ''thinking signature arrived before thinking block''
                       (\<lambda>thinking signature. Thinking thinking (signature @ or_default [] (as_str (jidx ''signature'' delta))))
                       (as_str (jidx ''signature'' delta)))
             else give_up (protocol_error (''unsupported Anthropic content delta '' @ kind)))"

definition thinking_json :: "partial_reasoning \<Rightarrow> json option" where
  "thinking_json reasoning =
     (case reasoning of
        Thinking thinking signature \<Rightarrow>
          if signature = [] then None
          else Some (jobj [(''type'', JString ''thinking''), (''thinking'', JString thinking), (''signature'', JString signature)])
      | Redacted data \<Rightarrow> Some (jobj [(''type'', JString ''redacted_thinking''), (''data'', JString data)]))"

definition reasoning_event :: "gateway_externals \<Rightarrow> string \<Rightarrow> string \<Rightarrow> partial_reasoning \<Rightarrow> model_stream_event" where
  "reasoning_event ext provider_id model reasoning =
     Reasoning [] (map_option (\<lambda>data.
       \<lparr>pps_provider_id = provider_id, pps_protocol = ''anthropic_messages'', pps_model = model,
        pps_format = ''anthropic.messages.thinking.v1'', pps_data = data\<rparr>) (map_option (gx_to_string ext) (thinking_json reasoning)))"

definition emit_reasoning :: "gateway_externals \<Rightarrow> string \<Rightarrow> string \<Rightarrow> partial_reasoning \<Rightarrow> unit anthropic" where
  "emit_reasoning ext provider_id model reasoning = emit_event (reasoning_event ext provider_id model reasoning)"

definition emit_tool :: "gateway_externals \<Rightarrow> partial_tool_use \<Rightarrow> unit anthropic" where
  "emit_tool ext tool =
     then_do (of_result (if ptu_input_json tool = [] then Inr (JObject [])
                         else (case gx_from_str ext (ptu_input_json tool) of
                                 Inl error \<Rightarrow> Inl (protocol_error (''streamed tool input is invalid JSON: '' @ error))
                               | Inr input \<Rightarrow> Inr input)))
       (\<lambda>input. emit_event (ModelToolCall (ptu_id tool) (ptu_name tool) input))"

definition map_stop_reason :: "string \<Rightarrow> (provider_execution_error, model_finish_reason) result" where
  "map_stop_reason reason =
     (if reason \<in> {''end_turn'', ''stop_sequence'', ''pause_turn''} then Inr Stop
      else if reason = ''tool_use'' then Inr ToolCalls
      else if reason \<in> {''max_tokens'', ''model_context_window_exceeded''} then Inr Length
      else if reason = ''refusal'' then Inr ReasonContentFilter
      else Inl (protocol_error (''unsupported Anthropic stop_reason '' @ reason)))"

section \<open>The adapter\<close>

definition block_stop :: "gateway_externals \<Rightarrow> string \<Rightarrow> string \<Rightarrow> u64 \<Rightarrow> unit anthropic" where
  "block_stop ext provider_id model index =
     then_do (inspect (\<lambda>s. case bt_get index (an_tools s) of
                None \<Rightarrow> finish ()
              | Some tool \<Rightarrow> then_do (update (\<lambda>s. s\<lparr>an_tools := bt_remove index (an_tools s)\<rparr>)) (\<lambda>_. emit_tool ext tool)))
       (\<lambda>_. inspect (\<lambda>s. case bt_get index (an_reasoning s) of
                None \<Rightarrow> finish ()
              | Some reasoning \<Rightarrow>
                  then_do (update (\<lambda>s. s\<lparr>an_reasoning := bt_remove index (an_reasoning s)\<rparr>))
                    (\<lambda>_. emit_reasoning ext provider_id model reasoning)))"

definition message_delta :: "json \<Rightarrow> unit anthropic" where
  "message_delta value =
     then_do (update (\<lambda>s. s\<lparr>an_output_tokens :=
               or_default (an_output_tokens s) (as_u64 (jidx ''output_tokens'' (jidx ''usage'' value)))\<rparr>))
       (\<lambda>_. case as_str (jidx ''stop_reason'' (jidx ''delta'' value)) of
              None \<Rightarrow> finish ()
            | Some reason \<Rightarrow>
                then_do (of_result (map_stop_reason reason))
                  (\<lambda>stop_reason. update (\<lambda>s. s\<lparr>an_stop_reason := Some stop_reason\<rparr>)))"

definition message_stop :: "provider_pricing \<Rightarrow> bool anthropic" where
  "message_stop pricing =
     inspect (\<lambda>s.
       if an_tools s \<noteq> [] then give_up (protocol_error ''message stopped before all tool blocks completed'')
       else (case an_stop_reason s of
               None \<Rightarrow> give_up (protocol_error ''message_stop arrived without stop_reason'')
             | Some reason \<Rightarrow>
                 then_do (emit_event (Usage (an_input_tokens s) (an_output_tokens s)
                            (calculate_cost (an_input_tokens s) (an_output_tokens s) 0 pricing)))
                   (\<lambda>_. then_do (emit_event (Completed reason)) (\<lambda>_. finish True))))"

definition stream_error :: "provider_credential \<Rightarrow> json \<Rightarrow> provider_execution_error" where
  "stream_error credential value =
     (let error_type = or_default [] (as_str (jidx ''type'' (jidx ''error'' value)));
          (kind, retryable) =
            (if error_type \<in> {''overloaded_error'', ''api_error''} then (Unavailable, True)
             else if error_type = ''rate_limit_error'' then (RateLimited, True)
             else if error_type \<in> {''authentication_error'', ''permission_error''} then (Authentication, False)
             else (Protocol, False));
          message = or_default ''Anthropic Messages stream failed'' (as_str (jidx ''message'' (jidx ''error'' value)))
      in provider_error kind retryable None (redact credential message))"

definition anthropic_event ::
  "gateway_externals \<Rightarrow> anthropic_messages_adapter \<Rightarrow> string \<Rightarrow> provider_credential \<Rightarrow> string \<Rightarrow> json \<Rightarrow> bool anthropic" where
  "anthropic_event ext adapter provider_id credential event_type value =
     (if event_type = ''message_start''
      then then_do (update (\<lambda>s. s\<lparr>an_input_tokens :=
             or_default 0 (as_u64 (jidx ''input_tokens'' (jidx ''usage'' (jidx ''message'' value))))\<rparr>)) (\<lambda>_. finish False)
      else if event_type = ''content_block_start'' then then_do (consume_block_start ext value) (\<lambda>_. finish False)
      else if event_type = ''content_block_delta'' then then_do (consume_block_delta value) (\<lambda>_. finish False)
      else if event_type = ''content_block_stop''
      then then_do (of_result (required_index value))
             (\<lambda>index. then_do (block_stop ext provider_id (aa_model adapter) index) (\<lambda>_. finish False))
      else if event_type = ''message_delta'' then then_do (message_delta value) (\<lambda>_. finish False)
      else if event_type = ''message_stop'' then message_stop (aa_pricing adapter)
      else if event_type = ''error'' then give_up (stream_error credential value)
      else finish False)"

definition anthropic_handler ::
  "gateway_externals \<Rightarrow> anthropic_messages_adapter \<Rightarrow> string \<Rightarrow> provider_credential \<Rightarrow> string \<Rightarrow> string \<Rightarrow> bool anthropic" where
  "anthropic_handler ext adapter provider_id credential name data =
     then_do (of_result (sse_json ext data))
       (\<lambda>value. anthropic_event ext adapter provider_id credential (or_default name (as_str (jidx ''type'' value))) value)"

definition anthropic_at_end :: "unit anthropic" where
  "anthropic_at_end = give_up (protocol_error ''provider stream ended without message_stop'')"

definition anthropic_begin :: "sink \<Rightarrow> anthropic_state" where
  "anthropic_begin events =
     sink.extend events \<lparr>an_input_tokens = 0, an_output_tokens = 0, an_stop_reason = None, an_tools = [], an_reasoning = []\<rparr>"

definition anthropic_execute_for_provider ::
  "gateway_externals \<Rightarrow> (json \<Rightarrow> exchange) \<Rightarrow> anthropic_messages_adapter \<Rightarrow> string \<Rightarrow> model_request \<Rightarrow> provider_credential \<Rightarrow>
   (sink, provider_execution_error, unit) io" where
  "anthropic_execute_for_provider ext post adapter provider_id request credential events =
     (case anthropic_request_payload ext adapter request of
        Inl e \<Rightarrow> (Inl e, events)
      | Inr payload \<Rightarrow>
          map_prod id sink.truncate
            (converse ext (anthropic_handler ext adapter provider_id credential) anthropic_at_end credential (post payload)
               (anthropic_begin events)))"

section \<open>The contract\<close>

lemma required_sound: "required_index value = Inl e \<Longrightarrow> sound_fault e" "required_string v field message = Inl e \<Longrightarrow> sound_fault e"
  by (auto simp: required_index_def required_string_def split: option.splits)

lemma map_stop_reason_sound: "map_stop_reason reason = Inl e \<Longrightarrow> sound_fault e"
  by (auto simp: map_stop_reason_def split: if_splits)

lemma start_tool_use_keeps [io_intros]:
  "keeps (extends P) (start_tool_use ext index block)" "fails_with sound_fault (start_tool_use ext index block)"
  unfolding start_tool_use_def Let_def by (intro io_intros; simp add: required_sound)+

lemma consume_block_start_keeps [io_intros]:
  "keeps (extends open_turn) (consume_block_start ext value)" "fails_with sound_fault (consume_block_start ext value)"
  unfolding consume_block_start_def Let_def by (intro io_intros; simp add: required_sound)+

lemma push_input_keeps [io_intros]:
  "keeps (extends P) (push_input delta index)" "fails_with sound_fault (push_input delta index)"
  unfolding push_input_def by (intro io_intros; simp)+

lemma keeps_reasoning [io_intros]:
  "(\<And>t g. keeps R (a t g)) \<Longrightarrow> (\<And>d. keeps R (b d)) \<Longrightarrow> keeps R (case r of Thinking t g \<Rightarrow> a t g | Redacted d \<Rightarrow> b d)"
  "(\<And>t g. fails_with Q (a t g)) \<Longrightarrow> (\<And>d. fails_with Q (b d)) \<Longrightarrow>
     fails_with Q (case r of Thinking t g \<Rightarrow> a t g | Redacted d \<Rightarrow> b d)"
  by (simp_all split: partial_reasoning.split)

lemma push_thinking_keeps [io_intros]:
  "keeps (extends P) (push_thinking missing extended fragment index)"
  "fails_with sound_fault (push_thinking missing extended fragment index)"
  unfolding push_thinking_def by (intro io_intros; simp)+

lemma consume_block_delta_keeps [io_intros]:
  "keeps (extends open_turn) (consume_block_delta value)" "fails_with sound_fault (consume_block_delta value)"
  unfolding consume_block_delta_def Let_def by (intro io_intros; simp add: required_sound)+

lemma emit_tool_keeps [io_intros]:
  "keeps (extends open_turn) (emit_tool ext tool)" "fails_with sound_fault (emit_tool ext tool)"
  unfolding emit_tool_def by (intro io_intros; auto split: if_splits sum.splits)+

lemma emit_reasoning_keeps [io_intros]:
  "keeps (extends open_turn) (emit_reasoning ext provider_id model reasoning)"
  "fails_with sound_fault (emit_reasoning ext provider_id model reasoning)"
  unfolding emit_reasoning_def reasoning_event_def by (intro io_intros; simp)+

lemma block_stop_keeps [io_intros]:
  "keeps (extends open_turn) (block_stop ext provider_id model index)"
  "fails_with sound_fault (block_stop ext provider_id model index)"
  unfolding block_stop_def by (intro io_intros; simp)+

lemma message_delta_keeps [io_intros]:
  "keeps (extends P) (message_delta value)" "fails_with sound_fault (message_delta value)"
  unfolding message_delta_def by (intro io_intros; simp add: map_stop_reason_sound)+

lemma message_stop_keeps:
  "turn_step (\<lambda>over. over) (message_stop pricing)" "fails_with sound_fault (message_stop pricing)"
  unfolding message_stop_def
  by (intro turn_step_inspect turn_step_if turn_step_give_up turn_step_option turn_step_complete
        turn_step_then [OF keeps_emit]; simp)
     (intro io_intros; simp)

lemma stream_error_sound: "sound_fault (stream_error credential value)"
  by (simp add: stream_error_def Let_def)

interpretation anthropic: provider_turn "anthropic_handler ext adapter provider_id credential" anthropic_at_end
  for ext adapter provider_id credential
proof
  have "turn_step (\<lambda>over. over) (anthropic_event ext adapter provider_id credential event_type v)" for event_type v
    unfolding anthropic_event_def
    by (intro turn_step_if turn_step_then turn_step_finish turn_step_give_up message_stop_keeps consume_block_start_keeps
        consume_block_delta_keeps block_stop_keeps message_delta_keeps grows.keeps_of_result keeps_update; simp)
  then show "turn_step (\<lambda>over. over) (anthropic_handler ext adapter provider_id credential name data)" for name data
    unfolding anthropic_handler_def by (intro turn_step_then grows.keeps_of_result)
  show "turn_step (\<lambda>_. True) anthropic_at_end"
    by (simp add: anthropic_at_end_def turn_step_give_up)
  have "fails_with sound_fault (anthropic_event ext adapter provider_id credential event_type v)" for event_type v
    unfolding anthropic_event_def
    by (intro io_intros message_stop_keeps; simp add: required_sound stream_error_sound)
  then show "fails_with sound_fault (anthropic_handler ext adapter provider_id credential name data)" for name data
    unfolding anthropic_handler_def
    by (intro fails_with_then_do fails_with_of_result) (auto simp: sse_json_def split: sum.splits)
  show "fails_with sound_fault anthropic_at_end"
    unfolding anthropic_at_end_def by (intro io_intros) simp
qed

section \<open>The messages sent\<close>

definition sent_message :: "json \<Rightarrow> bool" where
  "sent_message m \<longleftrightarrow> is_object m \<and> jidx ''role'' m \<in> {JString ''user'', JString ''assistant''} \<and>
     (\<exists>content. content \<noteq> [] \<and> jidx ''content'' m = JArray content)"

definition alternating :: "json list \<Rightarrow> bool" where
  "alternating messages \<longleftrightarrow>
     list_all sent_message messages \<and> successively (\<lambda>a b. jidx ''role'' a \<noteq> jidx ''role'' b) messages"

lemma new_message:
  "content \<noteq> [] \<Longrightarrow> r \<in> {''user'', ''assistant''} \<Longrightarrow>
     sent_message (jobj [(''role'', JString r), (''content'', JArray content)]) \<and>
     jidx ''role'' (jobj [(''role'', JString r), (''content'', JArray content)]) = JString r"
  by (auto simp: sent_message_def jidx_def jget_jobj) (simp_all add: jobj_def)

lemma extended_message:
  assumes "sent_message m"
  shows "sent_message (jset ''content'' (JArray (array_items (jidx ''content'' m) @ content)) m) \<and>
    jidx ''role'' (jset ''content'' (JArray (array_items (jidx ''content'' m) @ content)) m) = jidx ''role'' m"
proof -
  from assms obtain kvs where m: "m = JObject kvs" by (cases m) (simp_all add: sent_message_def)
  have "array_items (jidx ''content'' m) \<noteq> []" using assms by (auto simp: sent_message_def array_items_def)
  with assms m show ?thesis by (auto simp: sent_message_def jidx_def jget_def bt_get_insert)
qed

lemma successively_last: "successively P (xs @ [x]) \<longleftrightarrow> successively P xs \<and> (xs \<noteq> [] \<longrightarrow> P (last xs) x)"
  by (auto simp: successively_append_iff)

lemma push_message_alternating:
  assumes "alternating messages" and "content \<noteq> []" and "r \<in> {''user'', ''assistant''}"
  shows "alternating (push_message r content messages)"
proof (cases "messages \<noteq> [] \<and> jidx ''role'' (last messages) = JString r")
  case True
  define m where "m = last messages"
  define rest where "rest = butlast messages"
  from True have messages: "messages = rest @ [m]" by (simp add: m_def rest_def)
  from assms(1) messages have "sent_message m" by (simp add: alternating_def)
  from extended_message [OF this, of content] assms(1) True show ?thesis
    by (auto simp: push_message_def alternating_def messages successively_last)
next
  case False
  with new_message [OF assms(2,3)] assms(1) show ?thesis
    by (auto simp: push_message_def alternating_def successively_last)
qed

lemma loop_alternating:
  "anthropic_messages_loop ext rest system messages = Inr (system', messages') \<Longrightarrow> alternating messages \<Longrightarrow>
     alternating messages'"
proof (induction ext rest system messages rule: anthropic_messages_loop.induct)
  case (2 ext message rest system messages)
  then show ?case
    using push_message_alternating by (auto split: if_splits sum.splits)
qed simp

section \<open>Properties\<close>

text \<open>
  C27. The conversation sent alternates. Whatever messages a request has, the messages of the payload come from the user
  and the assistant in turn, none of them is empty, and system text is sent apart from them.
\<close>

theorem anthropic_roles_alternate:
  assumes "anthropic_messages ext request = Inr (system, messages)"
  shows "alternating messages"
  using loop_alternating [of ext "mr_messages request" "[]" "[]"] assms
  by (simp add: anthropic_messages_def alternating_def)

text \<open>
  C28. A thinking block survives the round trip. A signed or redacted thinking block that was delivered as private state is
  meant for the Provider, protocol and model that produced it, and when the state comes back in an assistant message the
  adapter sends the very block, with its thinking and its signature, or its data; the text form of a JSON value is
  assumed to be read back as that value.
\<close>

theorem thinking_round_trip:
  assumes "thinking_json reasoning = Some block"
    and "gx_from_str ext (gx_to_string ext block) = Inr block"
  shows "\<exists>state. reasoning_event ext provider_id model reasoning = Reasoning [] (Some state) \<and>
    meant_for provider_id ''anthropic_messages'' model state \<and>
    anthropic_part ext AssistantRole (PartReasoning summary (Some state)) = Inr [block] \<and>
    (case reasoning of
       Thinking thinking signature \<Rightarrow>
         as_str (jidx ''thinking'' block) = Some thinking \<and> as_str (jidx ''signature'' block) = Some signature
     | Redacted data \<Rightarrow> as_str (jidx ''data'' block) = Some data)"
  using assms
  by (auto simp: reasoning_event_def thinking_json_def meant_for_def anthropic_part_def thinking_block_def jidx_def jget_jobj
      split: partial_reasoning.splits if_splits)

section \<open>Instances\<close>

definition sample_conversation :: model_request where
  "sample_conversation = \<lparr>mr_messages =
     [\<lparr>msg_role = SystemRole, msg_content = [PartText ''be brief'']\<rparr>,
      \<lparr>msg_role = UserRole, msg_content = [PartText ''read'']\<rparr>,
      \<lparr>msg_role = AssistantRole, msg_content = [PartToolCall ''c'' ''read'' (JObject [])]\<rparr>,
      \<lparr>msg_role = ToolRole, msg_content = [PartToolResult ''c'' (JString ''done'')]\<rparr>,
      \<lparr>msg_role = UserRole, msg_content = [PartText ''next'']\<rparr>],
      mr_tools = [], mr_output_schema = None, mr_reasoning = Balanced, mr_max_output_tokens = 10\<rparr>"

theorem anthropic_roles_alternate_witness:
  "\<exists>system messages. anthropic_messages sample_gateway sample_conversation = Inr (system, messages) \<and>
     length messages = 3 \<and> alternating messages"
proof -
  obtain system messages where run: "anthropic_messages sample_gateway sample_conversation = Inr (system, messages)"
    and "length messages = 3"
    by (simp add: anthropic_messages_def sample_conversation_def anthropic_content_def anthropic_part_def system_part_def
        push_message_def jidx_def jget_jobj)
  with anthropic_roles_alternate [OF run] show ?thesis by blast
qed

definition sample_thinking :: json where
  "sample_thinking = jobj [(''type'', JString ''thinking''), (''thinking'', JString ''hm''), (''signature'', JString ''s'')]"

theorem thinking_round_trip_witness:
  "\<exists>state. reasoning_event (sample_gateway\<lparr>gx_from_str := \<lambda>_. Inr sample_thinking\<rparr>) ''p'' ''m'' (Thinking ''hm'' ''s'') =
      Reasoning [] (Some state) \<and>
    anthropic_part (sample_gateway\<lparr>gx_from_str := \<lambda>_. Inr sample_thinking\<rparr>) AssistantRole (PartReasoning [] (Some state)) =
      Inr [sample_thinking]"
proof -
  let ?ext = "sample_gateway\<lparr>gx_from_str := \<lambda>_. Inr sample_thinking\<rparr>"
  have "thinking_json (Thinking ''hm'' ''s'') = Some sample_thinking" by (simp add: thinking_json_def sample_thinking_def)
  from thinking_round_trip [OF this, of ?ext "''p''" "''m''" "[]"]
  obtain state :: provider_private_state where "reasoning_event ?ext ''p'' ''m'' (Thinking ''hm'' ''s'') = Reasoning [] (Some state)"
    "anthropic_part ?ext AssistantRole (PartReasoning [] (Some state)) = Inr [sample_thinking]"
    by auto
  then show ?thesis by blast
qed

end
