(* ===== verification/Responses_Api.thy ===== *)
theory Responses_Api
  imports Provider_Common
begin

text \<open>
  The Responses adapter, \<open>runtime/apps/model-gateway/src/openai_responses.rs\<close>: the payload of a request, the events of the
  answer, the endings a response can have, and the failures it reports. The lemmas interpret both contracts of an adapter
  and show that reasoning state survives the round trip.
\<close>

section \<open>Configuration\<close>

record openai_responses_config =
  rc_endpoint :: string
  rc_model :: string
  rc_pricing :: provider_pricing
  rc_response_timeout :: nat
  rc_stream_idle_timeout :: nat

record openai_responses_adapter =
  ra_endpoint :: url
  ra_model :: string
  ra_pricing :: provider_pricing
  ra_response_timeout :: nat
  ra_stream_idle_timeout :: nat

definition openai_responses_new ::
  "gateway_externals \<Rightarrow> openai_responses_config \<Rightarrow> (provider_execution_error, openai_responses_adapter) result" where
  "openai_responses_new ext config =
     (case parse_endpoint ext (rc_endpoint config) of
        Inl e \<Rightarrow> Inl e
      | Inr endpoint \<Rightarrow>
          if is_blank (rc_model config) \<or> rc_response_timeout config = 0 \<or> rc_stream_idle_timeout config = 0
          then Inl (InvalidConfiguration ''provider model and timeouts must be configured'')
          else (case gx_client_build ext of
                  Inl error \<Rightarrow> Inl (InvalidConfiguration (''provider HTTP client could not be built: '' @ error))
                | Inr _ \<Rightarrow> Inr \<lparr>ra_endpoint = endpoint, ra_model = rc_model config, ra_pricing = rc_pricing config,
                    ra_response_timeout = rc_response_timeout config,
                    ra_stream_idle_timeout = rc_stream_idle_timeout config\<rparr>))"

section \<open>The payload\<close>

text \<open>
  A part goes into the content of its message or becomes an item of its own: \<open>Inl\<close> an item of the input, \<open>Inr\<close> a piece
  of the content.
\<close>

definition summary_item :: "string \<Rightarrow> json" where
  "summary_item text = jobj [(''type'', JString ''summary_text''), (''text'', JString text)]"

definition reasoning_item :: "string list \<Rightarrow> string \<Rightarrow> string \<Rightarrow> json" where
  "reasoning_item summary i encrypted_content =
     jobj [(''type'', JString ''reasoning''), (''id'', JString i), (''summary'', JArray (map summary_item summary)),
           (''encrypted_content'', JString encrypted_content)]"

definition response_part ::
  "gateway_externals \<Rightarrow> role \<Rightarrow> content_part \<Rightarrow> (provider_execution_error, (json + json) option) result" where
  "response_part ext r part =
     (case part of
        PartText text \<Rightarrow>
          Inr (Some (Inr (jobj [(''type'', JString (if r = AssistantRole then ''output_text'' else ''input_text'')),
                                (''text'', JString text)])))
      | PartImage _ source \<Rightarrow>
          if r = UserRole \<and> is_provider_safe_image_source ext source
          then Inr (Some (Inr (jobj [(''type'', JString ''input_image''), (''image_url'', JString source)])))
          else Inl (capability_error ''image input must be a safe HTTP(S) or data URL in a user message'')
      | PartAudio _ _ \<Rightarrow> Inl (capability_error ''audio input is not supported by the Responses adapter'')
      | PartToolCall tool_call_id name arguments \<Rightarrow>
          if r = AssistantRole
          then Inr (Some (Inl (jobj [(''type'', JString ''function_call''), (''call_id'', JString tool_call_id),
                                     (''name'', JString name), (''arguments'', JString (gx_to_string ext arguments))])))
          else Inl (capability_error ''tool calls are only valid in assistant messages'')
      | PartToolResult tool_call_id content \<Rightarrow>
          if r = ToolRole
          then Inr (Some (Inl (jobj [(''type'', JString ''function_call_output''), (''call_id'', JString tool_call_id),
                                     (''output'', JString (or_default (gx_to_string ext content) (as_str content)))])))
          else Inl (capability_error ''tool results are only valid in tool messages'')
      | PartReasoning summary private_state \<Rightarrow>
          (case private_state of
             None \<Rightarrow> Inr None
           | Some state \<Rightarrow>
               if pps_format state = ''openai.responses.reasoning.v1''
               then (case gx_from_str ext (pps_data state) of
                       Inl _ \<Rightarrow> Inl (protocol_error ''OpenAI reasoning continuation state is invalid'')
                     | Inr private \<Rightarrow>
                         (case required_string private ''id'' ''OpenAI reasoning continuation state is missing id'' of
                            Inl e \<Rightarrow> Inl e
                          | Inr i \<Rightarrow>
                              (case required_string private ''encrypted_content''
                                      ''OpenAI reasoning continuation state is missing encrypted content'' of
                                 Inl e \<Rightarrow> Inl e
                               | Inr encrypted_content \<Rightarrow> Inr (Some (Inl (reasoning_item summary i encrypted_content))))))
               else Inr None)
      | PartRefusal text \<Rightarrow>
          if r = AssistantRole
          then Inr (Some (Inr (jobj [(''type'', JString ''refusal''), (''refusal'', JString text)])))
          else Inl (capability_error ''refusals are only valid in assistant messages''))"

definition response_role :: "role \<Rightarrow> string" where
  "response_role r = (case r of SystemRole \<Rightarrow> ''system'' | UserRole \<Rightarrow> ''user'' | ToolRole \<Rightarrow> ''user'' | AssistantRole \<Rightarrow> ''assistant'')"

definition own_items :: "(json + json) option list \<Rightarrow> json list" where
  "own_items parts = List.map_filter (\<lambda>p. case p of Some (Inl item) \<Rightarrow> Some item | _ \<Rightarrow> None) parts"

definition content_items :: "(json + json) option list \<Rightarrow> json list" where
  "content_items parts = List.map_filter (\<lambda>p. case p of Some (Inr item) \<Rightarrow> Some item | _ \<Rightarrow> None) parts"

definition response_message :: "gateway_externals \<Rightarrow> message \<Rightarrow> (provider_execution_error, json list) result" where
  "response_message ext message =
     (case collect_results (response_part ext (msg_role message)) (msg_content message) of
        Inl e \<Rightarrow> Inl e
      | Inr parts \<Rightarrow>
          Inr (own_items parts @
            (if content_items parts \<noteq> []
             then [jobj [(''role'', JString (response_role (msg_role message))), (''content'', JArray (content_items parts))]]
             else [])))"

definition response_input :: "gateway_externals \<Rightarrow> model_request \<Rightarrow> (provider_execution_error, json list) result" where
  "response_input ext request =
     (case collect_results (response_message ext) (mr_messages request) of Inl e \<Rightarrow> Inl e | Inr items \<Rightarrow> Inr (concat items))"

definition response_effort :: "reasoning_policy \<Rightarrow> string" where
  "response_effort policy = (case policy of Minimal \<Rightarrow> ''low'' | Balanced \<Rightarrow> ''medium'' | Thorough \<Rightarrow> ''high'')"

definition response_tool :: "tool_spec \<Rightarrow> json" where
  "response_tool tool = jobj [(''type'', JString ''function''), (''name'', JString (ts_name tool)),
     (''description'', JString (ts_description tool)), (''parameters'', ts_input_schema tool), (''strict'', JBool True)]"

definition responses_request_payload ::
  "gateway_externals \<Rightarrow> openai_responses_adapter \<Rightarrow> model_request \<Rightarrow> (provider_execution_error, json) result" where
  "responses_request_payload ext adapter request =
     (case response_input ext request of
        Inl e \<Rightarrow> Inl e
      | Inr input \<Rightarrow>
          (let payload = jobj [(''model'', JString (ra_model adapter)), (''input'', JArray input), (''stream'', JBool True),
                               (''store'', JBool False), (''max_output_tokens'', ju64 (mr_max_output_tokens request)),
                               (''reasoning'', jobj [(''effort'', JString (response_effort (mr_reasoning request)))]),
                               (''include'', JArray [JString ''reasoning.encrypted_content''])];
               payload = (if mr_tools request \<noteq> []
                          then jset ''tool_choice'' (JString ''auto'')
                                 (jset ''tools'' (JArray (map response_tool (mr_tools request))) payload)
                          else payload);
               payload = (case mr_output_schema request of
                            None \<Rightarrow> payload
                          | Some schema \<Rightarrow> jset ''text''
                              (jobj [(''format'', jobj [(''type'', JString ''json_schema''), (''name'', JString ''agent_output''),
                                 (''strict'', JBool True), (''schema'', schema)])]) payload)
           in Inr payload))"

section \<open>Events\<close>

record responses_state = sink +
  rs_saw_tool_call :: bool

type_synonym 'a responses = "(responses_state, provider_execution_error, 'a) io"

definition responses_usage :: "provider_pricing \<Rightarrow> json \<Rightarrow> unit responses" where
  "responses_usage pricing usage =
     (if \<not> is_object usage then finish ()
      else
        (let input_tokens = or_default 0 (Option.bind (jget ''input_tokens'' usage) as_u64);
             output_tokens = or_default 0 (Option.bind (jget ''output_tokens'' usage) as_u64)
         in emit_event (Usage input_tokens output_tokens (calculate_cost input_tokens output_tokens 0 pricing))))"

definition reasoning_data :: "string \<Rightarrow> string \<Rightarrow> json" where
  "reasoning_data i encrypted_content = jobj [(''id'', JString i), (''encrypted_content'', JString encrypted_content)]"

definition reasoning_state ::
  "gateway_externals \<Rightarrow> string \<Rightarrow> string \<Rightarrow> json \<Rightarrow> (provider_execution_error, provider_private_state option) result" where
  "reasoning_state ext provider_id model item =
     (case nonempty_str (jidx ''encrypted_content'' item) of
        None \<Rightarrow> Inr None
      | Some encrypted_content \<Rightarrow>
          (case required_string item ''id'' ''reasoning item is missing id'' of
             Inl e \<Rightarrow> Inl e
           | Inr i \<Rightarrow> Inr (Some \<lparr>pps_provider_id = provider_id, pps_protocol = ''openai_responses'', pps_model = model,
               pps_format = ''openai.responses.reasoning.v1'',
               pps_data = gx_to_string ext (reasoning_data i encrypted_content)\<rparr>)))"

definition reasoning_done :: "gateway_externals \<Rightarrow> string \<Rightarrow> string \<Rightarrow> json \<Rightarrow> unit responses" where
  "reasoning_done ext provider_id model item =
     (let summary = List.map_filter (\<lambda>part. nonempty_str (jidx ''text'' part)) (array_items (jidx ''summary'' item))
      in then_do (of_result (reasoning_state ext provider_id model item))
           (\<lambda>private_state. if summary \<noteq> [] \<or> private_state \<noteq> None
                            then emit_event (Reasoning summary private_state) else finish ()))"

definition call_arguments :: "gateway_externals \<Rightarrow> string \<Rightarrow> json \<Rightarrow> (provider_execution_error, json) result" where
  "call_arguments ext name item =
     (case as_str (jidx ''arguments'' item) of
        None \<Rightarrow> Inl (protocol_error ''function call is missing arguments'')
      | Some arguments \<Rightarrow>
          if trim arguments = [] then Inr (JObject [])
          else (case gx_from_str ext (trim arguments) of
                  Inl error \<Rightarrow> Inl (protocol_error (''function call arguments for '' @ name @ '' are invalid JSON: '' @ error))
                | Inr parsed \<Rightarrow> Inr parsed))"

definition function_call_done :: "gateway_externals \<Rightarrow> json \<Rightarrow> unit responses" where
  "function_call_done ext item =
     then_do (of_result (required_string item ''call_id'' ''function call is missing call_id''))
     (\<lambda>i. then_do (of_result (required_string item ''name'' ''function call is missing name''))
     (\<lambda>name. then_do (of_result (call_arguments ext name item))
     (\<lambda>arguments. then_do (emit_event (ModelToolCall i name arguments))
     (\<lambda>_. update (\<lambda>s. s\<lparr>rs_saw_tool_call := True\<rparr>)))))"

definition looks_like_refused_content :: "string \<Rightarrow> bool" where
  "looks_like_refused_content c \<longleftrightarrow>
     lowercase c \<in> {''invalid_prompt'', ''bio_policy'', ''cyber_policy'', ''content_filter'', ''content_policy_violation''}"

definition looks_like_transient_response_failure :: "string \<Rightarrow> bool" where
  "looks_like_transient_response_failure c \<longleftrightarrow>
     lowercase c \<in> {''server_error'', ''server_overloaded'', ''slow_down'', ''internal_error''}"

definition response_failed :: "provider_credential \<Rightarrow> json \<Rightarrow> provider_execution_error" where
  "response_failed credential value =
     (let error = jidx ''error'' (jidx ''response'' value);
          message = or_default ''OpenAI Responses request failed'' (as_str (jidx ''message'' error));
          c = or_default [] (as_str (jidx ''code'' error));
          (kind, retryable) =
            (if looks_like_refused_content c then (KindContentFilter, False)
             else if looks_like_exhausted_quota c \<or> looks_like_exhausted_quota message then (Billing, False)
             else if looks_like_transient_response_failure c then (Unavailable, True)
             else if lowercase c = ''rate_limit_exceeded'' then (RateLimited, True)
             else if lowercase c = ''context_length_exceeded'' then (ContextOverflow, False)
             else (Protocol, False))
      in provider_error kind retryable None (redact credential message))"

definition complete_response :: "model_finish_reason \<Rightarrow> bool responses" where
  "complete_response reason = then_do (emit_event (Completed reason)) (\<lambda>_. finish True)"

definition responses_event ::
  "gateway_externals \<Rightarrow> openai_responses_adapter \<Rightarrow> string \<Rightarrow> provider_credential \<Rightarrow> string \<Rightarrow> json \<Rightarrow> bool responses" where
  "responses_event ext adapter provider_id credential event_type value =
     (if event_type = ''response.output_text.delta''
      then then_do (case nonempty_str (jidx ''delta'' value) of
                      None \<Rightarrow> finish ()
                    | Some text \<Rightarrow>
                        emit_event (TextDelta text (map_option narrow_index (as_u64 (jidx ''output_index'' value)))))
             (\<lambda>_. finish False)
      else if event_type = ''response.refusal.done''
      then then_do (case nonempty_str (jidx ''refusal'' value) of None \<Rightarrow> finish () | Some text \<Rightarrow> emit_event (Refusal text))
             (\<lambda>_. finish False)
      else if event_type = ''response.output_item.done'' \<and> jidx ''type'' (jidx ''item'' value) = JString ''reasoning''
      then then_do (reasoning_done ext provider_id (ra_model adapter) (jidx ''item'' value)) (\<lambda>_. finish False)
      else if event_type = ''response.output_item.done'' \<and> jidx ''type'' (jidx ''item'' value) = JString ''function_call''
      then then_do (function_call_done ext (jidx ''item'' value)) (\<lambda>_. finish False)
      else if event_type = ''response.completed''
      then then_do (responses_usage (ra_pricing adapter) (jidx ''usage'' (jidx ''response'' value)))
             (\<lambda>_. inspect (\<lambda>s. complete_response (if rs_saw_tool_call s then ToolCalls else Stop)))
      else if event_type = ''response.incomplete''
      then then_do (responses_usage (ra_pricing adapter) (jidx ''usage'' (jidx ''response'' value)))
             (\<lambda>_. complete_response
                (if as_str (jidx ''reason'' (jidx ''incomplete_details'' (jidx ''response'' value))) = Some ''content_filter''
                 then ReasonContentFilter else Length))
      else if event_type = ''response.failed'' then give_up (response_failed credential value)
      else if event_type = ''error''
      then give_up (protocol_error (redact credential
             (or_default ''OpenAI Responses stream failed'' (as_str (jidx ''message'' value)))))
      else finish False)"

definition responses_handler ::
  "gateway_externals \<Rightarrow> openai_responses_adapter \<Rightarrow> string \<Rightarrow> provider_credential \<Rightarrow> string \<Rightarrow> string \<Rightarrow> bool responses" where
  "responses_handler ext adapter provider_id credential name data =
     then_do (of_result (sse_json ext data))
       (\<lambda>value. responses_event ext adapter provider_id credential (or_default name (as_str (jidx ''type'' value))) value)"

definition responses_at_end :: "unit responses" where
  "responses_at_end = give_up (protocol_error ''provider stream ended without response.completed'')"

definition responses_begin :: "sink \<Rightarrow> responses_state" where
  "responses_begin events = sink.extend events \<lparr>rs_saw_tool_call = False\<rparr>"

definition responses_execute_for_provider ::
  "gateway_externals \<Rightarrow> (json \<Rightarrow> exchange) \<Rightarrow> openai_responses_adapter \<Rightarrow> string \<Rightarrow> model_request \<Rightarrow> provider_credential \<Rightarrow>
   (sink, provider_execution_error, unit) io" where
  "responses_execute_for_provider ext post adapter provider_id request credential events =
     (case responses_request_payload ext adapter request of
        Inl e \<Rightarrow> (Inl e, events)
      | Inr payload \<Rightarrow>
          map_prod id sink.truncate
            (converse ext (responses_handler ext adapter provider_id credential) responses_at_end credential (post payload)
               (responses_begin events)))"

section \<open>The contracts\<close>

lemma responses_sound:
  "required_string v field message = Inl e \<Longrightarrow> sound_fault e"
  "reasoning_state ext provider_id model item = Inl e \<Longrightarrow> sound_fault e"
  "call_arguments ext name item = Inl e \<Longrightarrow> sound_fault e"
  "sse_json ext data = Inl e \<Longrightarrow> sound_fault e"
  by (auto simp: required_string_def reasoning_state_def call_arguments_def sse_json_def
      split: option.splits sum.splits if_splits)

lemma response_failed_sound: "sound_fault (response_failed credential v)"
  by (simp add: response_failed_def Let_def)

lemma responses_steps_keep [io_intros]:
  "keeps (extends open_turn) (responses_usage pricing usage)" "fails_with sound_fault (responses_usage pricing usage)"
  "keeps (extends open_turn) (reasoning_done ext provider_id model item)"
  "fails_with sound_fault (reasoning_done ext provider_id model item)"
  "keeps (extends open_turn) (function_call_done ext item)" "fails_with sound_fault (function_call_done ext item)"
  unfolding responses_usage_def reasoning_done_def function_call_done_def Let_def
  by (intro io_intros; simp add: responses_sound)+

lemma complete_response_ends: "turn_step (\<lambda>over. over) (complete_response reason)" "fails_with sound_fault (complete_response reason)"
  unfolding complete_response_def by (rule turn_step_complete, simp) (intro io_intros)

lemma responses_event_turn: "turn_step (\<lambda>over. over) (responses_event ext adapter provider_id credential event_type v)"
  unfolding responses_event_def
  by (intro turn_step_if turn_step_then turn_step_finish turn_step_give_up turn_step_inspect complete_response_ends
      responses_steps_keep keeps_option keeps_emit grows.keeps_finish; simp)

lemma responses_event_fault: "fails_with sound_fault (responses_event ext adapter provider_id credential event_type v)"
  unfolding responses_event_def
  by (intro io_intros complete_response_ends; simp add: response_failed_sound)

interpretation responses: provider_turn "responses_handler ext adapter provider_id credential" responses_at_end
  for ext adapter provider_id credential
proof
  show "turn_step (\<lambda>over. over) (responses_handler ext adapter provider_id credential name data)" for name data
    unfolding responses_handler_def by (intro turn_step_then grows.keeps_of_result responses_event_turn)
  show "turn_step (\<lambda>_. True) responses_at_end"
    by (simp add: responses_at_end_def turn_step_give_up)
  show "fails_with sound_fault (responses_handler ext adapter provider_id credential name data)" for name data
    unfolding responses_handler_def
    by (intro fails_with_then_do fails_with_of_result responses_event_fault) (simp add: responses_sound)
  show "fails_with sound_fault responses_at_end"
    unfolding responses_at_end_def by (intro io_intros) simp
qed

lemma function_call_records: "keeps (records_tools rs_saw_tool_call) (function_call_done ext item)"
proof -
  have step: "keeps (records_tools rs_saw_tool_call)
      (then_do (emit_event (ModelToolCall i name arguments)) (\<lambda>_. update (\<lambda>s. s\<lparr>rs_saw_tool_call := True\<rparr>)))"
    for i name arguments
    by (auto simp: keeps_def then_do_def emit_event_def update_def records_tools_def)
  show ?thesis
    unfolding function_call_done_def
    by ((rule records.keeps_then_do [OF records.keeps_of_result])+, rule step)
qed

lemma responses_emit_records:
  "\<not> is_tool_event event \<Longrightarrow> keeps (records_tools rs_saw_tool_call) (emit_event event)"
  by (rule keeps_records_emit) simp_all

lemma responses_event_records:
  "keeps (records_tools rs_saw_tool_call) (responses_event ext adapter provider_id credential event_type v)"
  unfolding responses_event_def responses_usage_def reasoning_done_def complete_response_def Let_def
  by (intro keeps_if records.keeps_then_do records.keeps_finish records.keeps_give_up records.keeps_inspect
      records.keeps_of_result function_call_records keeps_option responses_emit_records) simp_all

lemma responses_event_honest:
  "honest_stop rs_saw_tool_call (\<lambda>over. over) (responses_event ext adapter provider_id credential event_type v)"
proof -
  have never: "honest_stop rs_saw_tool_call (\<lambda>over. over) (then_do m (\<lambda>_. finish False))" for m :: "'x responses"
    by (auto simp: honest_stop_def then_do_def finish_def split: prod.splits sum.splits)
  have lift: "honest_stop rs_saw_tool_call (\<lambda>over. over) (then_do m f)"
    if "\<And>a. honest_stop rs_saw_tool_call (\<lambda>over. over) (f a)" for m :: "unit responses" and f
    using that by (auto simp: honest_stop_def then_do_def split: prod.splits sum.splits)
  have complete: "honest_stop rs_saw_tool_call (\<lambda>over. over) (inspect (\<lambda>s. complete_response (if rs_saw_tool_call s then ToolCalls else Stop)))"
    "reason \<noteq> Stop \<Longrightarrow> honest_stop rs_saw_tool_call (\<lambda>over. over) (complete_response reason)" for reason
    by (auto simp: honest_stop_def complete_response_def inspect_def then_do_def emit_event_def finish_def split: if_splits)
  have give: "honest_stop rs_saw_tool_call (\<lambda>over. over) (give_up e)"
    "honest_stop rs_saw_tool_call (\<lambda>over. over) (finish False)" for e
    by (simp_all add: honest_stop_def give_up_def finish_def)
  show ?thesis
    unfolding responses_event_def by (simp add: never lift complete give)
qed

interpretation responses_tools: tool_aware_turn "responses_handler ext adapter provider_id credential" responses_at_end
  rs_saw_tool_call for ext adapter provider_id credential
proof
  show "keeps (records_tools rs_saw_tool_call) (responses_handler ext adapter provider_id credential name data)" for name data
    unfolding responses_handler_def by (intro records.keeps_then_do records.keeps_of_result responses_event_records)
  show "keeps (records_tools rs_saw_tool_call) responses_at_end"
    by (simp add: responses_at_end_def records.keeps_give_up)
  show "honest_stop rs_saw_tool_call (\<lambda>over. over) (responses_handler ext adapter provider_id credential name data)" for name data
    using responses_event_honest unfolding responses_handler_def
    by (cases "sse_json ext data") (simp_all add: honest_stop_def then_do_def of_result_def)
  show "honest_stop rs_saw_tool_call (\<lambda>_. True) responses_at_end"
    by (simp add: responses_at_end_def honest_stop_def give_up_def)
qed

section \<open>Property\<close>

text \<open>The texts of a summary, as the adapter reads them: empty ones are skipped.\<close>

definition summary_texts :: "json \<Rightarrow> string list" where
  "summary_texts item = List.map_filter (\<lambda>part. nonempty_str (jidx ''text'' part)) (array_items (jidx ''summary'' item))"

lemma reasoning_state_read:
  assumes "jidx ''id'' item = JString i" and "jidx ''encrypted_content'' item = JString c" and "i \<noteq> []" and "c \<noteq> []"
  shows "reasoning_state ext provider_id model item =
    Inr (Some \<lparr>pps_provider_id = provider_id, pps_protocol = ''openai_responses'', pps_model = model,
      pps_format = ''openai.responses.reasoning.v1'', pps_data = gx_to_string ext (reasoning_data i c)\<rparr>)"
  using assms by (simp add: reasoning_state_def required_string_def nonempty_str_def)

lemma reasoning_replayed:
  assumes "gx_from_str ext (gx_to_string ext (reasoning_data i c)) = Inr (reasoning_data i c)" and "i \<noteq> []" and "c \<noteq> []"
    and "pps_format state = ''openai.responses.reasoning.v1''" and "pps_data state = gx_to_string ext (reasoning_data i c)"
  shows "response_part ext r (PartReasoning summary (Some state)) = Inr (Some (Inl (reasoning_item summary i c)))"
proof -
  have "required_string (reasoning_data i c) ''id'' m = Inr i" "required_string (reasoning_data i c) ''encrypted_content'' m = Inr c" for m
    using assms(2,3) by (simp_all add: required_string_def nonempty_str_def reasoning_data_def jidx_def jget_jobj)
  then show ?thesis by (simp add: response_part_def assms(1,4,5))
qed

lemma summary_item_text: "text \<noteq> [] \<Longrightarrow> nonempty_str (jidx ''text'' (summary_item text)) = Some text"
  by (simp add: summary_item_def jidx_def jget_jobj nonempty_str_def)

lemma to_value_summary_item: "to_value (summary_item text) = summary_item text"
  by (simp only: summary_item_def jobj_def to_value_idem)

lemma summary_texts_item:
  assumes "[] \<notin> set texts"
  shows "summary_texts (reasoning_item texts i c) = texts"
proof -
  have "array_items (jidx ''summary'' (reasoning_item texts i c)) = map summary_item texts"
    by (simp add: reasoning_item_def jidx_def jget_jobj array_items_def to_value_summary_item)
  moreover have "List.map_filter (\<lambda>part. nonempty_str (jidx ''text'' part)) (map summary_item texts) = texts"
    using assms by (induction texts) (auto simp: map_filter_simps summary_item_text)
  ultimately show ?thesis by (simp add: summary_texts_def)
qed

text \<open>
  C29. A reasoning item survives the round trip. When a reasoning item with an id and encrypted content is done, and the receiver of the
  turn is there, the adapter delivers one event. It carries the non-empty texts of the summary and a state that is meant for the
  Provider, protocol and model that produced it. When the event comes back in a transcript, the adapter sends a
  reasoning item with the same id, the same encrypted content and this summary; if the item had no empty text and no
  other fields, it is the item itself. The text form of a JSON value is assumed to be read back as that value.
\<close>

theorem reasoning_state_round_trip:
  assumes "jidx ''id'' item = JString i" and "jidx ''encrypted_content'' item = JString c" and "i \<noteq> []" and "c \<noteq> []"
    and "room s \<noteq> Some 0"
    and "gx_from_str ext (gx_to_string ext (reasoning_data i c)) = Inr (reasoning_data i c)"
  shows "\<exists>state s'. reasoning_done ext provider_id model item s = (Inr (), s') \<and>
    delivered s' = delivered s @ [Reasoning (summary_texts item) (Some state)] \<and>
    meant_for provider_id ''openai_responses'' model state \<and>
    response_part ext r (PartReasoning (summary_texts item) (Some state)) =
      Inr (Some (Inl (reasoning_item (summary_texts item) i c))) \<and>
    (\<forall>texts. item = reasoning_item texts i c \<and> [] \<notin> set texts \<longrightarrow> reasoning_item (summary_texts item) i c = item)"
proof -
  let ?state = "\<lparr>pps_provider_id = provider_id, pps_protocol = ''openai_responses'', pps_model = model,
    pps_format = ''openai.responses.reasoning.v1'', pps_data = gx_to_string ext (reasoning_data i c)\<rparr>"
  let ?s = "s\<lparr>delivered := delivered s @ [Reasoning (summary_texts item) (Some ?state)], room := map_option (\<lambda>n. n - 1) (room s)\<rparr>"
  have "reasoning_done ext provider_id model item s = (Inr (), ?s)"
    using assms(5) by (simp add: reasoning_done_def Let_def reasoning_state_read [OF assms(1-4)] io_defs emit_event_def summary_texts_def)
  moreover have "response_part ext r (PartReasoning (summary_texts item) (Some ?state)) =
      Inr (Some (Inl (reasoning_item (summary_texts item) i c)))"
    by (rule reasoning_replayed [OF assms(6,3,4)]) simp_all
  moreover have "meant_for provider_id ''openai_responses'' model ?state" by (simp add: meant_for_def)
  ultimately show ?thesis by (intro exI [of _ ?state] exI [of _ ?s]) (auto simp: summary_texts_item)
qed

section \<open>Instance\<close>

definition reasoning_gateway :: gateway_externals where
  "reasoning_gateway = sample_gateway\<lparr>gx_from_str := \<lambda>_. Inr (reasoning_data ''r'' ''e'')\<rparr>"

definition waiting_state :: responses_state where
  "waiting_state = \<lparr>delivered = [], room = None, rs_saw_tool_call = False\<rparr>"

theorem reasoning_state_round_trip_witness:
  "\<exists>state s'. reasoning_done reasoning_gateway ''p'' ''m'' (reasoning_item [''s''] ''r'' ''e'') waiting_state = (Inr (), s') \<and>
     delivered s' = [Reasoning [''s''] (Some state)] \<and>
     response_part reasoning_gateway AssistantRole (PartReasoning [''s''] (Some state)) = Inr (Some (Inl (reasoning_item [''s''] ''r'' ''e'')))"
proof -
  let ?item = "reasoning_item [''s''] ''r'' ''e''"
  have item: "jidx ''id'' ?item = JString ''r''" "jidx ''encrypted_content'' ?item = JString ''e''"
    by (simp_all add: reasoning_item_def jidx_def jget_jobj)
  have "room waiting_state \<noteq> Some 0" by (simp add: waiting_state_def)
  moreover have "gx_from_str reasoning_gateway v = Inr (reasoning_data ''r'' ''e'')" for v by (simp add: reasoning_gateway_def)
  ultimately have "\<exists>state s'. reasoning_done reasoning_gateway ''p'' ''m'' ?item waiting_state = (Inr (), s') \<and>
      delivered s' = delivered waiting_state @ [Reasoning (summary_texts ?item) (Some state)] \<and>
      response_part reasoning_gateway AssistantRole (PartReasoning (summary_texts ?item) (Some state)) =
        Inr (Some (Inl (reasoning_item (summary_texts ?item) ''r'' ''e'')))"
    using reasoning_state_round_trip [OF item, of waiting_state reasoning_gateway "''p''" "''m''" AssistantRole] by auto
  moreover have "summary_texts ?item = [''s'']" by (rule summary_texts_item) simp
  moreover have "delivered waiting_state = []" by (simp add: waiting_state_def)
  ultimately show ?thesis by simp
qed

end
