(* ===== verification/Model_Failover.thy ===== *)
theory Model_Failover
  imports Chat_Completions Anthropic_Messages Responses_Api Execution_Command "HOL-Library.Product_Lexorder"
begin

text \<open>
  The Provider side of the model gateway: the adapters behind one interface and the ranking of candidates
  (\<open>runtime/apps/model-gateway/src/lib.rs\<close>), and the failover chain (\<open>failover.rs\<close>). The lemmas show what a consumer of
  the chain sees: output of one Provider only, one completion exactly when the chain succeeds, and a further Provider only
  after a fault that says something about another one.
\<close>

section \<open>Providers behind one interface\<close>

datatype provider_protocol = OpenAiCompatible | OpenAiResponses | AnthropicMessages

definition protocol_from_str :: "string \<Rightarrow> (provider_execution_error, provider_protocol) result" where
  "protocol_from_str value =
     (if value = ''openai_compatible'' then Inr OpenAiCompatible
      else if value = ''openai_responses'' then Inr OpenAiResponses
      else if value = ''anthropic_messages'' then Inr AnthropicMessages
      else Inl (InvalidConfiguration (''unsupported provider protocol '' @ value)))"

datatype provider_adapter =
    ChatAdapter openai_compatible_adapter
  | ResponsesAdapter openai_responses_adapter
  | MessagesAdapter anthropic_messages_adapter

definition protocol_name :: "provider_adapter \<Rightarrow> string" where
  "protocol_name adapter =
     (case adapter of
        ChatAdapter _ \<Rightarrow> ''openai_compatible''
      | ResponsesAdapter _ \<Rightarrow> ''openai_responses''
      | MessagesAdapter _ \<Rightarrow> ''anthropic_messages'')"

definition adapter_model :: "provider_adapter \<Rightarrow> string" where
  "adapter_model adapter =
     (case adapter of ChatAdapter a \<Rightarrow> oa_model a | ResponsesAdapter a \<Rightarrow> ra_model a | MessagesAdapter a \<Rightarrow> aa_model a)"

definition adapter_execute ::
  "gateway_externals \<Rightarrow> (json \<Rightarrow> exchange) \<Rightarrow> provider_adapter \<Rightarrow> string \<Rightarrow> model_request \<Rightarrow> provider_credential \<Rightarrow>
   (sink, provider_execution_error, unit) io" where
  "adapter_execute ext post adapter provider_id request credential =
     (if is_blank provider_id then give_up (InvalidConfiguration ''provider route id must not be blank'')
      else (case prepare_request_for_provider request provider_id (protocol_name adapter) (adapter_model adapter) of
              Inl e \<Rightarrow> give_up e
            | Inr (request', omissions) \<Rightarrow>
                then_do (for_each emit_event omissions)
                  (\<lambda>_. case adapter of
                         ChatAdapter a \<Rightarrow> chat_execute ext post a request' credential
                       | ResponsesAdapter a \<Rightarrow> responses_execute_for_provider ext post a provider_id request' credential
                       | MessagesAdapter a \<Rightarrow> anthropic_execute_for_provider ext post a provider_id request' credential)))"

section \<open>Ranking\<close>

datatype data_class = Public | Internal | Confidential | Restricted

datatype capability = TextCapability | Vision | Audio | ToolUse | StructuredOutput

record model_candidate =
  mc_id :: string
  mc_region :: string
  mc_accepted_data_classes :: "data_class list"
  mc_capabilities :: "capability list"
  mc_healthy :: bool
  mc_latency_ms :: u64
  mc_cost_per_million_tokens_micros :: u64

record routing_constraints =
  rk_allowed_regions :: "string list"
  rk_data_class :: data_class
  rk_required_capabilities :: "capability list"
  rk_max_cost_per_million_tokens_micros :: u64

definition eligible_candidate :: "routing_constraints \<Rightarrow> model_candidate \<Rightarrow> bool" where
  "eligible_candidate constraints candidate \<longleftrightarrow>
     mc_healthy candidate \<and> mc_region candidate \<in> set (rk_allowed_regions constraints) \<and>
     rk_data_class constraints \<in> set (mc_accepted_data_classes candidate) \<and>
     set (rk_required_capabilities constraints) \<subseteq> set (mc_capabilities candidate) \<and>
     mc_cost_per_million_tokens_micros candidate \<le> rk_max_cost_per_million_tokens_micros constraints"

definition rank_candidates :: "model_candidate list \<Rightarrow> routing_constraints \<Rightarrow> model_candidate list" where
  "rank_candidates candidates constraints =
     sort_key (\<lambda>c. (mc_latency_ms c, mc_cost_per_million_tokens_micros c, mc_id c))
       (filter (eligible_candidate constraints) candidates)"

section \<open>Failover\<close>

record provider_route =
  pr_id :: string
  pr_adapter :: provider_adapter
  pr_credential :: provider_credential

definition safe_fallback_kinds :: "model_error_kind list" where
  "safe_fallback_kinds = [RateLimited, Timeout, Unavailable]"

record failover_selection =
  fs_provider_id :: string
  fs_failed_provider_ids :: "string list"

definition crosses_to_another_provider :: "model_error_kind \<Rightarrow> bool \<Rightarrow> bool" where
  "crosses_to_another_provider kind retryable \<longleftrightarrow> retryable \<or> kind = Billing"

definition is_policy_fallback :: "provider_execution_error \<Rightarrow> model_failover_policy_snapshot \<Rightarrow> bool" where
  "is_policy_fallback error policy \<longleftrightarrow>
     (case error of
        ProviderFault kind retryable _ _ _ \<Rightarrow>
          kind \<in> set (fp_fallback_on policy) \<and> crosses_to_another_provider kind retryable
      | _ \<Rightarrow> False)"

text \<open>
  One attempt: what the Provider task sends into its own channel, whose receiver stays while the task runs, and how it ends.
  \<open>post\<close> is the exchange with the \<open>i\<close>-th Provider; \<open>panics i\<close> is a task that ended without returning, and what it had sent.
\<close>

definition run_attempt ::
  "gateway_externals \<Rightarrow> (nat \<Rightarrow> json \<Rightarrow> exchange) \<Rightarrow> (nat \<Rightarrow> (model_stream_event list \<times> string) option) \<Rightarrow> model_request \<Rightarrow>
   nat \<Rightarrow> provider_route \<Rightarrow> model_stream_event list \<times> (provider_execution_error, unit) result" where
  "run_attempt ext post panics request index route =
     (case panics index of
        Some (events, error) \<Rightarrow> (events, Inl (InvalidConfiguration (''provider task failed unexpectedly: '' @ error)))
      | None \<Rightarrow>
          (case adapter_execute ext (post index) (pr_adapter route) (pr_id route) request (pr_credential route)
                  \<lparr>delivered = [], room = None\<rparr> of
             (result, attempt) \<Rightarrow> (delivered attempt, result)))"

fun try_routes ::
  "(nat \<Rightarrow> provider_route \<Rightarrow> model_stream_event list \<times> (provider_execution_error, unit) result) \<Rightarrow>
   model_failover_policy_snapshot \<Rightarrow> nat \<Rightarrow> provider_route list \<Rightarrow> string list \<Rightarrow>
   (sink, provider_execution_error, failover_selection) io" where
  "try_routes attempt policy index [] failed_provider_ids =
     give_up (InvalidConfiguration ''model policy exhausted without selecting a provider'')"
| "try_routes attempt policy index (route # routes) failed_provider_ids =
     (if is_blank (pr_id route) then give_up (InvalidConfiguration ''provider route id must not be blank'')
      else (case attempt index route of
              (events, result) \<Rightarrow>
                then_do (for_each emit_event events)
                  (\<lambda>_. case result of
                         Inr _ \<Rightarrow> finish \<lparr>fs_provider_id = pr_id route, fs_failed_provider_ids = failed_provider_ids\<rparr>
                       | Inl error \<Rightarrow>
                           if \<not> list_ex commits_provider_output events \<and> routes \<noteq> [] \<and> is_policy_fallback error policy
                           then try_routes attempt policy (Suc index) routes (failed_provider_ids @ [pr_id route])
                           else give_up error)))"

definition failover_policy_ok :: "model_failover_policy_snapshot \<Rightarrow> bool" where
  "failover_policy_ok policy \<longleftrightarrow>
     1 \<le> fp_max_provider_attempts policy \<and> fp_max_provider_attempts policy \<le> 8 \<and>
     list_all (\<lambda>kind. kind \<in> {RateLimited, Timeout, Unavailable, Billing}) (fp_fallback_on policy)"

definition execute_with_frozen_failover ::
  "gateway_externals \<Rightarrow> (nat \<Rightarrow> json \<Rightarrow> exchange) \<Rightarrow> (nat \<Rightarrow> (model_stream_event list \<times> string) option) \<Rightarrow>
   provider_route list \<Rightarrow> model_request \<Rightarrow> model_failover_policy_snapshot \<Rightarrow>
   (sink, provider_execution_error, failover_selection) io" where
  "execute_with_frozen_failover ext post panics routes request policy =
     (if routes = [] then give_up (InvalidConfiguration ''model policy has no provider candidates'')
      else if \<not> failover_policy_ok policy then give_up (InvalidConfiguration ''runtime model failover policy is invalid'')
      else try_routes (run_attempt ext post panics request) policy 0
             (take (min (length routes) (unat (fp_max_provider_attempts policy))) routes) [])"

definition execute_with_safe_failover ::
  "gateway_externals \<Rightarrow> (nat \<Rightarrow> json \<Rightarrow> exchange) \<Rightarrow> (nat \<Rightarrow> (model_stream_event list \<times> string) option) \<Rightarrow>
   provider_route list \<Rightarrow> model_request \<Rightarrow> (sink, provider_execution_error, failover_selection) io" where
  "execute_with_safe_failover ext post panics routes request =
     execute_with_frozen_failover ext post panics routes request (xp_model_failover default_execution_policy)"

section \<open>What an adapter delivers\<close>

lemma truncate_delivered [simp]: "delivered (sink.truncate s) = delivered s"
  by (simp add: sink.defs)

lemma begin_delivered [simp]:
  "delivered (chat_begin events) = delivered events" "delivered (anthropic_begin events) = delivered events"
  "delivered (responses_begin events) = delivered events"
  by (simp_all add: chat_begin_def anthropic_begin_def responses_begin_def sink.defs)

lemma turn_step_embedded:
  assumes "turn_step over m" and "\<And>events. delivered (start events) = delivered events"
  shows "turn_step over (\<lambda>events :: sink. map_prod id sink.truncate (m (start events)))"
  unfolding turn_step_def
proof (intro allI impI)
  fix s r s' assume "map_prod id sink.truncate (m (start s)) = (r, s')"
  then obtain t where t: "m (start s) = (r, t)" "s' = sink.truncate t" by (cases "m (start s)") auto
  then have "if ends_turn over r then completes (start s) t else extends open_turn (start s) t"
    using assms(1) by (simp add: turn_step_def)
  with t(2) assms(2) show "if ends_turn over r then completes s s' else extends open_turn s s'"
    by (simp add: completes_def extends_def split: if_splits)
qed

lemma payload_parts_sound: "payload_parts ext r parts content calls = Inl e \<Longrightarrow> sound_fault e"
  by (induction ext r parts content calls rule: payload_parts.induct) (auto split: if_splits)

lemma message_payload_sound: "message_payload ext m = Inl e \<Longrightarrow> sound_fault e"
proof (cases "msg_role m = ToolRole")
  case True
  then show "message_payload ext m = Inl e \<Longrightarrow> sound_fault e"
    by (cases "hd (msg_content m)") (auto simp: message_payload_def Let_def split: if_splits)
next
  case False
  then show "message_payload ext m = Inl e \<Longrightarrow> sound_fault e"
    by (cases "payload_parts ext (msg_role m) (msg_content m) [] []")
       (auto simp: message_payload_def Let_def dest: payload_parts_sound split: prod.splits)
qed

lemma chat_payload_sound: "chat_request_payload ext adapter request = Inl e \<Longrightarrow> sound_fault e"
  by (auto simp: chat_request_payload_def Let_def dest!: collect_results_Inl message_payload_sound split: sum.splits)

lemma anthropic_part_sound: "anthropic_part ext r part = Inl e \<Longrightarrow> sound_fault e"
  by (cases part) (auto simp: anthropic_part_def split: option.splits sum.splits if_splits)

lemma system_part_sound: "system_part part = Inl e \<Longrightarrow> sound_fault e"
  by (cases part) (auto simp: system_part_def)

lemma anthropic_loop_sound: "anthropic_messages_loop ext ms system messages = Inl e \<Longrightarrow> sound_fault e"
proof (induction ext ms system messages rule: anthropic_messages_loop.induct)
  case (2 ext message rest system messages)
  have "sound_fault d" if "collect_results system_part (msg_content message) = Inl d" for d
    using collect_results_Inl [OF that] system_part_sound by blast
  moreover have "sound_fault d" if "anthropic_content ext (msg_role message) (msg_content message) = Inl d" for d
    using that by (auto simp: anthropic_content_def dest!: collect_results_Inl anthropic_part_sound split: sum.splits)
  ultimately show ?case using 2 by (auto split: if_splits sum.splits)
qed simp

lemma anthropic_payload_sound: "anthropic_request_payload ext adapter request = Inl e \<Longrightarrow> sound_fault e"
  by (auto simp: anthropic_request_payload_def anthropic_messages_def Let_def dest: anthropic_loop_sound split: sum.splits if_splits)

lemma response_part_sound: "response_part ext r part = Inl e \<Longrightarrow> sound_fault e"
  by (cases part) (auto simp: response_part_def dest: responses_sound(1) split: option.splits sum.splits if_splits)

lemma response_message_sound: "response_message ext m = Inl e \<Longrightarrow> sound_fault e"
  by (auto simp: response_message_def dest!: collect_results_Inl response_part_sound split: sum.splits)

lemma responses_payload_sound: "responses_request_payload ext adapter request = Inl e \<Longrightarrow> sound_fault e"
  by (auto simp: responses_request_payload_def response_input_def Let_def dest!: collect_results_Inl response_message_sound
      split: sum.splits)

text \<open>An adapter: the payload may fail; otherwise the exchange runs from a fresh state.\<close>

lemma turn_step_adapter:
  assumes f: "\<And>events. f events = (case payload of Inl e \<Rightarrow> (Inl e, events)
      | Inr p \<Rightarrow> map_prod id sink.truncate (m p (start events)))"
    and "\<And>p. turn_step over (m p)" and "\<And>events. delivered (start events) = delivered events"
  shows "turn_step over f"
proof (cases payload)
  case (Inl e)
  with f have "f = give_up e" by (simp add: fun_eq_iff give_up_def)
  then show ?thesis by (simp add: turn_step_give_up)
next
  case (Inr p)
  with f have "f = (\<lambda>events. map_prod id sink.truncate (m p (start events)))" by (simp add: fun_eq_iff)
  with turn_step_embedded [OF assms(2,3)] show ?thesis by simp
qed

lemma fails_with_adapter:
  assumes "\<And>events. f events = (case payload of Inl e \<Rightarrow> (Inl e, events)
      | Inr p \<Rightarrow> map_prod id sink.truncate (m p (start events)))"
    and "\<And>e. payload = Inl e \<Longrightarrow> Q e" and "\<And>p. fails_with Q (m p)"
  shows "fails_with Q f"
  using assms by (auto simp: fails_with_def split: sum.splits)

lemma adapters_turn:
  "turn_step (\<lambda>_. True) (chat_execute ext post chat request credential)"
  "turn_step (\<lambda>_. True) (anthropic_execute_for_provider ext post messages provider_id request credential)"
  "turn_step (\<lambda>_. True) (responses_execute_for_provider ext post responses provider_id request credential)"
  by (rule turn_step_adapter [OF chat_execute_def chat.converse_turn begin_delivered(1)],
      rule turn_step_adapter [OF anthropic_execute_for_provider_def anthropic.converse_turn begin_delivered(2)],
      rule turn_step_adapter [OF responses_execute_for_provider_def responses.converse_turn begin_delivered(3)])

lemma adapters_fault:
  "fails_with sound_fault (chat_execute ext post chat request credential)"
  "fails_with sound_fault (anthropic_execute_for_provider ext post messages provider_id request credential)"
  "fails_with sound_fault (responses_execute_for_provider ext post responses provider_id request credential)"
  by (rule fails_with_adapter [OF chat_execute_def chat_payload_sound chat.converse_fault],
      assumption, rule fails_with_adapter [OF anthropic_execute_for_provider_def anthropic_payload_sound anthropic.converse_fault],
      assumption, rule fails_with_adapter [OF responses_execute_for_provider_def responses_payload_sound responses.converse_fault])

lemma prepared_omissions:
  "prepare_request_for_provider request i pr m = Inr (request', omitted) \<Longrightarrow> event \<in> set omitted \<Longrightarrow>
     \<not> closes_turn event \<and> \<not> is_tool_event event \<and> \<not> commits_provider_output event"
  by (auto dest!: prepare_request_states simp: omission_def)

lemma prepare_sound: "prepare_request_for_provider request i pr m = Inl e \<Longrightarrow> sound_fault e"
proof -
  have part: "sound_fault d" if "prepare_part i pr m part = Inl d" for part d
    using that by (cases "(i, pr, m, part)" rule: prepare_part.cases) (auto split: if_splits)
  then have "sound_fault d" if "prepare_message i pr m msg = Inl d" for msg d
    using that by (auto simp: prepare_message_def dest!: collect_results_Inl split: sum.splits)
  then show "prepare_request_for_provider request i pr m = Inl e \<Longrightarrow> sound_fault e"
    by (auto simp: prepare_request_for_provider_def dest!: collect_results_Inl split: sum.splits)
qed

lemma adapter_execute_turn: "turn_step (\<lambda>_. True) (adapter_execute ext post adapter provider_id request credential)"
proof (cases "prepare_request_for_provider request provider_id (protocol_name adapter) (adapter_model adapter)")
  case (Inl e)
  then show ?thesis by (simp add: adapter_execute_def turn_step_give_up)
next
  case (Inr ro)
  obtain request' omissions where ro: "ro = (request', omissions)" by fastforce
  have "keeps (extends open_turn) (for_each emit_event omissions)"
    using prepared_omissions [of request] Inr ro by (intro grows.keeps_for_each keeps_emit) blast
  with Inr ro show ?thesis
    by (auto simp: adapter_execute_def intro!: turn_step_then turn_step_give_up adapters_turn split: provider_adapter.split)
qed

lemma adapter_execute_fault: "fails_with sound_fault (adapter_execute ext post adapter provider_id request credential)"
proof (cases "prepare_request_for_provider request provider_id (protocol_name adapter) (adapter_model adapter)")
  case (Inl e)
  then show ?thesis using prepare_sound [OF Inl] by (simp add: adapter_execute_def fails_with_def give_up_def)
next
  case (Inr ro)
  then show ?thesis
    by (cases ro) (auto simp: adapter_execute_def intro!: io_intros adapters_fault split: provider_adapter.split)
qed

section \<open>What the chain delivers\<close>

lemma forwarded:
  "for_each emit_event events s = (r, s') \<Longrightarrow>
     \<exists>out rest. events = out @ rest \<and> delivered s' = delivered s @ out \<and>
       (r = Inr () \<and> rest = [] \<or> r = Inl ConsumerClosed \<and> rest \<noteq> [])"
proof (induction events arbitrary: s)
  case Nil
  then show ?case by (simp add: finish_def)
next
  case (Cons event events)
  show ?case
  proof (cases "room s = Some 0")
    case True
    then have "emit_event event s = (Inl ConsumerClosed, s)" by (simp add: emit_event_def)
    with Cons.prems show ?thesis by (auto simp: then_do_def)
  next
    case False
    then have "emit_event event s = (Inr (), s\<lparr>delivered := delivered s @ [event], room := map_option (\<lambda>n. n - 1) (room s)\<rparr>)"
      by (simp add: emit_event_def)
    with Cons.prems have "for_each emit_event events (s\<lparr>delivered := delivered s @ [event], room := map_option (\<lambda>n. n - 1) (room s)\<rparr>) = (r, s')"
      by (simp add: then_do_def)
    from Cons.IH [OF this] obtain out rest where "events = out @ rest" "delivered s' = delivered s @ event # out"
      "r = Inr () \<and> rest = [] \<or> r = Inl ConsumerClosed \<and> rest \<noteq> []" by auto
    then show ?thesis by (intro exI [of _ "event # out"] exI [of _ rest]) simp
  qed
qed

text \<open>The first \<open>k\<close> attempts fell through to the next Provider.\<close>

definition fell_through ::
  "(nat \<Rightarrow> provider_route \<Rightarrow> model_stream_event list \<times> (provider_execution_error, unit) result) \<Rightarrow>
   model_failover_policy_snapshot \<Rightarrow> provider_route list \<Rightarrow> nat \<Rightarrow> bool" where
  "fell_through attempt policy routes k \<longleftrightarrow>
     (\<forall>j < k. \<exists>error. snd (attempt j (routes ! j)) = Inl error \<and> is_policy_fallback error policy \<and>
        list_all (\<lambda>e. \<not> commits_provider_output e) (fst (attempt j (routes ! j))))"

definition sent_before ::
  "(nat \<Rightarrow> provider_route \<Rightarrow> model_stream_event list \<times> (provider_execution_error, unit) result) \<Rightarrow> provider_route list \<Rightarrow>
   nat \<Rightarrow> model_stream_event list" where
  "sent_before attempt routes k = concat (map (\<lambda>j. fst (attempt j (routes ! j))) [0..<k])"

text \<open>How the attempt at the \<open>k\<close>-th Provider ended the chain, and what was forwarded of it.\<close>

definition chain_ends ::
  "(nat \<Rightarrow> provider_route \<Rightarrow> model_stream_event list \<times> (provider_execution_error, unit) result) \<Rightarrow> provider_route list \<Rightarrow>
   string list \<Rightarrow> nat \<Rightarrow> model_stream_event list \<Rightarrow> (provider_execution_error, failover_selection) result \<Rightarrow> bool" where
  "chain_ends attempt routes failed k out r \<longleftrightarrow>
     (case r of
        Inr selection \<Rightarrow> attempt k (routes ! k) = (out, Inr ()) \<and>
          selection = \<lparr>fs_provider_id = pr_id (routes ! k), fs_failed_provider_ids = failed @ map pr_id (take k routes)\<rparr>
      | Inl error \<Rightarrow> attempt k (routes ! k) = (out, Inl error) \<or>
          (error = ConsumerClosed \<and> strict_prefix out (fst (attempt k (routes ! k)))) \<or>
          (is_blank (pr_id (routes ! k)) \<and> out = []))"

lemma shifted_attempts:
  "fell_through attempt policy (route # routes) (Suc k) \<longleftrightarrow>
     (\<exists>error. snd (attempt 0 route) = Inl error \<and> is_policy_fallback error policy \<and>
        list_all (\<lambda>e. \<not> commits_provider_output e) (fst (attempt 0 route))) \<and>
     fell_through (\<lambda>j. attempt (Suc j)) policy routes k"
  "sent_before attempt (route # routes) (Suc k) = fst (attempt 0 route) @ sent_before (\<lambda>j. attempt (Suc j)) routes k"
  by (auto simp: fell_through_def sent_before_def All_less_Suc2 map_upt_Suc simp del: upt_Suc)

lemma try_routes_spec:
  assumes "routes \<noteq> []" and "try_routes attempt policy index routes failed s = (r, s')"
  shows "\<exists>k out. k < length routes \<and> fell_through (\<lambda>j. attempt (index + j)) policy routes k \<and>
    delivered s' = delivered s @ sent_before (\<lambda>j. attempt (index + j)) routes k @ out \<and>
    chain_ends (\<lambda>j. attempt (index + j)) routes failed k out r"
  using assms
proof (induction routes arbitrary: index failed s)
  case (Cons route routes)
  let ?a = "\<lambda>j. attempt (index + j)"
  have here: ?case if "delivered s' = delivered s @ out" "chain_ends ?a (route # routes) failed 0 out r" for out
    using that by (intro exI [of _ 0] exI [of _ out]) (simp add: fell_through_def sent_before_def)
  obtain events result where attempt: "attempt index route = (events, result)" by fastforce
  show ?case
  proof (cases "is_blank (pr_id route)")
    case True
    with Cons.prems show ?thesis by (intro here [of "[]"]) (auto simp: give_up_def chain_ends_def)
  next
    case False
    obtain r1 t where forward: "for_each emit_event events s = (r1, t)" by fastforce
    then obtain out rest where out: "events = out @ rest" "delivered t = delivered s @ out"
      "r1 = Inr () \<and> rest = [] \<or> r1 = Inl ConsumerClosed \<and> rest \<noteq> []" using forwarded by blast
    show ?thesis
    proof (cases r1)
      case (Inl e)
      with False attempt forward Cons.prems(2) out show ?thesis
        by (intro here [of out]) (auto simp: then_do_def chain_ends_def strict_prefix_def)
    next
      case (Inr u)
      with out have whole: "out = events" by simp
      show ?thesis
      proof (cases "\<exists>error. result = Inl error \<and> \<not> list_ex commits_provider_output events \<and> routes \<noteq> [] \<and> is_policy_fallback error policy")
        case True
        then obtain error where error: "result = Inl error" "\<not> list_ex commits_provider_output events" "routes \<noteq> []"
          "is_policy_fallback error policy" by blast
        with False attempt forward Inr Cons.prems(2)
        have "try_routes attempt policy (Suc index) routes (failed @ [pr_id route]) t = (r, s')" by (simp add: then_do_def)
        from Cons.IH [OF error(3) this] obtain k out' where k: "k < length routes"
          "fell_through (\<lambda>j. attempt (Suc index + j)) policy routes k"
          "delivered s' = delivered t @ sent_before (\<lambda>j. attempt (Suc index + j)) routes k @ out'"
          "chain_ends (\<lambda>j. attempt (Suc index + j)) routes (failed @ [pr_id route]) k out' r" by blast
        with out whole error attempt show ?thesis
          by (intro exI [of _ "Suc k"] exI [of _ out'])
             (auto simp: shifted_attempts chain_ends_def list_ex_iff list_all_iff split: sum.splits)
      next
        case stays: False
        have "s' = t \<and> chain_ends ?a (route # routes) failed 0 events r"
        proof (cases result)
          case (Inl error)
          with stays False attempt forward Inr Cons.prems(2) have "give_up error t = (r, s')"
            by (simp add: then_do_def split: if_splits)
          with Inl attempt show ?thesis
            by (auto simp: give_up_def chain_ends_def)
        next
          case ok: (Inr v)
          with False attempt forward Inr Cons.prems(2)
          have "finish \<lparr>fs_provider_id = pr_id route, fs_failed_provider_ids = failed\<rparr> t = (r, s')" by (simp add: then_do_def)
          with ok attempt show ?thesis
            by (auto simp: finish_def chain_ends_def)
        qed
        with out whole show ?thesis by (intro here [of events]) simp_all
      qed
    qed
  qed
qed simp

lemma policy_fallback_kind:
  assumes "is_policy_fallback error policy" and "failover_policy_ok policy"
  obtains kind retryable status after message where "error = ProviderFault kind retryable status after message"
    and "kind \<in> {RateLimited, Timeout, Unavailable, Billing}" and "kind \<in> set (fp_fallback_on policy)"
  using assms by (cases error) (auto simp: is_policy_fallback_def failover_policy_ok_def list_all_iff)

lemma open_prefix: "prefix out es \<Longrightarrow> list_all open_turn es \<Longrightarrow> list_all open_turn out"
  by (auto simp: prefix_def)

lemma failover_turn:
  assumes "execute_with_frozen_failover ext post (\<lambda>_. None) routes request policy s = (r, s')"
  shows "\<exists>new. delivered s' = delivered s @ new \<and>
    (case r of
       Inl _ \<Rightarrow> list_all (\<lambda>e. \<not> closes_turn e) new
     | Inr _ \<Rightarrow> \<exists>es reason. new = es @ [Completed reason] \<and> list_all (\<lambda>e. \<not> closes_turn e) es)"
proof (cases "routes = [] \<or> \<not> failover_policy_ok policy")
  case True
  with assms show ?thesis by (auto simp: execute_with_frozen_failover_def give_up_def split: if_splits)
next
  case False
  let ?a = "run_attempt ext post (\<lambda>_. None) request" and ?n = "min (length routes) (unat (fp_max_provider_attempts policy))"
  have attempt: "case snd (?a j route) of
      Inl _ \<Rightarrow> list_all open_turn (fst (?a j route))
    | Inr _ \<Rightarrow> \<exists>es reason. fst (?a j route) = es @ [Completed reason] \<and> list_all open_turn es" for j route
  proof -
    obtain result t where run: "adapter_execute ext (post j) (pr_adapter route) (pr_id route) request (pr_credential route)
        \<lparr>delivered = [], room = None\<rparr> = (result, t)" by fastforce
    then have "if ends_turn (\<lambda>_. True) result then completes \<lparr>delivered = [], room = None\<rparr> t
        else extends open_turn \<lparr>delivered = [], room = None\<rparr> t"
      using adapter_execute_turn unfolding turn_step_def by blast
    then show ?thesis
      using run by (cases result) (auto simp: run_attempt_def completes_def extends_def)
  qed
  have n: "take ?n routes \<noteq> []" using False by (auto simp: failover_policy_ok_def word_le_nat_alt)
  have "try_routes ?a policy 0 (take ?n routes) [] s = (r, s')"
    using assms False by (simp add: execute_with_frozen_failover_def)
  from try_routes_spec [OF n this] obtain k out where k:
    "fell_through ?a policy (take ?n routes) k" "delivered s' = delivered s @ sent_before ?a (take ?n routes) k @ out"
    "chain_ends ?a (take ?n routes) [] k out r" by auto
  let ?before = "sent_before ?a (take ?n routes) k"
  have before: "list_all open_turn ?before"
  proof -
    have "\<not> closes_turn e" if "\<not> commits_provider_output e" for e using that by (cases e) simp_all
    with k(1) show ?thesis by (fastforce simp: fell_through_def sent_before_def list_all_iff)
  qed
  show ?thesis
  proof (cases r)
    case (Inr selection)
    with k(3) have "?a k (take ?n routes ! k) = (out, Inr ())" by (simp add: chain_ends_def)
    with attempt [of k "take ?n routes ! k"] obtain es reason where "out = es @ [Completed reason]" "list_all open_turn es" by auto
    with k(2) before Inr show ?thesis by (intro exI [of _ "?before @ out"]) auto
  next
    case (Inl error)
    have "list_all open_turn out"
      using k(3) Inl attempt [of k "take ?n routes ! k"]
      by (auto simp: chain_ends_def strict_prefix_def intro: open_prefix split: sum.splits)
    with k(2) before Inl show ?thesis by (intro exI [of _ "?before @ out"]) auto
  qed
qed

section \<open>Properties\<close>

text \<open>
  C23. A consumer sees the output of one Provider. Whatever the Providers do, there is one of the allowed routes such that
  every Provider before it failed with a rate limit, a time-out, an unavailable service or an exhausted account (never with
  refused content) after sending nothing but audit events, no Provider after it was called, and what was delivered after those
  audit events is a part of that Provider's output. On success the selection names it and the Providers that failed
  before it, in order; at most eight Providers are ever called.
\<close>

theorem failover_single_output:
  assumes "execute_with_frozen_failover ext post panics routes request policy s = (r, s')"
    and "routes \<noteq> []" and "failover_policy_ok policy"
  shows "\<exists>k out. let attempt = run_attempt ext post panics request in
    k < length routes \<and> k < unat (fp_max_provider_attempts policy) \<and> k < 8 \<and>
    (\<forall>j < k. \<exists>kind retryable status after message.
       snd (attempt j (routes ! j)) = Inl (ProviderFault kind retryable status after message) \<and>
       kind \<in> {RateLimited, Timeout, Unavailable, Billing} \<and> kind \<in> set (fp_fallback_on policy)) \<and>
    list_all (\<lambda>e. \<not> commits_provider_output e) (sent_before attempt routes k) \<and>
    delivered s' = delivered s @ sent_before attempt routes k @ out \<and>
    prefix out (fst (attempt k (routes ! k))) \<and>
    (\<forall>selection. r = Inr selection \<longrightarrow>
       attempt k (routes ! k) = (out, Inr ()) \<and>
       selection = \<lparr>fs_provider_id = pr_id (routes ! k), fs_failed_provider_ids = map pr_id (take k routes)\<rparr>)"
proof -
  let ?a = "run_attempt ext post panics request" and ?n = "min (length routes) (unat (fp_max_provider_attempts policy))"
  have "1 \<le> unat (fp_max_provider_attempts policy)" "unat (fp_max_provider_attempts policy) \<le> 8"
    using assms(3) by (simp_all add: failover_policy_ok_def word_le_nat_alt)
  then have n: "take ?n routes \<noteq> []" "?n \<le> 8" using assms(2) by auto
  have "try_routes ?a policy 0 (take ?n routes) [] s = (r, s')"
    using assms by (simp add: execute_with_frozen_failover_def)
  from try_routes_spec [OF n(1) this] obtain k out where k: "k < length (take ?n routes)"
    "fell_through ?a policy (take ?n routes) k" "delivered s' = delivered s @ sent_before ?a (take ?n routes) k @ out"
    "chain_ends ?a (take ?n routes) [] k out r" by auto
  then have kn: "k < ?n" by simp
  then have nth: "take ?n routes ! j = routes ! j" if "j \<le> k" for j using that by simp
  have sent: "sent_before ?a (take ?n routes) k = sent_before ?a routes k"
    using nth by (auto simp: sent_before_def intro!: arg_cong [where f = concat])
  have fell: "\<exists>error. snd (?a j (routes ! j)) = Inl error \<and> is_policy_fallback error policy \<and>
      list_all (\<lambda>e. \<not> commits_provider_output e) (fst (?a j (routes ! j)))" if "j < k" for j
    using k(2) that nth [of j] by (auto simp: fell_through_def)
  have kinds: "\<exists>kind retryable status after message.
       snd (?a j (routes ! j)) = Inl (ProviderFault kind retryable status after message) \<and>
       kind \<in> {RateLimited, Timeout, Unavailable, Billing} \<and> kind \<in> set (fp_fallback_on policy)" if "j < k" for j
  proof -
    obtain error where error: "snd (?a j (routes ! j)) = Inl error" "is_policy_fallback error policy" using fell [OF \<open>j < k\<close>] by blast
    from policy_fallback_kind [OF error(2) assms(3)] error(1) show ?thesis by metis
  qed
  have quiet: "list_all (\<lambda>e. \<not> commits_provider_output e) (sent_before ?a routes k)"
    using fell by (fastforce simp: sent_before_def list_all_iff)
  have last: "prefix out (fst (?a k (routes ! k))) \<and> (\<forall>selection. r = Inr selection \<longrightarrow>
       ?a k (routes ! k) = (out, Inr ()) \<and>
       selection = \<lparr>fs_provider_id = pr_id (routes ! k), fs_failed_provider_ids = map pr_id (take k routes)\<rparr>)"
    using k(4) nth [of k] kn by (auto simp: chain_ends_def min_def split: sum.splits if_splits)
  show ?thesis
    using kn n(2) kinds quiet k(3) last unfolding sent Let_def by (intro exI [of _ k] exI [of _ out]) auto
qed

text \<open>
  C24. Success and completion agree. If no Provider task panics, the chain succeeds exactly when it delivered a completion:
  on success the last event delivered is the only \<open>Completed\<close>, on an error none was delivered, and no Provider ever
  delivers a \<open>Failed\<close> event.
\<close>

theorem failover_success_iff_completed:
  assumes "execute_with_frozen_failover ext post (\<lambda>_. None) routes request policy s = (r, s')"
  shows "\<exists>new. delivered s' = delivered s @ new \<and>
    (case r of
       Inl _ \<Rightarrow> list_all (\<lambda>e. \<not> closes_turn e) new
     | Inr _ \<Rightarrow> \<exists>es reason. new = es @ [Completed reason] \<and> list_all (\<lambda>e. \<not> closes_turn e) es)"
  by (rule failover_turn [OF assms])

lemma chat_stop:
  assumes "chat_execute ext post adapter request credential s = (Inr (), s')" and "delivered s' = delivered s @ es @ [Completed Stop]"
  shows "\<not> list_ex is_tool_event es"
proof (cases "chat_request_payload ext adapter request")
  case (Inl e)
  with assms(1) show ?thesis by (simp add: chat_execute_def)
next
  case (Inr p)
  obtain r t where run: "converse ext (chat_handler ext adapter credential) (chat_at_end ext) credential (post p) (chat_begin s) = (r, t)" by fastforce
  with Inr assms(1) have "r = Inr ()" and "s' = sink.truncate t" by (simp_all add: chat_execute_def)
  with run assms(2) show ?thesis by (intro chat_tools.converse_stop [of ext ext _ _ credential "post p" "chat_begin s" t]) simp_all
qed

lemma responses_stop:
  assumes "responses_execute_for_provider ext post adapter provider_id request credential s = (Inr (), s')" and "delivered s' = delivered s @ es @ [Completed Stop]"
  shows "\<not> list_ex is_tool_event es"
proof (cases "responses_request_payload ext adapter request")
  case (Inl e)
  with assms(1) show ?thesis by (simp add: responses_execute_for_provider_def)
next
  case (Inr p)
  obtain r t where run: "converse ext (responses_handler ext adapter provider_id credential) responses_at_end credential (post p) (responses_begin s) = (r, t)" by fastforce
  with Inr assms(1) have "r = Inr ()" and "s' = sink.truncate t" by (simp_all add: responses_execute_for_provider_def)
  with run assms(2) show ?thesis by (intro responses_tools.converse_stop [of ext ext adapter provider_id credential credential "post p" "responses_begin s" t]) simp_all
qed

text \<open>
  A turn that asked for a Tool does not end as \<open>Stop\<close>, whatever word the Provider used: with the chat-completions
  and the Responses adapters, if the last event of a turn is a completion with \<open>Stop\<close>, the turn delivered no Tool call.
\<close>

theorem tool_turn_not_stopped:
  assumes "adapter_execute ext post adapter provider_id request credential s = (Inr (), s')"
    and "delivered s' = delivered s @ es @ [Completed Stop]"
    and "protocol_name adapter \<noteq> ''anthropic_messages''"
  shows "\<not> list_ex is_tool_event es"
proof -
  from assms(1) obtain request' omissions t
    where prepared: "prepare_request_for_provider request provider_id (protocol_name adapter) (adapter_model adapter) = Inr (request', omissions)"
      and sent: "for_each emit_event omissions s = (Inr (), t)"
      and run: "(case adapter of ChatAdapter a \<Rightarrow> chat_execute ext post a request' credential
        | ResponsesAdapter a \<Rightarrow> responses_execute_for_provider ext post a provider_id request' credential
        | MessagesAdapter a \<Rightarrow> anthropic_execute_for_provider ext post a provider_id request' credential) t = (Inr (), s')"
    by (auto simp: adapter_execute_def give_up_def then_do_def split: if_splits sum.splits prod.splits)
  have t: "delivered t = delivered s @ omissions" using forwarded [OF sent] by auto
  have quiet: "\<not> list_ex is_tool_event omissions" using prepared_omissions [OF prepared] by (auto simp: list_ex_iff)
  have "turn_step (\<lambda>_. True) (case adapter of ChatAdapter a \<Rightarrow> chat_execute ext post a request' credential
        | ResponsesAdapter a \<Rightarrow> responses_execute_for_provider ext post a provider_id request' credential
        | MessagesAdapter a \<Rightarrow> anthropic_execute_for_provider ext post a provider_id request' credential)"
    by (simp add: adapters_turn split: provider_adapter.split)
  with run have "completes t s'" by (fastforce simp: turn_step_def)
  then obtain es' where es': "delivered s' = delivered t @ es' @ [Completed Stop]"
    using assms(2) by (auto simp: completes_def)
  have "\<not> list_ex is_tool_event es'"
    using run es' assms(3) by (cases adapter) (auto simp: protocol_name_def dest: chat_stop responses_stop)
  moreover have "es = omissions @ es'" using es' t assms(2) by simp
  ultimately show ?thesis using quiet by simp
qed

section \<open>Instances\<close>

definition failing_route :: provider_route where
  "failing_route = \<lparr>pr_id = ''first'', pr_adapter = ChatAdapter sample_adapter, pr_credential = ProviderCredential ''sk''\<rparr>"

definition working_route :: provider_route where
  "working_route = failing_route\<lparr>pr_id := ''second''\<rparr>"

definition sample_network :: "nat \<Rightarrow> json \<Rightarrow> exchange" where
  "sample_network i payload =
     (if i = 0 then HeadersTimedOut
      else Responded \<lparr>hr_status = 200, hr_retry_after = None, hr_body = None,
        hr_stream = map (\<lambda>(name, data). SseEvent name data) sample_frames @ [SseEvent ''message'' ''[DONE]'']\<rparr>)"

definition plain_request :: model_request where
  "plain_request = \<lparr>mr_messages = [], mr_tools = [], mr_output_schema = None, mr_reasoning = Balanced, mr_max_output_tokens = 10\<rparr>"

abbreviation sample_policy :: model_failover_policy_snapshot where
  "sample_policy \<equiv> \<lparr>fp_max_provider_attempts = 2, fp_fallback_on = [Timeout]\<rparr>"

lemma sample_ids: "\<not> is_blank ''first''" "\<not> is_blank ''second''"
  by code_simp+

lemma request_prepared: "prepare_request_for_provider plain_request i pr m = Inr (plain_request, [])"
  by (simp add: prepare_request_for_provider_def plain_request_def)

lemma sample_payload: "\<exists>p. chat_request_payload ext adapter plain_request = Inr p"
  by (simp add: chat_request_payload_def plain_request_def Let_def)

lemma sample_attempts:
  "run_attempt chat_sample_gateway sample_network (\<lambda>_. None) plain_request 0 failing_route =
     ([], Inl (provider_error Timeout True None ''provider did not return response headers before the configured timeout''))"
  "snd (run_attempt chat_sample_gateway sample_network (\<lambda>_. None) plain_request 1 working_route) = Inr ()"
proof -
  obtain p where p: "chat_request_payload chat_sample_gateway sample_adapter plain_request = Inr p" using sample_payload by blast
  show "run_attempt chat_sample_gateway sample_network (\<lambda>_. None) plain_request 0 failing_route =
     ([], Inl (provider_error Timeout True None ''provider did not return response headers before the configured timeout''))"
    using p by (simp add: run_attempt_def adapter_execute_def failing_route_def sample_ids request_prepared finish_def
        chat_execute_def sample_network_def converse_def give_up_def)
  obtain s' where "drive (chat_handler chat_sample_gateway sample_adapter (ProviderCredential ''sk'')) (chat_at_end chat_sample_gateway)
      (map (\<lambda>(name, data). SseEvent name data) sample_frames @ [SseEvent ''message'' ''[DONE]'']) (chat_begin \<lparr>delivered = [], room = None\<rparr>) = (Inr (), s')"
    using sample_turn by blast
  then show "snd (run_attempt chat_sample_gateway sample_network (\<lambda>_. None) plain_request 1 working_route) = Inr ()"
    using p by (simp add: run_attempt_def adapter_execute_def working_route_def failing_route_def sample_ids request_prepared
        finish_def chat_execute_def sample_network_def converse_def is_success_def del: drive.simps)
qed

lemma sample_chain:
  "\<exists>s'. execute_with_frozen_failover chat_sample_gateway sample_network (\<lambda>_. None) [failing_route, working_route] plain_request
     sample_policy \<lparr>delivered = [], room = None\<rparr> = (Inr \<lparr>fs_provider_id = ''second'', fs_failed_provider_ids = [''first'']\<rparr>, s')"
proof -
  obtain events where events: "run_attempt chat_sample_gateway sample_network (\<lambda>_. None) plain_request 1 working_route = (events, Inr ())"
    using sample_attempts(2) by (metis prod.collapse)
  have "\<exists>t. for_each emit_event es (s :: sink) = (Inr (), t)" if "room s = None" for es s
    using that by (induction es arbitrary: s) (simp_all add: finish_def then_do_def emit_event_def)
  then obtain t where t: "for_each emit_event events \<lparr>delivered = [], room = None\<rparr> = (Inr (), t)"
    by (metis sink.select_convs(2))
  have ids: "pr_id failing_route = ''first''" "pr_id working_route = ''second''"
    by (simp_all add: failing_route_def working_route_def)
  show ?thesis
    using events t
    by (simp add: execute_with_frozen_failover_def failover_policy_ok_def sample_attempts(1) is_policy_fallback_def ids sample_ids
        crosses_to_another_provider_def provider_error_def then_do_def finish_def)
qed

lemma sample_policy_ok: "failover_policy_ok sample_policy"
  by (simp add: failover_policy_ok_def)

theorem failover_single_output_witness:
  "\<exists>s' k. execute_with_frozen_failover chat_sample_gateway sample_network (\<lambda>_. None) [failing_route, working_route] plain_request
     sample_policy \<lparr>delivered = [], room = None\<rparr> = (Inr \<lparr>fs_provider_id = ''second'', fs_failed_provider_ids = [''first'']\<rparr>, s') \<and>
     k < 2 \<and> map pr_id (take k [failing_route, working_route]) = [''first'']"
proof -
  obtain s' where run: "execute_with_frozen_failover chat_sample_gateway sample_network (\<lambda>_. None) [failing_route, working_route] plain_request
     sample_policy \<lparr>delivered = [], room = None\<rparr> = (Inr \<lparr>fs_provider_id = ''second'', fs_failed_provider_ids = [''first'']\<rparr>, s')"
    using sample_chain by blast
  from failover_single_output [OF run _ sample_policy_ok] obtain k where
    k: "k < 2" "map pr_id (take k [failing_route, working_route]) = [''first'']" by (auto simp: Let_def)
  show ?thesis by (intro exI conjI) (rule run, rule k(1), rule k(2))
qed

theorem failover_success_iff_completed_witness:
  "\<exists>s' es reason. execute_with_frozen_failover chat_sample_gateway sample_network (\<lambda>_. None) [failing_route, working_route] plain_request
     sample_policy \<lparr>delivered = [], room = None\<rparr> = (Inr \<lparr>fs_provider_id = ''second'', fs_failed_provider_ids = [''first'']\<rparr>, s') \<and>
     delivered s' = es @ [Completed reason]"
proof -
  obtain s' where run: "execute_with_frozen_failover chat_sample_gateway sample_network (\<lambda>_. None) [failing_route, working_route] plain_request
     sample_policy \<lparr>delivered = [], room = None\<rparr> = (Inr \<lparr>fs_provider_id = ''second'', fs_failed_provider_ids = [''first'']\<rparr>, s')"
    using sample_chain by blast
  from failover_success_iff_completed [OF run] obtain es reason where done_with: "delivered s' = es @ [Completed reason]" by auto
  show ?thesis by (intro exI conjI) (rule run, rule done_with)
qed

definition quiet_gateway :: gateway_externals where
  "quiet_gateway = sample_gateway\<lparr>gx_from_str := (\<lambda>_. Inr (JObject [(''choices'', JArray
     [JObject [(''delta'', JObject [(''content'', JString ''hi'')]), (''finish_reason'', JString ''stop'')]])]))\<rparr>"

definition quiet_network :: "json \<Rightarrow> exchange" where
  "quiet_network payload = Responded \<lparr>hr_status = 200, hr_retry_after = None, hr_body = None, hr_stream = [SseEvent ''message'' ''hi'']\<rparr>"

lemma quiet_turn:
  "\<exists>s'. adapter_execute quiet_gateway quiet_network (ChatAdapter sample_adapter) ''first'' plain_request credential
     \<lparr>delivered = [], room = None\<rparr> = (Inr (), s') \<and> delivered s' = [TextDelta ''hi'' None, Completed Stop]"
proof -
  obtain p where p: "chat_request_payload quiet_gateway sample_adapter plain_request = Inr p" using sample_payload by blast
  then show ?thesis
    by (simp add: adapter_execute_def sample_ids request_prepared chat_execute_def quiet_network_def converse_def is_success_def)
       (simp add: quiet_gateway_def chat_eval said_event_def)
qed

theorem tool_turn_not_stopped_witness:
  "\<exists>s'. adapter_execute quiet_gateway quiet_network (ChatAdapter sample_adapter) ''first'' plain_request (ProviderCredential ''sk'')
     \<lparr>delivered = [], room = None\<rparr> = (Inr (), s') \<and> delivered s' = [TextDelta ''hi'' None, Completed Stop] \<and>
     \<not> list_ex is_tool_event [TextDelta ''hi'' None]"
proof -
  obtain s' where run: "adapter_execute quiet_gateway quiet_network (ChatAdapter sample_adapter) ''first'' plain_request (ProviderCredential ''sk'')
     \<lparr>delivered = [], room = None\<rparr> = (Inr (), s')" and new: "delivered s' = [TextDelta ''hi'' None, Completed Stop]"
    using quiet_turn by blast
  have "\<not> list_ex is_tool_event [TextDelta ''hi'' None]"
    by (rule tool_turn_not_stopped [OF run]) (simp_all add: new protocol_name_def)
  then show ?thesis by (intro exI conjI) (rule run, rule new)
qed
end
