(* ===== verification/Model_Gateway.thy ===== *)
theory Model_Gateway
  imports Model_Wire Model_Failover
begin

text \<open>
  The gRPC service of the model gateway (\<open>runtime/apps/model-gateway/src/grpc.rs\<close>) and the routes it takes from a model
  policy snapshot (\<open>provider_registry.rs\<close>). A call passes the token check, the identity check, the decoder and the choice of
  routes; then the failover chain runs and its events are numbered and sent back. RSA, AES-GCM, SHA-256, the parser of
  \<open>Uuid\<close> and the JSON readers of the two snapshots are parameters.

  The lemmas say who may call the model, whose credential a route carries, which routes and which policy a call gets, and
  what the worker's client receives from start to end.
\<close>

section \<open>Third-party functions\<close>

record credential_envelope =
  ce_schema_version :: u32
  ce_key_id :: string
  ce_algorithm :: string
  ce_encrypted_key :: string
  ce_nonce :: string
  ce_ciphertext :: string

record provider_snapshot =
  ps_provider_id :: uuid
  ps_protocol :: string
  ps_endpoint :: string
  ps_model :: string
  ps_credential_envelope :: credential_envelope

record model_policy_snapshot =
  mp_schema_version :: u32
  mp_routing :: string
  mp_candidates :: "provider_snapshot list"

text \<open>A private key is what the parser of the PEM text returns; the modulus and the DER form of its public key are read from it.\<close>

record 'key service_externals =
  sx_ext :: externals
  sx_tokens :: token_externals
  sx_gateway :: gateway_externals
  sx_parse_uuid :: "string \<Rightarrow> uuid option"
  sx_policy_from_slice :: "u8 list \<Rightarrow> runtime_execution_policy_snapshot option"
  sx_snapshot_from_slice :: "u8 list \<Rightarrow> model_policy_snapshot option"
  sx_key_from_pem :: "string \<Rightarrow> 'key option"
  sx_modulus_bits :: "'key \<Rightarrow> nat"
  sx_public_der :: "'key \<Rightarrow> u8 list option"
  sx_oaep_decrypt :: "'key \<Rightarrow> u8 list \<Rightarrow> u8 list option"
  sx_gcm_decrypt :: "u8 list \<Rightarrow> u8 list \<Rightarrow> u8 list \<Rightarrow> u8 list \<Rightarrow> u8 list option"

section \<open>Routes of a model policy\<close>

definition ENVELOPE_ALGORITHM :: string where
  "ENVELOPE_ALGORITHM = ''RSA-OAEP-256+A256GCM''"

definition MAX_SNAPSHOT_BYTES :: nat where
  "MAX_SNAPSHOT_BYTES = 256 * 1024"

record 'key route_resolver =
  rr_private_key :: 'key
  rr_key_id :: string
  rr_response_timeout :: nat
  rr_stream_idle_timeout :: nat

definition invalid_snapshot :: provider_execution_error where
  "invalid_snapshot = InvalidConfiguration ''model policy snapshot is invalid''"

definition open_failed :: provider_execution_error where
  "open_failed = InvalidConfiguration ''provider credential envelope could not be opened''"

definition from_pkcs8_pem ::
  "'key service_externals \<Rightarrow> string \<Rightarrow> nat \<Rightarrow> nat \<Rightarrow> (provider_execution_error, 'key route_resolver) result" where
  "from_pkcs8_pem sx pem response_timeout stream_idle_timeout =
     (case sx_key_from_pem sx pem of
        None \<Rightarrow> Inl (InvalidConfiguration ''model credential private key is not valid PKCS#8 PEM'')
      | Some private_key \<Rightarrow>
          if sx_modulus_bits sx private_key < 3072 \<or> response_timeout = 0 \<or> stream_idle_timeout = 0
          then Inl (InvalidConfiguration
                 ''model credential key must be RSA-3072 or stronger and timeouts must be positive'')
          else (case sx_public_der sx private_key of
                  None \<Rightarrow> Inl (InvalidConfiguration ''model credential public key could not be encoded'')
                | Some der \<Rightarrow> Inr \<lparr>rr_private_key = private_key, rr_key_id = ext_sha256_hex (sx_ext sx) der,
                    rr_response_timeout = response_timeout, rr_stream_idle_timeout = stream_idle_timeout\<rparr>))"

definition credential_aad :: "externals \<Rightarrow> uuid \<Rightarrow> uuid \<Rightarrow> string" where
  "credential_aad ext tenant_id provider_id = ext_uuid_text ext tenant_id @ '':'' @ ext_uuid_text ext provider_id"

text \<open>The three texts are decoded in the order of the source; every failure is the same error.\<close>

definition open_credential ::
  "'key service_externals \<Rightarrow> 'key route_resolver \<Rightarrow> uuid \<Rightarrow> uuid \<Rightarrow> credential_envelope \<Rightarrow>
   (provider_execution_error, provider_credential) result" where
  "open_credential sx resolver tenant_id provider_id envelope =
     (if ce_schema_version envelope \<noteq> 1 \<or> ce_algorithm envelope \<noteq> ENVELOPE_ALGORITHM \<or>
         ce_key_id envelope \<noteq> rr_key_id resolver
      then Inl open_failed
      else (case (ext_base64_decode (sx_ext sx) (ce_encrypted_key envelope),
                  ext_base64_decode (sx_ext sx) (ce_nonce envelope),
                  ext_base64_decode (sx_ext sx) (ce_ciphertext envelope)) of
          (Some encrypted_key, Some nonce, Some ciphertext) \<Rightarrow>
            if length nonce \<noteq> 12 \<or> ciphertext = [] then Inl open_failed
            else (case sx_oaep_decrypt sx (rr_private_key resolver) encrypted_key of
                None \<Rightarrow> Inl open_failed
              | Some data_key \<Rightarrow>
                  if length data_key \<noteq> 32 then Inl open_failed
                  else (case sx_gcm_decrypt sx data_key nonce ciphertext
                              (as_bytes (credential_aad (sx_ext sx) tenant_id provider_id)) of
                      None \<Rightarrow> Inl open_failed
                    | Some plaintext \<Rightarrow>
                        (case from_utf8 plaintext of
                           None \<Rightarrow> Inl open_failed
                         | Some credential \<Rightarrow> map_sum (\<lambda>_. open_failed) id (bearer credential))))
        | _ \<Rightarrow> Inl open_failed))"

definition valid_routing :: "model_policy_snapshot \<Rightarrow> bool" where
  "valid_routing snapshot =
     (let candidate_count = length (mp_candidates snapshot)
      in if mp_routing snapshot = ''single_provider'' then candidate_count = 1
         else if mp_routing snapshot = ''ordered_failover'' then 1 \<le> candidate_count \<and> candidate_count \<le> 8
         else False)"

definition free_pricing :: provider_pricing where
  "free_pricing = \<lparr>input_million_tokens_micros = 0, output_million_tokens_micros = 0, cached_input_million_tokens_micros = None\<rparr>"

definition candidate_adapter ::
  "'key service_externals \<Rightarrow> 'key route_resolver \<Rightarrow> provider_snapshot \<Rightarrow> provider_protocol \<Rightarrow>
   (provider_execution_error, provider_adapter) result" where
  "candidate_adapter sx resolver candidate protocol =
     (case protocol of
        OpenAiCompatible \<Rightarrow> map_sum id ChatAdapter (openai_compatible_new (sx_gateway sx)
          \<lparr>oc_endpoint = ps_endpoint candidate, oc_model = ps_model candidate, oc_pricing = free_pricing,
           oc_response_timeout = rr_response_timeout resolver, oc_stream_idle_timeout = rr_stream_idle_timeout resolver,
           oc_max_output_tokens = None, oc_supports_reasoning_effort = False\<rparr>)
      | OpenAiResponses \<Rightarrow> map_sum id ResponsesAdapter (openai_responses_new (sx_gateway sx)
          \<lparr>rc_endpoint = ps_endpoint candidate, rc_model = ps_model candidate, rc_pricing = free_pricing,
           rc_response_timeout = rr_response_timeout resolver, rc_stream_idle_timeout = rr_stream_idle_timeout resolver\<rparr>)
      | AnthropicMessages \<Rightarrow> map_sum id MessagesAdapter (anthropic_messages_new (sx_gateway sx)
          \<lparr>ac_endpoint = ps_endpoint candidate, ac_model = ps_model candidate, ac_anthropic_version = ''2023-06-01'',
           ac_pricing = free_pricing, ac_response_timeout = rr_response_timeout resolver,
           ac_stream_idle_timeout = rr_stream_idle_timeout resolver\<rparr>))"

definition candidate_route ::
  "'key service_externals \<Rightarrow> 'key route_resolver \<Rightarrow> uuid \<Rightarrow> provider_snapshot \<Rightarrow>
   (provider_execution_error, provider_route) result" where
  "candidate_route sx resolver tenant_id candidate =
     (case open_credential sx resolver tenant_id (ps_provider_id candidate) (ps_credential_envelope candidate) of
        Inl e \<Rightarrow> Inl e
      | Inr credential \<Rightarrow>
          (case protocol_from_str (ps_protocol candidate) of
             Inl e \<Rightarrow> Inl e
           | Inr protocol \<Rightarrow>
               (case candidate_adapter sx resolver candidate protocol of
                  Inl e \<Rightarrow> Inl e
                | Inr adapter \<Rightarrow> Inr \<lparr>pr_id = ext_uuid_text (sx_ext sx) (ps_provider_id candidate), pr_adapter = adapter,
                    pr_credential = credential\<rparr>)))"

fun resolve_candidates ::
  "'key service_externals \<Rightarrow> 'key route_resolver \<Rightarrow> uuid \<Rightarrow> uuid set \<Rightarrow> provider_snapshot list \<Rightarrow>
   (provider_execution_error, provider_route list) result" where
  "resolve_candidates sx resolver tenant_id provider_ids [] = Inr []"
| "resolve_candidates sx resolver tenant_id provider_ids (candidate # candidates) =
     (if is_nil (ps_provider_id candidate) \<or> ps_provider_id candidate \<in> provider_ids then Inl invalid_snapshot
      else (case candidate_route sx resolver tenant_id candidate of
              Inl e \<Rightarrow> Inl e
            | Inr route \<Rightarrow>
                map_sum id (\<lambda>routes. route # routes)
                  (resolve_candidates sx resolver tenant_id (insert (ps_provider_id candidate) provider_ids) candidates)))"

definition resolve ::
  "'key service_externals \<Rightarrow> 'key route_resolver \<Rightarrow> uuid \<Rightarrow> u8 list \<Rightarrow> (provider_execution_error, provider_route list) result" where
  "resolve sx resolver tenant_id snapshot_json =
     (if is_nil tenant_id \<or> snapshot_json = [] \<or> MAX_SNAPSHOT_BYTES < length snapshot_json then Inl invalid_snapshot
      else (case sx_snapshot_from_slice sx snapshot_json of
              None \<Rightarrow> Inl invalid_snapshot
            | Some snapshot \<Rightarrow>
                if mp_schema_version snapshot \<noteq> 1 \<or> \<not> valid_routing snapshot then Inl invalid_snapshot
                else resolve_candidates sx resolver tenant_id {} (mp_candidates snapshot)))"

section \<open>The identity of an invocation\<close>

definition parsed_or_nil :: "'key service_externals \<Rightarrow> string \<Rightarrow> uuid" where
  "parsed_or_nil sx text = or_default nil_uuid (sx_parse_uuid sx text)"

definition invocation_binding :: "'key service_externals \<Rightarrow> model_invocation \<Rightarrow> workload_identity_binding" where
  "invocation_binding sx i =
     (let complete = (\<lambda>text. if mi_schema_version i = 5 then parsed_or_nil sx text else nil_uuid)
      in \<lparr>wb_tenant_id = parsed_or_nil sx (mi_tenant_id i), wb_application_id = complete (mi_application_id i),
          wb_workload_identity_id = complete (mi_workload_identity_id i), wb_run_id = parsed_or_nil sx (mi_run_id i),
          wb_session_id = complete (mi_session_id i), wb_workspace_id = complete (mi_workspace_id i),
          wb_agent_version_id = complete (mi_agent_version_id i), wb_attempt_id = parsed_or_nil sx (mi_attempt_id i),
          wb_worker_id = parsed_or_nil sx (mi_worker_id i),
          wb_worker_incarnation_id = parsed_or_nil sx (mi_worker_incarnation_id i)\<rparr>)"

definition model_policy_bound :: "'key service_externals \<Rightarrow> model_invocation \<Rightarrow> workload_identity_claims \<Rightarrow> bool" where
  "model_policy_bound sx i claims \<longleftrightarrow>
     mi_model_policy_snapshot_json i \<noteq> [] \<and> mi_model_policy_digest i = wc_model_policy_digest claims \<and>
     mi_model_policy_digest i = ext_sha256_hex (sx_ext sx) (mi_model_policy_snapshot_json i)"

definition runtime_policy_bound :: "'key service_externals \<Rightarrow> model_invocation \<Rightarrow> bool" where
  "runtime_policy_bound sx i \<longleftrightarrow>
     mi_runtime_policy_snapshot_json i \<noteq> [] \<and>
     mi_runtime_policy_digest i = ext_sha256_hex (sx_ext sx) (mi_runtime_policy_snapshot_json i) \<and>
     (case sx_policy_from_slice sx (mi_runtime_policy_snapshot_json i) of
        None \<Rightarrow> False | Some policy \<Rightarrow> policy_is_bounded_and_safe policy)"

definition policy_binding_matches :: "'key service_externals \<Rightarrow> model_invocation \<Rightarrow> workload_identity_claims \<Rightarrow> bool" where
  "policy_binding_matches sx i claims =
     (if mi_schema_version i = 2
      then wc_schema_version claims = 2 \<and> wc_model_policy_digest claims = [] \<and> mi_model_policy_digest i = [] \<and>
           mi_model_policy_snapshot_json i = [] \<and> mi_runtime_policy_snapshot_json i = [] \<and> mi_runtime_policy_digest i = []
      else if mi_schema_version i = 3
      then wc_schema_version claims = 3 \<and> model_policy_bound sx i claims \<and> mi_runtime_policy_snapshot_json i = [] \<and>
           mi_runtime_policy_digest i = []
      else if mi_schema_version i = 4
      then wc_schema_version claims = 3 \<and> model_policy_bound sx i claims \<and> runtime_policy_bound sx i
      else if mi_schema_version i = 5
      then wc_schema_version claims = 4 \<and> model_policy_bound sx i claims \<and> runtime_policy_bound sx i
      else False)"

definition validate_invocation_identity ::
  "'key service_externals \<Rightarrow> i64 \<Rightarrow> model_invocation \<Rightarrow> workload_identity_claims \<Rightarrow> (status, unit) result" where
  "validate_invocation_identity sx now i claims =
     (if policy_binding_matches sx i claims \<and> authorizes claims (invocation_binding sx i) \<and>
         mi_model_policy_id i = ext_uuid_text (sx_ext sx) (wc_model_policy_id claims) \<and>
         sint (mi_expires_at_unix_ms i) \<le> sint (wc_expires_at_unix_ms claims) \<and> sint (mi_expires_at_unix_ms i) > sint now
      then Inr ()
      else Inl (Status PermissionDenied ''workload identity does not authorize this model invocation''))"

fun decode_error_text :: "invocation_decode_error \<Rightarrow> string" where
  "decode_error_text UnspecifiedRole = ''model role is unspecified''"
| "decode_error_text InvalidToolResultContent = ''tool result content is not valid JSON''"
| "decode_error_text InvalidToolCallArguments = ''tool call arguments are not valid JSON''"
| "decode_error_text InvalidPrivateState = ''provider-private model state is malformed''"
| "decode_error_text UnsupportedContentPart = ''unsupported model content part''"
| "decode_error_text InvalidToolSchema = ''tool input schema is not valid JSON''"
| "decode_error_text BlankToolName = ''tool name must not be blank''"
| "decode_error_text StructuredOutputUnsupported = ''structured output is not supported yet''"
| "decode_error_text UnspecifiedReasoningPolicy = ''reasoning policy is unspecified''"
| "decode_error_text EmptyInvocation = ''model invocation requires messages and a positive token limit''"

definition decode_status :: "invocation_decode_error \<Rightarrow> status" where
  "decode_status e =
     (if e = UnsupportedContentPart
      then Status Unimplemented ''this gRPC transport stage does not support this content type''
      else if e = StructuredOutputUnsupported
      then Status Unimplemented ''structured-output transport mapping is not implemented yet''
      else Status InvalidArgument (decode_error_text e))"

definition decode_invocation :: "externals \<Rightarrow> model_invocation \<Rightarrow> (status, model_request) result" where
  "decode_invocation ext invocation = map_sum decode_status id (decode_model_invocation ext invocation)"

section \<open>The service\<close>

record 'key model_service =
  sv_routes :: "provider_route list"
  sv_route_resolver :: "'key route_resolver option"
  sv_verifier :: workload_token_verifier

definition model_service_new ::
  "provider_adapter \<Rightarrow> provider_credential \<Rightarrow> workload_token_verifier \<Rightarrow> 'key model_service" where
  "model_service_new adapter credential verifier =
     \<lparr>sv_routes = [\<lparr>pr_id = ''default'', pr_adapter = adapter, pr_credential = credential\<rparr>], sv_route_resolver = None,
      sv_verifier = verifier\<rparr>"

definition with_routes ::
  "provider_route list \<Rightarrow> workload_token_verifier \<Rightarrow> (provider_execution_error, 'key model_service) result" where
  "with_routes routes verifier =
     (if routes = [] then Inl (InvalidConfiguration ''model gateway requires at least one provider route'')
      else Inr \<lparr>sv_routes = routes, sv_route_resolver = None, sv_verifier = verifier\<rparr>)"

definition with_route_resolver :: "'key model_service \<Rightarrow> 'key route_resolver \<Rightarrow> 'key model_service" where
  "with_route_resolver service route_resolver = service\<lparr>sv_route_resolver := Some route_resolver\<rparr>"

fun provider_error_text :: "provider_execution_error \<Rightarrow> string" where
  "provider_error_text ExecutionCancelled = ''provider execution was cancelled''"
| "provider_error_text (InvalidConfiguration message) = ''invalid provider configuration: '' @ message"
| "provider_error_text ConsumerClosed = ''provider event consumer closed''"
| "provider_error_text (ProviderFault _ _ _ _ message) = ''provider request failed: '' @ message"

definition select_routes ::
  "'key service_externals \<Rightarrow> 'key model_service \<Rightarrow> workload_identity_claims \<Rightarrow> model_invocation \<Rightarrow>
   (status, provider_route list) result" where
  "select_routes sx service claims invocation =
     (if mi_schema_version invocation = 3 \<or> mi_schema_version invocation = 4
      then (case sv_route_resolver service of
              None \<Rightarrow> Inl (Status FailedPrecondition ''dynamic provider routing is not configured'')
            | Some resolver \<Rightarrow>
                map_sum (\<lambda>error. Status FailedPrecondition (provider_error_text error)) id
                  (resolve sx resolver (wc_tenant_id claims) (mi_model_policy_snapshot_json invocation)))
      else Inr (sv_routes service))"

definition select_policy ::
  "'key service_externals \<Rightarrow> model_invocation \<Rightarrow> (status, runtime_execution_policy_snapshot) result" where
  "select_policy sx invocation =
     (if mi_schema_version invocation = 4
      then (case sx_policy_from_slice sx (mi_runtime_policy_snapshot_json invocation) of
              None \<Rightarrow> Inl (Status FailedPrecondition ''runtime execution policy is invalid'')
            | Some policy \<Rightarrow> Inr policy)
      else Inr default_execution_policy)"

text \<open>
  Everything \<open>execute\<close> does before it starts the chain. The clock is read twice, for the token (\<open>now\<close>) and for the
  invocation (\<open>later\<close>).
\<close>

definition admit_invocation ::
  "'key service_externals \<Rightarrow> 'key model_service \<Rightarrow> i64 \<Rightarrow> i64 \<Rightarrow> string option \<Rightarrow> model_invocation \<Rightarrow>
   (status, provider_route list \<times> model_request \<times> runtime_execution_policy_snapshot) result" where
  "admit_invocation sx service now later authorization invocation =
     (case bearer_of authorization of
        Inl e \<Rightarrow> Inl e
      | Inr token \<Rightarrow>
          (case verify (sx_ext sx) (sx_tokens sx) (sv_verifier service) token
                  (required_capability_new ''model-gateway'' ''model.execute'' True) now of
             Inl _ \<Rightarrow> Inl (Status Unauthenticated ''invalid workload token'')
           | Inr claims \<Rightarrow>
               (case validate_invocation_identity sx later invocation claims of
                  Inl e \<Rightarrow> Inl e
                | Inr _ \<Rightarrow>
                    (case decode_invocation (sx_ext sx) invocation of
                       Inl e \<Rightarrow> Inl e
                     | Inr model_request \<Rightarrow>
                         (case select_routes sx service claims invocation of
                            Inl e \<Rightarrow> Inl e
                          | Inr routes \<Rightarrow> map_sum id (\<lambda>policy. (routes, model_request, policy)) (select_policy sx invocation))))))"

text \<open>
  The messages a client that keeps reading gets: the events of the chain, numbered from one, and the failure of the chain
  unless it was cancelled. The task that runs the chain has no step of its own that can panic.
\<close>

fun encode_events :: "externals \<Rightarrow> u64 \<Rightarrow> model_stream_event list \<Rightarrow> (status, model_event) result list" where
  "encode_events ext sequence [] = []"
| "encode_events ext sequence (event # events) =
     encode_event ext (sequence + 1) event # encode_events ext (sequence + 1) events"

definition response_stream ::
  "externals \<Rightarrow> model_stream_event list \<Rightarrow> (provider_execution_error, 'a) result \<Rightarrow> (status, model_event) result list" where
  "response_stream ext events outcome =
     encode_events ext 0 events @
     (case outcome of
        Inr _ \<Rightarrow> []
      | Inl error \<Rightarrow>
          if error = ExecutionCancelled then [] else [encode_provider_failure ext (of_nat (length events) + 1) error])"

definition service_execute ::
  "'key service_externals \<Rightarrow> 'key model_service \<Rightarrow> (nat \<Rightarrow> json \<Rightarrow> exchange) \<Rightarrow>
   (nat \<Rightarrow> (model_stream_event list \<times> string) option) \<Rightarrow> i64 \<Rightarrow> i64 \<Rightarrow> string option \<Rightarrow> model_invocation \<Rightarrow>
   (status, (status, model_event) result list) result" where
  "service_execute sx service post panics now later authorization invocation =
     (case admit_invocation sx service now later authorization invocation of
        Inl e \<Rightarrow> Inl e
      | Inr (routes, request, policy) \<Rightarrow>
          (case execute_with_frozen_failover (sx_gateway sx) post panics routes request (xp_model_failover policy)
                  \<lparr>delivered = [], room = None\<rparr> of
             (outcome, s) \<Rightarrow> Inr (response_stream (sx_ext sx) (delivered s) outcome)))"

section \<open>Admission of an invocation\<close>

lemma map_sum_Inr_iff: "map_sum f g r = Inr b \<longleftrightarrow> (\<exists>a. r = Inr a \<and> b = g a)"
  by (cases r) auto

lemma admitted:
  assumes "admit_invocation sx service now later authorization invocation = Inr (routes, request, policy)"
  obtains token claims where "authorization = Some (''Bearer '' @ token)"
    and "verify (sx_ext sx) (sx_tokens sx) (sv_verifier service) token
           (required_capability_new ''model-gateway'' ''model.execute'' True) now = Inr claims"
    and "validate_invocation_identity sx later invocation claims = Inr ()"
    and "decode_model_invocation (sx_ext sx) invocation = Inr request"
    and "select_routes sx service claims invocation = Inr routes" and "select_policy sx invocation = Inr policy"
proof -
  from assms obtain token claims where token: "bearer_of authorization = Inr token"
    and steps: "verify (sx_ext sx) (sx_tokens sx) (sv_verifier service) token
           (required_capability_new ''model-gateway'' ''model.execute'' True) now = Inr claims"
      "validate_invocation_identity sx later invocation claims = Inr ()"
      "decode_model_invocation (sx_ext sx) invocation = Inr request"
      "select_routes sx service claims invocation = Inr routes" "select_policy sx invocation = Inr policy"
    by (auto simp: admit_invocation_def decode_invocation_def map_sum_Inr_iff split: sum.splits)
  from token have "authorization = Some (''Bearer '' @ token)"
    by (auto simp: bearer_of_def strip_prefix_str_Some bind_eq_Some_conv split: option.splits)
  with steps show ?thesis by (intro that)
qed

lemma parsed_identity:
  assumes "validate_invocation_identity sx later i claims = Inr ()"
  shows "parsed_or_nil sx (mi_tenant_id i) = wc_tenant_id claims" "parsed_or_nil sx (mi_run_id i) = wc_run_id claims"
    "parsed_or_nil sx (mi_attempt_id i) = wc_attempt_id claims" "parsed_or_nil sx (mi_worker_id i) = wc_worker_id claims"
    "parsed_or_nil sx (mi_worker_incarnation_id i) = wc_worker_incarnation_id claims"
    "policy_binding_matches sx i claims" "mi_model_policy_id i = ext_uuid_text (sx_ext sx) (wc_model_policy_id claims)"
    "sint later < sint (mi_expires_at_unix_ms i)" "sint (mi_expires_at_unix_ms i) \<le> sint (wc_expires_at_unix_ms claims)"
  using assms
  by (auto simp: validate_invocation_identity_def authorizes_def invocation_binding_def Let_def split: if_splits)

lemma complete_identity:
  assumes "validate_invocation_identity sx later i claims = Inr ()" and "mi_schema_version i = 5"
  shows "parsed_or_nil sx (mi_application_id i) = wc_application_id claims"
    "parsed_or_nil sx (mi_workload_identity_id i) = wc_workload_identity_id claims"
    "parsed_or_nil sx (mi_session_id i) = wc_session_id claims" "parsed_or_nil sx (mi_workspace_id i) = wc_workspace_id claims"
    "parsed_or_nil sx (mi_agent_version_id i) = wc_agent_version_id claims" "wc_schema_version claims = 4"
  using assms
  by (auto simp: validate_invocation_identity_def authorizes_def invocation_binding_def policy_binding_matches_def Let_def split: if_splits)

lemma complete_claims:
  assumes "\<not> claims_are_invalid required c" and "wc_schema_version c = 4"
  shows "\<not> is_nil (wc_application_id c)" "\<not> is_nil (wc_workload_identity_id c)" "\<not> is_nil (wc_session_id c)"
    "\<not> is_nil (wc_workspace_id c)" "\<not> is_nil (wc_agent_version_id c)"
  using assms by (simp_all add: claims_are_invalid_def valid_policy_binding_def)

lemma parsed_Some: "\<not> is_nil u \<Longrightarrow> parsed_or_nil sx text = u \<longleftrightarrow> sx_parse_uuid sx text = Some u"
  by (cases "sx_parse_uuid sx text") (auto simp: parsed_or_nil_def or_default_def is_nil_def nil_uuid_def)

lemma named_parties:
  assumes "validate_invocation_identity sx later i claims = Inr ()" and "\<not> claims_are_invalid required claims"
    and "\<not> is_operator claims"
  shows "if mi_schema_version i = 5
     then map (sx_parse_uuid sx)
            [mi_application_id i, mi_workload_identity_id i, mi_session_id i, mi_workspace_id i, mi_agent_version_id i] =
          map Some [wc_application_id claims, wc_workload_identity_id claims, wc_session_id claims, wc_workspace_id claims,
            wc_agent_version_id claims] \<and>
          list_all (\<lambda>u. \<not> is_nil u) [wc_application_id claims, wc_workload_identity_id claims, wc_session_id claims,
            wc_workspace_id claims, wc_agent_version_id claims]
     else list_all is_nil [wc_application_id claims, wc_workload_identity_id claims, wc_session_id claims,
            wc_workspace_id claims, wc_agent_version_id claims]"
proof (cases "mi_schema_version i = 5")
  case True
  note ids = complete_identity [OF assms(1) True]
  note named = complete_claims [OF assms(2) ids(6)]
  show ?thesis using True ids(1-5) named by (simp add: parsed_Some)
next
  case False
  then show ?thesis
    using assms(1)
    by (auto simp: validate_invocation_identity_def authorizes_def invocation_binding_def Let_def is_nil_def nil_uuid_def split: if_splits)
qed

text \<open>
  C31. Who may call the model. The service answers a call with a stream only if its token is signed, carries the audience
  and scope of model execution and is a Run token, and the identity of the invocation is the signed one: tenant, Run,
  attempt, worker and incarnation parse to the signed identifiers, none of them nil, and the model policy is the signed
  one. The invocation has not expired and does not outlive the token. From schema 3 on, the digest of the model policy
  snapshot sent along is the signed digest. In schema 5 the application, the workload identity, the session, the workspace and
  the agent version are the signed ones as well, and none of them is nil; before schema 5 the token names none of the five.
\<close>
theorem model_call_authorised:
  assumes "service_execute sx service post panics now later authorization i = Inr items"
  shows "\<exists>token claims. authorization = Some (''Bearer '' @ token) \<and>
    signed_by (sx_ext sx) (sx_tokens sx) (sv_verifier service) token claims \<and>
    ''model-gateway'' \<in> set (wc_audiences claims) \<and> ''model.execute'' \<in> set (wc_scopes claims) \<and> \<not> is_operator claims \<and>
    map (sx_parse_uuid sx) [mi_tenant_id i, mi_run_id i, mi_attempt_id i, mi_worker_id i, mi_worker_incarnation_id i] =
      map Some [wc_tenant_id claims, wc_run_id claims, wc_attempt_id claims, wc_worker_id claims, wc_worker_incarnation_id claims] \<and>
    list_all (\<lambda>u. \<not> is_nil u)
      [wc_tenant_id claims, wc_run_id claims, wc_attempt_id claims, wc_worker_id claims, wc_worker_incarnation_id claims] \<and>
    mi_model_policy_id i = ext_uuid_text (sx_ext sx) (wc_model_policy_id claims) \<and>
    sint later < sint (mi_expires_at_unix_ms i) \<and> sint (mi_expires_at_unix_ms i) \<le> sint (wc_expires_at_unix_ms claims) \<and>
    (mi_schema_version i = 2 \<or>
     ext_sha256_hex (sx_ext sx) (mi_model_policy_snapshot_json i) = wc_model_policy_digest claims) \<and>
    (if mi_schema_version i = 5
     then map (sx_parse_uuid sx)
            [mi_application_id i, mi_workload_identity_id i, mi_session_id i, mi_workspace_id i, mi_agent_version_id i] =
          map Some [wc_application_id claims, wc_workload_identity_id claims, wc_session_id claims, wc_workspace_id claims,
            wc_agent_version_id claims] \<and>
          list_all (\<lambda>u. \<not> is_nil u) [wc_application_id claims, wc_workload_identity_id claims, wc_session_id claims,
            wc_workspace_id claims, wc_agent_version_id claims]
     else list_all is_nil [wc_application_id claims, wc_workload_identity_id claims, wc_session_id claims,
            wc_workspace_id claims, wc_agent_version_id claims])"
proof -
  from assms obtain routes request policy where "admit_invocation sx service now later authorization i = Inr (routes, request, policy)"
    by (auto simp: service_execute_def split: sum.splits)
  then obtain token claims where token: "authorization = Some (''Bearer '' @ token)"
    and ok: "verify (sx_ext sx) (sx_tokens sx) (sv_verifier service) token
           (required_capability_new ''model-gateway'' ''model.execute'' True) now = Inr claims"
    and identity: "validate_invocation_identity sx later i claims = Inr ()"
    by (rule admitted)
  let ?required = "required_capability_new ''model-gateway'' ''model.execute'' True"
  have valid: "\<not> claims_are_invalid ?required claims" "\<not> is_operator claims"
    using ok by (auto simp: verify_Ok shape_matches_def required_capability_new_def)
  then have incarnation: "\<not> is_nil (wc_worker_incarnation_id claims)"
    by (auto simp: claims_are_invalid_def required_capability_new_def)
  have "mi_schema_version i = 2 \<or> ext_sha256_hex (sx_ext sx) (mi_model_policy_snapshot_json i) = wc_model_policy_digest claims"
    using parsed_identity(6) [OF identity]
    by (auto simp: policy_binding_matches_def model_policy_bound_def split: if_splits)
  moreover have "''model-gateway'' \<in> set (wc_audiences claims)" "''model.execute'' \<in> set (wc_scopes claims)"
    "signed_by (sx_ext sx) (sx_tokens sx) (sv_verifier service) token claims"
    using ok by (simp_all add: verify_Ok required_capability_new_def)
  moreover have "map (sx_parse_uuid sx) [mi_tenant_id i, mi_run_id i, mi_attempt_id i, mi_worker_id i, mi_worker_incarnation_id i] =
      map Some [wc_tenant_id claims, wc_run_id claims, wc_attempt_id claims, wc_worker_id claims, wc_worker_incarnation_id claims]"
    using parsed_identity(1-5) [OF identity] execution_identity(1-4) [OF valid] incarnation by (simp add: parsed_Some)
  moreover note named_parties [OF identity valid]
  ultimately show ?thesis
    using token valid(2) incarnation execution_identity(1-4) [OF valid] parsed_identity(7-9) [OF identity]
    by (intro exI [of _ token] exI [of _ claims]) simp
qed

text \<open>
  C32. Which routes and which policy a call gets. Only schemas 2 to 5 are admitted. Schema 2 gets the configured routes and
  the default policy, schema 3 the routes of the signed model policy, schema 4 also the runtime policy it brings. Schema 5
  must bring both snapshots, the first under the signed digest, and gets neither: its routes are the configured ones and its
  policy is the default.
\<close>
theorem invocation_policy_selection:
  assumes "admit_invocation sx service now later authorization i = Inr (routes, request, policy)"
  shows "(mi_schema_version i = 2 \<and> routes = sv_routes service \<and> policy = default_execution_policy) \<or>
    (\<exists>claims resolver. mi_schema_version i = 3 \<and> model_policy_bound sx i claims \<and> sv_route_resolver service = Some resolver \<and>
       resolve sx resolver (wc_tenant_id claims) (mi_model_policy_snapshot_json i) = Inr routes \<and> policy = default_execution_policy) \<or>
    (\<exists>claims resolver. mi_schema_version i = 4 \<and> model_policy_bound sx i claims \<and> sv_route_resolver service = Some resolver \<and>
       resolve sx resolver (wc_tenant_id claims) (mi_model_policy_snapshot_json i) = Inr routes \<and>
       sx_policy_from_slice sx (mi_runtime_policy_snapshot_json i) = Some policy \<and> policy_is_bounded_and_safe policy) \<or>
    (\<exists>claims. mi_schema_version i = 5 \<and> model_policy_bound sx i claims \<and> runtime_policy_bound sx i \<and>
       routes = sv_routes service \<and> policy = default_execution_policy)"
proof -
  from assms obtain claims where identity: "validate_invocation_identity sx later i claims = Inr ()"
    and routes: "select_routes sx service claims i = Inr routes" and policy: "select_policy sx i = Inr policy"
    by (rule admitted)
  note bound = parsed_identity(6) [OF identity]
  consider "mi_schema_version i = 2" | "mi_schema_version i = 3" | "mi_schema_version i = 4" | "mi_schema_version i = 5"
    using bound by (auto simp: policy_binding_matches_def split: if_splits)
  then show ?thesis
  proof cases
    case 1
    with routes policy show ?thesis by (simp add: select_routes_def select_policy_def)
  next
    case 2
    with routes policy bound show ?thesis
      by (auto simp: select_routes_def select_policy_def policy_binding_matches_def map_sum_Inr_iff split: option.splits)
  next
    case 3
    with routes policy bound show ?thesis
      by (auto simp: select_routes_def select_policy_def policy_binding_matches_def runtime_policy_bound_def map_sum_Inr_iff
          split: option.splits)
  next
    case 4
    with routes policy bound show ?thesis
      by (auto simp: select_routes_def select_policy_def policy_binding_matches_def)
  qed
qed

section \<open>Credentials\<close>

lemma credential_opened:
  assumes "open_credential sx resolver tenant_id provider_id envelope = Inr credential"
  obtains encrypted_key nonce ciphertext data_key plaintext where
    "ext_base64_decode (sx_ext sx) (ce_encrypted_key envelope) = Some encrypted_key"
    "ext_base64_decode (sx_ext sx) (ce_nonce envelope) = Some nonce"
    "ext_base64_decode (sx_ext sx) (ce_ciphertext envelope) = Some ciphertext"
    "sx_oaep_decrypt sx (rr_private_key resolver) encrypted_key = Some data_key"
    "sx_gcm_decrypt sx data_key nonce ciphertext (as_bytes (credential_aad (sx_ext sx) tenant_id provider_id)) = Some plaintext"
    "from_utf8 plaintext = Some (expose credential)" "\<not> is_blank (expose credential)"
  using assms
  by (auto simp: open_credential_def bearer_def map_sum_Inr_iff split: if_splits option.splits)

lemma aad_inject:
  assumes "inj (ext_uuid_text ext)" and "\<And>u. CHR '':'' \<notin> set (ext_uuid_text ext u)"
    and "credential_aad ext t p = credential_aad ext t' p'"
  shows "t = t' \<and> p = p'"
proof -
  have split: "takeWhile (\<lambda>c. c \<noteq> CHR '':'') (credential_aad ext t p) = ext_uuid_text ext t" for t p
    using assms(2) [of t] by (auto simp: credential_aad_def takeWhile_append)
  have "ext_uuid_text ext t = ext_uuid_text ext t'" using split assms(3) by metis
  moreover from this have "ext_uuid_text ext p = ext_uuid_text ext p'" using assms(3) by (simp add: credential_aad_def)
  ultimately show ?thesis using assms(1) by (simp add: inj_eq)
qed

lemma candidates_resolved:
  "resolve_candidates sx resolver tenant_id seen candidates = Inr routes \<Longrightarrow>
     list_all2 (\<lambda>candidate route. candidate_route sx resolver tenant_id candidate = Inr route) candidates routes"
proof (induction candidates arbitrary: seen routes)
  case (Cons candidate candidates)
  then show ?case by (auto simp: map_sum_Inr_iff split: if_splits sum.splits)
qed simp

lemma route_credential:
  "candidate_route sx resolver tenant_id candidate = Inr route \<Longrightarrow>
     open_credential sx resolver tenant_id (ps_provider_id candidate) (ps_credential_envelope candidate) = Inr (pr_credential route) \<and>
     pr_id route = ext_uuid_text (sx_ext sx) (ps_provider_id candidate)"
  by (auto simp: candidate_route_def split: sum.splits)

lemma resolved_route:
  assumes "resolve sx resolver tenant_id snapshot_json = Inr routes" and "sx_snapshot_from_slice sx snapshot_json = Some snapshot"
    and "n < length routes"
  shows "candidate_route sx resolver tenant_id (mp_candidates snapshot ! n) = Inr (routes ! n)"
proof -
  have "resolve_candidates sx resolver tenant_id {} (mp_candidates snapshot) = Inr routes"
    using assms(1,2) by (auto simp: resolve_def split: if_splits)
  from candidates_resolved [OF this] show ?thesis using assms(3) by (simp add: list_all2_conv_all_nth)
qed

text \<open>
  C33. A credential envelope serves one tenant and one Provider. If the routes of two snapshots are resolved, for tenants of
  their own, and a candidate of each carries the same envelope, the two tenants are the same, the two routes have the same
  Provider, and the credential is the same. The cipher is assumed to open a text under one associated datum only, and the
  text of a \<open>Uuid\<close> to identify it and to have no colon.
\<close>
theorem envelope_serves_one_tenant:
  assumes "resolve sx resolver tenant json = Inr routes" and "resolve sx resolver tenant' json' = Inr routes'"
    and "sx_snapshot_from_slice sx json = Some snapshot" and "sx_snapshot_from_slice sx json' = Some snapshot'"
    and "n < length routes" and "m < length routes'"
    and same: "ps_credential_envelope (mp_candidates snapshot ! n) = ps_credential_envelope (mp_candidates snapshot' ! m)"
    and aead: "\<And>key nonce text a a' p p'. sx_gcm_decrypt sx key nonce text a = Some p \<Longrightarrow>
      sx_gcm_decrypt sx key nonce text a' = Some p' \<Longrightarrow> a = a'"
    and uuid: "inj (ext_uuid_text (sx_ext sx))" "\<And>u. CHR '':'' \<notin> set (ext_uuid_text (sx_ext sx) u)"
  shows "tenant = tenant' \<and> pr_id (routes ! n) = pr_id (routes' ! m) \<and> pr_credential (routes ! n) = pr_credential (routes' ! m)"
proof -
  let ?c = "mp_candidates snapshot ! n" and ?d = "mp_candidates snapshot' ! m"
  have c: "open_credential sx resolver tenant (ps_provider_id ?c) (ps_credential_envelope ?c) = Inr (pr_credential (routes ! n))"
    "pr_id (routes ! n) = ext_uuid_text (sx_ext sx) (ps_provider_id ?c)"
    using route_credential [OF resolved_route] assms(1,3,5) by blast+
  have d: "open_credential sx resolver tenant' (ps_provider_id ?d) (ps_credential_envelope ?c) = Inr (pr_credential (routes' ! m))"
    "pr_id (routes' ! m) = ext_uuid_text (sx_ext sx) (ps_provider_id ?d)"
    using route_credential [OF resolved_route] assms(2,4,6) same by metis+
  from c(1) obtain e1 n1 t1 k1 p1 where one:
    "ext_base64_decode (sx_ext sx) (ce_encrypted_key (ps_credential_envelope ?c)) = Some e1"
    "ext_base64_decode (sx_ext sx) (ce_nonce (ps_credential_envelope ?c)) = Some n1"
    "ext_base64_decode (sx_ext sx) (ce_ciphertext (ps_credential_envelope ?c)) = Some t1"
    "sx_oaep_decrypt sx (rr_private_key resolver) e1 = Some k1"
    "sx_gcm_decrypt sx k1 n1 t1 (as_bytes (credential_aad (sx_ext sx) tenant (ps_provider_id ?c))) = Some p1"
    "from_utf8 p1 = Some (expose (pr_credential (routes ! n)))" by (rule credential_opened)
  from d(1) one obtain p2 where two:
    "sx_gcm_decrypt sx k1 n1 t1 (as_bytes (credential_aad (sx_ext sx) tenant' (ps_provider_id ?d))) = Some p2"
    "from_utf8 p2 = Some (expose (pr_credential (routes' ! m)))"
    by (elim credential_opened) simp
  have "credential_aad (sx_ext sx) tenant (ps_provider_id ?c) = credential_aad (sx_ext sx) tenant' (ps_provider_id ?d)"
    using aead [OF one(5) two(1)] by simp
  from aad_inject [OF uuid this] have "tenant = tenant'" "ps_provider_id ?c = ps_provider_id ?d" by simp_all
  with one(5,6) two c(2) d(2) show ?thesis by (simp add: provider_credential.expand)
qed

section \<open>From the chain to the worker\<close>

lemma encode_events_numbered:
  "unat sequence + length events < 2 ^ 64 \<Longrightarrow>
     list_all2 (\<lambda>item event. \<exists>n. n \<noteq> 0 \<and> item = Received (encode_event ext n event))
       (map Received (encode_events ext sequence events)) events"
proof (induction events arbitrary: sequence)
  case (Cons event events)
  have next_number: "unat (sequence + 1) = unat sequence + 1"
    using Cons.prems by (subst unat_add_lem [THEN iffD1]) simp_all
  then have "sequence + 1 \<noteq> 0" by (metis Suc_eq_plus1 nat.distinct(1) unat_0)
  with Cons.IH [of "sequence + 1"] Cons.prems next_number show ?case by auto
qed simp

text \<open>
  C30. A model call as the worker sees it. Take an admitted call in which no Provider task panics, on both sides of the wire
  the consumer stays, and the events of the chain have JSON that is read back, well-formed private states and are fewer than
  the sequence numbers. Then the client passes on exactly the events of the failover chain, in order. It returns
  normally when the chain completed, and after a \<open>Failed\<close> event with the kind, the retry hint and the message of the fault
  when a Provider failed. A configuration error comes back as a failed precondition with its message, and a cancelled chain
  as a stream without a terminal event.
\<close>
theorem model_call_delivers:
  assumes admit: "admit_invocation sx service now later (Some (''Bearer '' @ token)) i = Inr (routes, request, policy)"
    and chain: "execute_with_frozen_failover (sx_gateway sx) post (\<lambda>_. None) routes request (xp_model_failover policy)
      \<lparr>delivered = [], room = None\<rparr> = (outcome, c)"
    and survive: "list_all (event_survives (sx_ext sx)) (delivered c)" and "length (delivered c) < 2 ^ 64 - 1"
    and header: "header (''Bearer '' @ token) = Some (''Bearer '' @ token)" and s: "room s = None"
  shows "client_execute (sx_ext sx) header
      (\<lambda>authorization. map_sum id (map Received)
         (service_execute sx service post (\<lambda>_. None) now later (Some authorization) i)) token s =
    (case outcome of
       Inr _ \<Rightarrow> (Inr (), s\<lparr>delivered := delivered s @ delivered c\<rparr>)
     | Inl (ProviderFault kind retryable _ _ message) \<Rightarrow>
         (Inr (), s\<lparr>delivered := delivered s @ delivered c @ [ModelFailed kind retryable message]\<rparr>)
     | Inl (InvalidConfiguration message) \<Rightarrow>
         (Inl (RpcFailure FailedPrecondition message), s\<lparr>delivered := delivered s @ delivered c\<rparr>)
     | Inl ConsumerClosed \<Rightarrow>
         (Inl (RpcFailure CodeCancelled ''provider consumer closed''), s\<lparr>delivered := delivered s @ delivered c\<rparr>)
     | Inl ExecutionCancelled \<Rightarrow>
         (Inl (InvalidEvent ''model gateway stream ended without a terminal event''),
          s\<lparr>delivered := delivered s @ delivered c\<rparr>))"
proof -
  let ?items = "map Received (encode_events (sx_ext sx) 0 (delivered c))"
  have numbered: "list_all2 (\<lambda>item event. \<exists>n. n \<noteq> 0 \<and> item = Received (encode_event (sx_ext sx) n event)) ?items (delivered c)"
    using assms(4) by (intro encode_events_numbered) simp
  have last_number: "(of_nat (length (delivered c)) + 1 :: u64) \<noteq> 0"
  proof -
    have "unat (of_nat (Suc (length (delivered c))) :: u64) = Suc (length (delivered c))"
      using assms(4) by (simp only: unat_of_nat) simp
    then show ?thesis by (metis Suc_eq_plus1 nat.distinct(1) of_nat_Suc add.commute unat_0)
  qed
  have run: "client_execute (sx_ext sx) header
      (\<lambda>authorization. map_sum id (map Received)
         (service_execute sx service post (\<lambda>_. None) now later (Some authorization) i)) token s =
    client_loop (sx_ext sx) (map Received (response_stream (sx_ext sx) (delivered c) outcome)) s"
    using admit chain header by (simp add: client_execute_def service_execute_def)
  show ?thesis
  proof (cases outcome)
    case (Inr selection)
    from failover_turn [OF chain] Inr obtain es reason where es:
      "delivered c = es @ [Completed reason]" "list_all (\<lambda>e. \<not> closes_turn e) es" by auto
    from numbered obtain first n where items: "?items = first @ [Received (encode_event (sx_ext sx) n (Completed reason))]" "n \<noteq> 0"
      and first: "list_all2 (\<lambda>item event. \<exists>n. n \<noteq> 0 \<and> item = Received (encode_event (sx_ext sx) n event)) first es"
      by (auto simp: es(1) list_all2_append2 list_all2_Cons2)
    have "client_loop (sx_ext sx) (first @ [Received (encode_event (sx_ext sx) n (Completed reason))]) s =
        (Inr (), s\<lparr>delivered := delivered s @ delivered c\<rparr>)"
      using survive es s items(2) by (simp add: client_passes [OF _ es(2) s first] client_closes)
    with run items Inr show ?thesis by (simp add: response_stream_def)
  next
    case (Inl error)
    with failover_turn [OF chain] have "list_all (\<lambda>e. \<not> closes_turn e) (delivered c)" by auto
    then have pass: "client_loop (sx_ext sx) (?items @ rest) s =
        client_loop (sx_ext sx) rest (s\<lparr>delivered := delivered s @ delivered c\<rparr>)" for rest
      using client_passes [OF survive _ s numbered] by blast
    with pass [of "[]"] run Inl s last_number show ?thesis
      by (cases error) (simp_all add: response_stream_def encode_provider_failure_def client_closes give_up_def)
  qed
qed

section \<open>Instances\<close>

definition service_claims :: workload_identity_claims where
  "service_claims = run_claims\<lparr>wc_schema_version := 4, wc_application_id := 7, wc_workload_identity_id := 8, wc_session_id := 9,
     wc_workspace_id := 10, wc_agent_version_id := 11, wc_model_policy_digest := replicate 64 (CHR ''0'')\<rparr>"

definition sample_parse_uuid :: "string \<Rightarrow> uuid option" where
  "sample_parse_uuid text =
     map_of [(''tenant'', 1), (''run'', 2), (''attempt'', 3), (''worker'', 4), (''incarnation'', 5), (''application'', 7),
       (''workload'', 8), (''session'', 9), (''workspace'', 10), (''agent'', 11)] text"

text \<open>A cipher text that is its associated datum and one letter, the plain text.\<close>

definition sample_gcm_decrypt :: "u8 list \<Rightarrow> u8 list \<Rightarrow> u8 list \<Rightarrow> u8 list \<Rightarrow> u8 list option" where
  "sample_gcm_decrypt key nonce text a = (if text = a @ [107] then Some [107] else None)"

definition sample_envelope :: credential_envelope where
  "sample_envelope = \<lparr>ce_schema_version = 1, ce_key_id = ''key'', ce_algorithm = ''RSA-OAEP-256+A256GCM'',
     ce_encrypted_key = replicate 32 (CHR ''k''), ce_nonce = replicate 12 (CHR ''n''),
     ce_ciphertext = ''a:'' @ replicate 2 (CHR ''a'') @ ''k''\<rparr>"

definition sample_model_policy :: model_policy_snapshot where
  "sample_model_policy = \<lparr>mp_schema_version = 1, mp_routing = ''single_provider'', mp_candidates =
     [\<lparr>ps_provider_id = 2, ps_protocol = ''openai_responses'', ps_endpoint = ''https://models'', ps_model = ''m'',
       ps_credential_envelope = sample_envelope\<rparr>]\<rparr>"

definition sample_service_externals :: "unit service_externals" where
  "sample_service_externals =
     \<lparr>sx_ext = injective_externals,
      sx_tokens = sample_token_externals\<lparr>te_claims_from_slice := \<lambda>_. Some service_claims\<rparr>,
      sx_gateway = quiet_gateway, sx_parse_uuid = sample_parse_uuid,
      sx_policy_from_slice = (\<lambda>_. Some (default_execution_policy\<lparr>xp_model_failover := sample_policy\<rparr>)),
      sx_snapshot_from_slice = (\<lambda>_. Some sample_model_policy), sx_key_from_pem = (\<lambda>_. Some ()), sx_modulus_bits = (\<lambda>_. 4096),
      sx_public_der = (\<lambda>_. Some []), sx_oaep_decrypt = (\<lambda>_ text. Some text), sx_gcm_decrypt = sample_gcm_decrypt\<rparr>"

lemma sample_externals_fields:
  "sx_ext sample_service_externals = injective_externals"
  "sx_tokens sample_service_externals = sample_token_externals\<lparr>te_claims_from_slice := \<lambda>_. Some service_claims\<rparr>"
  "sx_gateway sample_service_externals = quiet_gateway"
  by (simp_all add: sample_service_externals_def)

definition sample_resolver :: "unit route_resolver" where
  "sample_resolver = \<lparr>rr_private_key = (), rr_key_id = ''key'', rr_response_timeout = 1, rr_stream_idle_timeout = 1\<rparr>"

definition sample_service :: "unit model_service" where
  "sample_service = model_service_new (ChatAdapter sample_adapter) (ProviderCredential ''sk'') sample_verifier"

definition sample_model_invocation :: model_invocation where
  "sample_model_invocation =
     \<lparr>mi_schema_version = 5, mi_tenant_id = ''tenant'', mi_run_id = ''run'', mi_session_id = ''session'',
      mi_attempt_id = ''attempt'', mi_worker_id = ''worker'', mi_model_policy_id = replicate 6 (CHR ''a''), mi_expires_at_unix_ms = 50000,
      mi_messages = [\<lparr>mm_role = 2, mm_content = [Some (WireText ''hi'')]\<rparr>], mi_tools = [], mi_output_schema_json = [],
      mi_reasoning = 2, mi_max_output_tokens = 10, mi_worker_incarnation_id = ''incarnation'',
      mi_model_policy_snapshot_json = [1], mi_model_policy_digest = replicate 64 (CHR ''0''),
      mi_runtime_policy_snapshot_json = [2], mi_runtime_policy_digest = replicate 64 (CHR ''0''),
      mi_application_id = ''application'', mi_workload_identity_id = ''workload'', mi_workspace_id = ''workspace'',
      mi_agent_version_id = ''agent''\<rparr>"

definition hello_request :: model_request where
  "hello_request = \<lparr>mr_messages = [\<lparr>msg_role = UserRole, msg_content = [PartText ''hi'']\<rparr>], mr_tools = [],
     mr_output_schema = None, mr_reasoning = Balanced, mr_max_output_tokens = 10\<rparr>"

abbreviation sample_routes :: "provider_route list" where
  "sample_routes \<equiv> [\<lparr>pr_id = ''default'', pr_adapter = ChatAdapter sample_adapter, pr_credential = ProviderCredential ''sk''\<rparr>]"

lemma sample_claims:
  "verify injective_externals (sample_token_externals\<lparr>te_claims_from_slice := \<lambda>_. Some service_claims\<rparr>) sample_verifier ''v2.a.s''
     (required_capability_new ''model-gateway'' ''model.execute'' True) 2000 = Inr service_claims"
proof -
  have "is_lower_hex_sha256 (replicate 64 (CHR ''0''))" by code_simp
  then show ?thesis
    by (simp add: verify_def injective_externals_def sample_externals_def sample_token_externals_def TOKEN_VERSION_def check_claims_def
        claims_are_invalid_def service_claims_def run_claims_def is_nil_def valid_policy_binding_def is_operator_def
        OPERATOR_SCHEMA_VERSION_def run_identity_missing_def required_capability_new_def lifetime_is_invalid_def
        MAX_TOKEN_LIFETIME_MS_def shape_matches_def)
qed

lemma sample_identity: "validate_invocation_identity sample_service_externals 2000 sample_model_invocation service_claims = Inr ()"
proof -
  have bounded: "policy_is_bounded_and_safe (default_execution_policy\<lparr>xp_model_failover := sample_policy\<rparr>)"
    by (simp add: policy_is_bounded_and_safe_def default_execution_policy_def discovery_retry_ok_def tool_concurrency_ok_def
        compaction_ok_def default_compaction_def)
  have digest: "ext_sha256_hex injective_externals bytes = replicate 64 (CHR ''0'')" for bytes
    by (simp add: injective_externals_def sample_externals_def)
  have "policy_binding_matches sample_service_externals sample_model_invocation service_claims"
    unfolding policy_binding_matches_def model_policy_bound_def runtime_policy_bound_def sample_externals_fields digest
    using bounded by (simp add: sample_model_invocation_def service_claims_def sample_service_externals_def)
  moreover have "authorizes service_claims (invocation_binding sample_service_externals sample_model_invocation)"
    by (simp add: authorizes_def invocation_binding_def parsed_or_nil_def sample_parse_uuid_def or_default_def
        sample_service_externals_def sample_model_invocation_def service_claims_def run_claims_def nil_uuid_def)
  moreover have "mi_model_policy_id sample_model_invocation = ext_uuid_text injective_externals (wc_model_policy_id service_claims)"
    by (simp add: sample_model_invocation_def service_claims_def run_claims_def injective_externals_def)
  moreover have "sint (2000 :: i64) < sint (mi_expires_at_unix_ms sample_model_invocation)"
    "sint (mi_expires_at_unix_ms sample_model_invocation) \<le> sint (wc_expires_at_unix_ms service_claims)"
    by (simp_all add: sample_model_invocation_def service_claims_def run_claims_def)
  ultimately show ?thesis by (simp add: validate_invocation_identity_def sample_externals_fields)
qed

lemma sample_admitted:
  "admit_invocation sample_service_externals sample_service 2000 2000 (Some ''Bearer v2.a.s'') sample_model_invocation =
     Inr (sample_routes, hello_request, default_execution_policy)"
proof -
  have "bearer_of (Some ''Bearer v2.a.s'') = Inr ''v2.a.s''" by (simp add: bearer_of_def strip_prefix_str_def)
  moreover have "decode_invocation injective_externals sample_model_invocation = Inr hello_request"
    by (simp add: decode_invocation_def decode_model_invocation_def sample_model_invocation_def decode_message_def role_of_number_def
        reasoning_of_number_def hello_request_def)
  moreover have "mi_schema_version sample_model_invocation = 5" by (simp add: sample_model_invocation_def)
  moreover have "sv_verifier sample_service = sample_verifier" "sv_routes sample_service = sample_routes"
    by (simp_all add: sample_service_def model_service_new_def)
  ultimately show ?thesis
    using sample_claims sample_identity
    by (simp add: admit_invocation_def select_routes_def select_policy_def sample_externals_fields)
qed

lemma sample_answer:
  "\<exists>selection c. execute_with_frozen_failover quiet_gateway (\<lambda>_. quiet_network) (\<lambda>_. None) sample_routes hello_request
     (xp_model_failover default_execution_policy) \<lparr>delivered = [], room = None\<rparr> = (Inr selection, c) \<and>
     delivered c = [TextDelta ''hi'' None, Completed Stop]"
proof -
  have default: "\<not> is_blank ''default''" by code_simp
  have prepared: "prepare_request_for_provider hello_request provider_id pr m = Inr (hello_request, [])" for provider_id pr m
    by (simp add: prepare_request_for_provider_def hello_request_def prepare_message_def)
  have "\<exists>p. chat_request_payload quiet_gateway sample_adapter hello_request = Inr p"
    by (simp add: chat_request_payload_def hello_request_def Let_def message_payload_def)
  then obtain p where "chat_request_payload quiet_gateway sample_adapter hello_request = Inr p" by blast
  then have "run_attempt quiet_gateway (\<lambda>_. quiet_network) (\<lambda>_. None) hello_request 0 (hd sample_routes) =
      ([TextDelta ''hi'' None, Completed Stop], Inr ())"
    by (simp add: run_attempt_def adapter_execute_def default prepared chat_execute_def quiet_network_def converse_def is_success_def)
       (simp add: quiet_gateway_def chat_eval said_event_def)
  then show ?thesis
    by (simp add: execute_with_frozen_failover_def failover_policy_ok_def default_execution_policy_def default then_do_def
        finish_def emit_event_def)
qed

theorem model_call_authorised_witness:
  "\<exists>items token. service_execute sample_service_externals sample_service (\<lambda>_. quiet_network) (\<lambda>_. None) 2000 2000
     (Some ''Bearer v2.a.s'') sample_model_invocation = Inr items \<and> ''Bearer v2.a.s'' = ''Bearer '' @ token"
proof -
  obtain selection c where "execute_with_frozen_failover quiet_gateway (\<lambda>_. quiet_network) (\<lambda>_. None) sample_routes hello_request
     (xp_model_failover default_execution_policy) \<lparr>delivered = [], room = None\<rparr> = (Inr selection, c)" using sample_answer by blast
  then have run: "service_execute sample_service_externals sample_service (\<lambda>_. quiet_network) (\<lambda>_. None) 2000 2000
     (Some ''Bearer v2.a.s'') sample_model_invocation = Inr (response_stream injective_externals (delivered c) (Inr selection))"
    by (simp add: service_execute_def sample_admitted sample_externals_fields)
  from model_call_authorised [OF run] obtain token where "''Bearer v2.a.s'' = ''Bearer '' @ token" by auto
  with run show ?thesis by blast
qed

theorem invocation_policy_selection_witness:
  "admit_invocation sample_service_externals sample_service 2000 2000 (Some ''Bearer v2.a.s'') sample_model_invocation =
     Inr (sample_routes, hello_request, default_execution_policy) \<and> mi_schema_version sample_model_invocation = 5 \<and>
   runtime_policy_bound sample_service_externals sample_model_invocation \<and>
   sx_policy_from_slice sample_service_externals (mi_runtime_policy_snapshot_json sample_model_invocation) \<noteq> Some default_execution_policy"
proof -
  have "mi_schema_version sample_model_invocation = 5" by (simp add: sample_model_invocation_def)
  with invocation_policy_selection [OF sample_admitted] have "runtime_policy_bound sample_service_externals sample_model_invocation" by auto
  moreover have "sx_policy_from_slice sample_service_externals (mi_runtime_policy_snapshot_json sample_model_invocation) \<noteq> Some default_execution_policy"
    by (simp add: sample_service_externals_def default_execution_policy_def)
  ultimately show ?thesis using sample_admitted by (simp add: sample_model_invocation_def)
qed

theorem model_call_delivers_witness:
  "client_execute injective_externals Some
     (\<lambda>authorization. map_sum id (map Received) (service_execute sample_service_externals sample_service (\<lambda>_. quiet_network)
        (\<lambda>_. None) 2000 2000 (Some authorization) sample_model_invocation)) ''v2.a.s'' \<lparr>delivered = [], room = None\<rparr> =
   (Inr (), \<lparr>delivered = [TextDelta ''hi'' None, Completed Stop], room = None\<rparr>)"
proof -
  obtain selection c where c: "execute_with_frozen_failover quiet_gateway (\<lambda>_. quiet_network) (\<lambda>_. None) sample_routes hello_request
     (xp_model_failover default_execution_policy) \<lparr>delivered = [], room = None\<rparr> = (Inr selection, c)"
    "delivered c = [TextDelta ''hi'' None, Completed Stop]" using sample_answer by blast
  from model_call_delivers [of sample_service_externals sample_service 2000 2000 "''v2.a.s''" sample_model_invocation sample_routes
      hello_request default_execution_policy "\<lambda>_. quiet_network" "Inr selection" c Some "\<lparr>delivered = [], room = None\<rparr>"]
  show ?thesis using sample_admitted c by (simp add: sample_externals_fields)
qed

lemma sample_resolved:
  "\<exists>route. resolve sample_service_externals sample_resolver 1 [1] = Inr [route]"
proof -
  have "as_bytes (credential_aad injective_externals 1 2) @ [107] = as_bytes (ce_ciphertext sample_envelope)"
    by (simp add: as_bytes_def credential_aad_def injective_externals_def sample_envelope_def)
  moreover have "\<not> is_blank [char_of (107 :: nat)]" "\<not> is_blank ''m''" by code_simp+
  ultimately show ?thesis
    by (simp add: resolve_def is_nil_def MAX_SNAPSHOT_BYTES_def sample_service_externals_def sample_model_policy_def valid_routing_def
        candidate_route_def open_credential_def ENVELOPE_ALGORITHM_def sample_resolver_def injective_externals_def
        sample_externals_def sample_gcm_decrypt_def sample_envelope_def from_utf8_def bearer_def protocol_from_str_def candidate_adapter_def
        openai_responses_new_def parse_endpoint_def quiet_gateway_def sample_gateway_def as_bytes_def)
qed

theorem envelope_serves_one_tenant_witness:
  "\<exists>route. resolve sample_service_externals sample_resolver 1 [1] = Inr [route] \<and>
     \<not> (\<exists>tenant routes. tenant \<noteq> 1 \<and> length routes = 1 \<and> resolve sample_service_externals sample_resolver tenant [1] = Inr routes)"
proof -
  obtain route where route: "resolve sample_service_externals sample_resolver 1 [1] = Inr [route]" using sample_resolved by blast
  have aead: "a = a'" if "sx_gcm_decrypt sample_service_externals key nonce ciphertext a = Some p"
      "sx_gcm_decrypt sample_service_externals key nonce ciphertext a' = Some p'" for key nonce ciphertext a a' p p'
    using that by (simp add: sample_service_externals_def sample_gcm_decrypt_def split: if_splits)
  have uuid: "inj (ext_uuid_text (sx_ext sample_service_externals))"
    "CHR '':'' \<notin> set (ext_uuid_text (sx_ext sample_service_externals) u)" for u
    using inj_injective_externals by (simp_all add: sample_service_externals_def) (simp add: injective_externals_def)
  have snapshot: "sx_snapshot_from_slice sample_service_externals [1] = Some sample_model_policy"
    by (simp add: sample_service_externals_def)
  have "tenant = 1" if "resolve sample_service_externals sample_resolver tenant [1] = Inr routes" "length routes = 1" for tenant routes
    using envelope_serves_one_tenant [OF route that(1) snapshot snapshot, of 0 0] aead uuid that(2) by simp
  with route show ?thesis by blast
qed

end
