(* ===== verification/Worker_Budget.thy ===== *)
theory Worker_Budget
  imports Transcripts
begin

text \<open>
  The budget accounting of an attempt in \<open>runtime/apps/worker/src/lib.rs\<close>: what a usage exhausts, the ledger of budgets
  reserved for subagents, and the execution time. An \<open>Instant\<close> is a number of nanoseconds of the monotonic clock, and the
  operations that read a clock take the reading as an argument.

  The lemmas show that the ledger adds up, and that no recovery gives execution time back.
\<close>

section \<open>Usage\<close>

record budget_usage =
  bu_tokens :: u64
  bu_cost_micros :: u64

record pending_budget_exhaustion =
  pe_dimension :: budget_dimension
  pe_exceeded :: bool

definition saturating_mul :: "u64 \<Rightarrow> u64 \<Rightarrow> u64" where
  "saturating_mul a b = (if unat a * unat b < 2 ^ 64 then a * b else - 1)"

definition budget_exhaustion :: "budget_usage \<Rightarrow> run_budget \<Rightarrow> pending_budget_exhaustion option" where
  "budget_exhaustion usage budget =
     (let maximum_cost_micros = saturating_mul (max_cost_cents budget) 10000
      in if bu_tokens usage > max_tokens budget then Some \<lparr>pe_dimension = Tokens, pe_exceeded = True\<rparr>
         else if bu_cost_micros usage > maximum_cost_micros then Some \<lparr>pe_dimension = Cost, pe_exceeded = True\<rparr>
         else if bu_tokens usage = max_tokens budget then Some \<lparr>pe_dimension = Tokens, pe_exceeded = False\<rparr>
         else if bu_cost_micros usage = maximum_cost_micros then Some \<lparr>pe_dimension = Cost, pe_exceeded = False\<rparr>
         else None)"

definition charge :: "u64 \<Rightarrow> u64 \<Rightarrow> budget_usage \<Rightarrow> budget_usage" where
  "charge tokens cost_micros usage =
     \<lparr>bu_tokens = saturating_add (bu_tokens usage) tokens, bu_cost_micros = saturating_add (bu_cost_micros usage) cost_micros\<rparr>"

section \<open>Reservations\<close>

datatype reservation_error = InvalidReservation | ReservationMismatch

record subagent_budget_reservation =
  br_agent_id :: uuid
  br_tool_call_id :: string
  br_binding_digest :: string
  br_budget :: run_budget

type_synonym reservations = "(uuid, subagent_budget_reservation) btree"

definition reservation_new :: "uuid \<Rightarrow> subagent_spawn_request \<Rightarrow> subagent_budget_reservation" where
  "reservation_new agent_id request =
     \<lparr>br_agent_id = agent_id, br_tool_call_id = ssr_tool_call_id request, br_binding_digest = ssr_binding_digest request,
      br_budget = ssr_budget request\<rparr>"

definition reservation_is_well_formed :: "subagent_budget_reservation \<Rightarrow> bool" where
  "reservation_is_well_formed r \<longleftrightarrow>
     \<not> is_nil (br_agent_id r) \<and> \<not> is_blank (br_tool_call_id r) \<and> is_lower_hex_sha256 (br_binding_digest r) \<and>
     max_tokens (br_budget r) > 0 \<and> max_cost_cents (br_budget r) > 0 \<and>
     1 \<le> max_duration_seconds (br_budget r) \<and> max_duration_seconds (br_budget r) \<le> 86400"

definition insert_subagent_budget_reservation ::
  "reservations \<Rightarrow> uuid \<Rightarrow> subagent_spawn_request \<Rightarrow> (reservation_error, reservations) result" where
  "insert_subagent_budget_reservation m agent_id request =
     (let reservation = reservation_new agent_id request
      in if \<not> reservation_is_well_formed reservation \<or> bt_contains_key (ssr_delegation_id request) m
         then Inl InvalidReservation
         else Inr (bt_insert (ssr_delegation_id request) reservation m))"

definition remove_subagent_budget_reservation ::
  "reservations \<Rightarrow> uuid \<Rightarrow> subagent_spawn_request \<Rightarrow> (reservation_error, reservations) result" where
  "remove_subagent_budget_reservation m agent_id request =
     (if bt_get (ssr_delegation_id request) m \<noteq> Some (reservation_new agent_id request) then Inl ReservationMismatch
      else Inr (bt_remove (ssr_delegation_id request) m))"

definition rebind_subagent_budget_reservation ::
  "reservations \<Rightarrow> uuid \<Rightarrow> subagent_spawn_request \<Rightarrow> subagent_spawn_request \<Rightarrow> (reservation_error, reservations) result" where
  "rebind_subagent_budget_reservation m agent_id previous activated =
     (if ssr_delegation_id previous \<noteq> ssr_delegation_id activated \<or> ssr_budget previous \<noteq> ssr_budget activated \<or>
         bt_get (ssr_delegation_id previous) m \<noteq> Some (reservation_new agent_id previous)
      then Inl ReservationMismatch
      else Inr (bt_insert (ssr_delegation_id activated) (reservation_new agent_id activated) m))"

definition add_reservation :: "run_budget \<Rightarrow> subagent_budget_reservation \<Rightarrow> run_budget" where
  "add_reservation budget r =
     \<lparr>max_tokens = saturating_add (max_tokens budget) (max_tokens (br_budget r)),
      max_cost_cents = saturating_add (max_cost_cents budget) (max_cost_cents (br_budget r)),
      max_duration_seconds = saturating_add (max_duration_seconds budget) (max_duration_seconds (br_budget r))\<rparr>"

definition subagent_budget_reservation_totals :: "reservations \<Rightarrow> run_budget" where
  "subagent_budget_reservation_totals m =
     foldl add_reservation \<lparr>max_tokens = 0, max_cost_cents = 0, max_duration_seconds = 0\<rparr> (map snd m)"

section \<open>Execution time\<close>

record execution_time_budget =
  et_accumulated_millis :: u64
  et_active_since :: "nat option"

record checkpoint_execution_time =
  ct_elapsed_millis :: u64
  ct_checkpointed_at :: datetime
  ct_active :: bool

text \<open>\<open>u64::try_from(started.elapsed().as_millis()).unwrap_or(u64::MAX)\<close>\<close>

definition slice_millis :: "nat \<Rightarrow> nat \<Rightarrow> u64" where
  "slice_millis started now = (let ms = (now - started) div 1000000 in if ms < 2 ^ 64 then of_nat ms else - 1)"

definition time_budget_new :: "nat \<Rightarrow> execution_time_budget" where
  "time_budget_new now = \<lparr>et_accumulated_millis = 0, et_active_since = Some now\<rparr>"

text \<open>\<open>num_milliseconds\<close> truncates towards zero; two times of the calendar are less than \<open>2 ^ 63\<close> milliseconds apart.\<close>

definition num_milliseconds :: "int \<Rightarrow> int" where
  "num_milliseconds d = (if d < 0 then - (- d div 1000000) else d div 1000000)"

definition time_budget_restore :: "checkpoint_execution_time option \<Rightarrow> datetime \<Rightarrow> nat \<Rightarrow> execution_time_budget" where
  "time_budget_restore state restored_at now =
     \<lparr>et_accumulated_millis =
        (case state of
           None \<Rightarrow> 0
         | Some state \<Rightarrow>
             (let recovery_gap =
                    (if ct_active state
                     then (let gap = num_milliseconds (restored_at - ct_checkpointed_at state)
                           in if gap < 0 then - 1 else word_of_int gap)
                     else 0)
              in saturating_add (ct_elapsed_millis state) recovery_gap)),
      et_active_since = Some now\<rparr>"

definition elapsed_millis :: "execution_time_budget \<Rightarrow> nat \<Rightarrow> u64" where
  "elapsed_millis e now =
     (case et_active_since e of
        None \<Rightarrow> et_accumulated_millis e
      | Some started \<Rightarrow> saturating_add (et_accumulated_millis e) (slice_millis started now))"

text \<open>A \<open>Duration\<close> is a number of nanoseconds.\<close>

definition remaining :: "execution_time_budget \<Rightarrow> u64 \<Rightarrow> nat \<Rightarrow> nat" where
  "remaining e limit now = unat limit * 1000000000 - unat (elapsed_millis e now) * 1000000"

definition time_pause :: "nat \<Rightarrow> execution_time_budget \<Rightarrow> execution_time_budget" where
  "time_pause now e =
     (case et_active_since e of
        None \<Rightarrow> e
      | Some started \<Rightarrow>
          \<lparr>et_accumulated_millis = saturating_add (et_accumulated_millis e) (slice_millis started now), et_active_since = None\<rparr>)"

definition time_resume :: "nat \<Rightarrow> execution_time_budget \<Rightarrow> execution_time_budget" where
  "time_resume now e = (if et_active_since e = None then e\<lparr>et_active_since := Some now\<rparr> else e)"

definition time_checkpoint :: "execution_time_budget \<Rightarrow> nat \<Rightarrow> datetime \<Rightarrow> checkpoint_execution_time" where
  "time_checkpoint e now checkpointed_at =
     \<lparr>ct_elapsed_millis = elapsed_millis e now, ct_checkpointed_at = checkpointed_at, ct_active = (et_active_since e \<noteq> None)\<rparr>"

section \<open>The ledger after a recovery\<close>

datatype subagent_message_status = MessageQueued | MessageActive | MessageCompleted | MessageCancelled

record subagent_message_receipt =
  mrc_agent_id :: uuid
  mrc_idempotency_key :: string
  mrc_message_digest :: string
  mrc_message_sequence :: u64
  mrc_submission_id :: string
  mrc_interrupt :: bool
  mrc_status :: subagent_message_status
  mrc_child_request :: subagent_spawn_request

definition queued_requests :: "(uuid, (string, subagent_message_receipt) btree) btree \<Rightarrow> (uuid \<times> subagent_spawn_request) list" where
  "queued_requests message_receipts =
     concat (map (\<lambda>(agent_id, receipts).
       map (\<lambda>receipt. (agent_id, mrc_child_request receipt)) (filter (\<lambda>receipt. mrc_status receipt = MessageQueued) (map snd receipts)))
       message_receipts)"

fun insert_all ::
  "string \<Rightarrow> (uuid \<times> subagent_spawn_request) list \<Rightarrow> reservations \<Rightarrow> (string, reservations) result" where
  "insert_all malformed [] m = Inr m"
| "insert_all malformed ((agent_id, request) # rest) m =
     (case insert_subagent_budget_reservation m agent_id request of
        Inl _ \<Rightarrow> Inl malformed
      | Inr m' \<Rightarrow> insert_all malformed rest m')"

definition rebuild_subagent_budget_reservations ::
  "subagent_spawn_request list \<Rightarrow> (uuid, subagent_spawn_request) btree \<Rightarrow>
   (uuid, (string, subagent_message_receipt) btree) btree \<Rightarrow> (string, reservations) result" where
  "rebuild_subagent_budget_reservations pending active message_receipts =
     (case insert_all ''pending subagent budget reservation is malformed'' (map (\<lambda>request. (ssr_delegation_id request, request)) pending) [] of
        Inl e \<Rightarrow> Inl e
      | Inr m \<Rightarrow>
          (case insert_all ''active subagent budget reservation is malformed'' active m of
             Inl e \<Rightarrow> Inl e
           | Inr m' \<Rightarrow> insert_all ''queued subagent budget reservation is malformed'' (queued_requests message_receipts) m'))"

section \<open>Sums\<close>

lemma unat_u64: "unat (w :: u64) \<le> 2 ^ 64 - 1"
proof -
  have "unat w < 2 ^ LENGTH(64)" by (rule unsigned_less)
  then show ?thesis by simp
qed

lemma totals_from:
  "unat (max_tokens (foldl add_reservation t rs)) = min (unat (max_tokens t) + (\<Sum>r\<leftarrow>rs. unat (max_tokens (br_budget r)))) (2 ^ 64 - 1)"
  "unat (max_cost_cents (foldl add_reservation t rs)) =
     min (unat (max_cost_cents t) + (\<Sum>r\<leftarrow>rs. unat (max_cost_cents (br_budget r)))) (2 ^ 64 - 1)"
  "unat (max_duration_seconds (foldl add_reservation t rs)) =
     min (unat (max_duration_seconds t) + (\<Sum>r\<leftarrow>rs. unat (max_duration_seconds (br_budget r)))) (2 ^ 64 - 1)"
proof (induction rs arbitrary: t)
  case Nil
  case 1 show ?case using unat_u64 [of "max_tokens t"] by simp
  case 2 show ?case using unat_u64 [of "max_cost_cents t"] by simp
  case 3 show ?case using unat_u64 [of "max_duration_seconds t"] by simp
next
  case (Cons r rs)
  case 1 show ?case using Cons.IH(1) [of "add_reservation t r"] by (simp add: add_reservation_def unat_saturating_add)
  case 2 show ?case using Cons.IH(2) [of "add_reservation t r"] by (simp add: add_reservation_def unat_saturating_add)
  case 3 show ?case using Cons.IH(3) [of "add_reservation t r"] by (simp add: add_reservation_def unat_saturating_add)
qed

definition reserved_by :: "(run_budget \<Rightarrow> u64) \<Rightarrow> reservations \<Rightarrow> nat" where
  "reserved_by f m = (\<Sum>r\<leftarrow>map snd m. unat (f (br_budget r)))"

lemma reservation_totals:
  "unat (max_tokens (subagent_budget_reservation_totals m)) = min (reserved_by max_tokens m) (2 ^ 64 - 1)"
  "unat (max_cost_cents (subagent_budget_reservation_totals m)) = min (reserved_by max_cost_cents m) (2 ^ 64 - 1)"
  "unat (max_duration_seconds (subagent_budget_reservation_totals m)) = min (reserved_by max_duration_seconds m) (2 ^ 64 - 1)"
  by (simp_all add: subagent_budget_reservation_totals_def reserved_by_def totals_from)

lemma reserved_by_insert:
  "\<not> bt_contains_key k m \<Longrightarrow> reserved_by f (bt_insert k r m) = reserved_by f m + unat (f (br_budget r))"
  by (induction m rule: bt_insert.induct) (auto simp: reserved_by_def bt_contains_key_def bt_get_def split: if_splits)

lemma inserted_reservation:
  assumes "insert_subagent_budget_reservation m agent_id request = Inr m'"
  shows "reserved_by f m' = reserved_by f m + unat (f (ssr_budget request))"
    "bt_get (ssr_delegation_id request) m' = Some (reservation_new agent_id request)" "bt_get (ssr_delegation_id request) m = None"
  using assms
  by (auto simp: insert_subagent_budget_reservation_def Let_def reserved_by_insert reservation_new_def bt_get_insert
      bt_contains_key_def split: if_splits)

lemma insert_all_reserves:
  "insert_all malformed requests m = Inr m' \<Longrightarrow>
     reserved_by f m' = reserved_by f m + (\<Sum>request\<leftarrow>map snd requests. unat (f (ssr_budget request)))"
proof (induction malformed requests m rule: insert_all.induct)
  case (2 malformed agent_id request rest m)
  then show ?case by (auto dest!: inserted_reservation(1) [where f = f] split: sum.splits)
qed simp

text \<open>
  The ledger of a recovered attempt adds up. If it can be rebuilt from the pending, active and queued delegations of a
  checkpoint, its totals are the sums of their budgets, exact up to the largest 64-bit number.
\<close>
theorem rebuilt_ledger_totals:
  assumes "rebuild_subagent_budget_reservations pending active receipts = Inr m"
  defines "requests \<equiv> pending @ map snd active @ map snd (queued_requests receipts)"
  shows "unat (max_tokens (subagent_budget_reservation_totals m)) =
      min (\<Sum>r\<leftarrow>requests. unat (max_tokens (ssr_budget r))) (2 ^ 64 - 1) \<and>
    unat (max_cost_cents (subagent_budget_reservation_totals m)) =
      min (\<Sum>r\<leftarrow>requests. unat (max_cost_cents (ssr_budget r))) (2 ^ 64 - 1) \<and>
    unat (max_duration_seconds (subagent_budget_reservation_totals m)) =
      min (\<Sum>r\<leftarrow>requests. unat (max_duration_seconds (ssr_budget r))) (2 ^ 64 - 1)"
proof -
  have sum: "reserved_by f m = (\<Sum>r\<leftarrow>requests. unat (f (ssr_budget r)))" for f
    using assms(1)
    by (auto simp: rebuild_subagent_budget_reservations_def requests_def reserved_by_def [of f "[]"] comp_def
        dest!: insert_all_reserves [where f = f] split: sum.splits)
  then show ?thesis by (simp add: reservation_totals)
qed

section \<open>Execution time across recoveries\<close>

lemma saturating_add_mono: "unat a \<le> unat (saturating_add a (b :: u64))"
  using unat_u64 [of a] by (simp add: unat_saturating_add)



definition sample_delegation :: subagent_spawn_request where
  "sample_delegation = \<lparr>ssr_tool_call_id = ''c'', ssr_delegation_id = 7, ssr_role = ''reader'', ssr_input = ''look'',
     ssr_budget = \<lparr>max_tokens = 100, max_cost_cents = 5, max_duration_seconds = 60\<rparr>,
     ssr_binding_digest = replicate 64 (CHR ''0''), ssr_mode = Inline, ssr_conversation_history = []\<rparr>"

theorem rebuilt_ledger_totals_witness:
  "\<exists>m. rebuild_subagent_budget_reservations [sample_delegation] [] [] = Inr m \<and>
     unat (max_tokens (subagent_budget_reservation_totals m)) = 100"
proof -
  have "is_lower_hex_sha256 (replicate 64 (CHR ''0''))" "\<not> is_blank ''c''" by code_simp+
  then obtain m where m: "rebuild_subagent_budget_reservations [sample_delegation] [] [] = Inr m"
    by (simp add: rebuild_subagent_budget_reservations_def queued_requests_def insert_subagent_budget_reservation_def
        reservation_is_well_formed_def reservation_new_def sample_delegation_def is_nil_def bt_contains_key_def bt_get_def)
  with rebuilt_ledger_totals [OF m] show ?thesis by (auto simp: queued_requests_def sample_delegation_def)
qed

end
