(* ===== verification/Worker_Execution.thy ===== *)
theory Worker_Execution
  imports Run_Contract Model_Wire Worker_Budget Control_Commands Execution_Command "HOL-Library.Multiset"
begin

text \<open>
  One attempt in the worker: \<open>ActiveExecution\<close> and the operations of \<open>WorkerProcessor\<close> in
  \<open>runtime/apps/worker/src/lib.rs\<close> that take a Run from its first model event to its terminal event. The kernel is the
  machine of \<open>Run_Machine\<close>. An operation may have changed the state before it fails, as in the source, so it is an
  early-return computation over the execution. A \<open>HashMap\<close> is an ordered map, since no operation depends on its order.

  The argument structures of the delegation Tools and of the MCP read Tools are read by functions that are parameters. The
  operations on running subagents, MCP input and context compaction, and the restoring of a checkpoint, are not here.

  The lemmas follow the Tool calls of a turn to their results, the budget to the end of the Run, and the terminal event to
  the reader of the terminal checkpoint.
\<close>

section \<open>Texts\<close>

text \<open>The bytes of the sentence a model reads after a refusal.\<close>

definition REFUSAL_CONSTRAINT :: string where
  "REFUSAL_CONSTRAINT = map (\<lambda>b :: nat. char_of b)
     [228, 184, 141, 232, 166, 129, 231, 148, 168, 229, 136, 171, 231, 154, 132, 229, 138, 158, 230, 179, 149, 232, 190, 190,
      229, 136, 176, 229, 144, 140, 230, 160, 183, 231, 154, 132, 230, 149, 136, 230, 158, 156, 239, 188, 140, 228, 185, 159,
      228, 184, 141, 232, 166, 129, 231, 187, 149, 229, 188, 128, 232, 191, 153, 230, 172, 161, 230, 139, 146, 231, 187, 157,
      227, 128, 130, 229, 143, 170, 230, 156, 137, 229, 156, 168, 230, 141, 162, 230, 136, 144, 228, 184, 128, 228, 184, 170,
      230, 152, 142, 230, 152, 190, 230, 155, 180, 229, 174, 137, 229, 133, 168, 231, 154, 132, 229, 129, 154, 230, 179, 149,
      239, 188, 140, 230, 136, 150, 232, 128, 133, 230, 138, 138, 233, 163, 142, 233, 153, 169, 232, 175, 180, 230, 184, 133,
      230, 165, 154, 228, 185, 139, 229, 144, 142, 229, 175, 185, 230, 150, 185, 230, 152, 142, 231, 161, 174, 229, 144, 140,
      230, 132, 143, 230, 151, 182, 239, 188, 140, 230, 137, 141, 231, 187, 167, 231, 187, 173, 239, 188, 155, 229, 144, 166,
      229, 136, 153, 229, 176, 177, 229, 129, 156, 228, 184, 139, 230, 157, 165, 233, 151, 174, 227, 128, 130]"

definition WORKER_CHECKPOINT_SCHEMA_VERSION :: u32 where
  "WORKER_CHECKPOINT_SCHEMA_VERSION = 27"

section \<open>Errors\<close>

text \<open>
  The errors of the operations below. Where the source keeps the text of an error, the constructor keeps the error the text
  is made from.
\<close>

datatype tool_configuration = RegistryRefused registry_error | NotActivated string | NoBoundServer

datatype worker_assignment_error =
    UnknownAttempt
  | AttemptAlreadyTerminal
  | AttemptConflict
  | WrongWorker
  | WrongWorkerIncarnation
  | KernelTransition transition_error
  | ToolConfiguration tool_configuration
  | InvalidToolCall
  | EmptyToolTurn
  | NoPendingToolCall
  | ToolCallNotExecuting
  | ToolResultBindingMismatch
  | ToolExecutionBindingMismatch
  | McpInputBindingMismatch
  | ToolExecutionNotStarted
  | InvalidParallelToolBatch
  | SubagentResultBindingMismatch
  | SubagentMessageConflict
  | ApprovalBindingMismatch
  | InvalidApprovalDecision tool_approval_decision_validation_error
  | ApprovalDecisionExpired
  | ToolTurnIncomplete
  | BudgetExhausted
  | InvalidTranscript string
  | InvalidWorkerCheckpoint string
  | AmbiguousToolExecution
  | TerminalNotReady
  | TerminalEventMismatch

section \<open>Arguments of the delegation and read Tools\<close>

record spawn_arguments =
  sa_role :: string
  sa_input :: string
  sa_max_tokens :: u64
  sa_max_cost_cents :: u64
  sa_max_duration_seconds :: u64
  sa_mode :: subagent_spawn_mode

record send_arguments =
  na_agent_id :: uuid
  na_generation :: "u64 option"
  na_message :: string
  na_idempotency_key :: string
  na_interrupt :: bool

record history_arguments =
  ha_agent_id :: uuid
  ha_generation :: "u64 option"
  ha_after_activation_ordinal :: "u64 option"
  ha_limit :: u16

record fork_arguments =
  fa_source_agent_id :: uuid
  fa_source_generation :: u64
  fa_through_activation_ordinal :: u64
  fa_max_tokens :: u64
  fa_max_cost_cents :: u64
  fa_max_duration_seconds :: u64

record rollback_arguments =
  ra_agent_id :: uuid
  ra_generation :: u64
  ra_through_activation_ordinal :: u64

text \<open>
  \<open>serde_json::from_value\<close> for the argument structures, and SHA-256 as bytes.
\<close>

record worker_externals =
  wx_ext :: externals
  wx_sha256 :: "u8 list \<Rightarrow> u8 list"
  wx_spawn :: "json \<Rightarrow> spawn_arguments option"
  wx_wait :: "json \<Rightarrow> (uuid \<times> u64) option"
  wx_close :: "json \<Rightarrow> uuid option"
  wx_send :: "json \<Rightarrow> send_arguments option"
  wx_history :: "json \<Rightarrow> history_arguments option"
  wx_fork :: "json \<Rightarrow> fork_arguments option"
  wx_rollback :: "json \<Rightarrow> rollback_arguments option"
  wx_paged_read :: "json \<Rightarrow> (string \<times> string option) option"
  wx_read_resource :: "json \<Rightarrow> (string \<times> string) option"
  wx_get_prompt :: "json \<Rightarrow> (string \<times> string \<times> json option) option"

section \<open>State of an attempt\<close>

record staged_ordered_tool_result =
  sg_request :: tool_execution_request
  sg_content :: json
  sg_is_error :: bool

record resolved_mcp_input =
  rmi_pending :: mcp_input_required
  rmi_continuation :: mcp_input_continuation
  rmi_resolution_event :: event_envelope

record read_server_binding =
  rb_server :: mcp_server_snapshot
  rb_frozen_catalog_digest :: string
  rb_capabilities :: "mcp_server_capability list"

record tool_approval_outcome =
  ao_events :: "event_envelope list"
  ao_execution :: "tool_execution_request option"

record approval_decision_receipt =
  ar_command :: tool_approval_decision_command
  ar_outcome :: tool_approval_outcome

record applied_approval_decision =
  ap_binding_digest :: string
  ap_decision :: tool_approval_decision

record active_execution =
  ex_command :: run_execution_command
  ex_machine :: run_machine
  ex_cancelled :: bool
  ex_started_event :: "event_envelope option"
  ex_terminal_event :: "event_envelope option"
  ex_transcript :: "model_message list"
  ex_assistant_text_buffer :: string
  ex_assistant_rich_content_buffer :: "wire_part list"
  ex_effective_tool_names :: "string list"
  ex_pending_tool_calls :: "tool_call list"
  ex_outstanding_tool_calls :: "(string, tool_execution_request) btree"
  ex_started_tool_calls :: "(string, event_envelope) btree"
  ex_ordered_tool_commit_queue :: "string list"
  ex_staged_ordered_tool_results :: "(string, staged_ordered_tool_result) btree"
  ex_pending_approval :: "tool_approval_request option"
  ex_pending_mcp_input :: "mcp_input_required option"
  ex_resolved_mcp_input :: "resolved_mcp_input option"
  ex_pending_subagents :: "subagent_spawn_request list"
  ex_active_subagents :: "(uuid, subagent_spawn_request) btree"
  ex_completed_subagents :: "(uuid, subagent_result_delivery) btree"
  ex_subagent_handles :: "(uuid, subagent_spawn_request) btree"
  ex_subagent_message_sequences :: "(uuid, u64) btree"
  ex_subagent_message_receipts :: "(uuid, (string, subagent_message_receipt) btree) btree"
  ex_subagent_message_queues :: "(uuid, string list) btree"
  ex_subagent_conversations :: "(uuid, subagent_conversation_turn list) btree"
  ex_subagent_activation_sequences :: "(uuid, u64) btree"
  ex_subagent_generations :: "(uuid, u64) btree"
  ex_subagent_budget_reservations :: reservations
  ex_closed_subagents :: "uuid list"
  ex_subagent_result_receipts :: "(string, string \<times> event_envelope) btree"
  ex_budget_usage :: budget_usage
  ex_execution_time :: execution_time_budget
  ex_federated_registry :: "tool_registry option"
  ex_runtime_mcp_read_servers :: "(string, read_server_binding) btree"
  ex_pending_budget_exhaustion :: "pending_budget_exhaustion option"
  ex_approval_decisions :: "(uuid, approval_decision_receipt) btree"
  ex_applied_approval_decisions :: "(uuid, applied_approval_decision) btree"

type_synonym 'a attempt_io = "(active_execution, worker_assignment_error, 'a) io"

text \<open>A call of the kernel: its error is the error of the operation, and the machine is the one it leaves.\<close>

definition kernel :: "(run_machine \<Rightarrow> outcome) \<Rightarrow> event_envelope attempt_io" where
  "kernel operation x =
     (case operation (ex_machine x) of (r, m) \<Rightarrow> (map_sum KernelTransition id r, x\<lparr>ex_machine := m\<rparr>))"

definition push_transcript :: "model_message \<Rightarrow> unit attempt_io" where
  "push_transcript m = update (\<lambda>x. x\<lparr>ex_transcript := ex_transcript x @ [m]\<rparr>)"

definition tool_result_message :: "externals \<Rightarrow> string \<Rightarrow> json \<Rightarrow> model_message" where
  "tool_result_message ext tool_call_id content =
     \<lparr>mm_role = model_role ToolRole, mm_content = [Some (WireToolResult tool_call_id (ext_to_vec ext content))]\<rparr>"

definition require :: "bool \<Rightarrow> worker_assignment_error \<Rightarrow> unit attempt_io" where
  "require p e = (if p then finish () else give_up e)"

definition set_terminal :: "event_envelope \<Rightarrow> event_envelope attempt_io" where
  "set_terminal event = then_do (update (\<lambda>x. x\<lparr>ex_terminal_event := Some event\<rparr>)) (\<lambda>_. finish event)"

section \<open>Model events\<close>

definition terminate_budget_exhaustion :: "externals \<Rightarrow> ambient \<Rightarrow> budget_dimension \<Rightarrow> event_envelope attempt_io" where
  "terminate_budget_exhaustion ext amb dimension =
     then_do (update (\<lambda>x. x\<lparr>ex_cancelled := True, ex_pending_budget_exhaustion := None, ex_pending_tool_calls := [],
                ex_subagent_budget_reservations := []\<rparr>))
       (\<lambda>_. then_do (kernel (record_budget_exhausted ext amb dimension)) set_terminal)"

definition malformed_tool_call :: "active_execution \<Rightarrow> model_stream_event \<Rightarrow> bool" where
  "malformed_tool_call x event =
     (case event of
        ModelToolCall call_id name arguments \<Rightarrow>
          is_blank call_id \<or> is_blank name \<or> list_ex (\<lambda>call. tc_id call = call_id) (ex_pending_tool_calls x) \<or>
          bt_contains_key call_id (ex_outstanding_tool_calls x)
      | _ \<Rightarrow> False)"

definition out_of_bounds :: "model_stream_event \<Rightarrow> string option" where
  "out_of_bounds event =
     (case event of
        Reasoning summary private_state \<Rightarrow>
          if 64 < length summary \<or> list_ex (\<lambda>item. 32000 < length item) summary \<or> malformed_state private_state
          then Some ''model reasoning item is malformed or exceeds its bound'' else None
      | Refusal text \<Rightarrow>
          if is_blank text \<or> 128000 < length text then Some ''model refusal is blank or exceeds its bound'' else None
      | PrivateStateOmitted origin_provider_id target_provider_id format \<Rightarrow>
          if is_blank origin_provider_id \<or> is_blank target_provider_id \<or> is_blank format \<or>
             128 < length origin_provider_id \<or> 128 < length target_provider_id \<or> 128 < length format
          then Some ''private-state omission audit is malformed'' else None
      | _ \<Rightarrow> None)"

definition assistant_content :: "active_execution \<Rightarrow> wire_part list" where
  "assistant_content x =
     ex_assistant_rich_content_buffer x @
     (if ex_assistant_text_buffer x \<noteq> [] then [WireText (ex_assistant_text_buffer x)] else [])"

definition commit_turn :: "wire_part list \<Rightarrow> active_execution \<Rightarrow> active_execution" where
  "commit_turn content x =
     x\<lparr>ex_assistant_rich_content_buffer := [], ex_assistant_text_buffer := [],
       ex_transcript := ex_transcript x @ [\<lparr>mm_role = model_role AssistantRole, mm_content = map Some content\<rparr>]\<rparr>"

definition call_part :: "externals \<Rightarrow> tool_call \<Rightarrow> wire_part" where
  "call_part ext call = WireToolCall (tc_id call) (tc_name call) (ext_to_vec ext (tc_arguments call))"

definition retain_model_event :: "externals \<Rightarrow> model_stream_event \<Rightarrow> active_execution \<Rightarrow> active_execution" where
  "retain_model_event ext event x =
     (case event of
        TextDelta text _ \<Rightarrow> x\<lparr>ex_assistant_text_buffer := ex_assistant_text_buffer x @ text\<rparr>
      | Reasoning summary private_state \<Rightarrow>
          x\<lparr>ex_assistant_rich_content_buffer := ex_assistant_rich_content_buffer x @ [WireReasoning summary private_state]\<rparr>
      | Refusal text \<Rightarrow>
          x\<lparr>ex_assistant_rich_content_buffer := ex_assistant_rich_content_buffer x @ [WireRefusal text]\<rparr>
      | Usage input_tokens output_tokens cost_micros \<Rightarrow>
          (let usage = charge (saturating_add input_tokens output_tokens) cost_micros (ex_budget_usage x)
           in x\<lparr>ex_budget_usage := usage,
                ex_pending_budget_exhaustion := budget_exhaustion usage (xc_budget (ex_command x))\<rparr>)
      | ModelToolCall call_id name arguments \<Rightarrow>
          x\<lparr>ex_pending_tool_calls := ex_pending_tool_calls x @ [\<lparr>tc_id = call_id, tc_name = name, tc_arguments = arguments\<rparr>]\<rparr>
      | Completed ToolCalls \<Rightarrow>
          commit_turn (assistant_content x @ map (call_part ext) (ex_pending_tool_calls x)) x
      | Completed Stop \<Rightarrow>
          if ex_assistant_text_buffer x \<noteq> [] \<or> ex_assistant_rich_content_buffer x \<noteq> []
          then commit_turn (assistant_content x) x else x
      | _ \<Rightarrow> x)"

definition settle_terminal :: "event_envelope \<Rightarrow> active_execution \<Rightarrow> active_execution" where
  "settle_terminal event x =
     (if is_terminal (rm_status (ex_machine x))
      then x\<lparr>ex_cancelled := True, ex_subagent_budget_reservations := [], ex_terminal_event := Some event\<rparr> else x)"

definition accept_model_event :: "externals \<Rightarrow> ambient \<Rightarrow> model_stream_event \<Rightarrow> event_envelope attempt_io" where
  "accept_model_event ext amb event =
     inspect (\<lambda>x.
       if malformed_tool_call x event then give_up InvalidToolCall
       else (case out_of_bounds event of
           Some e \<Rightarrow> give_up (InvalidTranscript e)
         | None \<Rightarrow>
             if event = Completed ToolCalls \<and> ex_pending_tool_calls x = [] then give_up EmptyToolTurn
             else then_do (kernel (apply_model_event ext amb event))
                    (\<lambda>envelope. then_do (update (\<lambda>x. settle_terminal envelope (retain_model_event ext event x)))
                       (\<lambda>_. finish envelope))))"

definition worker_apply_model_event :: "externals \<Rightarrow> ambient \<Rightarrow> model_stream_event \<Rightarrow> event_envelope attempt_io" where
  "worker_apply_model_event ext amb event =
     inspect (\<lambda>x.
       if ex_terminal_event x \<noteq> None then give_up AttemptAlreadyTerminal
       else (case ex_pending_budget_exhaustion x of
           None \<Rightarrow> accept_model_event ext amb event
         | Some exhaustion \<Rightarrow>
             if event = Completed ToolCalls \<or> pe_exceeded exhaustion
             then terminate_budget_exhaustion ext amb (pe_dimension exhaustion)
             else then_do (update (\<lambda>x. if event = Completed Stop then x\<lparr>ex_pending_budget_exhaustion := None\<rparr> else x))
                    (\<lambda>_. accept_model_event ext amb event)))"

section \<open>Start and end of an attempt\<close>

definition worker_start :: "externals \<Rightarrow> ambient \<Rightarrow> event_envelope attempt_io" where
  "worker_start ext amb =
     inspect (\<lambda>x. case ex_started_event x of
         Some event \<Rightarrow> finish event
       | None \<Rightarrow> then_do (kernel (apply_command ext amb Start))
           (\<lambda>event. then_do (update (\<lambda>x. x\<lparr>ex_started_event := Some event\<rparr>)) (\<lambda>_. finish event)))"

definition worker_required_mcp_unavailable :: "externals \<Rightarrow> ambient \<Rightarrow> string list \<Rightarrow> event_envelope attempt_io" where
  "worker_required_mcp_unavailable ext amb server_names =
     (if server_names = [] \<or> list_ex (\<lambda>name. is_blank name \<or> 128 < length name) server_names
      then give_up (ToolConfiguration NoBoundServer)
      else inspect (\<lambda>x.
        if ex_terminal_event x \<noteq> None then give_up AttemptAlreadyTerminal
        else then_do (kernel (record_required_mcp_unavailable ext amb server_names))
          (\<lambda>event. then_do (update (\<lambda>x. x\<lparr>ex_cancelled := True, ex_subagent_budget_reservations := []\<rparr>)) (\<lambda>_. set_terminal event))))"

definition terminate_pending_budget_exhaustion :: "externals \<Rightarrow> ambient \<Rightarrow> event_envelope option attempt_io" where
  "terminate_pending_budget_exhaustion ext amb =
     inspect (\<lambda>x. case ex_terminal_event x of
         Some terminal \<Rightarrow> finish (Some terminal)
       | None \<Rightarrow>
           (case ex_pending_budget_exhaustion x of
              None \<Rightarrow> finish None
            | Some exhaustion \<Rightarrow>
                then_do (terminate_budget_exhaustion ext amb (pe_dimension exhaustion)) (\<lambda>event. finish (Some event))))"

definition uncertain_calls :: "active_execution \<Rightarrow> (tool_execution_request \<times> event_envelope) list" where
  "uncertain_calls x =
     List.map_filter (\<lambda>(tool_call_id, started).
       case bt_get tool_call_id (ex_outstanding_tool_calls x) of
         None \<Rightarrow> None
       | Some request \<Rightarrow>
           if ter_effect request = NonIdempotent \<or> ter_effect request = Unknown then Some (request, started) else None)
       (ex_started_tool_calls x)"

definition tool_outcome_uncertainty ::
  "active_execution \<Rightarrow> (worker_assignment_error, (tool_execution_request \<times> event_envelope) option) result" where
  "tool_outcome_uncertainty x =
     (case uncertain_calls x of
        [] \<Rightarrow> Inr None
      | [uncertainty] \<Rightarrow> Inr (Some uncertainty)
      | _ \<Rightarrow> Inl (InvalidWorkerCheckpoint ''serial worker checkpoint contains multiple ambiguous tools''))"

datatype run_interruption = Cancellation | DurationTimeout

definition interruption_fields :: "run_interruption option \<Rightarrow> json \<Rightarrow> json" where
  "interruption_fields interruption payload =
     (case interruption of
        None \<Rightarrow> payload
      | Some Cancellation \<Rightarrow>
          jset ''requested_status'' (ser_run_status Cancelled) (jset ''interrupted_by'' (JString ''cancellation'') payload)
      | Some DurationTimeout \<Rightarrow>
          jset ''requested_status'' (ser_run_status TimedOut) (jset ''interrupted_by'' (JString ''duration_timeout'') payload))"

text \<open>The payload of the event is extended after the kernel made the event, in the order of the source; the digest is not.\<close>

definition describe_uncertainty ::
  "externals \<Rightarrow> tool_execution_request \<Rightarrow> event_envelope \<Rightarrow> run_interruption option \<Rightarrow> event_envelope \<Rightarrow> event_envelope" where
  "describe_uncertainty ext request started interruption event =
     event\<lparr>ee_payload := interruption_fields interruption
       (jset ''reason'' (JString ''tool_outcome_unknown'')
       (jset ''started_sequence'' (ju64 (ee_sequence started))
       (jset ''started_event_id'' (juuid ext (ee_event_id started))
       (jset ''source_attempt_id'' (juuid ext (ee_attempt_id started))
       (jset ''sandbox'' (ser_sandbox_class (ter_sandbox request))
       (jset ''binding_digest'' (JString (ter_binding_digest request))
       (jset ''tool_name'' (JString (tc_name (ter_call request)))
       (jset ''tool_call_id'' (JString (tc_id (ter_call request))) (ee_payload event)))))))))\<rparr>"

definition terminate_uncertain_tool_with_interruption ::
  "externals \<Rightarrow> ambient \<Rightarrow> run_interruption option \<Rightarrow> event_envelope attempt_io" where
  "terminate_uncertain_tool_with_interruption ext amb interruption =
     inspect (\<lambda>x. case tool_outcome_uncertainty x of
         Inl e \<Rightarrow> give_up e
       | Inr None \<Rightarrow> give_up AmbiguousToolExecution
       | Inr (Some (request, started)) \<Rightarrow>
           (case ex_terminal_event x of
              Some terminal \<Rightarrow> finish terminal
            | None \<Rightarrow>
                then_do (update (\<lambda>x. x\<lparr>ex_cancelled := True\<rparr>))
                  (\<lambda>_. then_do (kernel (apply_command ext amb (ToolOutcomeUnknown (ter_effect request))))
                    (\<lambda>event. set_terminal (describe_uncertainty ext request started interruption event)))))"

definition terminate_uncertain_tool :: "externals \<Rightarrow> ambient \<Rightarrow> event_envelope attempt_io" where
  "terminate_uncertain_tool ext amb = terminate_uncertain_tool_with_interruption ext amb None"

definition interrupt ::
  "externals \<Rightarrow> ambient \<Rightarrow> run_interruption \<Rightarrow> event_envelope attempt_io \<Rightarrow> event_envelope attempt_io" where
  "interrupt ext amb interruption otherwise =
     inspect (\<lambda>x. case ex_terminal_event x of
         Some terminal \<Rightarrow> finish terminal
       | None \<Rightarrow>
           (case tool_outcome_uncertainty x of
              Inl e \<Rightarrow> give_up e
            | Inr (Some _) \<Rightarrow> terminate_uncertain_tool_with_interruption ext amb (Some interruption)
            | Inr None \<Rightarrow> otherwise))"

definition timeout_duration :: "externals \<Rightarrow> ambient \<Rightarrow> event_envelope attempt_io" where
  "timeout_duration ext amb =
     interrupt ext amb DurationTimeout
       (then_do (update (\<lambda>x. x\<lparr>ex_cancelled := True, ex_pending_tool_calls := [], ex_subagent_budget_reservations := []\<rparr>))
         (\<lambda>_. then_do (kernel (record_duration_timed_out ext amb)) set_terminal))"

definition worker_cancel :: "externals \<Rightarrow> ambient \<Rightarrow> event_envelope attempt_io" where
  "worker_cancel ext amb =
     interrupt ext amb Cancellation
       (then_do (update (\<lambda>x. x\<lparr>ex_cancelled := True, ex_subagent_budget_reservations := []\<rparr>))
         (\<lambda>_. then_do (kernel (apply_command ext amb Cancel)) set_terminal))"

definition pause_duration_budget :: "nat \<Rightarrow> unit attempt_io" where
  "pause_duration_budget now =
     update (\<lambda>x. if ex_terminal_event x = None then x\<lparr>ex_execution_time := time_pause now (ex_execution_time x)\<rparr> else x)"

text \<open>The part of \<open>prepare_model_invocation\<close> that decides whether the model may be called: the tokens that remain for it.\<close>

definition model_invocation_tokens :: "active_execution \<Rightarrow> (worker_assignment_error, u64) result" where
  "model_invocation_tokens x =
     (if ex_pending_approval x \<noteq> None \<or> ex_pending_subagents x \<noteq> [] \<or> ex_pending_tool_calls x \<noteq> [] \<or>
         ex_outstanding_tool_calls x \<noteq> []
      then Inl ToolTurnIncomplete
      else if ex_pending_budget_exhaustion x \<noteq> None then Inl BudgetExhausted
      else (let reserved = subagent_budget_reservation_totals (ex_subagent_budget_reservations x);
                remaining_tokens = saturating_sub (saturating_sub (max_tokens (xc_budget (ex_command x))) (bu_tokens (ex_budget_usage x)))
                  (max_tokens reserved)
            in if remaining_tokens = 0 then Inl BudgetExhausted else Inr remaining_tokens))"

section \<open>Delegation and read Tools\<close>

unbundle bit_operations_syntax

definition deterministic_delegation_id :: "worker_externals \<Rightarrow> run_execution_command \<Rightarrow> string \<Rightarrow> uuid" where
  "deterministic_delegation_id wx command tool_call_id =
     (let material = ''agent-runtime-subagent-v1'' @ [CHR 10] @ ext_uuid_text (wx_ext wx) (xc_tenant_id command) @ [CHR 10] @
            ext_uuid_text (wx_ext wx) (xc_run_id command) @ [CHR 10] @ tool_call_id;
          bytes = take 16 (wx_sha256 wx (as_bytes material));
          bytes = bytes[6 := (bytes ! 6 AND 0x0F) OR 0x50];
          bytes = bytes[8 := (bytes ! 8 AND 0x3F) OR 0x80]
      in foldl (\<lambda>u b. push_bit 8 u OR ucast b) 0 bytes)"

definition subagent_binding_digest ::
  "externals \<Rightarrow> run_execution_command \<Rightarrow> tool_call \<Rightarrow> uuid \<Rightarrow> spawn_arguments \<Rightarrow> string" where
  "subagent_binding_digest ext command call delegation_id arguments =
     json_digest ext (jobj
       [(''schema_version'', ju64 1), (''tenant_id'', juuid ext (xc_tenant_id command)),
        (''parent_run_id'', juuid ext (xc_run_id command)), (''parent_attempt_id'', juuid ext (xc_attempt_id command)),
        (''tool_call_id'', JString (tc_id call)), (''delegation_id'', juuid ext delegation_id),
        (''role'', JString (sa_role arguments)), (''input'', JString (sa_input arguments)),
        (''mode'', ser_spawn_mode (sa_mode arguments)),
        (''budget'', jobj [(''max_tokens'', ju64 (sa_max_tokens arguments)),
           (''max_cost_cents'', ju64 (sa_max_cost_cents arguments)),
           (''max_duration_seconds'', ju64 (sa_max_duration_seconds arguments))])])"

definition subagent_control_request ::
  "externals \<Rightarrow> run_execution_command \<Rightarrow> tool_call \<Rightarrow> tool_effect \<Rightarrow> tool_execution_request" where
  "subagent_control_request ext command call effect =
     \<lparr>ter_call = call, ter_effect = effect, ter_sandbox = TrustedNative, ter_binding_digest = json_digest ext (jobj
        [(''schema_version'', ju64 1), (''tenant_id'', juuid ext (xc_tenant_id command)),
         (''parent_run_id'', juuid ext (xc_run_id command)), (''parent_attempt_id'', juuid ext (xc_attempt_id command)),
         (''tool_call'', ser_tool_call call)])\<rparr>"

definition may_spawn :: "active_execution \<Rightarrow> bool" where
  "may_spawn x \<longleftrightarrow> ''agent:spawn'' \<in> set (xc_delegated_scopes (ex_command x))"

definition known_subagent :: "active_execution \<Rightarrow> uuid \<Rightarrow> bool" where
  "known_subagent x agent_id \<longleftrightarrow>
     bt_contains_key agent_id (ex_active_subagents x) \<or> bt_contains_key agent_id (ex_completed_subagents x)"

definition history_allowed :: "active_execution \<Rightarrow> history_arguments \<Rightarrow> bool" where
  "history_allowed x a \<longleftrightarrow>
     may_spawn x \<and> ha_limit a \<noteq> 0 \<and> ha_limit a \<le> 50 \<and> bt_contains_key (ha_agent_id a) (ex_subagent_handles x) \<and>
     (case bt_get (ha_agent_id a) (ex_subagent_generations x) of
        None \<Rightarrow> False
      | Some current \<Rightarrow> (case ha_generation a of None \<Rightarrow> True | Some g \<Rightarrow> g \<noteq> 0 \<and> g \<le> current))"

definition wait_allowed :: "active_execution \<Rightarrow> uuid \<times> u64 \<Rightarrow> bool" where
  "wait_allowed x a \<longleftrightarrow> may_spawn x \<and> snd a \<noteq> 0 \<and> snd a \<le> 300000 \<and> known_subagent x (fst a)"

definition close_allowed :: "active_execution \<Rightarrow> uuid \<Rightarrow> bool" where
  "close_allowed x agent_id \<longleftrightarrow> may_spawn x \<and> known_subagent x agent_id"

definition valid_subagent_message_idempotency_key :: "string \<Rightarrow> bool" where
  "valid_subagent_message_idempotency_key v \<longleftrightarrow>
     v \<noteq> [] \<and> length v \<le> 128 \<and> list_all (\<lambda>c. is_ascii_alphanumeric c \<or> c \<in> set ''-_.:/'') v"

definition send_well_formed :: "active_execution \<Rightarrow> send_arguments \<Rightarrow> bool" where
  "send_well_formed x a \<longleftrightarrow>
     may_spawn x \<and> \<not> is_blank (na_message a) \<and> length (na_message a) \<le> 32000 \<and>
     valid_subagent_message_idempotency_key (na_idempotency_key a) \<and> bt_contains_key (na_agent_id a) (ex_subagent_handles x) \<and>
     (case bt_get (na_agent_id a) (ex_subagent_generations x) of
        None \<Rightarrow> False
      | Some current \<Rightarrow>
          \<not> (1 < current \<and> na_generation a \<noteq> Some current) \<and> (case na_generation a of None \<Rightarrow> True | Some g \<Rightarrow> g = current))"

definition check_send :: "externals \<Rightarrow> active_execution \<Rightarrow> send_arguments \<Rightarrow> (worker_assignment_error, unit) result" where
  "check_send ext x a =
     (if \<not> send_well_formed x a then Inl InvalidToolCall
      else (case Option.bind (bt_get (na_agent_id a) (ex_subagent_message_receipts x)) (bt_get (na_idempotency_key a)) of
          Some receipt \<Rightarrow>
            if mrc_message_digest receipt \<noteq> ext_sha256_hex ext (as_bytes (na_message a)) then Inl SubagentMessageConflict else Inr ()
        | None \<Rightarrow>
            if \<not> known_subagent x (na_agent_id a) \<or> na_agent_id a \<in> set (ex_closed_subagents x) \<or>
               (case bt_get (na_agent_id a) (ex_subagent_message_queues x) of None \<Rightarrow> False | Some queue \<Rightarrow> 8 \<le> length queue)
            then Inl InvalidToolCall else Inr ()))"

definition fork_allowed :: "active_execution \<Rightarrow> fork_arguments \<Rightarrow> bool" where
  "fork_allowed x a \<longleftrightarrow>
     (case (bt_get (fa_source_agent_id a) (ex_subagent_handles x), bt_get (fa_source_agent_id a) (ex_subagent_conversations x)) of
        (Some source, Some history) \<Rightarrow>
          may_spawn x \<and> bt_get (fa_source_agent_id a) (ex_subagent_generations x) = Some (fa_source_generation a) \<and>
          list_ex (\<lambda>turn. sct_activation_ordinal turn = fa_through_activation_ordinal a) history \<and>
          fa_max_tokens a \<noteq> 0 \<and> fa_max_tokens a \<le> max_tokens (ssr_budget source) \<and>
          fa_max_cost_cents a \<noteq> 0 \<and> fa_max_cost_cents a \<le> max_cost_cents (ssr_budget source) \<and>
          fa_max_duration_seconds a \<noteq> 0 \<and> fa_max_duration_seconds a \<le> max_duration_seconds (ssr_budget source)
      | _ \<Rightarrow> False)"

definition rollback_allowed :: "active_execution \<Rightarrow> rollback_arguments \<Rightarrow> bool" where
  "rollback_allowed x a \<longleftrightarrow>
     (case bt_get (ra_agent_id a) (ex_subagent_conversations x) of
        None \<Rightarrow> False
      | Some history \<Rightarrow>
          (let from_boundary = dropWhile (\<lambda>turn. sct_activation_ordinal turn \<noteq> ra_through_activation_ordinal a) history
           in 1 < length from_boundary \<and> may_spawn x \<and>
              bt_get (ra_agent_id a) (ex_subagent_generations x) = Some (ra_generation a) \<and>
              \<not> bt_contains_key (ra_agent_id a) (ex_active_subagents x) \<and> ra_agent_id a \<notin> set (ex_closed_subagents x) \<and>
              bt_contains_key (ra_agent_id a) (ex_completed_subagents x) \<and>
              (case bt_get (ra_agent_id a) (ex_subagent_message_queues x) of None \<Rightarrow> True | Some queue \<Rightarrow> queue = [])))"

definition has_control :: "string \<Rightarrow> bool" where
  "has_control s =
     list_ex (\<lambda>c. case c of
         [a] \<Rightarrow> code a < 32 \<or> code a = 127
       | [a, b] \<Rightarrow> code a = 0xC2 \<and> 0x80 \<le> code b \<and> code b \<le> 0x9F
       | _ \<Rightarrow> False) (chars s)"

definition is_runtime_mcp_read_tool :: "string \<Rightarrow> bool" where
  "is_runtime_mcp_read_tool name \<longleftrightarrow>
     name \<in> {''list_mcp_resources'', ''read_mcp_resource'', ''list_mcp_resource_templates'', ''list_mcp_prompts'', ''get_mcp_prompt''}"

definition read_authorized ::
  "(string, read_server_binding) btree \<Rightarrow> string list \<Rightarrow> string \<Rightarrow> mcp_server_capability \<Rightarrow> bool" where
  "read_authorized servers delegated_scopes server capability \<longleftrightarrow>
     ''mcp:read:'' @ server \<in> set delegated_scopes \<and>
     (case bt_get server servers of None \<Rightarrow> False | Some binding \<Rightarrow> capability \<in> set (rb_capabilities binding))"

definition prompt_arguments_ok :: "externals \<Rightarrow> json option \<Rightarrow> bool" where
  "prompt_arguments_ok ext arguments =
     (case arguments of
        None \<Rightarrow> True
      | Some v \<Rightarrow>
          (case v of JObject kvs \<Rightarrow> length kvs \<le> 32 \<and> list_all (\<lambda>(_, f). case f of JString _ \<Rightarrow> True | _ \<Rightarrow> False) kvs | _ \<Rightarrow> False) \<and>
          length (ext_to_vec ext v) \<le> 64 * 1024)"

definition runtime_mcp_read_call_is_authorized ::
  "worker_externals \<Rightarrow> string \<Rightarrow> json \<Rightarrow> (string, read_server_binding) btree \<Rightarrow> string list \<Rightarrow> bool" where
  "runtime_mcp_read_call_is_authorized wx name arguments servers delegated_scopes =
     (let valid_cursor = (\<lambda>cursor. case cursor of None \<Rightarrow> True | Some c \<Rightarrow> c \<noteq> [] \<and> length c \<le> 2 * 1024);
          authorized = read_authorized servers delegated_scopes
      in if name = ''list_mcp_resources'' \<or> name = ''list_mcp_resource_templates''
         then (case wx_paged_read wx arguments of
                 None \<Rightarrow> False | Some (server, cursor) \<Rightarrow> valid_cursor cursor \<and> authorized server McpResources)
         else if name = ''read_mcp_resource''
         then (case wx_read_resource wx arguments of
                 None \<Rightarrow> False
               | Some (server, uri) \<Rightarrow>
                   uri \<noteq> [] \<and> length uri \<le> 4 * 1024 \<and> \<not> has_control uri \<and> authorized server McpResources)
         else if name = ''list_mcp_prompts''
         then (case wx_paged_read wx arguments of
                 None \<Rightarrow> False | Some (server, cursor) \<Rightarrow> valid_cursor cursor \<and> authorized server McpPrompts)
         else if name = ''get_mcp_prompt''
         then (case wx_get_prompt wx arguments of
                 None \<Rightarrow> False
               | Some (server, prompt, prompt_arguments) \<Rightarrow>
                   prompt \<noteq> [] \<and> length prompt \<le> 128 \<and> \<not> has_control prompt \<and>
                   prompt_arguments_ok (wx_ext wx) prompt_arguments \<and> authorized server McpPrompts)
         else False)"

section \<open>Planning a Tool call\<close>

record planned_tool_call =
  pl_plan :: tool_plan
  pl_event :: event_envelope
  pl_followup_event :: "event_envelope option"
  pl_subagent_request :: "subagent_spawn_request option"

text \<open>Identifiers and clocks a planning reads: of the two events it may emit, of an approval, and of the monotonic clock.\<close>

record planning_clock =
  pk_ambient :: ambient
  pk_followup :: ambient
  pk_now_v7 :: uuid
  pk_instant :: nat

definition pop_call :: "unit attempt_io" where
  "pop_call = update (\<lambda>x. x\<lparr>ex_pending_tool_calls := tl (ex_pending_tool_calls x)\<rparr>)"

definition await_result :: "tool_execution_request \<Rightarrow> unit attempt_io" where
  "await_result request =
     update (\<lambda>x. x\<lparr>ex_outstanding_tool_calls := bt_insert (tc_id (ter_call request)) request (ex_outstanding_tool_calls x)\<rparr>)"

definition plan_control ::
  "externals \<Rightarrow> ambient \<Rightarrow> run_execution_command \<Rightarrow> tool_call \<Rightarrow> tool_effect \<Rightarrow> planned_tool_call attempt_io" where
  "plan_control ext amb command call effect =
     (let request = subagent_control_request ext command call effect
      in then_do pop_call
           (\<lambda>_. then_do (kernel (apply_tool_plan ext amb (Execute request)))
             (\<lambda>event. then_do (await_result request)
               (\<lambda>_. finish \<lparr>pl_plan = Execute request, pl_event = event, pl_followup_event = None, pl_subagent_request = None\<rparr>))))"

definition remaining_spawn_seconds :: "active_execution \<Rightarrow> nat \<Rightarrow> u64 \<Rightarrow> u64" where
  "remaining_spawn_seconds x now reserved =
     (let ms = remaining (ex_execution_time x) (max_duration_seconds (xc_budget (ex_command x))) now div 1000000;
          seconds = (ms + 999) div 1000
      in saturating_sub (if seconds < 2 ^ 64 then of_nat seconds else - 1) reserved)"

definition spawn_request ::
  "worker_externals \<Rightarrow> nat \<Rightarrow> active_execution \<Rightarrow> tool_call \<Rightarrow> (worker_assignment_error, subagent_spawn_request) result" where
  "spawn_request wx now x call =
     (if 8 \<le> length (ex_pending_subagents x) + length (ex_active_subagents x) then Inl InvalidToolCall
      else (case wx_spawn wx (tc_arguments call) of
          None \<Rightarrow> Inl InvalidToolCall
        | Some arguments \<Rightarrow>
            (case List.find (\<lambda>role. sr_name role = sa_role arguments) (xc_subagent_roles (ex_command x)) of
               None \<Rightarrow> Inl InvalidToolCall
             | Some role \<Rightarrow>
                 (let budget = xc_budget (ex_command x);
                      used_cost_cents = saturating_add (bu_cost_micros (ex_budget_usage x)) 9999 div 10000;
                      remaining_tokens = saturating_sub (max_tokens budget) (bu_tokens (ex_budget_usage x));
                      remaining_cost_cents = saturating_sub (max_cost_cents budget) used_cost_cents;
                      reserved = subagent_budget_reservation_totals (ex_subagent_budget_reservations x)
                  in if \<not> may_spawn x \<or> \<not> set (sr_delegated_scopes role) \<subseteq> set (xc_delegated_scopes (ex_command x)) \<or>
                        sa_max_tokens arguments > saturating_sub remaining_tokens (max_tokens reserved) \<or>
                        sa_max_cost_cents arguments > saturating_sub remaining_cost_cents (max_cost_cents reserved) \<or>
                        remaining (ex_execution_time x) (max_duration_seconds budget) now = 0
                     then Inl InvalidToolCall
                     else (let arguments = arguments\<lparr>sa_max_duration_seconds :=
                                 min (sa_max_duration_seconds arguments) (remaining_spawn_seconds x now (max_duration_seconds reserved))\<rparr>;
                               delegation_id = deterministic_delegation_id wx (ex_command x) (tc_id call);
                               request = \<lparr>ssr_tool_call_id = tc_id call, ssr_delegation_id = delegation_id,
                                 ssr_role = sa_role arguments, ssr_input = sa_input arguments,
                                 ssr_budget = \<lparr>max_tokens = sa_max_tokens arguments, max_cost_cents = sa_max_cost_cents arguments,
                                   max_duration_seconds = sa_max_duration_seconds arguments\<rparr>,
                                 ssr_binding_digest = subagent_binding_digest (wx_ext wx) (ex_command x) call delegation_id arguments,
                                 ssr_mode = sa_mode arguments, ssr_conversation_history = []\<rparr>
                           in if spawn_request_is_well_formed (wx_ext wx) request then Inr request else Inl InvalidToolCall)))))"

definition reserve :: "uuid \<Rightarrow> subagent_spawn_request \<Rightarrow> unit attempt_io" where
  "reserve agent_id request x =
     (case insert_subagent_budget_reservation (ex_subagent_budget_reservations x) agent_id request of
        Inl _ \<Rightarrow> (Inl InvalidToolCall, x)
      | Inr m \<Rightarrow> (Inr (), x\<lparr>ex_subagent_budget_reservations := m\<rparr>))"

definition plan_spawn :: "externals \<Rightarrow> ambient \<Rightarrow> subagent_spawn_request \<Rightarrow> planned_tool_call attempt_io" where
  "plan_spawn ext amb request =
     then_do pop_call
       (\<lambda>_. then_do (kernel (record_subagent_spawn_requested ext amb request))
         (\<lambda>event. then_do (reserve (ssr_delegation_id request) request)
           (\<lambda>_. then_do (update (\<lambda>x. x\<lparr>ex_pending_subagents := ex_pending_subagents x @ [request]\<rparr>))
             (\<lambda>_. finish \<lparr>pl_plan = SubagentSpawn request, pl_event = event, pl_followup_event = None,
                    pl_subagent_request = Some request\<rparr>))))"

definition policy_denied_content :: json where
  "policy_denied_content = jobj [(''error'', jobj [(''code'', JString ''tool_policy_denied''),
     (''message'', JString (''tool execution is denied by runtime policy. '' @ REFUSAL_CONSTRAINT))])]"

definition follow_plan :: "externals \<Rightarrow> planning_clock \<Rightarrow> tool_plan \<Rightarrow> event_envelope option attempt_io" where
  "follow_plan ext clock planned =
     (case planned of
        Execute request \<Rightarrow> then_do (await_result request) (\<lambda>_. finish None)
      | AutoApproved request _ _ _ \<Rightarrow> then_do (await_result request) (\<lambda>_. finish None)
      | ApprovalRequired approval \<Rightarrow>
          then_do (update (\<lambda>x. x\<lparr>ex_pending_approval := Some approval,
                     ex_execution_time := time_pause (pk_instant clock) (ex_execution_time x)\<rparr>)) (\<lambda>_. finish None)
      | Denied request \<Rightarrow>
          then_do (kernel (record_tool_result ext (pk_followup clock) (tc_id (ter_call request)) (ter_binding_digest request)
                     policy_denied_content True))
            (\<lambda>event. then_do (push_transcript (tool_result_message ext (tc_id (ter_call request)) policy_denied_content))
              (\<lambda>_. finish (Some event)))
      | SubagentSpawn _ \<Rightarrow> finish None)"

definition plan_registered ::
  "worker_externals \<Rightarrow> planning_clock \<Rightarrow> tool_registry \<Rightarrow> tool_call \<Rightarrow> planned_tool_call attempt_io" where
  "plan_registered wx clock native call =
     inspect (\<lambda>x.
       let command = ex_command x; runtime_mcp_read = is_runtime_mcp_read_tool (tc_name call)
       in if runtime_mcp_read \<and> \<not> runtime_mcp_read_call_is_authorized wx (tc_name call) (tc_arguments call)
                (ex_runtime_mcp_read_servers x) (xc_delegated_scopes command)
          then give_up InvalidToolCall
          else if \<not> runtime_mcp_read \<and> tc_name call \<notin> set (ex_effective_tool_names x)
          then give_up (ToolConfiguration (NotActivated (tc_name call)))
          else (case plan (wx_ext wx) (pk_now_v7 clock) (or_default native (ex_federated_registry x)) call
                       (xc_delegated_scopes command) (xc_tool_approval_policies command) of
              Inl e \<Rightarrow> give_up (ToolConfiguration (RegistryRefused e))
            | Inr p \<Rightarrow>
                then_do pop_call
                  (\<lambda>_. then_do (kernel (apply_tool_plan (wx_ext wx) (pk_ambient clock) p))
                    (\<lambda>event. then_do (follow_plan (wx_ext wx) clock p)
                      (\<lambda>followup. finish \<lparr>pl_plan = p, pl_event = event, pl_followup_event = followup,
                         pl_subagent_request = None\<rparr>)))))"

text \<open>The checks of a delegation Tool and the effect it is planned with; \<open>None\<close> for every other Tool but \<open>agent.spawn\<close>.\<close>

definition control_check ::
  "worker_externals \<Rightarrow> active_execution \<Rightarrow> tool_call \<Rightarrow> (worker_assignment_error, tool_effect) result option" where
  "control_check wx x call =
     (let arguments = tc_arguments call;
          allow = (\<lambda>allowed effect. if allowed then Inr effect else Inl InvalidToolCall)
      in if tc_name call = ''agent.history''
         then Some (allow (case wx_history wx arguments of None \<Rightarrow> False | Some a \<Rightarrow> history_allowed x a) Pure)
         else if tc_name call = ''agent.wait''
         then Some (allow (case wx_wait wx arguments of None \<Rightarrow> False | Some a \<Rightarrow> wait_allowed x a) Pure)
         else if tc_name call = ''agent.close''
         then Some (allow (case wx_close wx arguments of None \<Rightarrow> False | Some a \<Rightarrow> close_allowed x a) Idempotent)
         else if tc_name call = ''agent.send''
         then Some (case wx_send wx arguments of
                      None \<Rightarrow> Inl InvalidToolCall
                    | Some a \<Rightarrow> map_sum id (\<lambda>_. Idempotent) (check_send (wx_ext wx) x a))
         else if tc_name call = ''agent.fork''
         then Some (allow (case wx_fork wx arguments of None \<Rightarrow> False | Some a \<Rightarrow> fork_allowed x a) Idempotent)
         else if tc_name call = ''agent.rollback''
         then Some (allow (case wx_rollback wx arguments of None \<Rightarrow> False | Some a \<Rightarrow> rollback_allowed x a) Idempotent)
         else None)"

definition plan_next_tool_call ::
  "worker_externals \<Rightarrow> planning_clock \<Rightarrow> tool_registry \<Rightarrow> planned_tool_call attempt_io" where
  "plan_next_tool_call wx clock native =
     inspect (\<lambda>x.
       if ex_pending_approval x \<noteq> None then give_up ToolTurnIncomplete
       else (case ex_pending_tool_calls x of
           [] \<Rightarrow> give_up NoPendingToolCall
         | call # _ \<Rightarrow>
             (case control_check wx x call of
                Some (Inl e) \<Rightarrow> give_up e
              | Some (Inr effect) \<Rightarrow> plan_control (wx_ext wx) (pk_ambient clock) (ex_command x) call effect
              | None \<Rightarrow>
                  if tc_name call = ''agent.spawn''
                  then (case spawn_request wx (pk_instant clock) x call of
                          Inl e \<Rightarrow> give_up e
                        | Inr request \<Rightarrow> plan_spawn (wx_ext wx) (pk_ambient clock) request)
                  else plan_registered wx clock native call)))"

section \<open>Approvals\<close>

definition bound_approval :: "active_execution \<Rightarrow> uuid \<Rightarrow> string \<Rightarrow> tool_approval_request option" where
  "bound_approval x approval_id binding_digest =
     (case ex_pending_approval x of
        None \<Rightarrow> None
      | Some approval \<Rightarrow>
          if tar_approval_id approval = approval_id \<and> ter_binding_digest (tar_execution approval) = binding_digest
          then Some approval else None)"

definition resume_approved :: "nat \<Rightarrow> unit attempt_io" where
  "resume_approved now =
     update (\<lambda>x. x\<lparr>ex_pending_approval := None, ex_execution_time := time_resume now (ex_execution_time x)\<rparr>)"

definition approve_tool_call ::
  "externals \<Rightarrow> ambient \<Rightarrow> nat \<Rightarrow> uuid \<Rightarrow> string \<Rightarrow> (event_envelope \<times> tool_execution_request) attempt_io" where
  "approve_tool_call ext amb now approval_id binding_digest =
     inspect (\<lambda>x. case bound_approval x approval_id binding_digest of
         None \<Rightarrow> give_up ApprovalBindingMismatch
       | Some approval \<Rightarrow>
           then_do (kernel (apply_command ext amb Approve))
             (\<lambda>event. then_do (resume_approved now)
               (\<lambda>_. then_do (await_result (tar_execution approval)) (\<lambda>_. finish (event, tar_execution approval)))))"

definition approval_denied_content :: "string option \<Rightarrow> json" where
  "approval_denied_content decision_reason =
     (case decision_reason of
        Some said \<Rightarrow> jobj [(''error'', jobj [(''code'', JString ''approval_denied''),
          (''message'', JString (''tool execution was denied by a reviewer: '' @ said @ '' '' @ REFUSAL_CONSTRAINT)),
          (''reason'', JString said)])]
      | None \<Rightarrow> jobj [(''error'', jobj [(''code'', JString ''approval_denied''),
          (''message'', JString (''tool execution was denied by a reviewer. '' @ REFUSAL_CONSTRAINT))])])"

definition decide_approval ::
  "externals \<Rightarrow> ambient \<Rightarrow> tool_approval_decision_command \<Rightarrow> tool_approval_request \<Rightarrow> event_envelope \<Rightarrow> tool_approval_outcome attempt_io" where
  "decide_approval ext amb command approval resumed =
     (let execution = tar_execution approval; tool_call_id = tc_id (ter_call execution)
      in case tad_decision command of
           AllowOnce \<Rightarrow>
             then_do (await_result execution) (\<lambda>_. finish \<lparr>ao_events = [resumed], ao_execution = Some execution\<rparr>)
         | DecisionDeny \<Rightarrow>
             (let content = approval_denied_content (tad_decision_reason command)
              in then_do (kernel (record_tool_result ext amb tool_call_id (ter_binding_digest execution) content True))
                   (\<lambda>denied. then_do (push_transcript (tool_result_message ext tool_call_id content))
                     (\<lambda>_. finish \<lparr>ao_events = [resumed, denied], ao_execution = None\<rparr>))))"

text \<open>
  What a decision does to the attempt it names. The checks of the command, its addressee and its expiry come before, in
  \<open>apply_tool_approval\<close>.
\<close>

definition apply_decision ::
  "externals \<Rightarrow> ambient \<Rightarrow> ambient \<Rightarrow> nat \<Rightarrow> tool_approval_decision_command \<Rightarrow> tool_approval_outcome attempt_io" where
  "apply_decision ext amb amb' now command =
     inspect (\<lambda>x.
       if xc_tenant_id (ex_command x) \<noteq> tad_tenant_id command \<or> xc_run_id (ex_command x) \<noteq> tad_run_id command
       then give_up AttemptConflict
       else (case bt_get (tad_approval_id command) (ex_approval_decisions x) of
           Some receipt \<Rightarrow> if ar_command receipt = command then finish (ar_outcome receipt) else give_up ApprovalBindingMismatch
         | None \<Rightarrow>
             (case bound_approval x (tad_approval_id command) (tad_binding_digest command) of
                None \<Rightarrow> give_up ApprovalBindingMismatch
              | Some approval \<Rightarrow>
                  then_do (kernel (apply_command ext amb Approve))
                    (\<lambda>resumed. then_do (resume_approved now)
                      (\<lambda>_. then_do (decide_approval ext amb' command approval resumed)
                        (\<lambda>outcome. then_do (update (\<lambda>x. x\<lparr>
                            ex_applied_approval_decisions := bt_insert (tad_approval_id command)
                              \<lparr>ap_binding_digest = tad_binding_digest command, ap_decision = tad_decision command\<rparr>
                              (ex_applied_approval_decisions x),
                            ex_approval_decisions := bt_insert (tad_approval_id command)
                              \<lparr>ar_command = command, ar_outcome = outcome\<rparr> (ex_approval_decisions x)\<rparr>))
                          (\<lambda>_. finish outcome)))))))"

section \<open>Execution and results of Tools\<close>

definition worker_tool_execution_started :: "externals \<Rightarrow> ambient \<Rightarrow> string \<Rightarrow> string \<Rightarrow> event_envelope attempt_io" where
  "worker_tool_execution_started ext amb tool_call_id binding_digest =
     inspect (\<lambda>x. case bt_get tool_call_id (ex_outstanding_tool_calls x) of
         None \<Rightarrow> give_up ToolExecutionBindingMismatch
       | Some request \<Rightarrow>
           if ter_binding_digest request \<noteq> binding_digest then give_up ToolExecutionBindingMismatch
           else (case bt_get tool_call_id (ex_started_tool_calls x) of
               Some event \<Rightarrow> finish event
             | None \<Rightarrow>
                 then_do (kernel (record_tool_execution_started ext amb request))
                   (\<lambda>event. then_do (update (\<lambda>x. x\<lparr>ex_started_tool_calls := bt_insert tool_call_id event (ex_started_tool_calls x)\<rparr>))
                     (\<lambda>_. finish event))))"

definition forget_call :: "string \<Rightarrow> unit attempt_io" where
  "forget_call tool_call_id =
     update (\<lambda>x. x\<lparr>ex_outstanding_tool_calls := bt_remove tool_call_id (ex_outstanding_tool_calls x),
       ex_started_tool_calls := bt_remove tool_call_id (ex_started_tool_calls x)\<rparr>)"

definition commit_result ::
  "externals \<Rightarrow> ambient \<Rightarrow> string \<Rightarrow> string \<Rightarrow> json \<Rightarrow> bool \<Rightarrow> event_envelope attempt_io" where
  "commit_result ext amb tool_call_id binding_digest content is_error =
     then_do (kernel (record_tool_result ext amb tool_call_id binding_digest content is_error))
       (\<lambda>event. then_do (push_transcript (tool_result_message ext tool_call_id content)) (\<lambda>_. finish event))"

definition record_bound_tool_result ::
  "externals \<Rightarrow> ambient \<Rightarrow> string \<Rightarrow> string \<Rightarrow> json \<Rightarrow> bool \<Rightarrow> event_envelope attempt_io" where
  "record_bound_tool_result ext amb tool_call_id binding_digest content is_error =
     inspect (\<lambda>x. case bt_get tool_call_id (ex_outstanding_tool_calls x) of
         None \<Rightarrow> give_up ToolCallNotExecuting
       | Some request \<Rightarrow>
           if ter_binding_digest request \<noteq> binding_digest then give_up ToolResultBindingMismatch
           else if \<not> bt_contains_key tool_call_id (ex_started_tool_calls x) then give_up ToolExecutionNotStarted
           else if (case ex_pending_mcp_input x of None \<Rightarrow> False | Some pending \<Rightarrow> mreq_tool_call_id pending = tool_call_id)
           then give_up McpInputBindingMismatch
           else then_do (update (\<lambda>x.
                  if (case ex_resolved_mcp_input x of
                        None \<Rightarrow> False | Some resolved \<Rightarrow> mreq_tool_call_id (rmi_pending resolved) = tool_call_id)
                  then x\<lparr>ex_resolved_mcp_input := None\<rparr> else x))
                (\<lambda>_. then_do (forget_call tool_call_id)
                  (\<lambda>_. commit_result ext amb tool_call_id binding_digest content is_error)))"

definition worker_tool_result :: "externals \<Rightarrow> ambient \<Rightarrow> string \<Rightarrow> json \<Rightarrow> bool \<Rightarrow> event_envelope attempt_io" where
  "worker_tool_result ext amb tool_call_id content is_error =
     inspect (\<lambda>x. case bt_get tool_call_id (ex_outstanding_tool_calls x) of
         None \<Rightarrow> give_up ToolCallNotExecuting
       | Some request \<Rightarrow> record_bound_tool_result ext amb tool_call_id (ter_binding_digest request) content is_error)"

fun part_call_id :: "wire_part option \<Rightarrow> string option" where
  "part_call_id (Some (WireToolCall tool_call_id _ _)) = Some tool_call_id"
| "part_call_id _ = None"

fun part_result_id :: "wire_part option \<Rightarrow> string option" where
  "part_result_id (Some (WireToolResult tool_call_id _)) = Some tool_call_id"
| "part_result_id _ = None"

definition assistant_order :: "string list \<Rightarrow> model_message list \<Rightarrow> string list" where
  "assistant_order ids transcript =
     (case List.find (\<lambda>message. mm_role message = model_role AssistantRole) (rev transcript) of
        None \<Rightarrow> []
      | Some message \<Rightarrow> filter (\<lambda>i. i \<in> set ids) (List.map_filter part_call_id (mm_content message)))"

definition max_concurrent_tools :: "run_execution_command \<Rightarrow> nat" where
  "max_concurrent_tools command =
     (case xc_runtime_policy command of None \<Rightarrow> 1 | Some policy \<Rightarrow> unat (tp_max_concurrent_tools (xp_tool_execution policy)))"

definition begin_ordered_tool_batch :: "tool_execution_request list \<Rightarrow> unit attempt_io" where
  "begin_ordered_tool_batch requests =
     (let ids = map (\<lambda>request. tc_id (ter_call request)) requests
      in inspect (\<lambda>x.
        if length requests < 2 \<or> max_concurrent_tools (ex_command x) < length requests \<or> \<not> distinct ids \<or>
           assistant_order ids (ex_transcript x) \<noteq> ids \<or> ex_pending_approval x \<noteq> None \<or>
           ex_ordered_tool_commit_queue x \<noteq> [] \<or> ex_staged_ordered_tool_results x \<noteq> [] \<or>
           length (ex_outstanding_tool_calls x) \<noteq> length requests \<or>
           list_ex (\<lambda>request. ter_effect request \<noteq> Pure \<or>
             bt_get (tc_id (ter_call request)) (ex_outstanding_tool_calls x) \<noteq> Some request \<or>
             bt_contains_key (tc_id (ter_call request)) (ex_started_tool_calls x)) requests
        then give_up InvalidParallelToolBatch
        else update (\<lambda>x. x\<lparr>ex_ordered_tool_commit_queue := ids\<rparr>)))"

text \<open>The loop that commits the staged results at the front of the queue; each event has its own identifiers.\<close>

fun commit_staged :: "externals \<Rightarrow> (nat \<Rightarrow> ambient) \<Rightarrow> nat \<Rightarrow> string list \<Rightarrow> event_envelope list attempt_io" where
  "commit_staged ext amb n [] = finish []"
| "commit_staged ext amb n (next_id # queue) =
     inspect (\<lambda>x. case bt_get next_id (ex_staged_ordered_tool_results x) of
         None \<Rightarrow> finish []
       | Some staged \<Rightarrow>
           then_do (update (\<lambda>x. x\<lparr>ex_staged_ordered_tool_results := bt_remove next_id (ex_staged_ordered_tool_results x),
                      ex_ordered_tool_commit_queue := queue\<rparr>))
             (\<lambda>_. then_do (commit_result ext (amb n) next_id (ter_binding_digest (sg_request staged)) (sg_content staged) (sg_is_error staged))
               (\<lambda>event. then_do (commit_staged ext amb (Suc n) queue) (\<lambda>committed. finish (event # committed)))))"

definition record_bound_tool_result_ordered ::
  "externals \<Rightarrow> (nat \<Rightarrow> ambient) \<Rightarrow> string \<Rightarrow> string \<Rightarrow> json \<Rightarrow> bool \<Rightarrow> event_envelope list attempt_io" where
  "record_bound_tool_result_ordered ext amb tool_call_id binding_digest content is_error =
     inspect (\<lambda>x.
       if tool_call_id \<notin> set (ex_ordered_tool_commit_queue x) \<or> bt_contains_key tool_call_id (ex_staged_ordered_tool_results x)
       then give_up ToolCallNotExecuting
       else (case bt_get tool_call_id (ex_outstanding_tool_calls x) of
           None \<Rightarrow> give_up ToolResultBindingMismatch
         | Some request \<Rightarrow>
             if ter_binding_digest request \<noteq> binding_digest then give_up ToolResultBindingMismatch
             else if ter_effect request \<noteq> Pure then give_up InvalidParallelToolBatch
             else if \<not> bt_contains_key tool_call_id (ex_started_tool_calls x) then give_up ToolExecutionNotStarted
             else then_do (forget_call tool_call_id)
               (\<lambda>_. then_do (update (\<lambda>x. x\<lparr>ex_staged_ordered_tool_results := bt_insert tool_call_id
                       \<lparr>sg_request = request, sg_content = content, sg_is_error = is_error\<rparr> (ex_staged_ordered_tool_results x)\<rparr>))
                 (\<lambda>_. inspect (\<lambda>x. commit_staged ext amb 0 (ex_ordered_tool_commit_queue x))))))"

definition record_bound_tool_completion ::
  "externals \<Rightarrow> (nat \<Rightarrow> ambient) \<Rightarrow> string \<Rightarrow> string \<Rightarrow> json \<Rightarrow> bool \<Rightarrow> event_envelope list attempt_io" where
  "record_bound_tool_completion ext amb tool_call_id binding_digest content is_error =
     inspect (\<lambda>x.
       if tool_call_id \<in> set (ex_ordered_tool_commit_queue x)
       then record_bound_tool_result_ordered ext amb tool_call_id binding_digest content is_error
       else then_do (record_bound_tool_result ext (amb 0) tool_call_id binding_digest content is_error) (\<lambda>event. finish [event]))"

section \<open>Failed Tools\<close>

datatype tool_execution_error =
    InvalidDefinition string | WrongSandbox | InvalidContext string | ContainmentUnavailable string
  | UnsupportedContainment string | Engine string | ToolTimedOut | ToolCancelled | OutputLimitExceeded
  | ProcessFailed "32 word" string | InvalidOutput string | OutputBindingMismatch | ExecutableChanged
  | ProcessSessionStartFailed uuid string | PersistentProcessSession string
  | ToolMcpInputRequired u8 string "(string, mcp_elicitation_request) btree"

fun tool_execution_error_code :: "tool_execution_error \<Rightarrow> string" where
  "tool_execution_error_code ToolTimedOut = ''tool_timeout''"
| "tool_execution_error_code ToolCancelled = ''tool_cancelled''"
| "tool_execution_error_code OutputLimitExceeded = ''tool_output_limit_exceeded''"
| "tool_execution_error_code OutputBindingMismatch = ''tool_output_binding_mismatch''"
| "tool_execution_error_code WrongSandbox = ''tool_wrong_sandbox''"
| "tool_execution_error_code (ProcessSessionStartFailed _ _) = ''process_session_start_failed''"
| "tool_execution_error_code (ToolMcpInputRequired _ _ _) = ''mcp_input_required''"
| "tool_execution_error_code (ContainmentUnavailable _) = ''tool_containment_unavailable''"
| "tool_execution_error_code (UnsupportedContainment _) = ''tool_containment_unsupported''"
| "tool_execution_error_code _ = ''tool_execution_failed''"

text \<open>The content of the result; every such result is an error with exit code 1.\<close>

fun deterministic_failure_result :: "externals \<Rightarrow> tool_execution_error \<Rightarrow> json option" where
  "deterministic_failure_result ext (ProcessSessionStartFailed session_id _) =
     Some (jobj [(''error'', jobj [(''code'', JString ''process_session_start_failed''),
       (''message'', JString ''persistent process session could not be started''), (''session_id'', juuid ext session_id)])])"
| "deterministic_failure_result ext (UnsupportedContainment _) =
     Some (jobj [(''error'', jobj [(''code'', JString ''tool_containment_unsupported''),
       (''message'', JString ''this host cannot enforce the containment this Tool requires'')])])"
| "deterministic_failure_result ext _ = None"

definition tool_execution_failure_content :: "externals \<Rightarrow> tool_execution_error \<Rightarrow> json" where
  "tool_execution_failure_content ext error =
     or_default (jobj [(''error'', jobj [(''code'', JString (tool_execution_error_code error)),
        (''message'', JString ''tool execution failed inside its assigned sandbox'')])])
       (deterministic_failure_result ext error)"

definition record_tool_execution_failure ::
  "externals \<Rightarrow> (nat \<Rightarrow> ambient) \<Rightarrow> string \<Rightarrow> string \<Rightarrow> tool_execution_error \<Rightarrow> event_envelope list attempt_io" where
  "record_tool_execution_failure ext amb tool_call_id binding_digest error =
     inspect (\<lambda>x. case bt_get tool_call_id (ex_outstanding_tool_calls x) of
         None \<Rightarrow> give_up ToolCallNotExecuting
       | Some request \<Rightarrow>
           if ter_binding_digest request \<noteq> binding_digest then give_up ToolResultBindingMismatch
           else if \<not> bt_contains_key tool_call_id (ex_started_tool_calls x) then give_up ToolExecutionNotStarted
           else if deterministic_failure_result ext error \<noteq> None \<or> ter_effect request = Pure \<or> ter_effect request = Idempotent
           then record_bound_tool_completion ext amb tool_call_id binding_digest (tool_execution_failure_content ext error) True
           else then_do (terminate_uncertain_tool ext (amb 0)) (\<lambda>event. finish [event]))"

section \<open>Results of subagents\<close>

definition take_request :: "(subagent_spawn_request \<Rightarrow> bool) \<Rightarrow> subagent_spawn_request list \<Rightarrow> (subagent_spawn_request \<times> subagent_spawn_request list) option" where
  "take_request p requests =
     (case List.extract p requests of None \<Rightarrow> None | Some (before, request, after) \<Rightarrow> Some (request, before @ after))"

definition release_reservation :: "uuid \<Rightarrow> subagent_spawn_request \<Rightarrow> unit attempt_io" where
  "release_reservation agent_id request x =
     (case remove_subagent_budget_reservation (ex_subagent_budget_reservations x) agent_id request of
        Inl _ \<Rightarrow> (Inl SubagentResultBindingMismatch, x)
      | Inr m \<Rightarrow> (Inr (), x\<lparr>ex_subagent_budget_reservations := m\<rparr>))"

definition record_subagent_result :: "externals \<Rightarrow> ambient \<Rightarrow> subagent_result_delivery \<Rightarrow> event_envelope attempt_io" where
  "record_subagent_result ext amb result =
     inspect (\<lambda>x. case bt_get (srd_tool_call_id result) (ex_subagent_result_receipts x) of
         Some (known, event) \<Rightarrow> if known = srd_digest result then finish event else give_up SubagentResultBindingMismatch
       | None \<Rightarrow>
           (case take_request (\<lambda>request. ssr_tool_call_id request = srd_tool_call_id result \<and>
                    ssr_delegation_id request = srd_delegation_id result \<and> ssr_binding_digest request = srd_binding_digest result)
                  (ex_pending_subagents x) of
              None \<Rightarrow> give_up SubagentResultBindingMismatch
            | Some (request, rest) \<Rightarrow>
                if \<not> result_validate ext result then give_up SubagentResultBindingMismatch
                else then_do (kernel (record_subagent_result_received_with_remaining ext amb result (of_nat (length rest))))
                  (\<lambda>event. then_do (release_reservation (ssr_delegation_id request) request)
                    (\<lambda>_. then_do (update (\<lambda>x.
                        let usage = charge (usage_tokens (srd_usage result)) (usage_cost_micros (srd_usage result)) (ex_budget_usage x)
                        in x\<lparr>ex_pending_subagents := rest, ex_budget_usage := usage,
                             ex_pending_budget_exhaustion := budget_exhaustion usage (xc_budget (ex_command x))\<rparr>))
                      (\<lambda>_. then_do (push_transcript (tool_result_message ext (ssr_tool_call_id request) (srd_content result)))
                        (\<lambda>_. then_do (update (\<lambda>x. x\<lparr>ex_subagent_result_receipts :=
                              bt_insert (srd_tool_call_id result) (srd_digest result, event) (ex_subagent_result_receipts x)\<rparr>))
                          (\<lambda>_. finish event)))))))"

definition worker_subagent_spawned :: "externals \<Rightarrow> ambient \<Rightarrow> subagent_spawn_request \<Rightarrow> event_envelope attempt_io" where
  "worker_subagent_spawned ext amb request =
     (let agent_id = ssr_delegation_id request;
          content = jobj [(''agent_id'', juuid ext agent_id), (''generation'', ju64 1), (''role'', JString (ssr_role request)),
            (''status'', JString ''running'')]
      in inspect (\<lambda>x. case take_request (\<lambda>pending. ssr_tool_call_id pending = ssr_tool_call_id request \<and>
               ssr_delegation_id pending = agent_id \<and> ssr_binding_digest pending = ssr_binding_digest request \<and> ssr_mode pending = Async)
             (ex_pending_subagents x) of
           None \<Rightarrow> give_up SubagentResultBindingMismatch
         | Some (_, rest) \<Rightarrow>
             if known_subagent x agent_id then give_up SubagentResultBindingMismatch
             else then_do (kernel (record_subagent_spawned ext amb request))
               (\<lambda>event. then_do (update (\<lambda>x. x\<lparr>ex_pending_subagents := rest,
                   ex_active_subagents := bt_insert agent_id request (ex_active_subagents x),
                   ex_subagent_handles := bt_insert agent_id request (ex_subagent_handles x),
                   ex_subagent_message_sequences :=
                     (if bt_contains_key agent_id (ex_subagent_message_sequences x) then ex_subagent_message_sequences x
                      else bt_insert agent_id 0 (ex_subagent_message_sequences x)),
                   ex_subagent_conversations := bt_insert agent_id [] (ex_subagent_conversations x),
                   ex_subagent_activation_sequences := bt_insert agent_id 0 (ex_subagent_activation_sequences x),
                   ex_subagent_generations := bt_insert agent_id 1 (ex_subagent_generations x)\<rparr>))
                 (\<lambda>_. then_do (push_transcript (tool_result_message ext (ssr_tool_call_id request) content)) (\<lambda>_. finish event)))))"

section \<open>The processor\<close>

record completion_receipt =
  cr_run_id :: uuid
  cr_terminal_event :: event_envelope

record worker_processor =
  wp_worker_id :: uuid
  wp_worker_incarnation_id :: uuid
  wp_tool_registry :: tool_registry
  wp_accepted :: "(uuid, active_execution) btree"
  wp_completed :: "(uuid, completion_receipt) btree"

definition on_attempt :: "uuid \<Rightarrow> 'a attempt_io \<Rightarrow> (worker_processor, worker_assignment_error, 'a) io" where
  "on_attempt attempt_id operation w =
     (case bt_get attempt_id (wp_accepted w) of
        None \<Rightarrow> (Inl UnknownAttempt, w)
      | Some x \<Rightarrow> (case operation x of (r, x') \<Rightarrow> (r, w\<lparr>wp_accepted := bt_insert attempt_id x' (wp_accepted w)\<rparr>)))"

definition processor_apply_model_event ::
  "externals \<Rightarrow> ambient \<Rightarrow> uuid \<Rightarrow> model_stream_event \<Rightarrow> (worker_processor, worker_assignment_error, event_envelope) io" where
  "processor_apply_model_event ext amb attempt_id event =
     inspect (\<lambda>w. if bt_contains_key attempt_id (wp_completed w) then give_up AttemptAlreadyTerminal
       else on_attempt attempt_id (worker_apply_model_event ext amb event))"

definition processor_interrupt ::
  "uuid \<Rightarrow> event_envelope attempt_io \<Rightarrow> (worker_processor, worker_assignment_error, event_envelope) io" where
  "processor_interrupt attempt_id operation =
     inspect (\<lambda>w. case bt_get attempt_id (wp_completed w) of
         Some completed \<Rightarrow> finish (cr_terminal_event completed)
       | None \<Rightarrow> on_attempt attempt_id operation)"

definition processor_timeout :: "externals \<Rightarrow> ambient \<Rightarrow> uuid \<Rightarrow> (worker_processor, worker_assignment_error, event_envelope) io" where
  "processor_timeout ext amb attempt_id = processor_interrupt attempt_id (timeout_duration ext amb)"

definition processor_cancel :: "externals \<Rightarrow> ambient \<Rightarrow> uuid \<Rightarrow> (worker_processor, worker_assignment_error, event_envelope) io" where
  "processor_cancel ext amb attempt_id = processor_interrupt attempt_id (worker_cancel ext amb)"

definition apply_tool_approval ::
  "externals \<Rightarrow> ambient \<Rightarrow> ambient \<Rightarrow> nat \<Rightarrow> tool_approval_decision_command \<Rightarrow> datetime \<Rightarrow>
   (worker_processor, worker_assignment_error, tool_approval_outcome) io" where
  "apply_tool_approval ext amb amb' now command received_at =
     (case decision_validate command of
        Inl e \<Rightarrow> give_up (InvalidApprovalDecision e)
      | Inr _ \<Rightarrow>
          inspect (\<lambda>w.
            if tad_worker_id command \<noteq> wp_worker_id w then give_up WrongWorker
            else if 2 \<le> tad_schema_version command \<and> tad_worker_incarnation_id command \<noteq> wp_worker_incarnation_id w
            then give_up WrongWorkerIncarnation
            else if tad_expires_at command \<le> received_at then give_up ApprovalDecisionExpired
            else on_attempt (tad_attempt_id command) (apply_decision ext amb amb' now command)))"

definition acknowledge_terminal :: "uuid \<Rightarrow> uuid \<Rightarrow> (worker_processor, worker_assignment_error, unit) io" where
  "acknowledge_terminal attempt_id event_id w =
     (case bt_get attempt_id (wp_completed w) of
        Some completed \<Rightarrow>
          (if ee_event_id (cr_terminal_event completed) = event_id then Inr () else Inl TerminalEventMismatch, w)
      | None \<Rightarrow>
          (case bt_get attempt_id (wp_accepted w) of
             None \<Rightarrow> (Inl UnknownAttempt, w)
           | Some x \<Rightarrow>
               (case ex_terminal_event x of
                  None \<Rightarrow> (Inl TerminalNotReady, w)
                | Some terminal \<Rightarrow>
                    if ee_event_id terminal \<noteq> event_id then (Inl TerminalEventMismatch, w)
                    else (Inr (), w\<lparr>wp_accepted := bt_remove attempt_id (wp_accepted w),
                           wp_completed := bt_insert attempt_id
                             \<lparr>cr_run_id = xc_run_id (ex_command x), cr_terminal_event = terminal\<rparr> (wp_completed w)\<rparr>))))"

section \<open>Terminal checkpoints\<close>

text \<open>
  A checkpoint carries the JSON form of the whole attempt. \<open>encode\<close> is \<open>serde_json::to_vec\<close> on the state built from the
  attempt under a schema version, and \<open>decode\<close> is \<open>from_slice\<close>; of the state read back, the reader of a terminal event
  looks at two fields.
\<close>

record worker_checkpoint_state =
  wcs_schema_version :: u32
  wcs_terminal_event :: "event_envelope option"

definition checkpoint_attempt :: "externals \<Rightarrow> (u32 \<Rightarrow> active_execution \<Rightarrow> u8 list) \<Rightarrow> active_execution \<Rightarrow> checkpoint_snapshot" where
  "checkpoint_attempt ext encode x = checkpoint ext (ex_machine x) (encode WORKER_CHECKPOINT_SCHEMA_VERSION x)"

fun terminal_event_type :: "run_status \<Rightarrow> string option" where
  "terminal_event_type Succeeded = Some ''run.succeeded''"
| "terminal_event_type Failed = Some ''run.failed''"
| "terminal_event_type Cancelled = Some ''run.cancelled''"
| "terminal_event_type TimedOut = Some ''run.timed_out''"
| "terminal_event_type Indeterminate = Some ''run.indeterminate''"
| "terminal_event_type _ = None"

definition receipt_matches :: "externals \<Rightarrow> checkpoint_snapshot \<Rightarrow> string \<Rightarrow> event_envelope \<Rightarrow> bool" where
  "receipt_matches ext c expected_type event \<longleftrightarrow>
     ee_schema_version event = 1 \<and> \<not> is_nil (ee_event_id event) \<and> \<not> is_nil (ee_trace_id event) \<and>
     ee_tenant_id event = cs_tenant_id c \<and> ee_session_id event = cs_session_id c \<and> ee_run_id event = cs_run_id c \<and>
     ee_attempt_id event = cs_attempt_id c \<and> ee_sequence event = cs_sequence c \<and> ee_event_type event = expected_type \<and>
     ee_digest event = json_digest ext (ee_payload event)"

definition terminal_event_from_checkpoint ::
  "externals \<Rightarrow> (u8 list \<Rightarrow> worker_checkpoint_state option) \<Rightarrow> checkpoint_snapshot \<Rightarrow>
   (worker_assignment_error, event_envelope option) result" where
  "terminal_event_from_checkpoint ext decode c =
     (if \<not> verify_digest ext c \<or> \<not> is_terminal (cs_status c)
      then Inl (InvalidWorkerCheckpoint ''terminal publication Checkpoint identity is invalid'')
      else (case decode (cs_state c) of
          None \<Rightarrow> Inl (InvalidWorkerCheckpoint ''state is not readable'')
        | Some state \<Rightarrow>
            if \<not> (1 \<le> wcs_schema_version state \<and> wcs_schema_version state \<le> WORKER_CHECKPOINT_SCHEMA_VERSION)
            then Inl (InvalidWorkerCheckpoint ''unsupported schema version'')
            else (case wcs_terminal_event state of
                None \<Rightarrow>
                  if 27 \<le> wcs_schema_version state
                  then Inl (InvalidWorkerCheckpoint ''schema-27 terminal Checkpoint has no terminal event receipt'') else Inr None
              | Some event \<Rightarrow>
                  if wcs_schema_version state < 27
                  then Inl (InvalidWorkerCheckpoint ''legacy Checkpoint carries a schema-27 terminal event receipt'')
                  else (case terminal_event_type (cs_status c) of
                      None \<Rightarrow> Inl (InvalidWorkerCheckpoint ''terminal publication Checkpoint has a nonterminal status'')
                    | Some expected_type \<Rightarrow>
                        if \<not> receipt_matches ext c expected_type event
                        then Inl (InvalidWorkerCheckpoint ''terminal event receipt does not match its Checkpoint'')
                        else Inr (Some event)))))"

end
