(* ===== verification/Worker_Terminal.thy ===== *)
theory Worker_Terminal
  imports Worker_Execution Run_Lifecycle
begin

text \<open>
  How an attempt ends. \<open>attempt_op\<close> names the operations of an attempt with their arguments, and \<open>attempt_reach\<close> is what any
  sequence of them, accepted or refused, can make of it. The invariant is that an attempt holds a terminal event exactly when
  its machine has stopped, and that the event is the machine's last one. The properties are about the reader of the
  terminal checkpoint, which has to accept that event before a Run can be closed.
\<close>

section \<open>Operations as data\<close>

datatype attempt_op =
    AttemptStart ambient
  | AttemptModelEvent ambient model_stream_event
  | AttemptMcpUnavailable ambient "string list"
  | AttemptBudgetStop ambient
  | AttemptTimeout ambient
  | AttemptCancel ambient
  | AttemptPause nat
  | AttemptPlan planning_clock tool_registry
  | AttemptApprove ambient nat uuid string
  | AttemptDecision ambient ambient nat tool_approval_decision_command
  | AttemptToolStarted ambient string string
  | AttemptBatch "tool_execution_request list"
  | AttemptToolResult ambient string json bool
  | AttemptCompletion "nat \<Rightarrow> ambient" string string json bool
  | AttemptToolFailure "nat \<Rightarrow> ambient" string string tool_execution_error
  | AttemptSubagentResult ambient subagent_result_delivery
  | AttemptSubagentSpawned ambient subagent_spawn_request

definition ignoring :: "'a attempt_io \<Rightarrow> unit attempt_io" where
  "ignoring m = then_do m (\<lambda>_. finish ())"

primrec attempt_exec :: "worker_externals \<Rightarrow> attempt_op \<Rightarrow> unit attempt_io" where
  "attempt_exec wx (AttemptStart amb) = ignoring (worker_start (wx_ext wx) amb)"
| "attempt_exec wx (AttemptModelEvent amb event) = ignoring (worker_apply_model_event (wx_ext wx) amb event)"
| "attempt_exec wx (AttemptMcpUnavailable amb names) = ignoring (worker_required_mcp_unavailable (wx_ext wx) amb names)"
| "attempt_exec wx (AttemptBudgetStop amb) = ignoring (terminate_pending_budget_exhaustion (wx_ext wx) amb)"
| "attempt_exec wx (AttemptTimeout amb) = ignoring (timeout_duration (wx_ext wx) amb)"
| "attempt_exec wx (AttemptCancel amb) = ignoring (worker_cancel (wx_ext wx) amb)"
| "attempt_exec wx (AttemptPause now) = pause_duration_budget now"
| "attempt_exec wx (AttemptPlan clock native) = ignoring (plan_next_tool_call wx clock native)"
| "attempt_exec wx (AttemptApprove amb now i d) = ignoring (approve_tool_call (wx_ext wx) amb now i d)"
| "attempt_exec wx (AttemptDecision amb amb' now c) = ignoring (apply_decision (wx_ext wx) amb amb' now c)"
| "attempt_exec wx (AttemptToolStarted amb i d) = ignoring (worker_tool_execution_started (wx_ext wx) amb i d)"
| "attempt_exec wx (AttemptBatch requests) = begin_ordered_tool_batch requests"
| "attempt_exec wx (AttemptToolResult amb i content e) = ignoring (worker_tool_result (wx_ext wx) amb i content e)"
| "attempt_exec wx (AttemptCompletion ambs i d content e) = ignoring (record_bound_tool_completion (wx_ext wx) ambs i d content e)"
| "attempt_exec wx (AttemptToolFailure ambs i d err) = ignoring (record_tool_execution_failure (wx_ext wx) ambs i d err)"
| "attempt_exec wx (AttemptSubagentResult amb result) = ignoring (record_subagent_result (wx_ext wx) amb result)"
| "attempt_exec wx (AttemptSubagentSpawned amb request) = ignoring (worker_subagent_spawned (wx_ext wx) amb request)"

text \<open>What an attempt can become: an operation that is refused may have changed it too.\<close>

inductive attempt_reach :: "worker_externals \<Rightarrow> active_execution \<Rightarrow> active_execution \<Rightarrow> bool" for wx x where
  here: "attempt_reach wx x x"
| exec: "attempt_reach wx x y \<Longrightarrow> attempt_reach wx x (snd (attempt_exec wx op y))"

section \<open>The terminal event\<close>

definition closing_event :: "run_machine \<Rightarrow> event_envelope \<Rightarrow> bool" where
  "closing_event m event \<longleftrightarrow>
     ee_schema_version event = 1 \<and> ee_tenant_id event = rm_tenant_id m \<and> ee_session_id event = rm_session_id m \<and>
     ee_run_id event = rm_run_id m \<and> ee_attempt_id event = rm_attempt_id m \<and> ee_sequence event = rm_sequence m \<and>
     terminal_event_type (rm_status m) = Some (ee_event_type event)"

text \<open>The payload with which the kernel reports an unknown Tool outcome, before the worker extends it.\<close>

definition unknown_outcome_payload :: "tool_effect \<Rightarrow> json" where
  "unknown_outcome_payload effect =
     jset ''replay_safe'' (JBool False) (jset ''effect'' (ser_tool_effect effect) (jobj [(''status'', ser_run_status Indeterminate)]))"

definition event_digest_ok :: "externals \<Rightarrow> run_status \<Rightarrow> event_envelope \<Rightarrow> bool" where
  "event_digest_ok ext status event \<longleftrightarrow>
     (if status = Indeterminate
      then (\<exists>effect. ee_digest event = json_digest ext (unknown_outcome_payload effect)) \<and>
        jget ''reason'' (ee_payload event) = Some (JString ''tool_outcome_unknown'')
      else ee_digest event = json_digest ext (ee_payload event))"

definition terminal_inv :: "externals \<Rightarrow> active_execution \<Rightarrow> bool" where
  "terminal_inv ext x \<longleftrightarrow>
     (case ex_terminal_event x of
        None \<Rightarrow> \<not> is_terminal (rm_status (ex_machine x))
      | Some event \<Rightarrow> is_terminal (rm_status (ex_machine x)) \<and> closing_event (ex_machine x) event \<and>
          event_digest_ok ext (rm_status (ex_machine x)) event)"

definition stays_terminal :: "externals \<Rightarrow> active_execution \<Rightarrow> active_execution \<Rightarrow> bool" where
  "stays_terminal ext x x' \<longleftrightarrow> (terminal_inv ext x \<longrightarrow> terminal_inv ext x')"

interpretation closing: progress "stays_terminal ext" for ext
  by unfold_locales (auto simp: stays_terminal_def)

lemmas closing_intros = closing.keeps_finish closing.keeps_give_up closing.keeps_of_result closing.keeps_then_do
  closing.keeps_inspect keeps_option keeps_if

text \<open>A step that touches neither the machine nor the terminal event.\<close>

lemma closing_update:
  assumes "\<And>x :: active_execution. ex_machine (f x) = ex_machine x" "\<And>x :: active_execution. ex_terminal_event (f x) = ex_terminal_event x"
  shows "keeps (stays_terminal ext) (update f)"
  using assms by (simp add: keeps_def update_def stays_terminal_def terminal_inv_def split: option.splits)

text \<open>A kernel operation that is refused, or goes on from a Run that has not stopped to one that has not.\<close>

definition goes_on :: "(run_machine \<Rightarrow> outcome) \<Rightarrow> bool" where
  "goes_on operation \<longleftrightarrow>
     (\<forall>m. case operation m of
        (Inl _, m') \<Rightarrow> m' = m
      | (Inr _, m') \<Rightarrow> \<not> is_terminal (rm_status m) \<and> \<not> is_terminal (rm_status m'))"

lemma closing_kernel: "goes_on operation \<Longrightarrow> keeps (stays_terminal ext) (kernel operation)"
  unfolding keeps_def
proof
  fix x :: active_execution
  assume g: "goes_on operation"
  obtain r m' where o: "operation (ex_machine x) = (r, m')" by fastforce
  from g [unfolded goes_on_def, rule_format, of "ex_machine x"] o
  show "stays_terminal ext x (snd (kernel operation x))"
    by (cases r) (auto simp: stays_terminal_def terminal_inv_def kernel_def split: option.splits)
qed

lemmas kernel_step = goes_on_def fail_def ok_emit_def emit_def Let_def

lemma goes_on_ops:
  "goes_on (apply_command ext amb Start)" "goes_on (apply_command ext amb Approve)"
  "goes_on (record_tool_result ext amb i d content e)" "goes_on (record_tool_execution_started ext amb request)"
  "goes_on (record_subagent_spawned ext amb spawn)"
  "goes_on (record_subagent_result_received_with_remaining ext amb result n)"
  by (auto simp: apply_command_def record_tool_result_def record_tool_execution_started_def record_subagent_spawned_def
      record_subagent_result_received_with_remaining_def kernel_step split: option.splits run_status.splits)

lemma goes_on_spawn: "goes_on (record_subagent_spawn_requested ext amb request)"
  by (auto simp: record_subagent_spawn_requested_def kernel_step split: subagent_spawn_mode.splits)

lemma goes_on_plan: "goes_on (apply_tool_plan ext amb p)"
proof (cases p)
  case (SubagentSpawn request)
  with goes_on_spawn [of ext amb request] show ?thesis by (auto simp: apply_tool_plan_def goes_on_def fail_def)
qed (auto simp: apply_tool_plan_def kernel_step)

text \<open>A kernel operation that is refused or ends the Run; \<open>g\<close> is what the worker makes of the event.\<close>

definition closes :: "externals \<Rightarrow> (event_envelope \<Rightarrow> event_envelope) \<Rightarrow> (run_machine \<Rightarrow> outcome) \<Rightarrow> bool" where
  "closes ext g operation \<longleftrightarrow>
     (\<forall>m. case operation m of
        (Inl _, m') \<Rightarrow> m' = m
      | (Inr event, m') \<Rightarrow> \<not> is_terminal (rm_status m) \<and> is_terminal (rm_status m') \<and> closing_event m' (g event) \<and>
          event_digest_ok ext (rm_status m') (g event))"

lemma closing_terminal:
  assumes "closes ext g operation" and "\<And>x :: active_execution. ex_machine (f x) = ex_machine x"
  shows "keeps (stays_terminal ext) (then_do (kernel operation) (\<lambda>event. then_do (update f) (\<lambda>_. set_terminal (g event))))"
  unfolding keeps_def
proof
  fix x :: active_execution
  obtain r m' where o: "operation (ex_machine x) = (r, m')" by fastforce
  from assms(1) [unfolded closes_def, rule_format, of "ex_machine x"] o assms(2)
  show "stays_terminal ext x (snd (then_do (kernel operation) (\<lambda>event. then_do (update f) (\<lambda>_. set_terminal (g event))) x))"
    by (cases r) (auto simp: stays_terminal_def terminal_inv_def kernel_def set_terminal_def io_defs split: option.splits)
qed

lemma update_id: "then_do (update (\<lambda>x. x)) f = f ()"
  by (simp add: io_defs fun_eq_iff)

lemmas closing_set_terminal = closing_terminal [where f = "\<lambda>x. x", unfolded update_id, OF _ refl]

lemma status_step_type: "status_step s e s' \<Longrightarrow> is_terminal s' \<Longrightarrow> terminal_event_type s' = Some e"
  by (induction rule: status_step.induct) auto

text \<open>An operation of the kernel that emits an event of the life cycle with which the Run stops.\<close>

lemma closing_emit:
  assumes "emission (rm_status m) s' e p" and "is_terminal s'" and "s' \<noteq> Indeterminate"
  shows "case ok_emit ext amb s' e p m of
      (Inl _, m') \<Rightarrow> m' = m
    | (Inr event, m') \<Rightarrow> \<not> is_terminal (rm_status m) \<and> is_terminal (rm_status m') \<and> closing_event m' event \<and>
        event_digest_ok ext (rm_status m') event"
proof -
  from assms(1) have "status_step (rm_status m) e s'" by (simp add: emission_def)
  with assms(2,3) status_step_type status_step_not_terminal show ?thesis
    by (simp add: ok_emit_def emit_def Let_def event_envelope_new_def closing_event_def event_digest_ok_def)
qed

lemma closes_settles:
  assumes "\<And>m. settles ext amb m (operation m)"
    and "\<And>m s e p. operation m = ok_emit ext amb s e p m \<Longrightarrow> is_terminal s \<and> s \<noteq> Indeterminate"
  shows "closes ext (\<lambda>event. event) operation"
  unfolding closes_def
proof
  fix m
  from assms(1) [of m] show "case operation m of
      (Inl _, m') \<Rightarrow> m' = m
    | (Inr event, m') \<Rightarrow> \<not> is_terminal (rm_status m) \<and> is_terminal (rm_status m') \<and> closing_event m' event \<and>
        event_digest_ok ext (rm_status m') event"
    unfolding settles_def
  proof (elim disjE exE conjE)
    fix s' e p
    assume o: "operation m = ok_emit ext amb s' e p m" and "emission (rm_status m) s' e p"
    with assms(2) [OF o] show ?thesis unfolding o by (intro closing_emit) auto
  qed (simp add: fail_def)
qed

lemma ok_emit_status: "ok_emit ext amb s e p m = ok_emit ext amb s' e' p' m \<longleftrightarrow> s' = s \<and> e' = e \<and> p' = p"
  by (auto simp: ok_emit_def emit_def Let_def event_envelope_new_def dest: arg_cong [where f = rm_status])

lemma ok_emit_not_fail: "fail err m = ok_emit ext amb s e p m \<longleftrightarrow> False"
  by (simp add: fail_def ok_emit_def emit_def Let_def)

lemma closes_ops:
  "closes ext (\<lambda>event. event) (record_budget_exhausted ext amb dimension)"
  "closes ext (\<lambda>event. event) (record_required_mcp_unavailable ext amb names)"
  "closes ext (\<lambda>event. event) (record_duration_timed_out ext amb)"
  "closes ext (\<lambda>event. event) (apply_command ext amb Cancel)"
  by (rule closes_settles, rule settle_intros,
      auto simp: record_budget_exhausted_def record_required_mcp_unavailable_def record_duration_timed_out_def
        apply_command_def ok_emit_status ok_emit_not_fail Let_def split: if_splits option.splits run_status.splits)+


section \<open>Every operation\<close>

lemma keeps_branches:
  "(\<And>e. r = Inl e \<Longrightarrow> keeps R (f e)) \<Longrightarrow> (\<And>a. r = Inr a \<Longrightarrow> keeps R (g a)) \<Longrightarrow> keeps R (case r of Inl e \<Rightarrow> f e | Inr a \<Rightarrow> g a)"
  "(\<And>a b. p = (a, b) \<Longrightarrow> keeps R (h a b)) \<Longrightarrow> keeps R (case p of (a, b) \<Rightarrow> h a b)"
  "(xs = [] \<Longrightarrow> keeps R m) \<Longrightarrow> (\<And>y ys. xs = y # ys \<Longrightarrow> keeps R (k y ys)) \<Longrightarrow> keeps R (case xs of [] \<Rightarrow> m | y # ys \<Rightarrow> k y ys)"
  by (simp_all split: sum.split prod.split list.split)

lemmas quiet_steps = closing_intros keeps_branches closing_update closing_kernel goes_on_ops goes_on_plan goes_on_spawn

lemma closing_ignoring: "keeps (stays_terminal ext) m \<Longrightarrow> keeps (stays_terminal ext) (ignoring m)"
  unfolding ignoring_def by (intro quiet_steps)

lemma closing_start: "keeps (stays_terminal ext) (worker_start ext amb)"
  unfolding worker_start_def by (intro quiet_steps) simp_all

lemma closing_await: "keeps (stays_terminal ext) (await_result request)"
  unfolding await_result_def by (intro quiet_steps) simp_all

lemma closing_push: "keeps (stays_terminal ext) (push_transcript message)"
  unfolding push_transcript_def by (intro quiet_steps) simp_all

lemma closing_pop: "keeps (stays_terminal ext) pop_call"
  unfolding pop_call_def by (intro quiet_steps) simp_all

lemma closing_forget: "keeps (stays_terminal ext) (forget_call i)"
  unfolding forget_call_def by (intro quiet_steps) simp_all

lemma closing_resume: "keeps (stays_terminal ext) (resume_approved now)"
  unfolding resume_approved_def by (intro quiet_steps) simp_all

lemma closing_reserve: "keeps (stays_terminal ext) (reserve agent_id request)" "keeps (stays_terminal ext) (release_reservation agent_id request)"
  by (simp_all add: keeps_def reserve_def release_reservation_def stays_terminal_def terminal_inv_def split: sum.splits option.splits)

lemmas small_steps = closing_await closing_push closing_pop closing_forget closing_resume closing_reserve

lemma closing_follow: "keeps (stays_terminal ext) (follow_plan ext clock p)"
  by (cases p; simp add: follow_plan_def; intro quiet_steps small_steps; simp)

lemma closing_plan: "keeps (stays_terminal (wx_ext wx)) (plan_next_tool_call wx clock native)"
  unfolding plan_next_tool_call_def plan_control_def plan_spawn_def plan_registered_def Let_def
  by (intro quiet_steps small_steps closing_follow) simp_all

lemma closing_approve: "keeps (stays_terminal ext) (approve_tool_call ext amb now i d)"
  unfolding approve_tool_call_def by (intro quiet_steps small_steps)

lemma closing_decide: "keeps (stays_terminal ext) (decide_approval ext amb c approval resumed)"
  by (cases "tad_decision c"; simp add: decide_approval_def Let_def; intro quiet_steps small_steps)

lemma closing_decision: "keeps (stays_terminal ext) (apply_decision ext amb amb' now c)"
  unfolding apply_decision_def by (intro quiet_steps small_steps closing_decide) simp_all

lemma closing_tool_started: "keeps (stays_terminal ext) (worker_tool_execution_started ext amb i d)"
  unfolding worker_tool_execution_started_def by (intro quiet_steps small_steps) simp_all

lemma closing_batch: "keeps (stays_terminal ext) (begin_ordered_tool_batch requests)"
  unfolding begin_ordered_tool_batch_def Let_def by (intro quiet_steps) simp_all

lemma closing_commit: "keeps (stays_terminal ext) (commit_result ext amb i d content e)"
  unfolding commit_result_def by (intro quiet_steps small_steps)

lemma closing_result: "keeps (stays_terminal ext) (record_bound_tool_result ext amb i d content e)"
  unfolding record_bound_tool_result_def by (intro quiet_steps small_steps closing_commit) simp_all

lemma closing_tool_result: "keeps (stays_terminal ext) (worker_tool_result ext amb i content e)"
  unfolding worker_tool_result_def by (intro quiet_steps closing_result)

lemma closing_staged: "keeps (stays_terminal ext) (commit_staged ext ambs n queue)"
proof (induction queue arbitrary: n)
  case (Cons i queue)
  show ?case unfolding commit_staged.simps by (intro quiet_steps closing_commit Cons.IH) simp_all
qed (simp add: closing.keeps_finish)

lemma closing_ordered: "keeps (stays_terminal ext) (record_bound_tool_result_ordered ext ambs i d content e)"
  unfolding record_bound_tool_result_ordered_def by (intro quiet_steps small_steps closing_staged) simp_all

lemma closing_completion: "keeps (stays_terminal ext) (record_bound_tool_completion ext ambs i d content e)"
  unfolding record_bound_tool_completion_def by (intro quiet_steps closing_ordered closing_result)

lemma closing_subagent_result: "keeps (stays_terminal ext) (record_subagent_result ext amb result)"
  unfolding record_subagent_result_def by (intro quiet_steps small_steps) (simp_all add: Let_def)

lemma closing_subagent_spawned: "keeps (stays_terminal ext) (worker_subagent_spawned ext amb request)"
  unfolding worker_subagent_spawned_def Let_def by (intro quiet_steps small_steps) simp_all

lemma closing_budget_exhaustion: "keeps (stays_terminal ext) (terminate_budget_exhaustion ext amb dimension)"
  unfolding terminate_budget_exhaustion_def by (intro quiet_steps closing_set_terminal closes_ops) simp_all

lemma closing_budget_stop: "keeps (stays_terminal ext) (terminate_pending_budget_exhaustion ext amb)"
  unfolding terminate_pending_budget_exhaustion_def by (intro quiet_steps closing_budget_exhaustion)

lemma closing_mcp: "keeps (stays_terminal ext) (worker_required_mcp_unavailable ext amb names)"
  unfolding worker_required_mcp_unavailable_def by (intro quiet_steps closing_terminal closes_ops) simp_all

lemma uncertain_effect:
  "tool_outcome_uncertainty x = Inr (Some (request, started)) \<Longrightarrow> ter_effect request = NonIdempotent \<or> ter_effect request = Unknown"
proof -
  have "(request, started) \<in> set (uncertain_calls x) \<Longrightarrow> ?thesis"
    by (auto simp: uncertain_calls_def map_filter_def split: option.splits if_splits)
  moreover assume "tool_outcome_uncertainty x = Inr (Some (request, started))"
  then have "(request, started) \<in> set (uncertain_calls x)"
    by (auto simp: tool_outcome_uncertainty_def split: list.splits)
  ultimately show ?thesis by blast
qed

lemma described_event:
  "ee_digest (describe_uncertainty ext request started interruption event) = ee_digest event"
  "closing_event m (describe_uncertainty ext request started interruption event) = closing_event m event"
  by (simp_all add: describe_uncertainty_def closing_event_def)

lemma described_reason:
  assumes "ee_payload event = unknown_outcome_payload effect"
  shows "jget ''reason'' (ee_payload (describe_uncertainty ext request started interruption event)) = Some (JString ''tool_outcome_unknown'')"
  using assms
  by (simp add: describe_uncertainty_def interruption_fields_def unknown_outcome_payload_def jobj_def jget_def bt_get_insert
      split: option.split run_interruption.split)

lemma unknown_outcome_command:
  assumes "effect = NonIdempotent \<or> effect = Unknown"
  shows "apply_command ext amb (ToolOutcomeUnknown effect) m =
    (if is_terminal (rm_status m) then fail (TerminalState (rm_status m)) m
     else if rm_status m \<noteq> Running then fail (InvalidTransition (rm_status m) (ToolOutcomeUnknown effect)) m
     else ok_emit ext amb Indeterminate ''run.indeterminate'' (unknown_outcome_payload effect) m)"
  using assms
  by (cases "rm_status m") (auto simp: apply_command_def unknown_outcome_payload_def jopt_def)

lemma closes_uncertain:
  assumes "effect = NonIdempotent \<or> effect = Unknown"
  shows "closes ext (describe_uncertainty ext request started interruption) (apply_command ext amb (ToolOutcomeUnknown effect))"
  unfolding closes_def unknown_outcome_command [OF assms]
  by (auto simp: fail_def ok_emit_def emit_def Let_def described_event event_digest_ok_def intro!: described_reason [where effect = effect])
     (auto simp: closing_event_def event_envelope_new_def)

lemma closing_uncertain: "keeps (stays_terminal ext) (terminate_uncertain_tool_with_interruption ext amb interruption)"
  unfolding terminate_uncertain_tool_with_interruption_def
  by (intro quiet_steps closing_set_terminal closes_uncertain uncertain_effect) simp_all

lemma closing_interrupt:
  "keeps (stays_terminal ext) otherwise \<Longrightarrow> keeps (stays_terminal ext) (interrupt ext amb interruption otherwise)"
  unfolding interrupt_def by (intro quiet_steps closing_uncertain)

lemma closing_timeout: "keeps (stays_terminal ext) (timeout_duration ext amb)"
  unfolding timeout_duration_def by (intro quiet_steps closing_interrupt closing_set_terminal closes_ops) simp_all

lemma closing_cancel: "keeps (stays_terminal ext) (worker_cancel ext amb)"
  unfolding worker_cancel_def by (intro quiet_steps closing_interrupt closing_set_terminal closes_ops) simp_all

lemma closing_failure: "keeps (stays_terminal ext) (record_tool_execution_failure ext ambs i d err)"
  unfolding record_tool_execution_failure_def terminate_uncertain_tool_def
  by (intro quiet_steps closing_completion closing_uncertain)

lemma closing_pause: "keeps (stays_terminal ext) (pause_duration_budget now)"
  unfolding pause_duration_budget_def by (intro quiet_steps) simp_all

lemma retained_machine:
  "ex_machine (retain_model_event ext event x) = ex_machine x" "ex_terminal_event (retain_model_event ext event x) = ex_terminal_event x"
  by (simp_all add: retain_model_event_def commit_turn_def Let_def split: model_stream_event.split model_finish_reason.split)

lemma model_event_not_indeterminate: "model_event_effect event = (s, e, p) \<Longrightarrow> s \<noteq> Indeterminate"
  by (cases event rule: model_event_effect.cases) (auto split: if_splits)

lemma closing_model_kernel:
  "keeps (stays_terminal ext) (then_do (kernel (apply_model_event ext amb event))
     (\<lambda>envelope. then_do (update (\<lambda>x. settle_terminal envelope (retain_model_event ext event x))) (\<lambda>_. finish envelope)))"
  unfolding keeps_def
proof
  fix x :: active_execution
  let ?m = "ex_machine x"
  show "stays_terminal ext x (snd (then_do (kernel (apply_model_event ext amb event))
     (\<lambda>envelope. then_do (update (\<lambda>x. settle_terminal envelope (retain_model_event ext event x))) (\<lambda>_. finish envelope)) x))"
  proof (cases "rm_status ?m = Running")
    case False
    then show ?thesis
      by (auto simp: apply_model_event_def fail_def kernel_def io_defs stays_terminal_def)
  next
    case True
    obtain s e p where effect: "model_event_effect event = (s, e, p)" by (metis prod.exhaust)
    let ?o = "ok_emit ext amb s e p ?m"
    have o: "apply_model_event ext amb event ?m = ?o" using True effect by (simp add: apply_model_event_def)
    obtain envelope m' where em: "?o = (Inr envelope, m')" "rm_status m' = s" by (simp add: ok_emit_def emit_def Let_def)
    have "is_terminal s \<Longrightarrow> closing_event m' envelope \<and> event_digest_ok ext s envelope"
      using closing_emit [of ?m s e p ext amb] model_event_emission [OF effect] model_event_not_indeterminate [OF effect] True em by simp
    then show ?thesis using True em
      by (auto simp: kernel_def io_defs stays_terminal_def terminal_inv_def settle_terminal_def retained_machine o split: option.splits)
  qed
qed

lemma closing_accept: "keeps (stays_terminal ext) (accept_model_event ext amb event)"
  unfolding accept_model_event_def by (intro quiet_steps closing_model_kernel)

lemma closing_model_event: "keeps (stays_terminal ext) (worker_apply_model_event ext amb event)"
  unfolding worker_apply_model_event_def by (intro quiet_steps closing_accept closing_budget_exhaustion) simp_all

lemmas closing_ops = closing_start closing_plan closing_approve closing_decision closing_tool_started closing_batch closing_tool_result
  closing_completion closing_subagent_result closing_subagent_spawned closing_budget_stop closing_mcp closing_timeout closing_cancel
  closing_failure closing_pause closing_model_event

lemma closing_exec: "keeps (stays_terminal (wx_ext wx)) (attempt_exec wx op)"
  by (cases op) (simp_all add: closing_ops closing_ignoring)

lemma reach_terminal_inv: "attempt_reach wx x y \<Longrightarrow> terminal_inv (wx_ext wx) x \<Longrightarrow> terminal_inv (wx_ext wx) y"
proof (induction rule: attempt_reach.induct)
  case (exec y op)
  then show ?case using closing_exec [of wx op] by (simp add: keeps_def stays_terminal_def)
qed

section \<open>The terminal checkpoint\<close>

lemma receipt_read:
  assumes "ex_terminal_event x = Some event" and "is_terminal (rm_status (ex_machine x))" and "closing_event (ex_machine x) event"
    and "\<not> is_nil (ee_event_id event)" "\<not> is_nil (ee_trace_id event)"
    and "decode (encode WORKER_CHECKPOINT_SCHEMA_VERSION x) =
      Some \<lparr>wcs_schema_version = WORKER_CHECKPOINT_SCHEMA_VERSION, wcs_terminal_event = ex_terminal_event x\<rparr>"
  shows "terminal_event_from_checkpoint ext decode (checkpoint_attempt ext encode x) =
    (if ee_digest event = json_digest ext (ee_payload event) then Inr (Some event)
     else Inl (InvalidWorkerCheckpoint ''terminal event receipt does not match its Checkpoint''))"
proof -
  let ?c = "checkpoint_attempt ext encode x"
  have "verify_digest ext ?c" by (simp add: checkpoint_attempt_def checkpoint_def verify_digest_new)
  moreover have "decode (cs_state ?c) = Some \<lparr>wcs_schema_version = WORKER_CHECKPOINT_SCHEMA_VERSION, wcs_terminal_event = Some event\<rparr>"
    by (simp add: checkpoint_attempt_def checkpoint_def checkpoint_snapshot_new_def assms(1,6))
  moreover have "cs_status ?c = rm_status (ex_machine x)"
    by (simp add: checkpoint_attempt_def checkpoint_def checkpoint_snapshot_new_def)
  moreover have "receipt_matches ext ?c (ee_event_type event) event \<longleftrightarrow> ee_digest event = json_digest ext (ee_payload event)"
    using assms(3-5)
    by (simp add: receipt_matches_def closing_event_def checkpoint_attempt_def checkpoint_def checkpoint_snapshot_new_def)
  moreover have "terminal_event_type (rm_status (ex_machine x)) = Some (ee_event_type event)"
    using assms(3) by (simp add: closing_event_def)
  ultimately show ?thesis
    using assms(2) by (simp add: terminal_event_from_checkpoint_def WORKER_CHECKPOINT_SCHEMA_VERSION_def)
qed

lemma stopped_attempt:
  assumes "attempt_reach wx x y" and "ex_terminal_event x = None" and "\<not> is_terminal (rm_status (ex_machine x))"
    and "is_terminal (rm_status (ex_machine y))"
  obtains event where "ex_terminal_event y = Some event" "closing_event (ex_machine y) event"
    "event_digest_ok (wx_ext wx) (rm_status (ex_machine y)) event"
  using reach_terminal_inv [OF assms(1)] assms(2-4) by (auto simp: terminal_inv_def split: option.splits)

text \<open>
  C38. A Run that stops can be closed. Take an attempt that has not stopped and any sequence of the operations of
  \<open>attempt_exec\<close>, accepted or refused. Once its machine has stopped with any status other than indeterminate, the attempt
  holds a terminal event, and the reader of its checkpoint gets exactly this event. The state in a checkpoint is assumed to
  be read back as it was written, and the identifiers of the event not to be nil.
\<close>
theorem terminal_receipt_readable:
  assumes "attempt_reach wx x y" and "ex_terminal_event x = None" and "\<not> is_terminal (rm_status (ex_machine x))"
    and "is_terminal (rm_status (ex_machine y))" and "rm_status (ex_machine y) \<noteq> Indeterminate"
    and "\<And>event. ex_terminal_event y = Some event \<Longrightarrow> \<not> is_nil (ee_event_id event) \<and> \<not> is_nil (ee_trace_id event)"
    and "decode (encode WORKER_CHECKPOINT_SCHEMA_VERSION y) =
      Some \<lparr>wcs_schema_version = WORKER_CHECKPOINT_SCHEMA_VERSION, wcs_terminal_event = ex_terminal_event y\<rparr>"
  shows "\<exists>event. ex_terminal_event y = Some event \<and>
    terminal_event_from_checkpoint (wx_ext wx) decode (checkpoint_attempt (wx_ext wx) encode y) = Inr (Some event)"
proof -
  obtain event where event: "ex_terminal_event y = Some event" "closing_event (ex_machine y) event"
      "event_digest_ok (wx_ext wx) (rm_status (ex_machine y)) event"
    by (rule stopped_attempt [OF assms(1-4)])
  from event(3) assms(5) have "ee_digest event = json_digest (wx_ext wx) (ee_payload event)" by (simp add: event_digest_ok_def)
  then show ?thesis
    using receipt_read [OF event(1) assms(4) event(2), of decode encode "wx_ext wx"] assms(6) [OF event(1)] assms(7) event(1) by simp
qed

text \<open>
  C39. A Run that stops because the outcome of a Tool is unknown cannot be closed from its checkpoint. Its terminal event was
  given its digest by the kernel and its payload was extended afterwards, so the reader of the checkpoint refuses it,
  unless the digest does not tell the two payloads apart. The assumptions on the checkpoint and the identifiers are those of
  a Run that can be closed.
\<close>
theorem unknown_outcome_receipt_refused:
  assumes "attempt_reach wx x y" and "ex_terminal_event x = None" and "\<not> is_terminal (rm_status (ex_machine x))"
    and "rm_status (ex_machine y) = Indeterminate"
    and "\<And>event. ex_terminal_event y = Some event \<Longrightarrow> \<not> is_nil (ee_event_id event) \<and> \<not> is_nil (ee_trace_id event)"
    and "\<And>event effect. ex_terminal_event y = Some event \<Longrightarrow>
      collision_free (wx_ext wx) (unknown_outcome_payload effect) (ee_payload event)"
    and "decode (encode WORKER_CHECKPOINT_SCHEMA_VERSION y) =
      Some \<lparr>wcs_schema_version = WORKER_CHECKPOINT_SCHEMA_VERSION, wcs_terminal_event = ex_terminal_event y\<rparr>"
  shows "terminal_event_from_checkpoint (wx_ext wx) decode (checkpoint_attempt (wx_ext wx) encode y) =
    Inl (InvalidWorkerCheckpoint ''terminal event receipt does not match its Checkpoint'')"
proof -
  have stopped: "is_terminal (rm_status (ex_machine y))" by (simp add: assms(4))
  obtain event where event: "ex_terminal_event y = Some event" "closing_event (ex_machine y) event"
      "event_digest_ok (wx_ext wx) (rm_status (ex_machine y)) event"
    by (rule stopped_attempt [OF assms(1-3) stopped])
  from event(3) assms(4) obtain effect where digest: "ee_digest event = json_digest (wx_ext wx) (unknown_outcome_payload effect)"
    and reason: "jget ''reason'' (ee_payload event) = Some (JString ''tool_outcome_unknown'')" by (auto simp: event_digest_ok_def)
  have "jget ''reason'' (unknown_outcome_payload effect) = None" by (simp add: unknown_outcome_payload_def jget_jset2 jget_jobj)
  with reason have "unknown_outcome_payload effect \<noteq> ee_payload event" by auto
  with digest assms(6) [OF event(1)] have "ee_digest event \<noteq> json_digest (wx_ext wx) (ee_payload event)"
    by (auto simp: collision_free_def)
  then show ?thesis
    using receipt_read [OF event(1) stopped event(2), of decode encode "wx_ext wx"] assms(5) [OF event(1)] assms(7) by simp
qed

section \<open>An attempt that is cancelled\<close>

definition sample_worker_externals :: "externals \<Rightarrow> worker_externals" where
  "sample_worker_externals ext = \<lparr>wx_ext = ext, wx_sha256 = (\<lambda>_. replicate 32 0), wx_spawn = (\<lambda>_. None), wx_wait = (\<lambda>_. None),
     wx_close = (\<lambda>_. None), wx_send = (\<lambda>_. None), wx_history = (\<lambda>_. None), wx_fork = (\<lambda>_. None), wx_rollback = (\<lambda>_. None),
     wx_paged_read = (\<lambda>_. None), wx_read_resource = (\<lambda>_. None), wx_get_prompt = (\<lambda>_. None)\<rparr>"

definition idle_attempt :: "run_execution_command \<Rightarrow> run_machine \<Rightarrow> active_execution" where
  "idle_attempt command m = \<lparr>ex_command = command, ex_machine = m, ex_cancelled = False, ex_started_event = None,
     ex_terminal_event = None, ex_transcript = [], ex_assistant_text_buffer = [], ex_assistant_rich_content_buffer = [],
     ex_effective_tool_names = [], ex_pending_tool_calls = [], ex_outstanding_tool_calls = [], ex_started_tool_calls = [],
     ex_ordered_tool_commit_queue = [], ex_staged_ordered_tool_results = [], ex_pending_approval = None,
     ex_pending_mcp_input = None, ex_resolved_mcp_input = None, ex_pending_subagents = [], ex_active_subagents = [],
     ex_completed_subagents = [], ex_subagent_handles = [], ex_subagent_message_sequences = [], ex_subagent_message_receipts = [],
     ex_subagent_message_queues = [], ex_subagent_conversations = [], ex_subagent_activation_sequences = [],
     ex_subagent_generations = [], ex_subagent_budget_reservations = [], ex_closed_subagents = [], ex_subagent_result_receipts = [],
     ex_budget_usage = \<lparr>bu_tokens = 0, bu_cost_micros = 0\<rparr>, ex_execution_time = time_budget_new 0, ex_federated_registry = None,
     ex_runtime_mcp_read_servers = [], ex_pending_budget_exhaustion = None, ex_approval_decisions = [],
     ex_applied_approval_decisions = []\<rparr>"

definition running_attempt :: active_execution where
  "running_attempt = idle_attempt Execution_Command.sample_execution (sample_machine Running)"

lemma running_attempt_fields:
  "ex_terminal_event running_attempt = None" "ex_machine running_attempt = sample_machine Running"
  "ex_started_tool_calls running_attempt = []"
  by (simp_all add: running_attempt_def idle_attempt_def)

lemmas evaluate_attempt = ignoring_def io_defs tool_outcome_uncertainty_def uncertain_calls_def map_filter_def kernel_def apply_command_def
  sample_machine_def run_machine_new_def ok_emit_def emit_def Let_def set_terminal_def event_envelope_new_def sample_ambient_def

theorem terminal_receipt_readable_witness:
  "\<exists>y event. attempt_reach (sample_worker_externals sample_externals) running_attempt y \<and> rm_status (ex_machine y) = Cancelled \<and>
     ex_terminal_event y = Some event \<and>
     terminal_event_from_checkpoint sample_externals
       (\<lambda>_. Some \<lparr>wcs_schema_version = 27, wcs_terminal_event = Some event\<rparr>) (checkpoint_attempt sample_externals (\<lambda>_ _. []) y) = Inr (Some event)"
proof -
  let ?wx = "sample_worker_externals sample_externals"
  have ext: "wx_ext ?wx = sample_externals" by (simp add: sample_worker_externals_def)
  define y where "y = snd (attempt_exec ?wx (AttemptCancel sample_ambient) running_attempt)"
  have reach: "attempt_reach ?wx running_attempt y" unfolding y_def by (intro attempt_reach.intros)
  have y: "rm_status (ex_machine y) = Cancelled" "\<exists>event. ex_terminal_event y = Some event \<and> ee_event_id event = 7 \<and> ee_trace_id event = 8"
    unfolding y_def attempt_exec.simps worker_cancel_def interrupt_def
    by (simp_all add: evaluate_attempt running_attempt_fields)
  then obtain event where event: "ex_terminal_event y = Some event" "ee_event_id event = 7" "ee_trace_id event = 8" by blast
  let ?decode = "\<lambda>_ :: u8 list. Some \<lparr>wcs_schema_version = 27 :: u32, wcs_terminal_event = Some event\<rparr>"
  have "\<exists>event. ex_terminal_event y = Some event \<and>
      terminal_event_from_checkpoint (wx_ext ?wx) ?decode (checkpoint_attempt (wx_ext ?wx) (\<lambda>_ _. []) y) = Inr (Some event)"
    by (rule terminal_receipt_readable [OF reach])
       (simp_all add: y event is_nil_def running_attempt_fields WORKER_CHECKPOINT_SCHEMA_VERSION_def sample_machine_def)
  with reach y event show ?thesis unfolding ext by (intro exI conjI) auto
qed

section \<open>An attempt that is cancelled while a Tool runs\<close>

definition telling_externals :: externals where
  "telling_externals = sample_externals\<lparr>ext_to_vec := \<lambda>v. if jget ''reason'' v = None then [0] else [1],
     ext_sha256_hex := \<lambda>bs. replicate 64 (if bs = [0] then CHR ''0'' else CHR ''1'')\<rparr>"

definition uncertain_request :: tool_execution_request where
  "uncertain_request = \<lparr>ter_call = \<lparr>tc_id = ''c'', tc_name = ''pay'', tc_arguments = JNull\<rparr>, ter_effect = NonIdempotent,
     ter_sandbox = TrustedNative, ter_binding_digest = ''d''\<rparr>"

definition uncertain_attempt :: active_execution where
  "uncertain_attempt = running_attempt\<lparr>ex_outstanding_tool_calls := [(''c'', uncertain_request)],
     ex_started_tool_calls := [(''c'', event_envelope_new telling_externals sample_ambient 2 3 1 5 4 ''tool.execution.started'' JNull)]\<rparr>"

theorem unknown_outcome_receipt_refused_witness:
  "\<exists>y event. attempt_reach (sample_worker_externals telling_externals) uncertain_attempt y \<and> rm_status (ex_machine y) = Indeterminate \<and>
     ex_terminal_event y = Some event \<and>
     terminal_event_from_checkpoint telling_externals
       (\<lambda>_. Some \<lparr>wcs_schema_version = 27, wcs_terminal_event = Some event\<rparr>) (checkpoint_attempt telling_externals (\<lambda>_ _. []) y) =
       Inl (InvalidWorkerCheckpoint ''terminal event receipt does not match its Checkpoint'')"
proof -
  let ?wx = "sample_worker_externals telling_externals"
  have ext: "wx_ext ?wx = telling_externals" by (simp add: sample_worker_externals_def)
  define y where "y = snd (attempt_exec ?wx (AttemptCancel sample_ambient) uncertain_attempt)"
  have reach: "attempt_reach ?wx uncertain_attempt y" unfolding y_def by (intro attempt_reach.intros)
  have x: "ex_terminal_event uncertain_attempt = None" "\<not> is_terminal (rm_status (ex_machine uncertain_attempt))"
    by (simp_all add: uncertain_attempt_def running_attempt_fields sample_machine_def)
  have y: "rm_status (ex_machine y) = Indeterminate"
    "\<exists>event. ex_terminal_event y = Some event \<and> ee_event_id event = 7 \<and> ee_trace_id event = 8"
    unfolding y_def attempt_exec.simps worker_cancel_def interrupt_def terminate_uncertain_tool_with_interruption_def
    by (simp_all add: evaluate_attempt uncertain_attempt_def uncertain_request_def running_attempt_fields bt_get_def
        describe_uncertainty_def)
  then obtain event where event: "ex_terminal_event y = Some event" "ee_event_id event = 7" "ee_trace_id event = 8" by blast
  obtain event' where "ex_terminal_event y = Some event'" and told: "event_digest_ok (wx_ext ?wx) (rm_status (ex_machine y)) event'"
    by (rule stopped_attempt [OF reach x]) (simp_all add: y)
  with event have told: "jget ''reason'' (ee_payload event) = Some (JString ''tool_outcome_unknown'')"
    by (simp add: event_digest_ok_def y)
  have "jget ''reason'' (unknown_outcome_payload effect) = None" for effect
    by (simp add: unknown_outcome_payload_def jget_jset2 jget_jobj)
  with told have free: "collision_free (wx_ext ?wx) (unknown_outcome_payload effect) (ee_payload event)" for effect
    unfolding ext by (simp add: collision_free_def json_digest_def telling_externals_def)
  let ?decode = "\<lambda>_ :: u8 list. Some \<lparr>wcs_schema_version = 27 :: u32, wcs_terminal_event = Some event\<rparr>"
  have "terminal_event_from_checkpoint (wx_ext ?wx) ?decode (checkpoint_attempt (wx_ext ?wx) (\<lambda>_ _. []) y) =
      Inl (InvalidWorkerCheckpoint ''terminal event receipt does not match its Checkpoint'')"
    by (rule unknown_outcome_receipt_refused [OF reach x])
       (use free in \<open>auto simp: y event is_nil_def WORKER_CHECKPOINT_SCHEMA_VERSION_def\<close>)
  with reach y event show ?thesis unfolding ext by (intro exI conjI) auto
qed

end
