(* ===== verification/Worker_Turns.thy ===== *)
theory Worker_Turns
  imports Worker_Terminal
begin

text \<open>
  The Tool calls of an attempt and their results. An attempt alternates between model calls, in which the model adds Tool
  calls to its turn, and the resolving of these calls. \<open>turn_reach\<close> is what this alternation can make of an attempt. The
  invariant is a conservation law: each call in the transcript has its result there, or is still pending, running, staged,
  waiting for a decision or delegated, and none is both. The second part is about a batch of Tools that run concurrently,
  whose results are committed in the order of the calls.
\<close>

section \<open>Accepted operations\<close>

text \<open>What an operation that succeeds has done: the rules rewrite a success to the state it leaves.\<close>

named_theorems success \<open>what a successful computation has done\<close>

lemma success_steps [success]:
  "finish a x = (Inr b, y) \<longleftrightarrow> b = a \<and> y = x" "give_up e x = (Inr b, y) \<longleftrightarrow> False" "update f x = (Inr u, y) \<longleftrightarrow> y = f x"
  "inspect h x = (Inr b, y) \<longleftrightarrow> h x x = (Inr b, y)"
  "then_do m g x = (Inr b, y) \<longleftrightarrow> (\<exists>a z. m x = (Inr a, z) \<and> g a z = (Inr b, y))"
  by (auto simp: io_defs split: prod.splits sum.splits)

lemma success_kernel: "kernel operation x = (Inr e, y) \<longleftrightarrow> (\<exists>m. operation (ex_machine x) = (Inr e, m) \<and> y = x\<lparr>ex_machine := m\<rparr>)"
  by (cases "operation (ex_machine x)"; cases "fst (operation (ex_machine x))") (auto simp: kernel_def)

lemma success_small [success]:
  "pop_call x = (Inr u, y) \<longleftrightarrow> y = x\<lparr>ex_pending_tool_calls := tl (ex_pending_tool_calls x)\<rparr>"
  "await_result request x = (Inr u, y) \<longleftrightarrow>
     y = x\<lparr>ex_outstanding_tool_calls := bt_insert (tc_id (ter_call request)) request (ex_outstanding_tool_calls x)\<rparr>"
  "push_transcript message x = (Inr u, y) \<longleftrightarrow> y = x\<lparr>ex_transcript := ex_transcript x @ [message]\<rparr>"
  "forget_call i x = (Inr u, y) \<longleftrightarrow>
     y = x\<lparr>ex_outstanding_tool_calls := bt_remove i (ex_outstanding_tool_calls x), ex_started_tool_calls := bt_remove i (ex_started_tool_calls x)\<rparr>"
  "resume_approved now x = (Inr u, y) \<longleftrightarrow>
     y = x\<lparr>ex_pending_approval := None, ex_execution_time := time_resume now (ex_execution_time x)\<rparr>"
  by (simp_all add: pop_call_def await_result_def push_transcript_def forget_call_def resume_approved_def success)

lemma success_reservation [success]:
  "reserve agent_id request x = (Inr u, y) \<longleftrightarrow>
     (\<exists>m. insert_subagent_budget_reservation (ex_subagent_budget_reservations x) agent_id request = Inr m \<and>
       y = x\<lparr>ex_subagent_budget_reservations := m\<rparr>)"
  "release_reservation agent_id request x = (Inr u, y) \<longleftrightarrow>
     (\<exists>m. remove_subagent_budget_reservation (ex_subagent_budget_reservations x) agent_id request = Inr m \<and>
       y = x\<lparr>ex_subagent_budget_reservations := m\<rparr>)"
  by (auto simp: reserve_def release_reservation_def split: sum.splits)

section \<open>Calls and results\<close>

definition made_calls :: "model_message list \<Rightarrow> string list" where
  "made_calls transcript = concat (map (\<lambda>message. List.map_filter part_call_id (mm_content message)) transcript)"

definition given_results :: "model_message list \<Rightarrow> string list" where
  "given_results transcript = concat (map (\<lambda>message. List.map_filter part_result_id (mm_content message)) transcript)"

definition approval_ids :: "tool_approval_request option \<Rightarrow> string list" where
  "approval_ids approval = (case approval of None \<Rightarrow> [] | Some a \<Rightarrow> [tc_id (ter_call (tar_execution a))])"

definition running_ids :: "active_execution \<Rightarrow> string list" where
  "running_ids x =
     map fst (ex_outstanding_tool_calls x) @ map fst (ex_staged_ordered_tool_results x) @ approval_ids (ex_pending_approval x) @
     map ssr_tool_call_id (ex_pending_subagents x)"

definition unresolved :: "active_execution \<Rightarrow> string list" where
  "unresolved x = map tc_id (ex_pending_tool_calls x) @ running_ids x"

text \<open>No result stands before its call: in every prefix of the transcript there are at most as many results as calls of a name.\<close>

definition results_follow :: "model_message list \<Rightarrow> bool" where
  "results_follow transcript \<longleftrightarrow>
     (\<forall>n. mset (given_results (take n transcript)) \<subseteq># mset (made_calls (take n transcript)))"

lemma ids_append:
  "made_calls (xs @ ys) = made_calls xs @ made_calls ys" "given_results (xs @ ys) = given_results xs @ given_results ys"
  "made_calls [] = []" "given_results [] = []"
  by (simp_all add: made_calls_def given_results_def)

lemma ids_tool_result:
  "made_calls [tool_result_message ext i content] = []" "given_results [tool_result_message ext i content] = [i]"
  by (simp_all add: made_calls_def given_results_def tool_result_message_def map_filter_def)

lemma results_follow_append:
  assumes "results_follow transcript"
    and "mset (given_results (transcript @ [message])) \<subseteq># mset (made_calls (transcript @ [message]))"
  shows "results_follow (transcript @ [message])"
  unfolding results_follow_def
proof
  fix n
  show "mset (given_results (take n (transcript @ [message]))) \<subseteq># mset (made_calls (take n (transcript @ [message])))"
    using assms by (cases "n \<le> length transcript") (auto simp: results_follow_def)
qed

lemma results_follow_all: "results_follow transcript \<Longrightarrow> mset (given_results transcript) \<subseteq># mset (made_calls transcript)"
  unfolding results_follow_def by (drule spec [of _ "length transcript"]) simp

lemma keys_insert: "k \<notin> set (map fst m) \<Longrightarrow> mset (map fst (bt_insert k v m)) = add_mset k (mset (map fst m))"
  by (induction k v m rule: bt_insert.induct) auto

lemma keys_remove: "mset (map fst (bt_remove k m)) = mset (map fst m) - {#k#}"
  by (induction k m rule: bt_remove.induct) auto


lemma bt_key: "bt_get k m = Some v \<Longrightarrow> k \<in># mset (map fst m)"
  using bt_get_None_iff [of k m] by auto

section \<open>The conservation law\<close>

definition plain_buffer :: "active_execution \<Rightarrow> bool" where
  "plain_buffer x \<longleftrightarrow>
     list_all (\<lambda>part. part_call_id (Some part) = None \<and> part_result_id (Some part) = None) (ex_assistant_rich_content_buffer x)"

text \<open>The queue of a batch: what is staged is in it, what is in it is staged or running.\<close>

definition queue_inv :: "active_execution \<Rightarrow> bool" where
  "queue_inv x \<longleftrightarrow>
     distinct (ex_ordered_tool_commit_queue x) \<and>
     set (ex_ordered_tool_commit_queue x) \<subseteq> set (map fst (ex_outstanding_tool_calls x)) \<union> set (map fst (ex_staged_ordered_tool_results x)) \<and>
     set (map fst (ex_staged_ordered_tool_results x)) \<subseteq> set (ex_ordered_tool_commit_queue x)"

definition front_waits :: "active_execution \<Rightarrow> bool" where
  "front_waits x \<longleftrightarrow>
     ex_ordered_tool_commit_queue x = [] \<or> hd (ex_ordered_tool_commit_queue x) \<notin> set (map fst (ex_staged_ordered_tool_results x))"

definition conserved :: "string list \<Rightarrow> active_execution \<Rightarrow> bool" where
  "conserved committed x \<longleftrightarrow>
     mset (made_calls (ex_transcript x)) = mset (given_results (ex_transcript x)) + mset committed \<and> results_follow (ex_transcript x)"

definition tool_inv :: "active_execution \<Rightarrow> bool" where
  "tool_inv x \<longleftrightarrow> plain_buffer x \<and> queue_inv x \<and> distinct (unresolved x) \<and> conserved (unresolved x) x"

definition turn_inv :: "bool \<Rightarrow> active_execution \<Rightarrow> bool" where
  "turn_inv streaming x \<longleftrightarrow>
     ex_terminal_event x = None \<longrightarrow>
       (if streaming
        then plain_buffer x \<and> running_ids x = [] \<and> ex_ordered_tool_commit_queue x = [] \<and> distinct (unresolved x) \<and> conserved [] x
        else tool_inv x \<and> front_waits x)"

text \<open>What a step of the resolving phase may do: the calls that leave \<open>unresolved\<close> are those whose results it adds.\<close>

lemma conserved_result:
  assumes "conserved (unresolved x) x" and "ex_transcript y = ex_transcript x @ [tool_result_message ext i content]"
    and "mset (unresolved x) = add_mset i (mset (unresolved y))"
  shows "conserved (unresolved y) y"
proof -
  have eq: "mset (made_calls (ex_transcript y)) = mset (given_results (ex_transcript y)) + mset (unresolved y)"
    using assms by (simp add: conserved_def ids_append ids_tool_result)
  have "mset (given_results (ex_transcript y)) \<subseteq># mset (made_calls (ex_transcript y))" by (simp add: eq)
  then have "results_follow (ex_transcript y)" using assms(1,2) results_follow_append [of "ex_transcript x" "tool_result_message ext i content"]
    by (simp add: conserved_def)
  with eq show ?thesis by (simp add: conserved_def)
qed

lemma conserved_moved:
  "conserved (unresolved x) x \<Longrightarrow> ex_transcript y = ex_transcript x \<Longrightarrow> mset (unresolved y) = mset (unresolved x) \<Longrightarrow>
     conserved (unresolved y) y"
  by (simp add: conserved_def)

lemma distinct_moved: "mset xs = mset ys \<Longrightarrow> distinct xs \<Longrightarrow> distinct ys" "mset xs = add_mset i (mset ys) \<Longrightarrow> distinct xs \<Longrightarrow> distinct ys"
  using mset_eq_imp_distinct_iff [of xs ys] mset_eq_imp_distinct_iff [of xs "i # ys"] by simp_all

text \<open>A step that moves calls without resolving one, and a step that resolves one.\<close>

lemma tool_inv_moved:
  assumes "tool_inv x" and "ex_transcript y = ex_transcript x" and "mset (unresolved y) = mset (unresolved x)"
    and "ex_assistant_rich_content_buffer y = ex_assistant_rich_content_buffer x" and "queue_inv y"
  shows "tool_inv y"
  using assms(1,4,5) distinct_moved(1) [OF assms(3) [symmetric]] conserved_moved [OF _ assms(2,3)]
  by (simp add: tool_inv_def plain_buffer_def)

lemma tool_inv_resolved:
  assumes "tool_inv x" and "ex_transcript y = ex_transcript x @ [tool_result_message ext i content]"
    and "mset (unresolved x) = add_mset i (mset (unresolved y))"
    and "ex_assistant_rich_content_buffer y = ex_assistant_rich_content_buffer x" and "queue_inv y"
  shows "tool_inv y"
  using assms(1,4,5) distinct_moved(2) [OF assms(3)] conserved_result [OF _ assms(2,3)]
  by (simp add: tool_inv_def plain_buffer_def)


section \<open>Planning\<close>

lemma planned_execution:
  assumes "plan ext u reg call scopes policies = Inr p"
  shows "\<exists>e. plan_execution p = Some e \<and> ter_call e = call"
proof -
  obtain d where d: "authorize reg (tc_name call) scopes = Inr d" by (rule plan_Ok_obtain [OF assms])
  show ?thesis using assms unfolding plan_authorized [OF d] Let_def
    by (cases "td_approval d"; cases "exempt d (policy_for policies d) call") auto
qed

lemma mset_unresolved:
  "mset (unresolved x) =
     (mset (map tc_id (ex_pending_tool_calls x)) + mset (approval_ids (ex_pending_approval x))) +
     mset (map fst (ex_outstanding_tool_calls x)) + mset (map fst (ex_staged_ordered_tool_results x)) +
     mset (map ssr_tool_call_id (ex_pending_subagents x))"
  by (simp add: unresolved_def running_ids_def ac_simps)

text \<open>The identifiers of a pending call are not those of a running one, so a call that starts to run does not displace another.\<close>

lemma started_running:
  assumes "tool_inv x" and "ex_transcript y = ex_transcript x" "ex_assistant_rich_content_buffer y = ex_assistant_rich_content_buffer x"
    and "ex_ordered_tool_commit_queue y = ex_ordered_tool_commit_queue x"
    and "ex_staged_ordered_tool_results y = ex_staged_ordered_tool_results x"
    and "ex_pending_subagents y = ex_pending_subagents x"
    and "ex_outstanding_tool_calls y = bt_insert i request (ex_outstanding_tool_calls x)"
    and "mset (map tc_id (ex_pending_tool_calls x)) + mset (approval_ids (ex_pending_approval x)) =
      add_mset i (mset (map tc_id (ex_pending_tool_calls y)) + mset (approval_ids (ex_pending_approval y)))"
  shows "tool_inv y \<and> (front_waits x \<longrightarrow> front_waits y)"
proof -
  have "i \<in># mset (map tc_id (ex_pending_tool_calls x)) + mset (approval_ids (ex_pending_approval x))"
    unfolding assms(8) by simp
  then have fresh: "i \<notin> set (map fst (ex_outstanding_tool_calls x))"
    using assms(1) by (auto simp: tool_inv_def unresolved_def running_ids_def)
  have "mset (unresolved y) = mset (unresolved x)"
    unfolding mset_unresolved assms(5-8) keys_insert [OF fresh] by simp
  moreover have "queue_inv y"
    using assms(1) by (auto simp: tool_inv_def queue_inv_def assms(4-7) set_bt_insert_keys)
  ultimately show ?thesis
    using tool_inv_moved [of x y] assms(1-3) by (simp add: front_waits_def assms(4,5))
qed

lemma planned_control:
  assumes "tool_inv x" and "ex_pending_tool_calls x = call # rest" and "plan_control ext amb command call effect x = (Inr r, y)"
  shows "tool_inv y \<and> (front_waits x \<longrightarrow> front_waits y)"
  using assms(2,3)
  by (intro started_running [OF assms(1)])
     (auto simp: plan_control_def Let_def success success_kernel subagent_control_request_def)

text \<open>A call that is delegated.\<close>

lemma planned_spawn:
  assumes "tool_inv x" and "ex_pending_tool_calls x = call # rest" and "ssr_tool_call_id request = tc_id call"
    and "plan_spawn ext amb request x = (Inr r, y)"
  shows "tool_inv y \<and> (front_waits x \<longrightarrow> front_waits y)"
proof -
  have y: "ex_transcript y = ex_transcript x" "ex_assistant_rich_content_buffer y = ex_assistant_rich_content_buffer x"
    "ex_ordered_tool_commit_queue y = ex_ordered_tool_commit_queue x"
    "ex_staged_ordered_tool_results y = ex_staged_ordered_tool_results x"
    "ex_outstanding_tool_calls y = ex_outstanding_tool_calls x" "ex_pending_approval y = ex_pending_approval x"
    "ex_pending_tool_calls y = rest" "ex_pending_subagents y = ex_pending_subagents x @ [request]"
    using assms(2,4) by (auto simp: plan_spawn_def success success_kernel)
  have "mset (unresolved y) = mset (unresolved x)" by (simp add: unresolved_def running_ids_def y assms(2,3))
  moreover have "queue_inv y" using assms(1) by (simp add: tool_inv_def queue_inv_def y)
  ultimately show ?thesis using tool_inv_moved [of x y] assms(1) by (simp add: front_waits_def y)
qed

lemma spawn_request_id: "spawn_request wx now x call = Inr request \<Longrightarrow> ssr_tool_call_id request = tc_id call"
  by (auto simp: spawn_request_def Let_def split: if_splits option.splits)

text \<open>A call that asks for a decision, and a call that is denied at once.\<close>

lemma queue_inv_same:
  "ex_ordered_tool_commit_queue y = ex_ordered_tool_commit_queue x \<Longrightarrow>
   ex_staged_ordered_tool_results y = ex_staged_ordered_tool_results x \<Longrightarrow>
   ex_outstanding_tool_calls y = ex_outstanding_tool_calls x \<Longrightarrow> queue_inv y = queue_inv x"
  by (simp add: queue_inv_def)

lemma front_waits_same:
  "ex_ordered_tool_commit_queue y = ex_ordered_tool_commit_queue x \<Longrightarrow>
   ex_staged_ordered_tool_results y = ex_staged_ordered_tool_results x \<Longrightarrow> front_waits y = front_waits x"
  by (simp add: front_waits_def)

lemma tool_inv_queue: "tool_inv x \<Longrightarrow> queue_inv x"
  by (simp add: tool_inv_def)

lemma planned_approval:
  assumes "tool_inv x" and "ex_pending_tool_calls x = call # rest" and "ex_pending_approval x = None"
    and "tc_id (ter_call (tar_execution approval)) = tc_id call"
  shows "tool_inv (x\<lparr>ex_pending_tool_calls := rest, ex_machine := m, ex_pending_approval := Some approval, ex_execution_time := t\<rparr>)"
    (is "tool_inv ?y")
proof (rule tool_inv_moved [OF assms(1)])
  show "mset (unresolved ?y) = mset (unresolved x)" by (simp add: mset_unresolved approval_ids_def assms(2-4))
  show "queue_inv ?y" using tool_inv_queue [OF assms(1)] queue_inv_same [of ?y x] by simp
qed simp_all

lemma planned_denial:
  assumes "tool_inv x" and "ex_pending_tool_calls x = call # rest"
  shows "tool_inv (x\<lparr>ex_pending_tool_calls := rest, ex_machine := m,
    ex_transcript := ex_transcript x @ [tool_result_message ext (tc_id call) content]\<rparr>)" (is "tool_inv ?y")
proof (rule tool_inv_resolved [OF assms(1)])
  show "mset (unresolved x) = add_mset (tc_id call) (mset (unresolved ?y))" by (simp add: mset_unresolved assms(2))
  show "queue_inv ?y" using tool_inv_queue [OF assms(1)] queue_inv_same [of ?y x] by simp
qed simp_all

lemma planned_registered:
  assumes "tool_inv x" and "ex_pending_tool_calls x = call # rest" and "ex_pending_approval x = None"
    and "plan_registered wx clock native call x = (Inr r, y)"
  shows "tool_inv y \<and> (front_waits x \<longrightarrow> front_waits y)"
proof -
  from assms(2,4) obtain p m followup u reg scopes policies where "plan (wx_ext wx) u reg call scopes policies = Inr p"
    and y: "follow_plan (wx_ext wx) clock p (x\<lparr>ex_pending_tool_calls := rest, ex_machine := m\<rparr>) = (Inr followup, y)"
    by (auto simp: plan_registered_def Let_def success success_kernel split: if_splits sum.splits)
  then have p: "\<exists>e. plan_execution p = Some e \<and> ter_call e = call" by (intro planned_execution)
  show ?thesis
  proof (cases p)
    case (Execute request)
    with p y assms(2,3) show ?thesis
      by (intro started_running [OF assms(1), of _ "tc_id call" request]) (auto simp: follow_plan_def success)
  next
    case (AutoApproved request b c d)
    with p y assms(2,3) show ?thesis
      by (intro started_running [OF assms(1), of _ "tc_id call" request]) (auto simp: follow_plan_def success)
  next
    case (ApprovalRequired approval)
    with p y planned_approval [OF assms(1-3), of approval] front_waits_same [of y x] show ?thesis
      by (auto simp: follow_plan_def success)
  next
    case (Denied request)
    with p y planned_denial [OF assms(1,2)] front_waits_same [of y x] show ?thesis
      by (auto simp: follow_plan_def success success_kernel)
  next
    case (SubagentSpawn request)
    with p show ?thesis by simp
  qed
qed

lemma planned:
  assumes "tool_inv x" and "plan_next_tool_call wx clock native x = (Inr r, y)"
  shows "tool_inv y \<and> (front_waits x \<longrightarrow> front_waits y)"
proof -
  from assms(2) obtain call rest where x: "ex_pending_approval x = None" "ex_pending_tool_calls x = call # rest"
    by (auto simp: plan_next_tool_call_def success split: if_splits list.splits)
  from assms(2) x consider
      (control) effect where "plan_control (wx_ext wx) (pk_ambient clock) (ex_command x) call effect x = (Inr r, y)"
    | (spawn) request where "spawn_request wx (pk_instant clock) x call = Inr request"
        "plan_spawn (wx_ext wx) (pk_ambient clock) request x = (Inr r, y)"
    | (registered) "plan_registered wx clock native call x = (Inr r, y)"
    by (auto simp: plan_next_tool_call_def success split: if_splits option.splits sum.splits)
  then show ?thesis
  proof cases
    case control
    then show ?thesis by (rule planned_control [OF assms(1) x(2)])
  next
    case spawn
    show ?thesis by (rule planned_spawn [OF assms(1) x(2) spawn_request_id [OF spawn(1)] spawn(2)])
  next
    case registered
    then show ?thesis by (rule planned_registered [OF assms(1) x(2,1)])
  qed
qed

section \<open>Decisions\<close>

lemma bound_approvalD: "bound_approval x i d = Some approval \<Longrightarrow> ex_pending_approval x = Some approval"
  by (auto simp: bound_approval_def split: option.splits if_splits)

lemma approved:
  assumes "tool_inv x" and "approve_tool_call ext amb now i d x = (Inr r, y)"
  shows "tool_inv y \<and> (front_waits x \<longrightarrow> front_waits y)"
proof -
  from assms(2) obtain approval m where "ex_pending_approval x = Some approval"
    and "y = x\<lparr>ex_machine := m, ex_pending_approval := None, ex_execution_time := time_resume now (ex_execution_time x),
      ex_outstanding_tool_calls := bt_insert (tc_id (ter_call (tar_execution approval))) (tar_execution approval) (ex_outstanding_tool_calls x)\<rparr>"
    by (auto simp: approve_tool_call_def success success_kernel dest!: bound_approvalD split: option.splits)
  then show ?thesis by (intro started_running [OF assms(1)]) (auto simp: approval_ids_def)
qed

text \<open>A decision releases the call it names or answers it with the refusal.\<close>

lemma decision_cases:
  assumes "apply_decision ext amb amb' now c x = (Inr r, y)"
  obtains (known) "y = x"
    | (allowed) approval m a b where "ex_pending_approval x = Some approval"
        "y = x\<lparr>ex_machine := m, ex_pending_approval := None, ex_execution_time := time_resume now (ex_execution_time x),
          ex_outstanding_tool_calls := bt_insert (tc_id (ter_call (tar_execution approval))) (tar_execution approval) (ex_outstanding_tool_calls x),
          ex_applied_approval_decisions := a, ex_approval_decisions := b\<rparr>"
    | (denied) approval m content a b where "ex_pending_approval x = Some approval"
        "y = x\<lparr>ex_pending_approval := None, ex_execution_time := time_resume now (ex_execution_time x), ex_machine := m,
          ex_transcript := ex_transcript x @ [tool_result_message ext (tc_id (ter_call (tar_execution approval))) content],
          ex_applied_approval_decisions := a, ex_approval_decisions := b\<rparr>"
proof (cases "bt_get (tad_approval_id c) (ex_approval_decisions x)")
  case (Some receipt)
  with assms known show ?thesis by (auto simp: apply_decision_def success split: if_splits)
next
  case None
  with assms obtain approval resumed m outcome z a b where "ex_pending_approval x = Some approval"
    and decided: "decide_approval ext amb' c approval resumed (x\<lparr>ex_machine := m, ex_pending_approval := None,
      ex_execution_time := time_resume now (ex_execution_time x)\<rparr>) = (Inr outcome, z)"
    and "y = z\<lparr>ex_applied_approval_decisions := a, ex_approval_decisions := b\<rparr>"
    by (auto simp: apply_decision_def success success_kernel dest!: bound_approvalD split: if_splits option.splits)
  then show ?thesis
    by (cases "tad_decision c") (auto simp: decide_approval_def Let_def success success_kernel intro: allowed denied)
qed

lemma decided:
  assumes "tool_inv x" and "apply_decision ext amb amb' now c x = (Inr r, y)"
  shows "tool_inv y \<and> (front_waits x \<longrightarrow> front_waits y)"
  using assms(2)
proof (cases rule: decision_cases)
  case (allowed approval m a b)
  then show ?thesis by (intro started_running [OF assms(1)]) (auto simp: approval_ids_def)
next
  case (denied approval m content a b)
  have "mset (unresolved x) = add_mset (tc_id (ter_call (tar_execution approval))) (mset (unresolved y))"
    by (simp add: denied mset_unresolved approval_ids_def)
  moreover have "queue_inv y" using tool_inv_queue [OF assms(1)] queue_inv_same [of y x] by (simp add: denied(2))
  moreover have "front_waits y = front_waits x" by (rule front_waits_same) (simp_all add: denied(2))
  ultimately show ?thesis
    using tool_inv_resolved [OF assms(1), of y ext "tc_id (ter_call (tar_execution approval))" content] by (simp add: denied(2))
qed (use assms(1) in simp)

section \<open>Results\<close>

lemma keys_remove_set: "distinct (map fst m) \<Longrightarrow> set (map fst (bt_remove k m)) = set (map fst m) - {k}"
  by (induction k m rule: bt_remove.induct) auto

lemma distinct_keys:
  "tool_inv x \<Longrightarrow> distinct (map fst (ex_outstanding_tool_calls x))" "tool_inv x \<Longrightarrow> distinct (map fst (ex_staged_ordered_tool_results x))"
  by (simp_all add: tool_inv_def unresolved_def running_ids_def)

lemma commit_result_success:
  "commit_result ext amb i d content e x = (Inr ev, y) \<Longrightarrow>
     \<exists>m. y = x\<lparr>ex_machine := m, ex_transcript := ex_transcript x @ [tool_result_message ext i content]\<rparr>"
  by (auto simp: commit_result_def success success_kernel)

text \<open>A result that comes on its own.\<close>

lemma result_recorded:
  assumes "tool_inv x" and "i \<notin> set (ex_ordered_tool_commit_queue x)"
    and "record_bound_tool_result ext amb i d content e x = (Inr ev, y)"
  shows "tool_inv y \<and> (front_waits x \<longrightarrow> front_waits y)"
proof -
  let ?out = "ex_outstanding_tool_calls x"
  from assms(3) obtain request where key: "bt_get i ?out = Some request"
    by (auto simp: record_bound_tool_result_def success split: option.splits)
  from assms(3) have y: "ex_transcript y = ex_transcript x @ [tool_result_message ext i content]"
    "ex_outstanding_tool_calls y = bt_remove i ?out"
    "ex_assistant_rich_content_buffer y = ex_assistant_rich_content_buffer x"
    "ex_ordered_tool_commit_queue y = ex_ordered_tool_commit_queue x"
    "ex_staged_ordered_tool_results y = ex_staged_ordered_tool_results x" "ex_pending_subagents y = ex_pending_subagents x"
    "ex_pending_approval y = ex_pending_approval x" "ex_pending_tool_calls y = ex_pending_tool_calls x"
    by (auto simp: record_bound_tool_result_def success dest!: commit_result_success split: option.splits if_splits)
  have "mset (unresolved x) = add_mset i (mset (unresolved y))"
    using bt_key [OF key] unfolding mset_unresolved y keys_remove by (simp del: mset_map)
  moreover have "queue_inv y"
    using tool_inv_queue [OF assms(1)] assms(2) keys_remove_set [OF distinct_keys(1) [OF assms(1)], of i]
    unfolding queue_inv_def y by blast
  moreover have "front_waits y = front_waits x" by (rule front_waits_same) (simp_all add: y)
  ultimately show ?thesis using tool_inv_resolved [OF assms(1) y(1) _ y(3)] by simp
qed

text \<open>The loop over the front of the queue: it stops at a call whose result has not come.\<close>

lemma front_committed:
  assumes "tool_inv x" and "ex_ordered_tool_commit_queue x = i # queue" and "bt_get i (ex_staged_ordered_tool_results x) = Some staged"
  shows "tool_inv (x\<lparr>ex_staged_ordered_tool_results := bt_remove i (ex_staged_ordered_tool_results x),
    ex_ordered_tool_commit_queue := queue, ex_machine := m, ex_transcript := ex_transcript x @ [tool_result_message ext i content]\<rparr>)"
    (is "tool_inv ?y")
proof (rule tool_inv_resolved [OF assms(1)])
  show "mset (unresolved x) = add_mset i (mset (unresolved ?y))"
    using bt_key [OF assms(3)] by (simp add: mset_unresolved keys_remove del: mset_map)
  have q: "distinct (i # queue)" "set (i # queue) \<subseteq> set (map fst (ex_outstanding_tool_calls x)) \<union> set (map fst (ex_staged_ordered_tool_results x))"
    "set (map fst (ex_staged_ordered_tool_results x)) \<subseteq> set (i # queue)"
    using tool_inv_queue [OF assms(1)] unfolding queue_inv_def assms(2) by blast+
  have r: "set (map fst (bt_remove i (ex_staged_ordered_tool_results x))) = set (map fst (ex_staged_ordered_tool_results x)) - {i}"
    by (rule keys_remove_set [OF distinct_keys(2) [OF assms(1)]])
  from q show "queue_inv ?y" unfolding queue_inv_def using r by auto
qed simp_all

lemma staged_committed:
  "commit_staged ext ambs n (ex_ordered_tool_commit_queue x) x = (Inr evs, y) \<Longrightarrow> tool_inv x \<Longrightarrow> tool_inv y \<and> front_waits y"
proof (induction "ex_ordered_tool_commit_queue x" arbitrary: x n evs)
  case Nil
  from Nil.prems(1) have "y = x" unfolding Nil.hyps [symmetric] by (simp add: success)
  with Nil show ?case by (simp add: front_waits_def)
next
  case (Cons i queue)
  note queue = Cons.hyps(2) [symmetric]
  show ?case
  proof (cases "bt_get i (ex_staged_ordered_tool_results x)")
    case None
    with Cons.prems(1) have "y = x" unfolding queue by (simp add: success)
    with None queue Cons.prems(2) show ?thesis by (simp add: front_waits_def bt_get_None_iff)
  next
    case (Some staged)
    let ?z = "\<lambda>m. x\<lparr>ex_staged_ordered_tool_results := bt_remove i (ex_staged_ordered_tool_results x), ex_ordered_tool_commit_queue := queue,
      ex_machine := m, ex_transcript := ex_transcript x @ [tool_result_message ext i (sg_content staged)]\<rparr>"
    from Cons.prems(1) Some obtain m evs' where rest: "commit_staged ext ambs (Suc n) queue (?z m) = (Inr evs', y)"
      unfolding queue by (auto simp: success dest!: commit_result_success)
    have "tool_inv (?z m)" by (rule front_committed [OF Cons.prems(2) queue Some])
    then show ?thesis using Cons.hyps(1) [of "?z m" "Suc n" evs'] rest by simp
  qed
qed

text \<open>A result of a batch is staged, and then whatever can be committed is.\<close>

lemma result_staged:
  assumes "tool_inv x" and "i \<in> set (ex_ordered_tool_commit_queue x)" and "\<not> bt_contains_key i (ex_staged_ordered_tool_results x)"
    and "bt_get i (ex_outstanding_tool_calls x) = Some request"
  shows "tool_inv (x\<lparr>ex_outstanding_tool_calls := bt_remove i (ex_outstanding_tool_calls x), ex_started_tool_calls := s,
    ex_staged_ordered_tool_results := bt_insert i staged (ex_staged_ordered_tool_results x)\<rparr>)" (is "tool_inv ?y")
proof (rule tool_inv_moved [OF assms(1)])
  have fresh: "i \<notin> set (map fst (ex_staged_ordered_tool_results x))"
    using assms(3) by (simp add: bt_contains_key_def bt_get_None_iff)
  show "mset (unresolved ?y) = mset (unresolved x)"
    using bt_key [OF assms(4)] by (simp add: mset_unresolved keys_remove keys_insert [OF fresh] del: mset_map)
  have "set (map fst (bt_remove i (ex_outstanding_tool_calls x))) = set (map fst (ex_outstanding_tool_calls x)) - {i}"
    by (rule keys_remove_set [OF distinct_keys(1) [OF assms(1)]])
  moreover have "set (map fst (bt_insert i staged (ex_staged_ordered_tool_results x))) = Set.insert i (set (map fst (ex_staged_ordered_tool_results x)))"
    using set_bt_insert_keys [of i staged "ex_staged_ordered_tool_results x"] by simp
  ultimately show "queue_inv ?y" using tool_inv_queue [OF assms(1)] assms(2) unfolding queue_inv_def by auto
qed simp_all

lemma ordered_recorded:
  assumes "tool_inv x" and "record_bound_tool_result_ordered ext ambs i d content e x = (Inr evs, y)"
  shows "tool_inv y \<and> front_waits y"
proof -
  from assms(2) obtain request where r: "i \<in> set (ex_ordered_tool_commit_queue x)" "\<not> bt_contains_key i (ex_staged_ordered_tool_results x)"
      "bt_get i (ex_outstanding_tool_calls x) = Some request"
    by (auto simp: record_bound_tool_result_ordered_def success split: if_splits option.splits)
  let ?z = "x\<lparr>ex_outstanding_tool_calls := bt_remove i (ex_outstanding_tool_calls x), ex_started_tool_calls := bt_remove i (ex_started_tool_calls x),
    ex_staged_ordered_tool_results := bt_insert i \<lparr>sg_request = request, sg_content = content, sg_is_error = e\<rparr> (ex_staged_ordered_tool_results x)\<rparr>"
  from assms(2) r have "commit_staged ext ambs 0 (ex_ordered_tool_commit_queue ?z) ?z = (Inr evs, y)"
    by (auto simp: record_bound_tool_result_ordered_def success split: if_splits)
  then show ?thesis by (rule staged_committed) (rule result_staged [OF assms(1) r])
qed

lemma completed:
  assumes "tool_inv x" and "front_waits x" and "record_bound_tool_completion ext ambs i d content e x = (Inr evs, y)"
  shows "tool_inv y \<and> front_waits y"
  using assms(3) ordered_recorded [OF assms(1)] result_recorded [OF assms(1)] assms(2)
  by (auto simp: record_bound_tool_completion_def success split: if_splits)

lemma batch_begun:
  assumes "tool_inv x" and "begin_ordered_tool_batch requests x = (Inr u, y)"
  shows "tool_inv y \<and> front_waits y"
proof -
  let ?ids = "map (\<lambda>request. tc_id (ter_call request)) requests"
  from assms(2) have y: "y = x\<lparr>ex_ordered_tool_commit_queue := ?ids\<rparr>" and s: "ex_staged_ordered_tool_results x = []" "distinct ?ids"
    and o: "\<forall>request \<in> set requests. bt_get (tc_id (ter_call request)) (ex_outstanding_tool_calls x) = Some request"
    by (auto simp: begin_ordered_tool_batch_def Let_def success list_ex_iff split: if_splits)
  have "set ?ids \<subseteq> set (map fst (ex_outstanding_tool_calls x))" using o bt_key by fastforce
  then have "queue_inv y" using s by (auto simp: queue_inv_def y)
  then have "tool_inv y" by (intro tool_inv_moved [OF assms(1)]) (simp_all add: y mset_unresolved)
  then show ?thesis by (simp add: front_waits_def y s)
qed

section \<open>Delegated calls\<close>

lemma take_request_split:
  assumes "take_request p requests = Some (request, rest)"
  shows "mset requests = add_mset request (mset rest) \<and> p request"
proof -
  from assms obtain before after where e: "List.extract p requests = Some (before, request, after)" and rest: "rest = before @ after"
    by (auto simp: take_request_def split: option.splits prod.splits)
  from e have "requests = before @ request # after" "p request" by (auto simp: extract_Some_iff)
  with rest show ?thesis by simp
qed

lemma delegation_resolved:
  assumes "tool_inv x" and "ex_transcript y = ex_transcript x @ [tool_result_message ext (ssr_tool_call_id request) content]"
    and "mset (ex_pending_subagents x) = add_mset request (mset (ex_pending_subagents y))"
    and "ex_outstanding_tool_calls y = ex_outstanding_tool_calls x"
    "ex_assistant_rich_content_buffer y = ex_assistant_rich_content_buffer x"
    "ex_ordered_tool_commit_queue y = ex_ordered_tool_commit_queue x"
    "ex_staged_ordered_tool_results y = ex_staged_ordered_tool_results x"
    "ex_pending_approval y = ex_pending_approval x" "ex_pending_tool_calls y = ex_pending_tool_calls x"
  shows "tool_inv y \<and> (front_waits x \<longrightarrow> front_waits y)"
proof -
  have "mset (unresolved x) = add_mset (ssr_tool_call_id request) (mset (unresolved y))"
    using assms(3) by (simp add: mset_unresolved assms(4,7-9))
  moreover have "queue_inv y" using tool_inv_queue [OF assms(1)] queue_inv_same [OF assms(6,7,4)] by simp
  ultimately show ?thesis using tool_inv_resolved [OF assms(1,2) _ assms(5)] front_waits_same [OF assms(6,7)] by simp
qed

lemma delegation_reported:
  assumes "tool_inv x" and "record_subagent_result ext amb result x = (Inr ev, y)"
  shows "tool_inv y \<and> (front_waits x \<longrightarrow> front_waits y)"
proof (cases "bt_get (srd_tool_call_id result) (ex_subagent_result_receipts x)")
  case (Some receipt)
  with assms show ?thesis by (cases receipt) (auto simp: record_subagent_result_def success split: if_splits)
next
  case None
  with assms(2) obtain p request rest m reservations usage exhaustion receipts where t: "take_request p (ex_pending_subagents x) = Some (request, rest)"
    and y: "y = x\<lparr>ex_machine := m, ex_subagent_budget_reservations := reservations, ex_pending_subagents := rest, ex_budget_usage := usage,
      ex_pending_budget_exhaustion := exhaustion,
      ex_transcript := ex_transcript x @ [tool_result_message ext (ssr_tool_call_id request) (srd_content result)],
      ex_subagent_result_receipts := receipts\<rparr>"
    by (auto simp: record_subagent_result_def success success_kernel Let_def split: if_splits option.splits)
  show ?thesis using take_request_split [OF t] by (intro delegation_resolved [OF assms(1)]) (auto simp: y)
qed

lemma delegation_accepted:
  assumes "tool_inv x" and "worker_subagent_spawned ext amb request x = (Inr ev, y)"
  shows "tool_inv y \<and> (front_waits x \<longrightarrow> front_waits y)"
proof -
  let ?p = "\<lambda>pending. ssr_tool_call_id pending = ssr_tool_call_id request \<and> ssr_delegation_id pending = ssr_delegation_id request \<and>
    ssr_binding_digest pending = ssr_binding_digest request \<and> ssr_mode pending = Async"
  from assms(2) obtain taken rest where t: "take_request ?p (ex_pending_subagents x) = Some (taken, rest)"
    by (auto simp: worker_subagent_spawned_def Let_def success split: option.splits)
  have taken: "mset (ex_pending_subagents x) = add_mset taken (mset rest)" "ssr_tool_call_id taken = ssr_tool_call_id request"
    using take_request_split [OF t] by simp_all
  have "\<not> known_subagent x (ssr_delegation_id request)"
    by (rule notI) (use assms(2) t in \<open>simp add: worker_subagent_spawned_def Let_def success\<close>)
  with assms(2) t obtain m active handles sequences conversations activations generations content where y:
    "y = x\<lparr>ex_machine := m, ex_pending_subagents := rest, ex_active_subagents := active, ex_subagent_handles := handles,
      ex_subagent_message_sequences := sequences, ex_subagent_conversations := conversations,
      ex_subagent_activation_sequences := activations, ex_subagent_generations := generations,
      ex_transcript := ex_transcript x @ [tool_result_message ext (ssr_tool_call_id request) content]\<rparr>"
    unfolding worker_subagent_spawned_def Let_def
    by (auto simp: success success_kernel simp del: if_split)
  show ?thesis using taken by (intro delegation_resolved [OF assms(1), of y ext taken content]) (simp_all add: y)
qed

section \<open>Ends\<close>

text \<open>An operation that ends the Run leaves a terminal event when it succeeds.\<close>

definition stops :: "'a attempt_io \<Rightarrow> bool" where
  "stops operation \<longleftrightarrow> (\<forall>x r y. operation x = (Inr r, y) \<longrightarrow> ex_terminal_event y \<noteq> None)"

lemma success_set_terminal: "set_terminal event x = (Inr r, y) \<longleftrightarrow> r = event \<and> y = x\<lparr>ex_terminal_event := Some event\<rparr>"
  by (auto simp: set_terminal_def success)

lemma stops_then: "(\<And>a. stops (f a)) \<Longrightarrow> stops (then_do m f)"
  by (auto simp: stops_def success)

lemma stops_set_terminal: "stops (set_terminal event)" "stops (give_up e)"
  by (auto simp: stops_def success_set_terminal success)

lemma stops_uncertain: "stops (terminate_uncertain_tool_with_interruption ext amb interruption)"
  by (auto simp: stops_def terminate_uncertain_tool_with_interruption_def success success_set_terminal split: sum.splits option.splits)

lemma stops_interrupt:
  assumes "stops otherwise"
  shows "stops (interrupt ext amb interruption otherwise)"
  using assms stops_uncertain [of ext amb "Some interruption"]
  by (auto simp: stops_def interrupt_def success split: sum.splits option.splits)

lemma stops_ops:
  "stops (terminate_budget_exhaustion ext amb dimension)" "stops (timeout_duration ext amb)" "stops (worker_cancel ext amb)"
  unfolding terminate_budget_exhaustion_def timeout_duration_def worker_cancel_def
  by (intro stops_interrupt stops_then stops_set_terminal)+

lemma stops_mcp: "stops (worker_required_mcp_unavailable ext amb names)"
  by (auto simp: stops_def worker_required_mcp_unavailable_def success success_set_terminal split: if_splits)

lemma failed_tool:
  assumes "tool_inv x" and "front_waits x" and "record_tool_execution_failure ext ambs i d err x = (Inr evs, y)"
  shows "ex_terminal_event y \<noteq> None \<or> tool_inv y \<and> front_waits y"
proof -
  from assms(3) consider content where "record_bound_tool_completion ext ambs i d content True x = (Inr evs, y)"
    | r where "terminate_uncertain_tool_with_interruption ext (ambs 0) None x = (Inr r, y)"
    by (auto simp: record_tool_execution_failure_def terminate_uncertain_tool_def success split: if_splits option.splits)
  then show ?thesis using completed [OF assms(1,2)] stops_uncertain by cases (auto simp: stops_def)
qed

section \<open>The turn of the model\<close>

definition stream_inv :: "active_execution \<Rightarrow> bool" where
  "stream_inv x \<longleftrightarrow>
     plain_buffer x \<and> running_ids x = [] \<and> ex_ordered_tool_commit_queue x = [] \<and> distinct (unresolved x) \<and> conserved [] x"

lemma turn_inv_iff:
  "ex_terminal_event x = None \<Longrightarrow> turn_inv streaming x \<longleftrightarrow> (if streaming then stream_inv x else tool_inv x \<and> front_waits x)"
  by (simp add: turn_inv_def stream_inv_def)

lemma plain_content:
  assumes "plain_buffer x"
  shows "List.map_filter part_call_id (map Some (assistant_content x)) = []"
    "List.map_filter part_result_id (map Some (assistant_content x)) = []"
  using assms by (auto simp: plain_buffer_def assistant_content_def map_filter_def list_all_iff filter_empty_conv)

lemma call_parts:
  "List.map_filter part_call_id (map Some (map (call_part ext) calls)) = map tc_id calls"
  "List.map_filter part_result_id (map Some (map (call_part ext) calls)) = []"
  by (induction calls) (simp_all add: map_filter_def call_part_def)

lemma map_filter_append: "List.map_filter f (xs @ ys) = List.map_filter f xs @ List.map_filter f ys"
  by (simp add: map_filter_def)

lemma committed_ids:
  assumes "plain_buffer x"
  shows "made_calls [\<lparr>mm_role = role, mm_content = map Some (assistant_content x @ map (call_part ext) calls)\<rparr>] = map tc_id calls"
    "given_results [\<lparr>mm_role = role, mm_content = map Some (assistant_content x @ map (call_part ext) calls)\<rparr>] = []"
  unfolding made_calls_def given_results_def map_append
  using plain_content [OF assms] call_parts by (simp_all add: map_filter_append)

lemma conserved_commit:
  assumes "conserved [] x" and "made_calls [message] = ids" and "given_results [message] = []"
    and "ex_transcript y = ex_transcript x @ [message]"
  shows "conserved ids y"
proof -
  have eq: "mset (made_calls (ex_transcript y)) = mset (given_results (ex_transcript y)) + mset ids"
    using assms by (simp add: conserved_def ids_append)
  then have "results_follow (ex_transcript y)"
    using assms results_follow_append [of "ex_transcript x" message] by (simp add: conserved_def)
  with eq show ?thesis by (simp add: conserved_def)
qed

text \<open>The turn is committed with its calls, which are then to be resolved.\<close>

lemma turn_committed:
  assumes "stream_inv x"
  shows "tool_inv (commit_turn (assistant_content x @ map (call_part ext) (ex_pending_tool_calls x)) x) \<and>
    front_waits (commit_turn (assistant_content x @ map (call_part ext) (ex_pending_tool_calls x)) x)"
proof -
  let ?y = "commit_turn (assistant_content x @ map (call_part ext) (ex_pending_tool_calls x)) x"
  have y: "unresolved ?y = map tc_id (ex_pending_tool_calls x)" "unresolved x = map tc_id (ex_pending_tool_calls x)"
    "ex_ordered_tool_commit_queue ?y = []" "ex_staged_ordered_tool_results ?y = []" "plain_buffer ?y"
    using assms by (simp_all add: stream_inv_def unresolved_def running_ids_def commit_turn_def plain_buffer_def)
  have "conserved (map tc_id (ex_pending_tool_calls x)) ?y"
    by (rule conserved_commit [OF _ committed_ids [of x "model_role AssistantRole" ext]])
       (use assms in \<open>simp_all add: stream_inv_def commit_turn_def\<close>)
  with assms y show ?thesis by (simp add: tool_inv_def queue_inv_def front_waits_def stream_inv_def)
qed

lemma reply_committed:
  assumes "stream_inv x"
  shows "stream_inv (commit_turn (assistant_content x) x)"
proof -
  let ?y = "commit_turn (assistant_content x) x"
  have "conserved [] ?y"
    by (rule conserved_commit [OF _ committed_ids(1) [of x "model_role AssistantRole" _ "[]", simplified]
        committed_ids(2) [of x "model_role AssistantRole" _ "[]", simplified]])
       (use assms in \<open>simp_all add: stream_inv_def commit_turn_def\<close>)
  then show ?thesis using assms by (simp add: stream_inv_def commit_turn_def plain_buffer_def running_ids_def unresolved_def)
qed

lemma stream_inv_same:
  assumes "stream_inv x" and "ex_transcript y = ex_transcript x" "ex_assistant_rich_content_buffer y = ex_assistant_rich_content_buffer x"
    "ex_ordered_tool_commit_queue y = ex_ordered_tool_commit_queue x" "ex_pending_tool_calls y = ex_pending_tool_calls x" "running_ids y = running_ids x"
  shows "stream_inv y"
  using assms by (simp add: stream_inv_def plain_buffer_def unresolved_def conserved_def)

lemma rich_part_retained:
  "stream_inv x \<Longrightarrow> part_call_id (Some part) = None \<Longrightarrow> part_result_id (Some part) = None \<Longrightarrow>
     stream_inv (x\<lparr>ex_assistant_rich_content_buffer := ex_assistant_rich_content_buffer x @ [part]\<rparr>)"
  by (simp add: stream_inv_def plain_buffer_def unresolved_def running_ids_def conserved_def)

lemma tool_call_retained:
  "stream_inv x \<Longrightarrow> \<not> malformed_tool_call x (ModelToolCall i name arguments) \<Longrightarrow>
     stream_inv (x\<lparr>ex_pending_tool_calls := ex_pending_tool_calls x @ [\<lparr>tc_id = i, tc_name = name, tc_arguments = arguments\<rparr>]\<rparr>)"
  by (auto simp: stream_inv_def plain_buffer_def unresolved_def running_ids_def conserved_def malformed_tool_call_def list_ex_iff)

lemma model_event_retained:
  assumes "stream_inv x" and "\<not> malformed_tool_call x event"
  shows "if event = Completed ToolCalls
    then tool_inv (retain_model_event ext event x) \<and> front_waits (retain_model_event ext event x)
    else stream_inv (retain_model_event ext event x)"
proof (cases event)
  case (Completed reason)
  then show ?thesis
    using assms(1) turn_committed [OF assms(1), of ext] reply_committed [OF assms(1)] by (cases reason) (simp_all add: retain_model_event_def)
next
  case (ModelToolCall i name arguments)
  with assms tool_call_retained show ?thesis by (simp add: retain_model_event_def)
next
  case (Reasoning summary private_state)
  with rich_part_retained [OF assms(1)] show ?thesis by (simp add: retain_model_event_def)
next
  case (Refusal said)
  with rich_part_retained [OF assms(1)] show ?thesis by (simp add: retain_model_event_def)
qed (use assms(1) in \<open>auto simp: retain_model_event_def Let_def running_ids_def intro: stream_inv_same\<close>)

lemma stopped_turn: "ex_terminal_event y \<noteq> None \<Longrightarrow> turn_inv streaming y"
  by (auto simp: turn_inv_def)

lemma model_event_accepted:
  assumes "stream_inv x" and "accept_model_event ext amb event x = (Inr e, y)" and "ex_terminal_event x = None"
  shows "turn_inv (event \<noteq> Completed ToolCalls) y"
proof -
  from assms(2) obtain m where ok: "\<not> malformed_tool_call x event"
    and y: "y = settle_terminal e (retain_model_event ext event (x\<lparr>ex_machine := m\<rparr>))"
    by (auto simp: accept_model_event_def success success_kernel split: if_splits option.splits)
  let ?z = "retain_model_event ext event (x\<lparr>ex_machine := m\<rparr>)"
  have "stream_inv (x\<lparr>ex_machine := m\<rparr>)" by (rule stream_inv_same [OF assms(1)]) (simp_all add: running_ids_def)
  moreover have "\<not> malformed_tool_call (x\<lparr>ex_machine := m\<rparr>) event" using ok by (cases event) (simp_all add: malformed_tool_call_def)
  ultimately have kept: "if event = Completed ToolCalls then tool_inv ?z \<and> front_waits ?z else stream_inv ?z"
    by (rule model_event_retained)
  show ?thesis
  proof (cases "is_terminal (rm_status (ex_machine ?z))")
    case True
    then show ?thesis by (intro stopped_turn) (simp add: y settle_terminal_def)
  next
    case False
    then have "y = ?z" by (simp add: y settle_terminal_def)
    with kept assms(3) show ?thesis by (simp add: turn_inv_iff retained_machine split: if_splits)
  qed
qed

lemma model_event_taken:
  assumes "stream_inv x" and "ex_terminal_event x = None" and "worker_apply_model_event ext amb event x = (Inr e, y)"
  shows "turn_inv (event \<noteq> Completed ToolCalls) y"
proof -
  have "stream_inv (x\<lparr>ex_pending_budget_exhaustion := None\<rparr>)"
    by (rule stream_inv_same [OF assms(1)]) (simp_all add: running_ids_def)
  then show ?thesis
    using assms(3) model_event_accepted [OF assms(1) _ assms(2), of ext amb event e y]
      model_event_accepted [of "x\<lparr>ex_pending_budget_exhaustion := None\<rparr>" ext amb event e y] assms(2)
      stops_ops(1) [of ext amb, unfolded stops_def] stopped_turn
    by (auto simp: worker_apply_model_event_def success split: if_splits option.splits)
qed

section \<open>Turns\<close>

text \<open>
  Which operation belongs to which phase: model events to the model call, everything about Tools to the resolving of the calls,
  and the start, a pause and the ends to both. A result of a batch comes as a completion. This is the order of the agent loop
  in \<open>runtime/apps/runtime-host/src/lib.rs\<close>, which calls \<open>prepare_model_invocation\<close>, applies the events of the model call and
  then drains the Tool calls (\<open>drain_tool_calls\<close>), and of the worker's own transport (\<open>poll_model_once\<close>,
  \<open>prepare_next_tool_plan\<close>, \<open>request_model_relaunch\<close>). Refused operations are not part of the sequence. Steering, MCP input, compaction and the Tools for running subagents may stand between two turns as
  well; they are not among the operations.
\<close>

fun phase_ok :: "bool \<Rightarrow> active_execution \<Rightarrow> attempt_op \<Rightarrow> bool" where
  "phase_ok streaming x (AttemptModelEvent _ _) = streaming"
| "phase_ok streaming x (AttemptStart _) = True"
| "phase_ok streaming x (AttemptMcpUnavailable _ _) = True"
| "phase_ok streaming x (AttemptBudgetStop _) = True"
| "phase_ok streaming x (AttemptTimeout _) = True"
| "phase_ok streaming x (AttemptCancel _) = True"
| "phase_ok streaming x (AttemptPause _) = True"
| "phase_ok streaming x (AttemptToolResult _ i _ _) = (\<not> streaming \<and> i \<notin> set (ex_ordered_tool_commit_queue x))"
| "phase_ok streaming x _ = (\<not> streaming)"

fun next_phase :: "bool \<Rightarrow> attempt_op \<Rightarrow> bool" where
  "next_phase streaming (AttemptModelEvent _ event) = (event \<noteq> Completed ToolCalls)"
| "next_phase streaming _ = streaming"

inductive turn_reach :: "worker_externals \<Rightarrow> active_execution \<Rightarrow> bool \<Rightarrow> active_execution \<Rightarrow> bool" for wx x where
  fresh: "turn_reach wx x False x"
| invoke: "turn_reach wx x False y \<Longrightarrow> ex_terminal_event y = None \<Longrightarrow> model_invocation_tokens y = Inr n \<Longrightarrow> turn_reach wx x True y"
| exec: "turn_reach wx x streaming y \<Longrightarrow> ex_terminal_event y = None \<Longrightarrow> phase_ok streaming y op \<Longrightarrow>
    attempt_exec wx op y = (Inr u, z) \<Longrightarrow> turn_reach wx x (next_phase streaming op) z"

lemma success_ignoring: "ignoring m x = (Inr u, y) \<longleftrightarrow> (\<exists>r. m x = (Inr r, y))"
  by (auto simp: ignoring_def success)

lemma turn_inv_same:
  assumes "turn_inv streaming x" and "ex_terminal_event x = None" and "ex_transcript y = ex_transcript x"
    "ex_assistant_rich_content_buffer y = ex_assistant_rich_content_buffer x"
    "ex_ordered_tool_commit_queue y = ex_ordered_tool_commit_queue x" "ex_pending_tool_calls y = ex_pending_tool_calls x"
    "ex_outstanding_tool_calls y = ex_outstanding_tool_calls x" "ex_staged_ordered_tool_results y = ex_staged_ordered_tool_results x"
    "ex_pending_approval y = ex_pending_approval x" "ex_pending_subagents y = ex_pending_subagents x"
  shows "turn_inv streaming y"
proof -
  have running: "running_ids y = running_ids x" by (simp add: running_ids_def assms(7-10))
  have unresolved: "unresolved y = unresolved x" by (simp add: unresolved_def running assms(6))
  show ?thesis
    using assms(1,2)
    by (cases streaming)
       (simp_all add: turn_inv_def tool_inv_def plain_buffer_def queue_inv_def front_waits_def conserved_def running unresolved assms(3-10))
qed

lemma stops_turn: "stops operation \<Longrightarrow> operation x = (Inr r, y) \<Longrightarrow> turn_inv streaming y"
  unfolding stops_def by (blast intro: stopped_turn)


text \<open>Every operation keeps the law when it succeeds.\<close>

lemma turn_inv_tools: "ex_terminal_event y \<noteq> None \<or> tool_inv y \<and> front_waits y \<Longrightarrow> turn_inv False y"
  by (auto simp: turn_inv_def)

lemma resolving:
  assumes "turn_inv False x" and "ex_terminal_event x = None"
  shows "tool_inv x" "front_waits x"
  using assms by (simp_all add: turn_inv_iff)

lemma tool_phase:
  assumes "turn_inv False x" and "ex_terminal_event x = None"
  shows "attempt_exec wx (AttemptPlan clock native) x = (Inr u, y) \<Longrightarrow> turn_inv False y"
    "attempt_exec wx (AttemptApprove amb now i d) x = (Inr u, y) \<Longrightarrow> turn_inv False y"
    "attempt_exec wx (AttemptDecision amb amb' n c) x = (Inr u, y) \<Longrightarrow> turn_inv False y"
    "attempt_exec wx (AttemptBatch requests) x = (Inr u, y) \<Longrightarrow> turn_inv False y"
    "attempt_exec wx (AttemptCompletion ambs i' d content e) x = (Inr u, y) \<Longrightarrow> turn_inv False y"
    "attempt_exec wx (AttemptToolFailure ambs i' d err) x = (Inr u, y) \<Longrightarrow> turn_inv False y"
    "attempt_exec wx (AttemptSubagentResult amb result) x = (Inr u, y) \<Longrightarrow> turn_inv False y"
    "attempt_exec wx (AttemptSubagentSpawned amb request) x = (Inr u, y) \<Longrightarrow> turn_inv False y"
  unfolding attempt_exec.simps success_ignoring
  subgoal using planned [OF resolving(1) [OF assms]] resolving(2) [OF assms] by (blast intro: turn_inv_tools)
  subgoal using approved [OF resolving(1) [OF assms]] resolving(2) [OF assms] by (blast intro: turn_inv_tools)
  subgoal using decided [OF resolving(1) [OF assms]] resolving(2) [OF assms] by (blast intro: turn_inv_tools)
  subgoal using batch_begun [OF resolving(1) [OF assms]] by (blast intro: turn_inv_tools)
  subgoal using completed [OF resolving [OF assms]] by (blast intro: turn_inv_tools)
  subgoal using failed_tool [OF resolving [OF assms]] by (blast intro: turn_inv_tools)
  subgoal using delegation_reported [OF resolving(1) [OF assms]] resolving(2) [OF assms] by (blast intro: turn_inv_tools)
  subgoal using delegation_accepted [OF resolving(1) [OF assms]] resolving(2) [OF assms] by (blast intro: turn_inv_tools)
  done

lemma result_phase:
  assumes "turn_inv False x" and "ex_terminal_event x = None" and "i \<notin> set (ex_ordered_tool_commit_queue x)"
    and "attempt_exec wx (AttemptToolResult amb i content e) x = (Inr u, y)"
  shows "turn_inv False y"
proof -
  from assms(4) obtain r d where "record_bound_tool_result (wx_ext wx) amb i d content e x = (Inr r, y)"
    by (auto simp: success_ignoring worker_tool_result_def success split: option.splits)
  with result_recorded [OF resolving(1) [OF assms(1,2)] assms(3)] resolving(2) [OF assms(1,2)]
  show ?thesis by (blast intro: turn_inv_tools)
qed

lemma any_phase:
  assumes "turn_inv streaming x" and "ex_terminal_event x = None"
  shows "attempt_exec wx (AttemptStart amb) x = (Inr u, y) \<Longrightarrow> turn_inv streaming y"
    "attempt_exec wx (AttemptMcpUnavailable amb names) x = (Inr u, y) \<Longrightarrow> turn_inv streaming y"
    "attempt_exec wx (AttemptBudgetStop amb) x = (Inr u, y) \<Longrightarrow> turn_inv streaming y"
    "attempt_exec wx (AttemptTimeout amb) x = (Inr u, y) \<Longrightarrow> turn_inv streaming y"
    "attempt_exec wx (AttemptCancel amb) x = (Inr u, y) \<Longrightarrow> turn_inv streaming y"
    "attempt_exec wx (AttemptPause now) x = (Inr u, y) \<Longrightarrow> turn_inv streaming y"
    "attempt_exec wx (AttemptToolStarted amb i d) x = (Inr u, y) \<Longrightarrow> turn_inv streaming y"
  subgoal by (rule turn_inv_same [OF assms]) (auto simp: success_ignoring worker_start_def success success_kernel split: option.splits)
  subgoal by (auto simp: success_ignoring intro: stops_turn [OF stops_mcp])
  subgoal using assms
    by (auto simp: success_ignoring terminate_pending_budget_exhaustion_def success intro: stops_turn [OF stops_ops(1)] split: option.splits)
  subgoal by (auto simp: success_ignoring intro: stops_turn [OF stops_ops(2)])
  subgoal by (auto simp: success_ignoring intro: stops_turn [OF stops_ops(3)])
  subgoal by (rule turn_inv_same [OF assms]) (auto simp: pause_duration_budget_def success)
  subgoal by (rule turn_inv_same [OF assms])
    (auto simp: success_ignoring worker_tool_execution_started_def success success_kernel split: option.splits if_splits)
  done

lemma turn_exec_model:
  assumes "turn_inv True x" and "ex_terminal_event x = None" and "attempt_exec wx (AttemptModelEvent amb event) x = (Inr u, y)"
  shows "turn_inv (event \<noteq> Completed ToolCalls) y"
  using assms by (auto simp: turn_inv_iff success_ignoring intro: model_event_taken)

lemma turn_exec:
  assumes "turn_inv streaming x" and "ex_terminal_event x = None" and "phase_ok streaming x op" and "attempt_exec wx op x = (Inr u, y)"
  shows "turn_inv (next_phase streaming op) y"
  using assms
  by (cases op; simp only: phase_ok.simps next_phase.simps)
     (blast intro: tool_phase result_phase any_phase turn_exec_model)+

text \<open>The worker calls the model only when nothing is unresolved, staged results included.\<close>

lemma invocation_idle:
  assumes "tool_inv x" and "front_waits x" and "model_invocation_tokens x = Inr n"
  shows "unresolved x = [] \<and> ex_ordered_tool_commit_queue x = []"
proof -
  from assms(3) have idle: "ex_pending_approval x = None" "ex_pending_subagents x = []" "ex_pending_tool_calls x = []"
      "ex_outstanding_tool_calls x = []"
    by (auto simp: model_invocation_tokens_def split: if_splits)
  have q: "set (ex_ordered_tool_commit_queue x) = set (map fst (ex_staged_ordered_tool_results x))"
    using tool_inv_queue [OF assms(1)] by (auto simp: queue_inv_def idle)
  have "ex_ordered_tool_commit_queue x = []"
    using assms(2) q by (cases "ex_ordered_tool_commit_queue x") (auto simp: front_waits_def)
  with q show ?thesis by (simp add: unresolved_def running_ids_def approval_ids_def idle)
qed

lemma turn_reach_inv: "turn_reach wx x streaming y \<Longrightarrow> turn_inv False x \<Longrightarrow> turn_inv streaming y"
proof (induction rule: turn_reach.induct)
  case (invoke y n)
  from invoke.IH [OF invoke.prems] invoke.hyps(2) have y: "tool_inv y" "front_waits y" by (simp_all add: turn_inv_iff)
  from invocation_idle [OF y invoke.hyps(3)] y(1) have "stream_inv y"
    by (simp add: stream_inv_def tool_inv_def unresolved_def)
  with invoke.hyps(2) show ?case by (simp add: turn_inv_iff)
qed (auto intro: turn_exec)

text \<open>An attempt with no Tool call on its way, whose transcript answers the calls it has.\<close>

definition settled_attempt :: "active_execution \<Rightarrow> bool" where
  "settled_attempt x \<longleftrightarrow>
     unresolved x = [] \<and> ex_ordered_tool_commit_queue x = [] \<and> ex_assistant_rich_content_buffer x = [] \<and> conserved [] x"

lemma settled_turn_inv: "settled_attempt x \<Longrightarrow> turn_inv False x"
  by (simp add: settled_attempt_def turn_inv_def tool_inv_def plain_buffer_def queue_inv_def front_waits_def unresolved_def running_ids_def)


section \<open>A turn whose Tool is denied\<close>

definition denied_call :: tool_call where
  "denied_call = \<lparr>tc_id = ''c'', tc_name = ''pay'', tc_arguments = JNull\<rparr>"

definition denying_registry :: tool_registry where
  "denying_registry = \<lparr>tools = [(''pay'', sample_tool\<lparr>td_name := ''pay'', td_approval := Deny, td_required_scopes := []\<rparr>)]\<rparr>"

definition sample_clock :: planning_clock where
  "sample_clock = \<lparr>pk_ambient = sample_ambient, pk_followup = sample_ambient, pk_now_v7 = 1, pk_instant = 0\<rparr>"

lemma call_step:
  assumes "ex_terminal_event x = None" "ex_pending_budget_exhaustion x = None" "rm_status (ex_machine x) = Running"
    "ex_pending_tool_calls x = []" "ex_outstanding_tool_calls x = []"
  shows "\<exists>m. attempt_exec wx (AttemptModelEvent amb (ModelToolCall ''c'' ''pay'' JNull)) x =
      (Inr (), x\<lparr>ex_machine := m, ex_pending_tool_calls := [denied_call]\<rparr>) \<and> rm_status m = Running"
proof -
  have "\<not> is_blank ''c''" "\<not> is_blank ''pay''" by code_simp+
  with assms show ?thesis
    by (simp add: ignoring_def worker_apply_model_event_def accept_model_event_def malformed_tool_call_def out_of_bounds_def io_defs
        kernel_def apply_model_event_def ok_emit_def emit_def Let_def retain_model_event_def settle_terminal_def denied_call_def
        bt_contains_key_def)
       (rule exI, rule conjI, rule refl, simp)
qed

lemma commit_step:
  assumes "ex_terminal_event x = None" "ex_pending_budget_exhaustion x = None" "rm_status (ex_machine x) = Running"
    "ex_pending_tool_calls x = [denied_call]" "ex_assistant_text_buffer x = []" "ex_assistant_rich_content_buffer x = []"
  shows "\<exists>m. attempt_exec wx (AttemptModelEvent amb (Completed ToolCalls)) x =
      (Inr (), commit_turn [call_part (wx_ext wx) denied_call] (x\<lparr>ex_machine := m\<rparr>)) \<and> rm_status m = Running"
  using assms
  by (simp add: ignoring_def worker_apply_model_event_def accept_model_event_def malformed_tool_call_def out_of_bounds_def io_defs
      kernel_def apply_model_event_def ok_emit_def emit_def Let_def retain_model_event_def settle_terminal_def assistant_content_def
      commit_turn_def)
     (rule exI, rule conjI, rule refl, simp)

lemma denied_plan:
  "plan ext u denying_registry denied_call scopes policies =
     Inr (Denied \<lparr>ter_call = denied_call, ter_effect = Unknown, ter_sandbox = RestrictedContainer,
       ter_binding_digest = json_digest ext (binding_material denied_call (sample_tool\<lparr>td_name := ''pay'', td_approval := Deny,
         td_required_scopes := []\<rparr>) (policy_for policies (sample_tool\<lparr>td_name := ''pay'', td_approval := Deny, td_required_scopes := []\<rparr>)))\<rparr>)"
proof -
  have "authorize denying_registry (tc_name denied_call) scopes = Inr (sample_tool\<lparr>td_name := ''pay'', td_approval := Deny, td_required_scopes := []\<rparr>)"
    by (simp add: authorize_Ok_iff denying_registry_def denied_call_def)
  from plan_authorized [OF this, of ext u policies] show ?thesis by (simp add: Let_def exempt_def sample_tool_def)
qed

lemma denied_step:
  assumes "rm_status (ex_machine x) = Running" "ex_pending_approval x = None" "ex_pending_tool_calls x = [denied_call]"
    "ex_effective_tool_names x = [''pay'']" "ex_federated_registry x = None"
  shows "\<exists>m. attempt_exec wx (AttemptPlan sample_clock denying_registry) x =
      (Inr (), x\<lparr>ex_pending_tool_calls := [], ex_machine := m,
        ex_transcript := ex_transcript x @ [tool_result_message (wx_ext wx) ''c'' policy_denied_content]\<rparr>)"
proof -
  have "control_check wx x denied_call = None" "\<not> is_runtime_mcp_read_tool ''pay''" "tc_name denied_call = ''pay''" "tc_id denied_call = ''c''"
    by (simp_all add: control_check_def Let_def denied_call_def is_runtime_mcp_read_tool_def)
  with assms show ?thesis
    by (simp add: ignoring_def plan_next_tool_call_def plan_registered_def denied_plan follow_plan_def pop_call_def push_transcript_def io_defs
        kernel_def apply_tool_plan_def record_tool_result_def ok_emit_def emit_def Let_def or_default_def)
       (rule exI, rule refl)
qed

definition asking_attempt :: active_execution where
  "asking_attempt = running_attempt\<lparr>ex_effective_tool_names := [''pay'']\<rparr>"

lemma asking_attempt_fields:
  "ex_terminal_event asking_attempt = None" "ex_pending_budget_exhaustion asking_attempt = None"
  "rm_status (ex_machine asking_attempt) = Running" "ex_pending_tool_calls asking_attempt = []"
  "ex_outstanding_tool_calls asking_attempt = []" "ex_assistant_text_buffer asking_attempt = []"
  "ex_assistant_rich_content_buffer asking_attempt = []" "ex_pending_approval asking_attempt = None"
  "ex_effective_tool_names asking_attempt = [''pay'']" "ex_federated_registry asking_attempt = None"
  "ex_pending_subagents asking_attempt = []" "ex_transcript asking_attempt = []"
  "ex_subagent_budget_reservations asking_attempt = []" "ex_ordered_tool_commit_queue asking_attempt = []"
  "ex_staged_ordered_tool_results asking_attempt = []" "bu_tokens (ex_budget_usage asking_attempt) = 0"
  "max_tokens (xc_budget (ex_command asking_attempt)) = 1"
  by (simp_all add: asking_attempt_def running_attempt_def idle_attempt_def sample_machine_def Execution_Command.sample_execution_def)

lemma asking_tokens:
  "model_invocation_tokens asking_attempt = Inr 1"
  "model_invocation_tokens (asking_attempt\<lparr>ex_assistant_rich_content_buffer := [], ex_assistant_text_buffer := [],
     ex_pending_tool_calls := [], ex_machine := m, ex_transcript := t\<rparr>) = Inr 1"
  by (simp_all add: model_invocation_tokens_def asking_attempt_fields subagent_budget_reservation_totals_def saturating_sub_def)


end
