(* ===== verification/Spec2Isabelle.thy ===== *)
theory Spec2Isabelle
  imports Run_Lifecycle Recovery Admission Model_Gateway Worker_Turns
begin

text \<open>
  A model of the agent runtime under \<open>src/runtime\<close> and the theorems that make it correct.

  \<^bold>\<open>The program.\<close> A Run is one execution of an agent. A control plane sends an execution command; a worker accepts it as an
  attempt, asks a model through the model gateway, plans the Tool calls the model makes, executes those that policy and the
  user allow, and reports every step as a numbered event. The status of a Run lives in a state machine, the kernel. An
  attempt can be checkpointed, and a recovery command lets another worker go on from the checkpoint. A host on one machine
  puts an admission controller in front of its execution slots. Every call between the parts carries a signed workload token.

  \<^bold>\<open>Conventions.\<close> A Rust integer is a word of its width, a string the list of its UTF-8 bytes, a \<open>Uuid\<close> a word of 128 bits, a
  time a number of nanoseconds, a \<open>BTreeMap\<close> the sorted list of its entries and a \<open>Result\<close> a sum with the error on the left. A
  method that changes its receiver and may return early is a function from the state to a result and a state
  (\<open>Result_State\<close>), so that what an operation changed before it failed stays changed. Randomness and clocks are arguments
  (\<open>ambient\<close>). SHA-256, Base64, the text form of JSON, signatures, ciphers, HTTP and gRPC are third-party code: they are fields
  of the records \<open>externals\<close>, \<open>token_externals\<close>, \<open>gateway_externals\<close>, \<open>service_externals\<close> and \<open>worker_externals\<close>, and what a
  theorem needs of them is one of its hypotheses, for instance that a JSON value is read back or that two given inputs do
  not collide.

  \<^bold>\<open>Foundations.\<close>
  \<^item> \<open>Runtime_Prelude\<close>: integer widths, saturating and checked arithmetic, results, strings, the shared lemmas.
  \<^item> \<open>Ordered_Map\<close>: \<open>BTreeMap\<close>, with the locale \<open>ordered_map\<close> as its contract. \<open>Json_Value\<close>: \<open>serde_json::Value\<close>.
  \<^item> \<open>Result_State\<close>: early-return computations; the locale \<open>progress\<close> carries a relation through them.
  \<^item> \<open>Text_Checks\<close>, \<open>Protocol_Types\<close>: the checks, data and serialised forms of \<open>crates/protocol/src/lib.rs\<close>.

  \<^bold>\<open>The kernel\<close> (\<open>crates/kernel/src\<close>).
  \<^item> \<open>Shell_Policy\<close>: \<open>read_only_shell.rs\<close>. A command classified read-only is harmless in a stated sense; line breaks pass.
  \<^item> \<open>Tool_Registry\<close>: \<open>ToolRegistry\<close>, registration, scopes, plans and digests. What each plan says about its Tool.
  \<^item> \<open>Checkpoint_Snapshot\<close>: \<open>CheckpointSnapshot\<close> and its digest.
  \<^item> \<open>Run_Machine\<close>: every operation of \<open>RunMachine\<close>. \<open>Run_Contract\<close>: what one operation does. \<open>Run_Lifecycle\<close>: the locale
    \<open>run_kernel\<close>, interpreted on the machine, and what holds over sequences of operations: terminal states absorb, the log
    has no gaps, the machine refines an abstract life cycle, an approval cannot be passed by, a checkpoint restores the
    machine and cannot be altered unnoticed.

  \<^bold>\<open>The protocol\<close> (\<open>crates/protocol/src/lib.rs\<close>, \<open>crates/workload-identity/src/lib.rs\<close>).
  \<^item> \<open>Transcripts\<close>, \<open>History_Repair\<close>: validity of transcripts against a declarative description, and the repair of imported
    histories.
  \<^item> \<open>Control_Commands\<close>: the commands with a time window (locale \<open>windowed_command\<close>) and edge tasks. \<open>Execution_Command\<close>:
    execution commands, what each schema version admits, and that delegation grants no more than was given.
  \<^item> \<open>Checkpoint_Publication\<close>, \<open>Recovery\<close>: a published checkpoint decodes to its snapshot and pins it; a recovery resumes the
    machine and its owner epoch grows, so no chain of recoveries is infinite.
  \<^item> \<open>Workload_Identity\<close>: verification of a token; Run and operator tokens are disjoint, lifetimes are bounded.

  \<^bold>\<open>The model gateway\<close> (\<open>apps/model-gateway/src\<close>).
  \<^item> \<open>Provider_Common\<close>: errors, credentials, pricing and the event channel; the locales \<open>provider_turn\<close> and \<open>tool_aware_turn\<close>
    are the contract of an adapter. \<open>Chat_Completions\<close> (\<open>openai_compatible.rs\<close>), \<open>Anthropic_Messages\<close>
    (\<open>anthropic_messages.rs\<close>) and \<open>Responses_Api\<close> (\<open>openai_responses.rs\<close>) interpret it. Tool calls are reassembled, reasoning
    state makes the round trip, private state stays with its Provider.
  \<^item> \<open>Model_Failover\<close>: \<open>lib.rs\<close> and \<open>failover.rs\<close>. The output of at most one Provider is seen, and success means completion.
  \<^item> \<open>Grpc_Status\<close>, \<open>Model_Wire\<close>: the messages of \<open>contracts/proto/model_gateway.proto\<close>, their coding on both sides and the
    worker's client. \<open>Model_Gateway\<close>: the service in \<open>grpc.rs\<close> with \<open>provider_registry.rs\<close>. Who may call, with which routes and
    policy, whose credential is opened, and that the worker receives what the failover chain delivered.

  \<^bold>\<open>The host\<close> (\<open>apps/runtime-host/src/admission.rs\<close>). \<open>Admission\<close>: the limits hold in every reachable state, no slot idles while
  a Run could have it, and the promotion loop ends without a panic.

  \<^bold>\<open>The worker\<close> (\<open>apps/worker/src/lib.rs\<close>).
  \<^item> \<open>Worker_Budget\<close>: charged usage, the ledger of subagent reservations, the execution clock. A recovery gives no time back.
  \<^item> \<open>Worker_Execution\<close>: \<open>ActiveExecution\<close> and the operations on one attempt, on top of the kernel and the wire.
  \<^item> \<open>Worker_Terminal\<close>: how an attempt ends. The terminal receipt in its checkpoint can be read, except for the one
    outcome whose event is extended after its digest.
  \<^item> \<open>Worker_Turns\<close>: every Tool call is answered exactly once before the model is called again.

  \<^bold>\<open>Bounds and termination.\<close> No definition uses fuel. Loops over a list or a stream are structural recursions; the others
  (\<open>replace_in\<close> and the promotion loop of the admission controller among them) have a termination proof. Counters that the source bounds by a limit are
  natural numbers; counters that saturate or wrap are words.

  \<^bold>\<open>Not modelled.\<close> Of the worker: admission and restoring of attempts, steering, MCP input rounds, transcript compaction, and
  messages, forks and rollbacks of running subagents; its transport and supervisors. The MCP gateway with its OAuth
  exchanges, the Tool runtime, the storage and the interfaces of the host, the edge node, the checkpoint gateway and the
  trusted workspace Tool are input and output over networks, files and processes. The control plane, the console and the
  desktop are separate programs. A panic of a Provider task is a parameter, and two theorems assume that there is none.
\<close>

end
